(* ===== verification/Json.thy ===== *)
theory Json
  imports Prelude
begin

text \<open>
  \<open>serde_json::Value\<close>, which every crate passes around.  Integers keep serde's
  split into non-negative \<open>u64\<close> and negative \<open>i64\<close>; a float is its IEEE-754 bit
  pattern.  \<open>serde_json::Map\<close> is the default \<open>BTreeMap\<close>: an association
  list sorted by key.
\<close>

datatype number = PosInt "64 word" | NegInt int | Float "64 word"

datatype json =
    JNull
  | JBool bool
  | JNum number
  | JStr string
  | JArr "json list"
  | JObj "(string \<times> json) list"

type_synonym jmap = "(string \<times> json) list"

fun jinsert :: "string \<Rightarrow> 'v \<Rightarrow> (string \<times> 'v) list \<Rightarrow> (string \<times> 'v) list" where
  "jinsert k v [] = [(k, v)]"
| "jinsert k v ((k', v') # m) =
     (if k = k' then (k, v) # m
      else if k < k' then (k, v) # (k', v') # m
      else (k', v') # jinsert k v m)"

definition jremove :: "string \<Rightarrow> (string \<times> 'v) list \<Rightarrow> (string \<times> 'v) list" where
  "jremove k m = filter (\<lambda>p. fst p \<noteq> k) m"

definition jsorted :: "(string \<times> 'v) list \<Rightarrow> bool" where
  "jsorted m \<longleftrightarrow> sorted_wrt (<) (map fst m)"

definition jextend :: "(string \<times> 'v) list \<Rightarrow> (string \<times> 'v) list \<Rightarrow> (string \<times> 'v) list" where
  "jextend m n = fold (\<lambda>(k, v). jinsert k v) n m"

lemma map_of_jinsert [simp]: "map_of (jinsert k v m) = (map_of m)(k \<mapsto> v)"
  by (induction k v m rule: jinsert.induct) (auto simp: fun_eq_iff)

lemma map_of_jremove [simp]: "map_of (jremove k m) = (map_of m)(k := None)"
  by (induction m) (auto simp: jremove_def fun_eq_iff)

lemma keys_jinsert: "fst ` set (jinsert k v m) = insert k (fst ` set m)"
  by (induction k v m rule: jinsert.induct) auto

lemma jsorted_nil [simp]: "jsorted []"
  by (simp add: jsorted_def)

lemma jsorted_cons: "jsorted ((k, v) # m) \<longleftrightarrow> (\<forall>k'\<in>fst ` set m. k < k') \<and> jsorted m"
  by (auto simp: jsorted_def)

lemma jsorted_jinsert [simp]: "jsorted m \<Longrightarrow> jsorted (jinsert k v m)"
  by (induction k v m rule: jinsert.induct)
    (auto simp: jsorted_cons keys_jinsert intro: less_trans dest: less_trans)

lemma jsorted_jremove [simp]: "jsorted m \<Longrightarrow> jsorted (jremove k m)"
  by (induction m) (auto simp: jremove_def jsorted_def)

lemma jsorted_distinct: "jsorted m \<Longrightarrow> distinct (map fst m)"
  by (induction m) (auto simp: jsorted_def)

lemma map_of_jextend: "map_of (jextend m n) = map_of m ++ map_of (rev n)"
  by (induction n arbitrary: m) (auto simp: jextend_def map_add_def fun_eq_iff split: option.splits)

lemma jsorted_jextend [simp]: "jsorted m \<Longrightarrow> jsorted (jextend m n)"
  by (induction n arbitrary: m) (auto simp: jextend_def)

text \<open>Two sorted maps with the same lookups are the same list.\<close>

lemma jsorted_unique:
  assumes "jsorted m" "jsorted n" "map_of m = map_of n"
  shows "m = n"
proof -
  have d: "distinct (map fst m)" "distinct (map fst n)"
    using assms by (simp_all add: jsorted_distinct)
  then have "set m = set n"
    using assms(3) by (simp add: map_of_inject_set)
  moreover have "sorted (map fst m)" "sorted (map fst n)"
    using assms by (simp_all add: jsorted_def strict_sorted_imp_sorted)
  ultimately show ?thesis
    using d map_sorted_distinct_set_unique[of fst m n] by (simp add: distinct_map)
qed

text \<open>Accessors of \<open>Value\<close>.\<close>

fun as_str :: "json \<Rightarrow> string option" where
  "as_str (JStr s) = Some s"
| "as_str _ = None"

fun as_bool :: "json \<Rightarrow> bool option" where
  "as_bool (JBool b) = Some b"
| "as_bool _ = None"

fun as_u64 :: "json \<Rightarrow> 64 word option" where
  "as_u64 (JNum (PosInt n)) = Some n"
| "as_u64 _ = None"

fun as_i64 :: "json \<Rightarrow> int option" where
  "as_i64 (JNum (PosInt n)) = (if uint n < 2 ^ 63 then Some (uint n) else None)"
| "as_i64 (JNum (NegInt i)) = Some i"
| "as_i64 _ = None"

fun as_array :: "json \<Rightarrow> json list option" where
  "as_array (JArr xs) = Some xs"
| "as_array _ = None"

fun as_object :: "json \<Rightarrow> jmap option" where
  "as_object (JObj m) = Some m"
| "as_object _ = None"

fun json_get :: "string \<Rightarrow> json \<Rightarrow> json option" where
  "json_get k (JObj m) = map_of m k"
| "json_get k _ = None"

text \<open>Every object inside a value is a sorted map, as the \<open>BTreeMap\<close> keeps it.\<close>

fun json_wf :: "json \<Rightarrow> bool" where
  "json_wf (JArr xs) = list_all json_wf xs"
| "json_wf (JObj m) = (jsorted m \<and> list_all (\<lambda>p. json_wf (snd p)) m)"
| "json_wf _ = True"

end
