(* ===== verification/SbErrors.thy ===== *)
theory SbErrors
  imports Json
begin

text \<open>
  The error model every crate reports through (crate \<open>sb-errors\<close>): the error
  codes and the registry that gives each its kind, HTTP and gRPC status, retry class,
  severity and default message (\<open>code.rs\<close>), the error object and its builder
  (\<open>model.rs\<close>), the public and audit views (\<open>render.rs\<close>) and the metric
  labels (\<open>labels.rs\<close>).  The default messages are Chinese; they are written by
  their UTF-8 bytes.
\<close>

section \<open>Codes, kinds, retry classes, severities\<close>

datatype error_code = ErrorCode (code_str: string)

datatype error_kind =
    KindAuth
  | KindQuota
  | KindSchema
  | KindPolicyDeny
  | KindSandbox
  | KindProvider
  | KindStorage
  | KindTimeout
  | KindConflict
  | KindNotFound
  | KindPrecondition
  | KindSerialization
  | KindNetwork
  | KindRateLimit
  | KindQosBudgetExceeded
  | KindToolError
  | KindLlmError
  | KindA2AError
  | KindUnknown

datatype retry_class = RetryNone | RetryTransient | RetryPermanent

datatype severity = SevInfo | SevWarn | SevError | SevCritical

record backoff_hint =
  initial_ms :: "64 word"
  max_ms :: "64 word"

fun kind_str :: "error_kind \<Rightarrow> string" where
  "kind_str KindAuth = ''Auth''"
| "kind_str KindQuota = ''Quota''"
| "kind_str KindSchema = ''Schema''"
| "kind_str KindPolicyDeny = ''PolicyDeny''"
| "kind_str KindSandbox = ''Sandbox''"
| "kind_str KindProvider = ''Provider''"
| "kind_str KindStorage = ''Storage''"
| "kind_str KindTimeout = ''Timeout''"
| "kind_str KindConflict = ''Conflict''"
| "kind_str KindNotFound = ''NotFound''"
| "kind_str KindPrecondition = ''Precondition''"
| "kind_str KindSerialization = ''Serialization''"
| "kind_str KindNetwork = ''Network''"
| "kind_str KindRateLimit = ''RateLimit''"
| "kind_str KindQosBudgetExceeded = ''QosBudgetExceeded''"
| "kind_str KindToolError = ''ToolError''"
| "kind_str KindLlmError = ''LlmError''"
| "kind_str KindA2AError = ''A2AError''"
| "kind_str KindUnknown = ''Unknown''"

fun retry_str :: "retry_class \<Rightarrow> string" where
  "retry_str RetryNone = ''none''"
| "retry_str RetryTransient = ''transient''"
| "retry_str RetryPermanent = ''permanent''"

fun severity_str :: "severity \<Rightarrow> string" where
  "severity_str SevInfo = ''info''"
| "severity_str SevWarn = ''warn''"
| "severity_str SevError = ''error''"
| "severity_str SevCritical = ''critical''"

definition AUTH_UNAUTHENTICATED :: error_code where "AUTH_UNAUTHENTICATED = ErrorCode ''AUTH.UNAUTHENTICATED''"
definition AUTH_FORBIDDEN :: error_code where "AUTH_FORBIDDEN = ErrorCode ''AUTH.FORBIDDEN''"
definition SCHEMA_VALIDATION_FAILED :: error_code where "SCHEMA_VALIDATION_FAILED = ErrorCode ''SCHEMA.VALIDATION_FAILED''"
definition QUOTA_RATE_LIMITED :: error_code where "QUOTA_RATE_LIMITED = ErrorCode ''QUOTA.RATE_LIMITED''"
definition QUOTA_BUDGET_EXCEEDED :: error_code where "QUOTA_BUDGET_EXCEEDED = ErrorCode ''QUOTA.BUDGET_EXCEEDED''"
definition POLICY_DENY_TOOL :: error_code where "POLICY_DENY_TOOL = ErrorCode ''POLICY.DENY_TOOL''"
definition SANDBOX_PERMISSION_DENIED :: error_code where "SANDBOX_PERMISSION_DENIED = ErrorCode ''SANDBOX.PERMISSION_DENIED''"
definition SANDBOX_CAPABILITY_BLOCKED :: error_code where "SANDBOX_CAPABILITY_BLOCKED = ErrorCode ''SANDBOX.CAPABILITY_BLOCKED''"
definition LLM_TIMEOUT :: error_code where "LLM_TIMEOUT = ErrorCode ''LLM.TIMEOUT''"
definition LLM_CONTEXT_OVERFLOW :: error_code where "LLM_CONTEXT_OVERFLOW = ErrorCode ''LLM.CONTEXT_OVERFLOW''"
definition LLM_SAFETY_BLOCK :: error_code where "LLM_SAFETY_BLOCK = ErrorCode ''LLM.SAFETY_BLOCK''"
definition PROVIDER_UNAVAILABLE :: error_code where "PROVIDER_UNAVAILABLE = ErrorCode ''PROVIDER.UNAVAILABLE''"
definition TOOL_EXECUTION_ERROR :: error_code where "TOOL_EXECUTION_ERROR = ErrorCode ''TOOL.EXECUTION_ERROR''"
definition STORAGE_CONFLICT :: error_code where "STORAGE_CONFLICT = ErrorCode ''STORAGE.CONFLICT''"
definition STORAGE_NOT_FOUND :: error_code where "STORAGE_NOT_FOUND = ErrorCode ''STORAGE.NOT_FOUND''"
definition TX_TIMEOUT :: error_code where "TX_TIMEOUT = ErrorCode ''TX.TIMEOUT''"
definition TX_IDEMPOTENT_BUSY :: error_code where "TX_IDEMPOTENT_BUSY = ErrorCode ''TX.IDEMPOTENT_BUSY''"
definition TX_IDEMPOTENT_LAST_FAILED :: error_code where "TX_IDEMPOTENT_LAST_FAILED = ErrorCode ''TX.IDEMPOTENT_LAST_FAILED''"
definition A2A_REPLAY :: error_code where "A2A_REPLAY = ErrorCode ''A2A.REPLAY''"
definition A2A_CONSENT_REQUIRED :: error_code where "A2A_CONSENT_REQUIRED = ErrorCode ''A2A.CONSENT_REQUIRED''"
definition A2A_LEDGER_MISMATCH :: error_code where "A2A_LEDGER_MISMATCH = ErrorCode ''A2A.LEDGER_MISMATCH''"
definition UNKNOWN_INTERNAL :: error_code where "UNKNOWN_INTERNAL = ErrorCode ''UNKNOWN.INTERNAL''"

lemmas error_codes =
  AUTH_UNAUTHENTICATED_def AUTH_FORBIDDEN_def SCHEMA_VALIDATION_FAILED_def
  QUOTA_RATE_LIMITED_def QUOTA_BUDGET_EXCEEDED_def POLICY_DENY_TOOL_def
  SANDBOX_PERMISSION_DENIED_def SANDBOX_CAPABILITY_BLOCKED_def LLM_TIMEOUT_def
  LLM_CONTEXT_OVERFLOW_def LLM_SAFETY_BLOCK_def PROVIDER_UNAVAILABLE_def
  TOOL_EXECUTION_ERROR_def STORAGE_CONFLICT_def STORAGE_NOT_FOUND_def TX_TIMEOUT_def
  TX_IDEMPOTENT_BUSY_def TX_IDEMPOTENT_LAST_FAILED_def A2A_REPLAY_def
  A2A_CONSENT_REQUIRED_def A2A_LEDGER_MISMATCH_def UNKNOWN_INTERNAL_def

section \<open>The registry\<close>

record code_spec =
  cs_code :: error_code
  cs_kind :: error_kind
  cs_http_status :: "16 word"
  cs_grpc_status :: "int option"
  cs_retryable :: retry_class
  cs_severity :: severity
  cs_default_user_msg :: string

definition code_spec_new ::
  "error_code \<Rightarrow> error_kind \<Rightarrow> 16 word \<Rightarrow> int option \<Rightarrow> retry_class \<Rightarrow> severity \<Rightarrow> string \<Rightarrow> code_spec" where
  "code_spec_new code kind http grpc retry sev msg =
     \<lparr>cs_code = code, cs_kind = kind, cs_http_status = http, cs_grpc_status = grpc,
      cs_retryable = retry, cs_severity = sev, cs_default_user_msg = msg\<rparr>"

definition registry_head :: "code_spec list" where
  "registry_head = [
    code_spec_new AUTH_UNAUTHENTICATED KindAuth 401 (Some 16) RetryNone SevWarn
      (utf8 [232, 175, 183, 229, 133, 136, 231, 153, 187, 229, 189, 149, 227, 128, 130]),
    code_spec_new AUTH_FORBIDDEN KindAuth 403 (Some 7) RetryNone SevWarn
      (utf8 [230, 178, 161, 230, 156, 137, 232, 174, 191, 233, 151, 174, 232, 175, 165, 232,
          181, 132, 230, 186, 144, 231, 154, 132, 230, 157, 131, 233, 153, 144, 227, 128,
          130]),
    code_spec_new SCHEMA_VALIDATION_FAILED KindSchema 422 (Some 3) RetryPermanent SevWarn
      (utf8 [232, 175, 183, 230, 177, 130, 230, 149, 176, 230, 141, 174, 230, 160, 188, 229,
          188, 143, 228, 184, 141, 231, 172, 166, 229, 144, 136, 232, 166, 129, 230, 177,
          130, 227, 128, 130]),
    code_spec_new QUOTA_RATE_LIMITED KindRateLimit 429 (Some 8) RetryTransient SevWarn
      (utf8 [232, 175, 183, 230, 177, 130, 232, 191, 135, 228, 186, 142, 233, 162, 145, 231,
          185, 129, 239, 188, 140, 232, 175, 183, 231, 168, 141, 229, 144, 142, 233, 135,
          141, 232, 175, 149, 227, 128, 130]),
    code_spec_new QUOTA_BUDGET_EXCEEDED KindQosBudgetExceeded 402 (Some 8) RetryPermanent SevWarn
      (utf8 [233, 162, 157, 229, 186, 166, 229, 183, 178, 231, 148, 168, 229, 176, 189, 239,
          188, 140, 232, 175, 183, 232, 176, 131, 230, 149, 180, 233, 162, 132, 231, 174,
          151, 233, 133, 141, 231, 189, 174, 227, 128, 130]),
    code_spec_new POLICY_DENY_TOOL KindPolicyDeny 403 (Some 7) RetryPermanent SevWarn
      (utf8 [229, 189, 147, 229, 137, 141, 231, 173, 150, 231, 149, 165, 228, 184, 141, 229,
          133, 129, 232, 174, 184, 230, 137, 167, 232, 161, 140, 232, 175, 165, 230, 147,
          141, 228, 189, 156, 227, 128, 130]),
    code_spec_new SANDBOX_PERMISSION_DENIED KindSandbox 403 (Some 7) RetryPermanent SevWarn
      (utf8 [230, 178, 153, 231, 174, 177, 231, 166, 129, 230, 173, 162, 228, 186, 134, 230,
          156, 172, 230, 172, 161, 230, 137, 167, 232, 161, 140, 227, 128, 130]),
    code_spec_new SANDBOX_CAPABILITY_BLOCKED KindSandbox 403 (Some 7) RetryNone SevWarn
      (utf8 [230, 147, 141, 228, 189, 156, 230, 137, 128, 233, 156, 128, 232, 131, 189, 229,
          138, 155, 232, 162, 171, 230, 178, 153, 231, 174, 177, 233, 153, 144, 229, 136,
          182, 227, 128, 130]),
    code_spec_new LLM_TIMEOUT KindLlmError 503 (Some 4) RetryTransient SevError
      (utf8 [230, 168, 161, 229, 158, 139, 229, 147, 141, 229, 186, 148, 232, 182, 133, 230,
          151, 182, 239, 188, 140, 232, 175, 183, 231, 168, 141, 229, 144, 142, 233, 135,
          141, 232, 175, 149, 227, 128, 130]),
    code_spec_new LLM_CONTEXT_OVERFLOW KindLlmError 400 (Some 3) RetryPermanent SevWarn
      (utf8 [232, 190, 147, 229, 133, 165, 232, 182, 133, 229, 135, 186, 230, 168, 161, 229,
          158, 139, 228, 184, 138, 228, 184, 139, 230, 150, 135, 231, 170, 151, 229, 143,
          163, 239, 188, 140, 232, 175, 183, 232, 176, 131, 230, 149, 180, 229, 144, 142,
          233, 135, 141, 232, 175, 149, 227, 128, 130]),
    code_spec_new LLM_SAFETY_BLOCK KindLlmError 403 (Some 7) RetryPermanent SevWarn
      (utf8 [230, 168, 161, 229, 158, 139, 229, 155, 160, 229, 174, 137, 229, 133, 168, 231,
          173, 150, 231, 149, 165, 230, 139, 146, 231, 187, 157, 228, 186, 134, 230, 156,
          172, 230, 172, 161, 232, 175, 183, 230, 177, 130, 227, 128, 130]),
    code_spec_new PROVIDER_UNAVAILABLE KindProvider 503 (Some 14) RetryTransient SevError
      (utf8 [229, 164, 150, 233, 131, 168, 230, 156, 141, 229, 138, 161, 230, 154, 130, 230,
          151, 182, 228, 184, 141, 229, 143, 175, 231, 148, 168, 239, 188, 140, 232, 175,
          183, 231, 168, 141, 229, 144, 142, 233, 135, 141, 232, 175, 149, 227, 128, 130]),
    code_spec_new TOOL_EXECUTION_ERROR KindToolError 500 (Some 2) RetryNone SevError
      (utf8 [229, 183, 165, 229, 133, 183, 230, 137, 167, 232, 161, 140, 229, 164, 177, 232,
          180, 165, 227, 128, 130]),
    code_spec_new STORAGE_CONFLICT KindConflict 409 (Some 6) RetryTransient SevWarn
      (utf8 [232, 181, 132, 230, 186, 144, 229, 134, 178, 231, 170, 129, 239, 188, 140, 232,
          175, 183, 233, 135, 141, 232, 175, 149, 227, 128, 130]),
    code_spec_new STORAGE_NOT_FOUND KindStorage 404 (Some 5) RetryNone SevWarn
      (utf8 [230, 156, 170, 230, 137, 190, 229, 136, 176, 229, 175, 185, 229, 186, 148, 232,
          181, 132, 230, 186, 144, 239, 188, 140, 232, 175, 183, 231, 161, 174, 232, 174,
          164, 229, 143, 130, 230, 149, 176, 229, 144, 142, 233, 135, 141, 232, 175, 149,
          227, 128, 130]),
    code_spec_new TX_TIMEOUT KindTimeout 504 (Some 4) RetryTransient SevError
      (utf8 [228, 186, 139, 229, 138, 161, 229, 164, 132, 231, 144, 134, 232, 182, 133, 230,
          151, 182, 239, 188, 140, 232, 175, 183, 231, 168, 141, 229, 144, 142, 233, 135,
          141, 232, 175, 149, 227, 128, 130])
   ]"

definition registry_tail :: "code_spec list" where
  "registry_tail = [
    code_spec_new TX_IDEMPOTENT_BUSY KindConflict 409 (Some 10) RetryTransient SevWarn
      (utf8 [232, 175, 183, 230, 177, 130, 228, 187, 141, 229, 156, 168, 229, 164, 132, 231,
          144, 134, 239, 188, 140, 232, 175, 183, 231, 168, 141, 229, 144, 142, 233, 135,
          141, 232, 175, 149, 227, 128, 130]),
    code_spec_new TX_IDEMPOTENT_LAST_FAILED KindConflict 409 (Some 10) RetryNone SevError
      (utf8 [228, 184, 138, 228, 184, 128, 230, 172, 161, 229, 185, 130, 231, 173, 137, 230,
          147, 141, 228, 189, 156, 229, 164, 177, 232, 180, 165, 239, 188, 140, 232, 175,
          183, 228, 186, 186, 229, 183, 165, 231, 161, 174, 232, 174, 164, 227, 128, 130]),
    code_spec_new A2A_REPLAY KindA2AError 409 (Some 10) RetryNone SevWarn
      (utf8 [232, 183, 168, 229, 159, 159, 232, 175, 183, 230, 177, 130, 232, 162, 171, 229,
          136, 164, 229, 174, 154, 228, 184, 186, 233, 135, 141, 230, 148, 190, 227, 128,
          130]),
    code_spec_new A2A_CONSENT_REQUIRED KindA2AError 428 (Some 9) RetryPermanent SevWarn
      (utf8 [231, 188, 186, 229, 176, 145, 229, 191, 133, 232, 166, 129, 231, 154, 132, 228,
          186, 146, 232, 174, 164, 229, 144, 140, 230, 132, 143, 239, 188, 140, 232, 175,
          183, 232, 161, 165, 233, 189, 144, 229, 135, 173, 232, 175, 129, 227, 128, 130]),
    code_spec_new A2A_LEDGER_MISMATCH KindA2AError 409 (Some 10) RetryNone SevError
      (utf8 [232, 183, 168, 229, 159, 159, 232, 180, 166, 230, 156, 172, 230, 160, 161, 233,
          170, 140, 228, 184, 141, 228, 184, 128, 232, 135, 180, 239, 188, 140, 232, 175,
          183, 228, 186, 186, 229, 183, 165, 229, 175, 185, 232, 180, 166, 227, 128, 130]),
    code_spec_new UNKNOWN_INTERNAL KindUnknown 500 (Some 13) RetryTransient SevError
      (utf8 [229, 135, 186, 231, 142, 176, 230, 156, 170, 231, 159, 165, 233, 148, 153, 232,
          175, 175, 239, 188, 140, 232, 175, 183, 231, 168, 141, 229, 144, 142, 233, 135,
          141, 232, 175, 149, 227, 128, 130])
   ]"

definition registry_entries :: "code_spec list" where
  "registry_entries = registry_head @ registry_tail"

lemmas registry_entries_defs = registry_entries_def registry_head_def registry_tail_def

text \<open>Filling the registry: a duplicate code panics (\<open>None\<close>).\<close>

fun register_all ::
  "code_spec list \<Rightarrow> (string \<Rightarrow> code_spec option) \<Rightarrow> (string \<Rightarrow> code_spec option) option" where
  "register_all [] m = Some m"
| "register_all (spec # entries) m =
     (let key = code_str (cs_code spec) in
      if m key \<noteq> None then None else register_all entries (m(key \<mapsto> spec)))"

definition REGISTRY :: "(string \<Rightarrow> code_spec option) option" where
  "REGISTRY = register_all registry_entries Map.empty"

definition spec_of :: "error_code \<Rightarrow> code_spec option" where
  "spec_of code = (case REGISTRY of None \<Rightarrow> None | Some m \<Rightarrow> m (code_str code))"

lemma register_all_distinct:
  assumes "distinct (map (code_str \<circ> cs_code) es)"
    and "\<forall>s\<in>set es. m (code_str (cs_code s)) = None"
  shows "register_all es m = Some (m ++ map_of (map (\<lambda>s. (code_str (cs_code s), s)) es))"
  using assms
proof (induction es arbitrary: m)
  case (Cons s es)
  have new: "code_str (cs_code s') \<noteq> code_str (cs_code s)" if "s' \<in> set es" for s'
    using Cons.prems(1) imageI[OF that, of "code_str \<circ> cs_code"] by auto
  have "register_all es (m(code_str (cs_code s) \<mapsto> s))
      = Some (m(code_str (cs_code s) \<mapsto> s) ++ map_of (map (\<lambda>s. (code_str (cs_code s), s)) es))"
    by (rule Cons.IH) (use Cons.prems in \<open>auto dest: new\<close>)
  moreover have "map_of (map (\<lambda>s. (code_str (cs_code s), s)) es) (code_str (cs_code s)) = None"
    using Cons.prems by (auto simp: map_of_eq_None_iff)
  ultimately show ?case
    using Cons.prems by (auto simp: Let_def map_add_def fun_eq_iff split: option.splits)
qed simp

lemma registry_distinct: "distinct (map (code_str \<circ> cs_code) registry_entries)"
  by (simp add: registry_entries_defs code_spec_new_def error_codes)

lemma REGISTRY_eq:
  "REGISTRY = Some (map_of (map (\<lambda>s. (code_str (cs_code s), s)) registry_entries))"
  unfolding REGISTRY_def by (subst register_all_distinct[OF registry_distinct]) simp_all

lemma spec_of_eq:
  "spec_of code = map_of (map (\<lambda>s. (code_str (cs_code s), s)) registry_entries) (code_str code)"
  by (simp add: spec_of_def REGISTRY_eq)

lemma spec_of_code: "spec_of code = Some s \<Longrightarrow> cs_code s = code"
  by (cases code, cases "cs_code s") (auto simp: spec_of_eq dest!: map_of_SomeD)

lemma spec_of_member: "s \<in> set registry_entries \<Longrightarrow> spec_of (cs_code s) = Some s"
  unfolding spec_of_eq
  by (rule map_of_is_SomeI) (use registry_distinct in \<open>auto simp: comp_def\<close>)

section \<open>Error objects\<close>

record cause_entry =
  cause_code :: string
  cause_message :: "string option"

record error_obj =
  err_code :: error_code
  err_kind :: error_kind
  err_http_status :: "16 word"
  err_grpc_status :: "int option"
  err_retryable :: retry_class
  err_severity :: severity
  message_user :: string
  message_dev :: "string option"
  err_meta :: jmap
  cause_chain :: "cause_entry list option"
  correlation_id :: "string option"
  err_backoff_hint :: "backoff_hint option"

definition from_spec :: "code_spec \<Rightarrow> error_obj" where
  "from_spec spec =
     \<lparr>err_code = cs_code spec, err_kind = cs_kind spec, err_http_status = cs_http_status spec,
      err_grpc_status = cs_grpc_status spec, err_retryable = cs_retryable spec,
      err_severity = cs_severity spec, message_user = cs_default_user_msg spec,
      message_dev = None, err_meta = [], cause_chain = None, correlation_id = None,
      err_backoff_hint = None\<rparr>"

text \<open>
  \<open>ErrorBuilder::new\<close> falls back to \<open>UNKNOWN.INTERNAL\<close>, and panics
  (\<open>None\<close>) when that code is not registered either.
\<close>

definition builder_new_opt :: "error_code \<Rightarrow> error_obj option" where
  "builder_new_opt code =
     map_option from_spec
       (case spec_of code of Some s \<Rightarrow> Some s | None \<Rightarrow> spec_of UNKNOWN_INTERNAL)"

definition builder_new :: "error_code \<Rightarrow> error_obj" where
  "builder_new code = the (builder_new_opt code)"

definition user_msg :: "string \<Rightarrow> error_obj \<Rightarrow> error_obj" where
  "user_msg msg b = b\<lparr>message_user := msg\<rparr>"

definition dev_msg :: "string \<Rightarrow> error_obj \<Rightarrow> error_obj" where
  "dev_msg msg b = b\<lparr>message_dev := Some msg\<rparr>"

definition meta_kv :: "string \<Rightarrow> json \<Rightarrow> error_obj \<Rightarrow> error_obj" where
  "meta_kv key value b = b\<lparr>err_meta := jinsert key value (err_meta b)\<rparr>"

definition meta_map :: "jmap \<Rightarrow> error_obj \<Rightarrow> error_obj" where
  "meta_map m b = b\<lparr>err_meta := jextend (err_meta b) m\<rparr>"

definition correlation :: "string \<Rightarrow> error_obj \<Rightarrow> error_obj" where
  "correlation cid b = b\<lparr>correlation_id := Some cid\<rparr>"

definition cause :: "cause_entry \<Rightarrow> error_obj \<Rightarrow> error_obj" where
  "cause entry b =
     (case cause_chain b of
        Some chain \<Rightarrow> b\<lparr>cause_chain := Some (chain @ [entry])\<rparr>
      | None \<Rightarrow> b\<lparr>cause_chain := Some [entry]\<rparr>)"

definition set_retryable :: "retry_class \<Rightarrow> error_obj \<Rightarrow> error_obj" where
  "set_retryable r b = b\<lparr>err_retryable := r\<rparr>"

definition set_severity :: "severity \<Rightarrow> error_obj \<Rightarrow> error_obj" where
  "set_severity s b = b\<lparr>err_severity := s\<rparr>"

definition set_http_status :: "16 word \<Rightarrow> error_obj \<Rightarrow> error_obj" where
  "set_http_status s b = b\<lparr>err_http_status := s\<rparr>"

definition set_grpc_status :: "int option \<Rightarrow> error_obj \<Rightarrow> error_obj" where
  "set_grpc_status s b = b\<lparr>err_grpc_status := s\<rparr>"

definition set_backoff_hint :: "backoff_hint \<Rightarrow> error_obj \<Rightarrow> error_obj" where
  "set_backoff_hint h b = b\<lparr>err_backoff_hint := Some h\<rparr>"

lemma builder_new_opt_total: "\<exists>b. builder_new_opt code = Some b"
proof -
  have "spec_of UNKNOWN_INTERNAL \<noteq> None"
    by (simp add: spec_of_eq registry_entries_defs code_spec_new_def error_codes)
  then show ?thesis
    by (auto simp: builder_new_opt_def split: option.splits)
qed

lemma builder_new_registered:
  "spec_of code = Some s \<Longrightarrow> builder_new code = from_spec s"
  by (simp add: builder_new_def builder_new_opt_def)

lemma builder_new_code:
  "err_code (builder_new code) = (if spec_of code = None then UNKNOWN_INTERNAL else code)"
  using builder_new_opt_total[of code]
  by (auto simp: builder_new_def builder_new_opt_def from_spec_def dest: spec_of_code
      split: option.splits)

section \<open>Views and labels\<close>

record public_error_view =
  pv_code :: string
  pv_message :: string
  pv_correlation_id :: "string option"

record audit_error_view =
  av_code :: string
  av_kind :: string
  av_http_status :: "16 word"
  av_retryable :: string
  av_severity :: string
  av_message_dev :: "string option"
  av_correlation_id :: "string option"
  av_cause_chain :: "cause_entry list option"
  av_backoff_hint :: "backoff_hint option"
  av_meta :: "jmap option"

definition to_public :: "error_obj \<Rightarrow> public_error_view" where
  "to_public e =
     \<lparr>pv_code = code_str (err_code e), pv_message = message_user e,
      pv_correlation_id = correlation_id e\<rparr>"

definition to_audit :: "error_obj \<Rightarrow> audit_error_view" where
  "to_audit e =
     \<lparr>av_code = code_str (err_code e), av_kind = kind_str (err_kind e),
      av_http_status = err_http_status e, av_retryable = retry_str (err_retryable e),
      av_severity = severity_str (err_severity e), av_message_dev = message_dev e,
      av_correlation_id = correlation_id e, av_cause_chain = cause_chain e,
      av_backoff_hint = err_backoff_hint e,
      av_meta = (if err_meta e = [] then None else Some (err_meta e))\<rparr>"

text \<open>
  Labels: \<open>Value::to_string\<close> is serde's JSON printer, a parameter \<open>show\<close>.
\<close>

definition label_if :: "string \<Rightarrow> (json \<Rightarrow> string) \<Rightarrow> error_obj \<Rightarrow> (string \<times> string) list
    \<Rightarrow> (string \<times> string) list" where
  "label_if k show e out =
     (case map_of (err_meta e) k of Some v \<Rightarrow> jinsert k (show v) out | None \<Rightarrow> out)"

definition labels :: "(json \<Rightarrow> string) \<Rightarrow> error_obj \<Rightarrow> (string \<times> string) list" where
  "labels show e =
     (let out = jinsert ''code'' (code_str (err_code e)) [];
          out = jinsert ''kind'' (kind_str (err_kind e)) out;
          out = jinsert ''retryable'' (retry_str (err_retryable e)) out;
          out = jinsert ''severity'' (severity_str (err_severity e)) out
      in label_if ''tenant'' show e (label_if ''tool'' show e (label_if ''provider'' show e out)))"

lemmas builder_defs =
  user_msg_def dev_msg_def meta_kv_def meta_map_def correlation_def set_retryable_def
  set_severity_def set_http_status_def set_grpc_status_def set_backoff_hint_def

lemma builder_code_frames [simp, op_frames]:
  "err_code (user_msg m b) = err_code b" "err_code (dev_msg m b) = err_code b"
  "err_code (meta_kv k v b) = err_code b" "err_code (correlation c b) = err_code b"
  "message_user (dev_msg m b) = message_user b" "message_user (user_msg m b) = m"
  "message_dev (user_msg m b) = message_dev b" "message_dev (dev_msg m b) = Some m"
  by (simp_all add: builder_defs)

lemma labels_mono_keys: "set (map fst out) \<subseteq> set (map fst (label_if k show e out))"
  using keys_jinsert[of k "show v" out for v]
  by (auto simp: label_if_def image_iff split: option.splits)

section \<open>Errors of other crates\<close>

text \<open>Errors of reqwest and sqlx as far as the conversions look at them, with their texts.\<close>

record reqwest_error =
  rqe_is_timeout :: bool
  rqe_is_status :: bool
  rqe_status :: "16 word option"
  rqe_text :: string

definition of_reqwest_error :: "reqwest_error \<Rightarrow> error_obj" where
  "of_reqwest_error err =
     (let code =
            (if rqe_is_timeout err then PROVIDER_UNAVAILABLE
             else if rqe_is_status err \<and> rqe_status err = Some 429 then QUOTA_RATE_LIMITED
             else PROVIDER_UNAVAILABLE) in
      meta_kv ''provider'' (JStr ''http'') (dev_msg (''reqwest: '' @ rqe_text err) (builder_new code)))"

datatype sqlx_error = RowNotFound | SqlxOther string

definition of_sqlx_error :: "sqlx_error \<Rightarrow> error_obj" where
  "of_sqlx_error err =
     (case err of
        RowNotFound \<Rightarrow>
          dev_msg ''sqlx::Error::RowNotFound'' (user_msg (utf8 [232, 174, 176, 229, 189, 149, 230, 156, 170, 230, 137, 190, 229, 136, 176,
        227, 128, 130])
            (builder_new SCHEMA_VALIDATION_FAILED))
      | SqlxOther text \<Rightarrow>
          meta_kv ''provider'' (JStr ''db'') (dev_msg (''sqlx: '' @ text) (builder_new PROVIDER_UNAVAILABLE)))"

lemma wrapped_codes:
  "err_code (of_reqwest_error e) \<in> {PROVIDER_UNAVAILABLE, QUOTA_RATE_LIMITED}"
  "err_code (of_sqlx_error s) \<in> {PROVIDER_UNAVAILABLE, SCHEMA_VALIDATION_FAILED}"
  by (auto simp: of_reqwest_error_def of_sqlx_error_def builder_new_code spec_of_eq registry_entries_defs
      code_spec_new_def error_codes Let_def split: sqlx_error.splits)

end
