(* ===== verification/SbTypes.thy ===== *)
theory SbTypes
  imports Json
begin

text \<open>
  The shared vocabulary of the platform (crate \<open>sb-types\<close>): identifiers, tenants,
  subjects, scopes and consents, the message envelope with its builders
  (\<open>envelope.rs\<close>, \<open>traits.rs\<close>) and the validation rules every envelope
  must pass (\<open>validate.rs\<close>).  The newtypes over \<open>String\<close> and \<open>i64\<close>
  are synonyms.  \<open>semver::Version::parse\<close> is third-party: a parameter
  \<open>semver\<close> that returns its error text, or \<open>None\<close> when the version parses.
\<close>

type_synonym id = string
type_synonym causation_id = string
type_synonym correlation_id = string
type_synonym tenant_id = string
type_synonym timestamp = int

datatype subject_kind = User | Service | Agent

record subject =
  subj_kind :: subject_kind
  subject_id :: id
  subj_tenant :: tenant_id
  claims :: jmap

record scope =
  sc_resource :: string
  sc_action :: string
  sc_attrs :: jmap

record consent =
  scopes :: "scope list"
  expires_at :: "timestamp option"
  purpose :: "string option"

record trace_context =
  trace_id :: "string option"
  span_id :: "string option"
  baggage :: jmap

record 'a envelope =
  envelope_id :: id
  produced_at :: timestamp
  partition_key :: string
  env_causation :: "causation_id option"
  env_correlation :: "correlation_id option"
  actor :: subject
  env_consent :: "consent option"
  schema_ver :: string
  env_trace :: "trace_context option"
  payload :: 'a

text \<open>What an envelope tells as \<open>Versioned\<close>, \<open>Partitioned\<close>, \<open>Auditable\<close> and \<open>Causal\<close>.\<close>

definition versioned_schema_version :: "'a envelope \<Rightarrow> string" where
  "versioned_schema_version e = schema_ver e"

definition partitioned_key :: "'a envelope \<Rightarrow> string" where
  "partitioned_key e = partition_key e"

definition auditable_actor :: "'a envelope \<Rightarrow> subject" where
  "auditable_actor e = actor e"

definition auditable_produced_at :: "'a envelope \<Rightarrow> timestamp" where
  "auditable_produced_at e = produced_at e"

definition causal_causation_id :: "'a envelope \<Rightarrow> causation_id option" where
  "causal_causation_id e = env_causation e"

definition causal_correlation_id :: "'a envelope \<Rightarrow> correlation_id option" where
  "causal_correlation_id e = env_correlation e"

definition subject_new :: "subject_kind \<Rightarrow> id \<Rightarrow> tenant_id \<Rightarrow> subject" where
  "subject_new kind sid tenant =
     \<lparr>subj_kind = kind, subject_id = sid, subj_tenant = tenant, claims = []\<rparr>"

definition scope_new :: "string \<Rightarrow> string \<Rightarrow> scope" where
  "scope_new resource action =
     \<lparr>sc_resource = resource, sc_action = action, sc_attrs = []\<rparr>"

definition consent_new :: "scope list \<Rightarrow> consent" where
  "consent_new ss = \<lparr>scopes = ss, expires_at = None, purpose = None\<rparr>"

definition trace_new :: "string option \<Rightarrow> string option \<Rightarrow> trace_context" where
  "trace_new tid sid = \<lparr>trace_id = tid, span_id = sid, baggage = []\<rparr>"

definition envelope_new ::
  "id \<Rightarrow> timestamp \<Rightarrow> string \<Rightarrow> subject \<Rightarrow> string \<Rightarrow> 'a \<Rightarrow> 'a envelope" where
  "envelope_new eid at key act ver p =
     \<lparr>envelope_id = eid, produced_at = at, partition_key = key, env_causation = None,
      env_correlation = None, actor = act, env_consent = None, schema_ver = ver,
      env_trace = None, payload = p\<rparr>"

definition with_causation :: "causation_id \<Rightarrow> 'a envelope \<Rightarrow> 'a envelope" where
  "with_causation c e = e\<lparr>env_causation := Some c\<rparr>"

definition with_correlation :: "correlation_id \<Rightarrow> 'a envelope \<Rightarrow> 'a envelope" where
  "with_correlation c e = e\<lparr>env_correlation := Some c\<rparr>"

definition with_consent :: "consent \<Rightarrow> 'a envelope \<Rightarrow> 'a envelope" where
  "with_consent c e = e\<lparr>env_consent := Some c\<rparr>"

definition with_trace :: "trace_context \<Rightarrow> 'a envelope \<Rightarrow> 'a envelope" where
  "with_trace t e = e\<lparr>env_trace := Some t\<rparr>"

definition map_payload :: "('a \<Rightarrow> 'b) \<Rightarrow> 'a envelope \<Rightarrow> 'b envelope" where
  "map_payload f e =
     \<lparr>envelope_id = envelope_id e, produced_at = produced_at e,
      partition_key = partition_key e, env_causation = env_causation e,
      env_correlation = env_correlation e, actor = actor e, env_consent = env_consent e,
      schema_ver = schema_ver e, env_trace = env_trace e, payload = f (payload e)\<rparr>"

section \<open>Validation\<close>

datatype validate_error =
    EmptyField string
  | InvalidSemVer string
  | TenantMismatch

definition validate_subject :: "subject \<Rightarrow> validate_error + unit" where
  "validate_subject s =
     (if subject_id s = [] then Err (EmptyField ''subject_id'')
      else if subj_tenant s = [] then Err (EmptyField ''tenant'')
      else Ok ())"

definition validate_scope :: "scope \<Rightarrow> validate_error + unit" where
  "validate_scope s =
     (if trim (sc_resource s) = [] then Err (EmptyField ''scope.resource'')
      else if trim (sc_action s) = [] then Err (EmptyField ''scope.action'')
      else Ok ())"

definition validate_consent :: "consent \<Rightarrow> validate_error + unit" where
  "validate_consent c = try_each validate_scope (scopes c)"

definition ensure_tenant_partition :: "tenant_id \<Rightarrow> string \<Rightarrow> validate_error + unit" where
  "ensure_tenant_partition tenant key =
     (if tenant = [] then Err (EmptyField ''tenant'')
      else if \<not> starts_with key tenant then Err TenantMismatch
      else Ok ())"

definition validate_envelope ::
  "(string \<Rightarrow> string option) \<Rightarrow> 'a envelope \<Rightarrow> validate_error + unit" where
  "validate_envelope semver e =
     (if envelope_id e = [] then Err (EmptyField ''envelope_id'')
      else if trim (partition_key e) = [] then Err (EmptyField ''partition_key'')
      else case semver (schema_ver e) of
             Some msg \<Rightarrow> Err (InvalidSemVer msg)
           | None \<Rightarrow>
               and_then (validate_subject (actor e)) (\<lambda>_.
               and_then (case env_consent e of Some c \<Rightarrow> validate_consent c | None \<Rightarrow> Ok ()) (\<lambda>_.
               ensure_tenant_partition (subj_tenant (actor e)) (partition_key e))))"

lemma validate_subject_ok [simp]:
  "validate_subject s = Ok u \<longleftrightarrow> subject_id s \<noteq> [] \<and> subj_tenant s \<noteq> []"
  by (simp add: validate_subject_def)

lemma validate_scope_ok [simp]:
  "validate_scope s = Ok u \<longleftrightarrow> trim (sc_resource s) \<noteq> [] \<and> trim (sc_action s) \<noteq> []"
  by (simp add: validate_scope_def)

lemma validate_consent_ok [simp]:
  "validate_consent c = Ok u \<longleftrightarrow>
     (\<forall>s\<in>set (scopes c). trim (sc_resource s) \<noteq> [] \<and> trim (sc_action s) \<noteq> [])"
  by (simp add: validate_consent_def try_each_ok)

lemma ensure_tenant_partition_ok [simp]:
  "ensure_tenant_partition t k = Ok u \<longleftrightarrow> t \<noteq> [] \<and> starts_with k t"
  by (simp add: ensure_tenant_partition_def)

lemma validate_envelope_ok:
  "validate_envelope semver e = Ok u \<longleftrightarrow>
     envelope_id e \<noteq> [] \<and> trim (partition_key e) \<noteq> [] \<and> semver (schema_ver e) = None \<and>
     validate_subject (actor e) = Ok () \<and>
     (\<forall>c. env_consent e = Some c \<longrightarrow> validate_consent c = Ok ()) \<and>
     starts_with (partition_key e) (subj_tenant (actor e))"
  by (cases "env_consent e"; cases "semver (schema_ver e)") (auto simp: validate_envelope_def)

text \<open>The builders leave the verdict of the routing fields alone.\<close>

lemma validate_with_trace:
  "validate_envelope semver (with_trace t (with_correlation c (with_causation k e)))
     = validate_envelope semver e"
  by (simp add: validate_envelope_def with_trace_def with_correlation_def with_causation_def
      cong: option.case_cong)

lemma validate_map_payload: "validate_envelope semver (map_payload f e) = validate_envelope semver e"
  by (simp add: validate_envelope_def map_payload_def
      cong: option.case_cong)

end
