(* ===== verification/TxModel.thy ===== *)
theory TxModel
  imports SbErrors SbTypes
begin

text \<open>
  The data of the transaction crate \<open>sb-tx\<close>: its error constructors
  (\<open>errors.rs\<close>), the outbox, idempotency, saga and dead-letter records
  (\<open>model.rs\<close>), the retry policy (\<open>backoff.rs\<close>) and the configuration
  defaults (\<open>config.rs\<close>).  An \<open>f64\<close> is its IEEE-754 bit pattern.
\<close>

section \<open>Errors\<close>

record tx_error =
  tx_inner :: error_obj
  tx_public :: string

definition tx_error_new :: "error_obj \<Rightarrow> tx_error" where
  "tx_error_new inner =
     (let view = to_public inner
      in \<lparr>tx_inner = inner, tx_public = pv_code view @ '': '' @ pv_message view\<rparr>)"

definition tx_as_public :: "tx_error \<Rightarrow> public_error_view" where
  "tx_as_public e = to_public (tx_inner e)"

text \<open>\<open>Display\<close> prints the public text.\<close>

definition tx_to_string :: "tx_error \<Rightarrow> string" where
  "tx_to_string e = tx_public e"

definition provider_unavailable :: "string \<Rightarrow> tx_error" where
  "provider_unavailable msg = tx_error_new
     (dev_msg msg (user_msg ''upstream is unavailable, please retry later''
       (builder_new PROVIDER_UNAVAILABLE)))"

definition tx_timeout :: "string \<Rightarrow> tx_error" where
  "tx_timeout msg = tx_error_new
     (dev_msg msg (user_msg ''operation timed out'' (builder_new PROVIDER_UNAVAILABLE)))"

definition idempo_busy :: "tx_error" where
  "idempo_busy = tx_error_new
     (user_msg ''request is already being processed'' (builder_new QUOTA_RATE_LIMITED))"

definition idempo_failed :: "tx_error" where
  "idempo_failed = tx_error_new
     (user_msg ''previous attempt failed'' (builder_new UNKNOWN_INTERNAL))"

definition tx_schema :: "string \<Rightarrow> tx_error" where
  "tx_schema msg = tx_error_new
     (dev_msg msg (user_msg ''invalid input payload'' (builder_new SCHEMA_VALIDATION_FAILED)))"

definition tx_conflict :: "string \<Rightarrow> tx_error" where
  "tx_conflict msg = tx_error_new
     (dev_msg msg (user_msg ''conflict detected'' (builder_new STORAGE_CONFLICT)))"

definition budget_exhausted :: "string \<Rightarrow> tx_error" where
  "budget_exhausted msg = tx_error_new
     (dev_msg msg (user_msg ''budget exhausted for tenant'' (builder_new QUOTA_BUDGET_EXCEEDED)))"

definition tx_unknown :: "string \<Rightarrow> tx_error" where
  "tx_unknown msg = tx_error_new
     (dev_msg msg (user_msg ''internal transaction error'' (builder_new UNKNOWN_INTERNAL)))"

type_synonym 'a tx_result = "tx_error + 'a"

text \<open>The public code of an error is what callers branch on.\<close>

definition tx_code :: "tx_error \<Rightarrow> string" where
  "tx_code e = pv_code (tx_as_public e)"

lemma tx_code_new [simp]: "tx_code (tx_error_new b) = code_str (err_code b)"
  by (simp add: tx_code_def tx_as_public_def tx_error_new_def to_public_def Let_def)

lemma registered_codes [simp]:
  "err_code (builder_new PROVIDER_UNAVAILABLE) = PROVIDER_UNAVAILABLE"
  "err_code (builder_new QUOTA_RATE_LIMITED) = QUOTA_RATE_LIMITED"
  "err_code (builder_new UNKNOWN_INTERNAL) = UNKNOWN_INTERNAL"
  "err_code (builder_new SCHEMA_VALIDATION_FAILED) = SCHEMA_VALIDATION_FAILED"
  "err_code (builder_new STORAGE_CONFLICT) = STORAGE_CONFLICT"
  "err_code (builder_new QUOTA_BUDGET_EXCEEDED) = QUOTA_BUDGET_EXCEEDED"
  by (simp_all add: builder_new_code spec_of_eq registry_entries_defs code_spec_new_def error_codes)

lemma tx_codes [simp]:
  "tx_code (provider_unavailable m) = ''PROVIDER.UNAVAILABLE''"
  "tx_code (tx_timeout m) = ''PROVIDER.UNAVAILABLE''"
  "tx_code idempo_busy = ''QUOTA.RATE_LIMITED''"
  "tx_code idempo_failed = ''UNKNOWN.INTERNAL''"
  "tx_code (tx_schema m) = ''SCHEMA.VALIDATION_FAILED''"
  "tx_code (tx_conflict m) = ''STORAGE.CONFLICT''"
  "tx_code (budget_exhausted m) = ''QUOTA.BUDGET_EXCEEDED''"
  "tx_code (tx_unknown m) = ''UNKNOWN.INTERNAL''"
  by (simp_all add: provider_unavailable_def tx_timeout_def idempo_busy_def idempo_failed_def
      tx_schema_def tx_conflict_def budget_exhausted_def tx_unknown_def)
    (simp_all add: error_codes)

section \<open>Outbox messages\<close>

type_synonym f64 = "64 word"

record retry_policy =
  rp_max_attempts :: "32 word"
  rp_base_ms :: "64 word"
  rp_factor :: f64
  rp_jitter :: f64
  rp_cap_ms :: "64 word"

definition retry_allowed :: "retry_policy \<Rightarrow> 32 word \<Rightarrow> bool" where
  "retry_allowed p attempts \<longleftrightarrow> attempts < rp_max_attempts p"

definition retry_policy_default :: "retry_policy" where
  "retry_policy_default =
     \<lparr>rp_max_attempts = 5, rp_base_ms = 500, rp_factor = 0x4000000000000000,
      rp_jitter = 0x3FD3333333333333, rp_cap_ms = 60000\<rparr>"

datatype outbox_status = Pending | Leased | Done | Dead

definition status_is_terminal :: "outbox_status \<Rightarrow> bool" where
  "status_is_terminal s = (case s of Done \<Rightarrow> True | Dead \<Rightarrow> True | _ \<Rightarrow> False)"

record outbox_message =
  om_id :: id
  om_tenant :: tenant_id
  om_envelope_id :: id
  om_topic :: string
  om_payload :: json
  om_created_at :: int
  om_not_before :: int
  om_attempts :: "32 word"
  om_status :: outbox_status
  om_last_error :: "string option"
  om_dispatch_key :: "string option"
  om_lease_until :: "int option"
  om_worker :: "string option"

record new_outbox_message =
  no_id :: id
  no_tenant :: tenant_id
  no_envelope_id :: id
  no_topic :: string
  no_payload :: json
  no_not_before :: "int option"
  no_dispatch_key :: "string option"

section \<open>Idempotency records\<close>

datatype idempo_status = IdInFlight | IdSucceeded | IdFailed

record idempo_record =
  ir_key :: string
  ir_tenant :: tenant_id
  ir_hash :: string
  ir_status :: idempo_status
  ir_result_digest :: "string option"
  ir_last_error :: "string option"
  ir_ttl_ms :: "64 word"
  ir_created_at :: int
  ir_updated_at :: int

section \<open>Sagas\<close>

datatype saga_state =
  SagaRunning | SagaCompensating | SagaCompleted | SagaFailed | SagaCancelled | SagaPaused

datatype step_state =
  StepReady | StepInFlight | StepSucceeded | StepFailed | StepCompensated | StepSkipped

record saga_step_def =
  sd_name :: string
  sd_action_uri :: string
  sd_compensate_uri :: "string option"
  sd_idempotent :: bool
  sd_timeout_ms :: "64 word"
  sd_retry :: retry_policy
  sd_concurrency_tag :: "string option"

record saga_definition =
  sdef_name :: string
  sdef_steps :: "saga_step_def list"

record saga_step_state =
  ss_def :: saga_step_def
  ss_state :: step_state
  ss_attempts :: "32 word"
  ss_last_error :: "string option"
  ss_started_at :: "int option"
  ss_completed_at :: "int option"

definition saga_step_new :: "saga_step_def \<Rightarrow> saga_step_state" where
  "saga_step_new d =
     \<lparr>ss_def = d, ss_state = StepReady, ss_attempts = 0, ss_last_error = None,
      ss_started_at = None, ss_completed_at = None\<rparr>"

record saga_instance =
  si_id :: id
  si_tenant :: tenant_id
  si_state :: saga_state
  si_def_name :: string
  si_steps :: "saga_step_state list"
  si_cursor :: nat
  si_created_at :: int
  si_updated_at :: int
  si_timeout_at :: "int option"

section \<open>Dead letters\<close>

datatype dead_kind = DeadOutbox | DeadSaga

record dead_letter_ref =
  dr_kind :: dead_kind
  dr_id :: id

datatype dead_letter_payload =
    PayloadOutbox outbox_message
  | PayloadSaga saga_instance

record dead_letter =
  dl_reference :: dead_letter_ref
  dl_tenant :: tenant_id
  dl_error :: "string option"
  dl_occurred_at :: int
  dl_payload :: dead_letter_payload

definition dl_kind :: "dead_letter \<Rightarrow> dead_kind" where
  "dl_kind l = dr_kind (dl_reference l)"

section \<open>Configuration\<close>

record backoff_config =
  bc_base_ms :: "64 word"
  bc_factor :: f64
  bc_jitter :: f64
  bc_cap_ms :: "64 word"

record budget_config =
  max_inflight :: "32 word option"
  max_dispatch_per_window :: "32 word option"
  window_seconds :: "64 word option"

record outbox_config =
  oc_lease_ms :: int
  oc_batch :: nat
  oc_max_attempts :: "32 word"
  oc_backoff :: backoff_config
  oc_group_by_dispatch_key :: bool
  oc_prefetch_multiplier :: nat
  oc_budget :: budget_config

record idempotency_config =
  default_ttl_ms :: "64 word"

record saga_config =
  sc_heartbeat_ms :: int
  sc_default_retry :: backoff_config

record dead_letter_config =
  retention_ms :: "64 word"

record worker_config =
  enable_dispatcher :: bool
  dispatcher_interval_ms :: "64 word"
  dead_letter_interval_ms :: "64 word"
  dead_letter_retention_ms :: "64 word option"

record tx_config =
  tc_outbox :: outbox_config
  tc_idempotency :: idempotency_config
  tc_saga :: saga_config
  tc_dead_letter :: dead_letter_config
  tc_worker :: worker_config

definition backoff_config_default :: backoff_config where
  "backoff_config_default =
     \<lparr>bc_base_ms = 500, bc_factor = 0x4000000000000000, bc_jitter = 0x3FD3333333333333,
      bc_cap_ms = 300000\<rparr>"

definition retry_policy_of_backoff :: "backoff_config \<Rightarrow> retry_policy" where
  "retry_policy_of_backoff c =
     \<lparr>rp_max_attempts = - 1, rp_base_ms = bc_base_ms c, rp_factor = bc_factor c,
      rp_jitter = bc_jitter c, rp_cap_ms = bc_cap_ms c\<rparr>"

definition into_retry_policy_with_attempts :: "backoff_config \<Rightarrow> 32 word \<Rightarrow> retry_policy" where
  "into_retry_policy_with_attempts c n = (retry_policy_of_backoff c)\<lparr>rp_max_attempts := n\<rparr>"

definition outbox_retry_policy :: "outbox_config \<Rightarrow> retry_policy" where
  "outbox_retry_policy c = into_retry_policy_with_attempts (oc_backoff c) (oc_max_attempts c)"

definition budget_config_default :: budget_config where
  "budget_config_default =
     \<lparr>max_inflight = None, max_dispatch_per_window = None, window_seconds = Some 1\<rparr>"

definition outbox_config_default :: outbox_config where
  "outbox_config_default =
     \<lparr>oc_lease_ms = 15000, oc_batch = 64, oc_max_attempts = 12,
      oc_backoff = backoff_config_default, oc_group_by_dispatch_key = True,
      oc_prefetch_multiplier = 4, oc_budget = budget_config_default\<rparr>"

definition saga_config_default :: saga_config where
  "saga_config_default =
     \<lparr>sc_heartbeat_ms = 5000,
      sc_default_retry =
        \<lparr>bc_base_ms = 1000, bc_factor = 0x4000000000000000, bc_jitter = 0x3FC999999999999A,
         bc_cap_ms = 60000\<rparr>\<rparr>"

definition worker_config_default :: worker_config where
  "worker_config_default =
     \<lparr>enable_dispatcher = True, dispatcher_interval_ms = 500,
      dead_letter_interval_ms = 60000, dead_letter_retention_ms = None\<rparr>"

definition tx_config_default :: tx_config where
  "tx_config_default =
     \<lparr>tc_outbox = outbox_config_default,
      tc_idempotency = \<lparr>default_ttl_ms = 86400000\<rparr>,
      tc_saga = saga_config_default,
      tc_dead_letter = \<lparr>retention_ms = 7 * 24 * 60 * 60 * 1000\<rparr>,
      tc_worker = worker_config_default\<rparr>"

end
