(* ===== verification/TxOutbox.thy ===== *)
theory TxOutbox
  imports TxModel
begin

text \<open>
  The outbox of \<open>sb-tx\<close>: message selection (\<open>outbox.rs\<close>,
  \<open>select_messages\<close>), the in-memory store (\<open>memory/outbox_store.rs\<close>)
  and the life cycle of a message as a step relation over the store's operations.
  Readings of \<open>now_ms()\<close> are arguments.  The store is a map keyed by
  (tenant, id); an operation that walks it takes the iteration order \<open>ks\<close>.
\<close>

section \<open>Building and selecting messages\<close>

definition build_outbox_message :: "int \<Rightarrow> int \<Rightarrow> new_outbox_message \<Rightarrow> outbox_message" where
  "build_outbox_message now1 now2 n =
     \<lparr>om_id = no_id n, om_tenant = no_tenant n, om_envelope_id = no_envelope_id n,
      om_topic = no_topic n, om_payload = no_payload n, om_created_at = now1,
      om_not_before = (case no_not_before n of Some t \<Rightarrow> t | None \<Rightarrow> now2),
      om_attempts = 0, om_status = Pending, om_last_error = None,
      om_dispatch_key = no_dispatch_key n, om_lease_until = None, om_worker = None\<rparr>"

definition build_dead_letter :: "int \<Rightarrow> outbox_message \<Rightarrow> string option \<Rightarrow> dead_letter" where
  "build_dead_letter now m err =
     \<lparr>dl_reference = \<lparr>dr_kind = DeadOutbox, dr_id = om_id m\<rparr>, dl_tenant = om_tenant m,
      dl_error = err, dl_occurred_at = now, dl_payload = PayloadOutbox m\<rparr>"

fun select_loop ::
  "tenant_id \<Rightarrow> int \<Rightarrow> nat \<Rightarrow> string \<Rightarrow> bool \<Rightarrow> outbox_message list \<Rightarrow> id list \<Rightarrow> string set \<Rightarrow> id list"
  where
  "select_loop tenant now batch worker grp [] selected seen = selected"
| "select_loop tenant now batch worker grp (msg # rest) selected seen =
     (if om_tenant msg \<noteq> tenant then
        select_loop tenant now batch worker grp rest selected seen
      else if om_status msg = Done \<or> om_status msg = Dead then
        select_loop tenant now batch worker grp rest selected seen
      else if (case om_lease_until msg of
                 Some until \<Rightarrow> until > now \<and> om_worker msg \<noteq> Some worker | None \<Rightarrow> False) then
        select_loop tenant now batch worker grp rest selected seen
      else if om_not_before msg > now then
        select_loop tenant now batch worker grp rest selected seen
      else if grp \<and> (case om_dispatch_key msg of Some k \<Rightarrow> k \<in> seen | None \<Rightarrow> False) then
        select_loop tenant now batch worker grp rest selected seen
      else
        let seen' = (if grp then
                       (case om_dispatch_key msg of Some k \<Rightarrow> insert k seen | None \<Rightarrow> seen)
                     else seen);
            selected' = selected @ [om_id msg]
        in if length selected' \<ge> batch then selected'
           else select_loop tenant now batch worker grp rest selected' seen')"

definition select_messages ::
  "outbox_message list \<Rightarrow> tenant_id \<Rightarrow> int \<Rightarrow> nat \<Rightarrow> string \<Rightarrow> bool \<Rightarrow> id list" where
  "select_messages all tenant now batch worker grp =
     select_loop tenant now batch worker grp all [] {}"

text \<open>What makes a message available to a worker at time \<open>now\<close>.\<close>

definition eligible :: "tenant_id \<Rightarrow> int \<Rightarrow> string \<Rightarrow> outbox_message \<Rightarrow> bool" where
  "eligible tenant now worker m \<longleftrightarrow>
     om_tenant m = tenant \<and> \<not> status_is_terminal (om_status m) \<and> om_not_before m \<le> now \<and>
     (case om_lease_until m of Some until \<Rightarrow> until \<le> now \<or> om_worker m = Some worker | None \<Rightarrow> True)"

lemma terminal_iff [simp]: "status_is_terminal s \<longleftrightarrow> s = Done \<or> s = Dead"
  by (cases s) (simp_all add: status_is_terminal_def)

text \<open>The loop as a fold over the eligible messages only.\<close>

lemma select_loop_skip:
  "\<not> eligible tenant now worker msg \<Longrightarrow>
   select_loop tenant now batch worker grp (msg # rest) selected seen
     = select_loop tenant now batch worker grp rest selected seen"
  by (auto simp: eligible_def split: option.splits)

lemma select_loop_take:
  "eligible tenant now worker msg \<Longrightarrow>
   select_loop tenant now batch worker grp (msg # rest) selected seen =
     (if grp \<and> (\<exists>k\<in>seen. om_dispatch_key msg = Some k) then
        select_loop tenant now batch worker grp rest selected seen
      else if Suc (length selected) \<ge> batch then selected @ [om_id msg]
      else select_loop tenant now batch worker grp rest (selected @ [om_id msg])
             (if grp then seen \<union> set_option (om_dispatch_key msg) else seen))"
  by (auto simp: eligible_def Let_def split: option.splits)

lemma select_loop_sublist:
  "\<exists>ms. select_loop tenant now batch worker grp all selected seen = selected @ map om_id ms
        \<and> subseq ms all \<and> list_all (eligible tenant now worker) ms
        \<and> (grp \<longrightarrow> distinct (List.map_filter om_dispatch_key ms)
              \<and> set (List.map_filter om_dispatch_key ms) \<inter> seen = {})"
proof (induction all arbitrary: selected seen)
  case Nil
  show ?case
    by (rule exI[of _ "[]"]) (simp add: List.map_filter_simps)
next
  case (Cons m all)
  let ?go = "select_loop tenant now batch worker grp"
  have skip: ?case if "?go (m # all) selected seen = ?go all selected seen"
    using Cons.IH[of selected seen] that by (auto intro: list_emb_Cons)
  show ?case
  proof (cases "eligible tenant now worker m \<and>
      \<not> (grp \<and> (\<exists>k\<in>seen. om_dispatch_key m = Some k))")
    case False
    then show ?thesis
      by (cases "eligible tenant now worker m"; intro skip)
        (auto simp: select_loop_take select_loop_skip simp del: select_loop.simps)
  next
    case True
    let ?seen = "if grp then seen \<union> set_option (om_dispatch_key m) else seen"
    obtain ms where ms: "?go all (selected @ [om_id m]) ?seen = (selected @ [om_id m]) @ map om_id ms"
      "subseq ms all" "list_all (eligible tenant now worker) ms"
      "grp \<longrightarrow> distinct (List.map_filter om_dispatch_key ms)
              \<and> set (List.map_filter om_dispatch_key ms) \<inter> ?seen = {}"
      using Cons.IH[of "selected @ [om_id m]" ?seen] by blast
    show ?thesis
    proof (cases "Suc (length selected) \<ge> batch")
      case True
      with \<open>_ \<and> _\<close> show ?thesis
        by (intro exI[of _ "[m]"])
          (auto simp: select_loop_take List.map_filter_simps simp del: select_loop.simps
            split: option.splits)
    next
      case False
      with \<open>_ \<and> _\<close> ms show ?thesis
        by (intro exI[of _ "m # ms"])
          (auto simp: select_loop_take List.map_filter_simps simp del: select_loop.simps
            split: option.splits)
    qed
  qed
qed

lemma select_loop_bound:
  "length selected < max 1 batch \<Longrightarrow>
   length (select_loop tenant now batch worker grp all selected seen) \<le> max 1 batch"
proof (induction all arbitrary: selected seen)
  case (Cons m all)
  then show ?case
    by (cases "eligible tenant now worker m")
      (auto simp: select_loop_take select_loop_skip simp del: select_loop.simps)
qed simp

text \<open>Without grouping a short answer has left no eligible message behind.\<close>

lemma select_loop_complete:
  "length (select_loop tenant now batch worker False all selected seen) < batch \<Longrightarrow>
   select_loop tenant now batch worker False all selected seen
     = selected @ map om_id (filter (eligible tenant now worker) all)"
proof (induction all arbitrary: selected seen)
  case (Cons m all)
  then show ?case
    using Cons.IH[of "selected @ [om_id m]" seen]
    by (cases "eligible tenant now worker m")
      (auto simp: select_loop_take select_loop_skip simp del: select_loop.simps split: if_splits)
qed simp

text \<open>Where a message is eligible, something is selected.\<close>

lemma select_loop_nonempty:
  assumes "m \<in> set all" "eligible tenant now worker m"
  shows "select_loop tenant now batch worker grp all [] {} \<noteq> []"
  using assms(1)
proof (induction all)
  case (Cons m' all)
  have keeps: "select_loop tenant now batch worker grp all [i] seen \<noteq> []" for i seen
    using select_loop_sublist[of tenant now batch worker grp all "[i]" seen] by auto
  show ?case
  proof (cases "eligible tenant now worker m'")
    case True
    then show ?thesis
      using keeps by (auto simp: select_loop_take simp del: select_loop.simps)
  next
    case False
    with Cons assms(2) show ?thesis
      by (auto simp: select_loop_skip simp del: select_loop.simps)
  qed
qed simp

end
