(* ===== verification/TxOutboxStore.thy ===== *)
theory TxOutboxStore
  imports TxOutbox
begin

text \<open>
  \<open>InMemoryOutboxStore\<close> (\<open>memory/outbox_store.rs\<close>): every operation of the
  \<open>OutboxStore\<close> trait as a function on the map the lock guards, what the operations
  keep of the store's shape, and what a lease batch promises.
\<close>

type_synonym outbox = "tenant_id \<times> id \<Rightarrow> outbox_message option"

section \<open>Operations\<close>

definition outbox_status_of :: "outbox \<Rightarrow> string \<Rightarrow> string \<Rightarrow> outbox_status option" where
  "outbox_status_of s tenant i = map_option om_status (s (tenant, i))"

definition outbox_enqueue ::
  "int \<Rightarrow> int \<Rightarrow> new_outbox_message \<Rightarrow> outbox \<Rightarrow> outbox \<times> outbox_message tx_result" where
  "outbox_enqueue now1 now2 n s =
     (let stored = build_outbox_message now1 now2 n;
          key = (om_tenant stored, om_id stored)
      in if s key \<noteq> None then (s, Err (tx_conflict ''outbox id already exists''))
         else (s(key \<mapsto> stored), Ok stored))"

definition mark_leased :: "int \<Rightarrow> string \<Rightarrow> outbox_message \<Rightarrow> outbox_message" where
  "mark_leased until worker m =
     m\<lparr>om_status := Leased, om_worker := Some worker, om_lease_until := Some until\<rparr>"

fun lease_ids ::
  "tenant_id \<Rightarrow> int \<Rightarrow> string \<Rightarrow> id list \<Rightarrow> outbox \<Rightarrow> outbox \<times> outbox_message list" where
  "lease_ids tenant until worker [] s = (s, [])"
| "lease_ids tenant until worker (i # ids) s =
     (case s (tenant, i) of
        Some m \<Rightarrow>
          (let m' = mark_leased until worker m;
               (s', ms) = lease_ids tenant until worker ids (s((tenant, i) \<mapsto> m'))
           in (s', m' # ms))
      | None \<Rightarrow> lease_ids tenant until worker ids s)"

definition outbox_lease_batch ::
  "(tenant_id \<times> id) list \<Rightarrow> tenant_id \<Rightarrow> int \<Rightarrow> int \<Rightarrow> nat \<Rightarrow> string \<Rightarrow> bool \<Rightarrow> outbox
     \<Rightarrow> outbox \<times> outbox_message list tx_result" where
  "outbox_lease_batch ks tenant now lease_ms batch worker grp s =
     (let snapshot = map_values ks s;
          ids = select_messages snapshot tenant now batch worker grp;
          (s', leased) = lease_ids tenant (i64_add now lease_ms) worker ids s
      in (s', Ok leased))"

definition with_message ::
  "tenant_id \<Rightarrow> id \<Rightarrow> (outbox_message \<Rightarrow> outbox \<times> 'a tx_result) \<Rightarrow> outbox \<Rightarrow> outbox \<times> 'a tx_result"
  where
  "with_message tenant i f s =
     (case s (tenant, i) of
        None \<Rightarrow> (s, Err (tx_unknown ''outbox message missing''))
      | Some m \<Rightarrow> f m)"

definition mark_done :: "outbox_message \<Rightarrow> outbox_message" where
  "mark_done m =
     m\<lparr>om_status := Done, om_worker := None, om_lease_until := None, om_last_error := None\<rparr>"

definition outbox_ack_done :: "tenant_id \<Rightarrow> id \<Rightarrow> outbox \<Rightarrow> outbox \<times> unit tx_result" where
  "outbox_ack_done tenant i s =
     with_message tenant i (\<lambda>m. (s((tenant, i) \<mapsto> mark_done m), Ok ())) s"

definition mark_backoff :: "int \<Rightarrow> string option \<Rightarrow> outbox_message \<Rightarrow> outbox_message" where
  "mark_backoff not_before err m =
     m\<lparr>om_status := Pending, om_not_before := not_before, om_worker := None,
       om_lease_until := None, om_last_error := err, om_attempts := sat_add (om_attempts m) 1\<rparr>"

definition outbox_nack_backoff ::
  "tenant_id \<Rightarrow> id \<Rightarrow> int \<Rightarrow> string option \<Rightarrow> outbox \<Rightarrow> outbox \<times> unit tx_result" where
  "outbox_nack_backoff tenant i not_before err s =
     with_message tenant i (\<lambda>m. (s((tenant, i) \<mapsto> mark_backoff not_before err m), Ok ())) s"

definition mark_dead :: "string option \<Rightarrow> outbox_message \<Rightarrow> outbox_message" where
  "mark_dead err m =
     m\<lparr>om_status := Dead, om_worker := None, om_lease_until := None, om_last_error := err,
       om_attempts := sat_add (om_attempts m) 1\<rparr>"

definition outbox_dead_letter ::
  "int \<Rightarrow> tenant_id \<Rightarrow> id \<Rightarrow> string option \<Rightarrow> outbox \<Rightarrow> outbox \<times> dead_letter tx_result" where
  "outbox_dead_letter now tenant i err s =
     with_message tenant i
       (\<lambda>m. (s((tenant, i) \<mapsto> mark_dead err m), Ok (build_dead_letter now (mark_dead err m) err))) s"

definition outbox_heartbeat ::
  "tenant_id \<Rightarrow> id \<Rightarrow> int \<Rightarrow> string \<Rightarrow> outbox \<Rightarrow> outbox \<times> unit tx_result" where
  "outbox_heartbeat tenant i until worker s =
     with_message tenant i
       (\<lambda>m. if om_worker m \<noteq> Some worker
            then (s, Err (tx_conflict ''lease owned by another worker''))
            else (s((tenant, i) \<mapsto> m\<lparr>om_lease_until := Some until\<rparr>), Ok ())) s"

definition mark_revived :: "int \<Rightarrow> outbox_message \<Rightarrow> outbox_message" where
  "mark_revived at m =
     m\<lparr>om_status := Pending, om_worker := None, om_lease_until := None, om_last_error := None,
       om_not_before := at, om_attempts := 0\<rparr>"

definition outbox_revive :: "tenant_id \<Rightarrow> id \<Rightarrow> int \<Rightarrow> outbox \<Rightarrow> outbox \<times> unit tx_result" where
  "outbox_revive tenant i at s =
     with_message tenant i (\<lambda>m. (s((tenant, i) \<mapsto> mark_revived at m), Ok ())) s"

definition outbox_get :: "tenant_id \<Rightarrow> id \<Rightarrow> outbox \<Rightarrow> outbox_message option tx_result" where
  "outbox_get tenant i s = Ok (s (tenant, i))"

definition outbox_insert_raw :: "outbox_message \<Rightarrow> outbox \<Rightarrow> outbox" where
  "outbox_insert_raw m s = s((om_tenant m, om_id m) \<mapsto> m)"

lemmas mark_defs = mark_leased_def mark_done_def mark_backoff_def mark_dead_def mark_revived_def

lemmas outbox_op_defs =
  outbox_enqueue_def outbox_ack_done_def outbox_nack_backoff_def outbox_dead_letter_def
  outbox_heartbeat_def outbox_revive_def with_message_def

lemma mark_identity [simp]:
  "om_id (mark_leased u w m) = om_id m" "om_tenant (mark_leased u w m) = om_tenant m"
  "om_id (mark_done m) = om_id m" "om_tenant (mark_done m) = om_tenant m"
  "om_id (mark_backoff t e m) = om_id m" "om_tenant (mark_backoff t e m) = om_tenant m"
  "om_id (mark_dead e m) = om_id m" "om_tenant (mark_dead e m) = om_tenant m"
  "om_id (mark_revived t m) = om_id m" "om_tenant (mark_revived t m) = om_tenant m"
  by (simp_all add: mark_defs)

section \<open>The shape of the store\<close>

text \<open>
  A message is stored under its own key, and it carries a worker and a lease deadline
  exactly while it is leased.
\<close>

definition message_ok :: "outbox_message \<Rightarrow> bool" where
  "message_ok m \<longleftrightarrow>
     (om_worker m \<noteq> None \<longleftrightarrow> om_status m = Leased) \<and>
     (om_lease_until m \<noteq> None \<longleftrightarrow> om_status m = Leased)"

definition outbox_ok :: "outbox \<Rightarrow> bool" where
  "outbox_ok s \<longleftrightarrow>
     (\<forall>t i m. s (t, i) = Some m \<longrightarrow> om_tenant m = t \<and> om_id m = i \<and> message_ok m)"

lemma outbox_okD:
  "outbox_ok s \<Longrightarrow> s (t, i) = Some m \<Longrightarrow> om_tenant m = t \<and> om_id m = i \<and> message_ok m"
  by (simp add: outbox_ok_def)

lemma outbox_ok_empty [simp, wf_intros]: "outbox_ok Map.empty"
  by (simp add: outbox_ok_def)

lemma outbox_ok_upd [wf_intros]:
  "outbox_ok s \<Longrightarrow> om_tenant m = t \<Longrightarrow> om_id m = i \<Longrightarrow> message_ok m \<Longrightarrow> outbox_ok (s((t, i) \<mapsto> m))"
  by (simp add: outbox_ok_def)

lemma message_ok_marks [simp, wf_intros]:
  "message_ok (mark_leased u w m)" "message_ok (mark_done m)" "message_ok (mark_backoff t e m)"
  "message_ok (mark_dead e m)" "message_ok (mark_revived t m)"
  "message_ok (build_outbox_message a b n)"
  by (simp_all add: message_ok_def mark_defs build_outbox_message_def)

lemma lease_ids_ok: "outbox_ok s \<Longrightarrow> outbox_ok (fst (lease_ids t u w ids s))"
proof (induction ids arbitrary: s)
  case (Cons i ids)
  show ?case
  proof (cases "s (t, i)")
    case (Some m)
    with Cons.prems have "outbox_ok (s((t, i) \<mapsto> mark_leased u w m))"
      by (auto intro!: outbox_ok_upd dest: outbox_okD)
    from Cons.IH[of "s((t, i) \<mapsto> mark_leased u w m)", OF this] Some show ?thesis
      by (simp add: Let_def split_beta del: fun_upd_apply)
  qed (use Cons in simp)
qed simp

lemma outbox_ok_ops [wf_intros]:
  assumes "outbox_ok s"
  shows "outbox_ok (fst (outbox_enqueue a b n s))"
    and "outbox_ok (fst (outbox_lease_batch ks t now lms batch w grp s))"
    and "outbox_ok (fst (outbox_ack_done t i s))"
    and "outbox_ok (fst (outbox_nack_backoff t i nb err s))"
    and "outbox_ok (fst (outbox_dead_letter now t i err s))"
    and "outbox_ok (fst (outbox_heartbeat t i u w s))"
    and "outbox_ok (fst (outbox_revive t i at s))"
proof -
  show "outbox_ok (fst (outbox_enqueue a b n s))"
    using assms by (auto simp: outbox_enqueue_def Let_def intro!: wf_intros)
  show "outbox_ok (fst (outbox_lease_batch ks t now lms batch w grp s))"
    using assms by (auto simp: outbox_lease_batch_def split_beta Let_def intro: lease_ids_ok)
  show "outbox_ok (fst (outbox_heartbeat t i u w s))"
    using assms by (auto simp: outbox_heartbeat_def with_message_def message_ok_def
        intro!: outbox_ok_upd dest: outbox_okD split: option.splits)
qed (use assms in \<open>auto simp: outbox_op_defs intro!: outbox_ok_upd dest: outbox_okD
      split: option.splits\<close>)

section \<open>What a lease batch returns\<close>

lemma lease_ids_spec:
  assumes "distinct ids" "\<forall>i\<in>set ids. s (t, i) \<noteq> None"
  shows "snd (lease_ids t u w ids s) = map (\<lambda>i. mark_leased u w (the (s (t, i)))) ids"
    and "fst (lease_ids t u w ids s) =
      (\<lambda>k. if fst k = t \<and> snd k \<in> set ids then map_option (mark_leased u w) (s k) else s k)"
proof -
  have "snd (lease_ids t u w ids s) = map (\<lambda>i. mark_leased u w (the (s (t, i)))) ids \<and>
    fst (lease_ids t u w ids s) =
      (\<lambda>k. if fst k = t \<and> snd k \<in> set ids then map_option (mark_leased u w) (s k) else s k)"
    using assms
  proof (induction ids arbitrary: s)
    case (Cons i ids)
    then obtain m where m: "s (t, i) = Some m" by auto
    have "\<forall>j\<in>set ids. (s((t, i) \<mapsto> mark_leased u w m)) (t, j) \<noteq> None" "distinct ids"
      using Cons.prems by auto
    note ih = Cons.IH[of "s((t, i) \<mapsto> mark_leased u w m)", OF this(2,1)]
    have "map (\<lambda>j. mark_leased u w (the ((s((t, i) \<mapsto> mark_leased u w m)) (t, j)))) ids
        = map (\<lambda>j. mark_leased u w (the (s (t, j)))) ids"
      using Cons.prems(1) by (auto simp: fun_upd_def)
    then show ?case
      using Cons.prems(1) m ih
      by (simp add: Let_def split_beta del: fun_upd_apply) (auto simp: fun_eq_iff)
  qed (simp add: fun_eq_iff)
  then show "snd (lease_ids t u w ids s) = map (\<lambda>i. mark_leased u w (the (s (t, i)))) ids"
    and "fst (lease_ids t u w ids s) =
      (\<lambda>k. if fst k = t \<and> snd k \<in> set ids then map_option (mark_leased u w) (s k) else s k)"
    by blast+
qed

text \<open>The ids selected from a well-formed store, and the messages they name.\<close>

lemma snapshot_eligible_ids:
  assumes "outbox_ok s" "iter_order ks s" "subseq ms (map_values ks s)"
    "list_all (eligible t now w) ms"
  shows "distinct (map om_id ms)" and "\<forall>m\<in>set ms. s (t, om_id m) = Some m"
proof -
  have mem: "\<exists>k\<in>set ks. s k = Some m" if "m \<in> set ms" for m
    using subseq_set[OF assms(3)] that by (auto simp: map_values_member)
  then show get: "\<forall>m\<in>set ms. s (t, om_id m) = Some m"
    using assms(1,4) by (fastforce simp: list_all_iff eligible_def dest: outbox_okD)
  have "(om_tenant m, om_id m) = k" if "s k = Some m" for k m
    using assms(1) that by (cases k) (auto dest: outbox_okD)
  then have "distinct ms"
    by (intro subseq_distinct[OF assms(3)]
        map_values_distinct[OF assms(2), of "\<lambda>m. (om_tenant m, om_id m)"]) simp
  moreover have "inj_on om_id (set ms)"
    by (rule inj_onI) (metis get option.inject)
  ultimately show "distinct (map om_id ms)"
    by (simp add: distinct_map)
qed


definition lease_deadline :: "int \<Rightarrow> int \<Rightarrow> int" where
  "lease_deadline now lease_ms = i64_add now lease_ms"

text \<open>
  The outcome of a batch: a choice \<open>sel\<close> of eligible stored messages, not empty where one is
  eligible, all of them marked and returned, and nothing else touched.
\<close>

definition lease_choice ::
  "tenant_id \<Rightarrow> int \<Rightarrow> nat \<Rightarrow> string \<Rightarrow> bool \<Rightarrow> outbox \<Rightarrow> outbox_message list \<Rightarrow> bool" where
  "lease_choice t now batch w grp s sel \<longleftrightarrow>
     (\<forall>m\<in>set sel. s (t, om_id m) = Some m \<and> eligible t now w m) \<and>
     distinct (map om_id sel) \<and> length sel \<le> max 1 batch \<and>
     (grp \<longrightarrow> distinct (List.map_filter om_dispatch_key sel)) \<and>
     (sel = [] \<longrightarrow> (\<forall>i m. s (t, i) = Some m \<longrightarrow> \<not> eligible t now w m))"

definition lease_all :: "tenant_id \<Rightarrow> int \<Rightarrow> string \<Rightarrow> outbox_message list \<Rightarrow> outbox \<Rightarrow> outbox" where
  "lease_all t until w sel s =
     (\<lambda>k. if fst k = t \<and> snd k \<in> om_id ` set sel
          then map_option (mark_leased until w) (s k) else s k)"

lemma lease_batch_spec:
  assumes "outbox_ok s" "iter_order ks s"
    and "outbox_lease_batch ks t now lease_ms batch w grp s = (s', r)"
  shows "\<exists>sel. r = Ok (map (mark_leased (lease_deadline now lease_ms) w) sel) \<and>
     lease_choice t now batch w grp s sel \<and> s' = lease_all t (lease_deadline now lease_ms) w sel s"
proof -
  let ?u = "lease_deadline now lease_ms"
  let ?ids = "select_messages (map_values ks s) t now batch w grp"
  obtain sel where sel: "?ids = map om_id sel" "subseq sel (map_values ks s)"
      "list_all (eligible t now w) sel" "grp \<longrightarrow> distinct (List.map_filter om_dispatch_key sel)"
    using select_loop_sublist[of t now batch w grp "map_values ks s" "[]" "{}"]
    by (auto simp: select_messages_def)
  note ids = snapshot_eligible_ids[OF assms(1,2) sel(2,3)]
  have "length sel \<le> max 1 batch"
    using select_loop_bound[of "[]" batch t now w grp "map_values ks s" "{}"] sel(1)
    by (simp add: select_messages_def)
  moreover have "\<not> eligible t now w m" if "sel = []" "s (t, i) = Some m" for i m
  proof
    assume e: "eligible t now w m"
    have "m \<in> set (map_values ks s)"
      using assms(2) that(2) by (auto simp: map_values_member iter_order_def)
    from select_loop_nonempty[OF this e, of batch grp] sel(1) that(1) show False
      by (simp add: select_messages_def)
  qed
  ultimately have choice: "lease_choice t now batch w grp s sel"
    using ids sel(3,4) by (simp add: lease_choice_def list_all_iff)
  have pres: "\<forall>i\<in>set ?ids. s (t, i) \<noteq> None" and d: "distinct ?ids"
    using ids by (auto simp: sel(1))
  have same: "map (\<lambda>i. mark_leased ?u w (the (s (t, i)))) (map om_id sel) = map (mark_leased ?u w) sel"
    using ids(2) by simp
  have "r = Ok (map (mark_leased ?u w) sel) \<and> s' = lease_all t ?u w sel s"
    using assms(3) lease_ids_spec[OF d pres, of ?u w] same
    by (auto simp: outbox_lease_batch_def Let_def split_beta lease_deadline_def sel(1) lease_all_def)
  with choice show ?thesis
    by blast
qed

lemma lease_choice_key:
  "lease_choice t now batch w grp s sel \<Longrightarrow> i \<in> om_id ` set sel \<Longrightarrow>
   \<exists>m. s (t, i) = Some m \<and> eligible t now w m \<and> m \<in> set sel"
  by (auto simp: lease_choice_def)

lemma lease_all_frame:
  "lease_choice t now batch w grp s sel \<Longrightarrow> s (t', i) = Some m \<Longrightarrow> \<not> eligible t now w m \<Longrightarrow>
   lease_all t u w sel s (t', i) = Some m"
  by (auto simp: lease_all_def dest: lease_choice_key)

text \<open>A message another worker holds at \<open>now\<close> is neither returned nor changed.\<close>

lemma held_not_eligible:
  "om_lease_until m = Some until \<Longrightarrow> now < until \<Longrightarrow> om_worker m \<noteq> Some w \<Longrightarrow> \<not> eligible t now w m"
  by (simp add: eligible_def)

lemma lease_skips:
  assumes "outbox_ok s" "iter_order ks s"
    and "outbox_lease_batch ks t now lease_ms batch w grp s = (s', Ok ms)"
    and "s (t', i) = Some m" "\<not> eligible t now w m"
  shows "s' (t', i) = Some m" and "\<not> (\<exists>m'\<in>set ms. om_tenant m' = t' \<and> om_id m' = i)"
proof -
  from lease_batch_spec[OF assms(1-3)] obtain sel where
    sel: "ms = map (mark_leased (lease_deadline now lease_ms) w) sel"
      "lease_choice t now batch w grp s sel" "s' = lease_all t (lease_deadline now lease_ms) w sel s"
    by auto
  show "s' (t', i) = Some m"
    using lease_all_frame[OF sel(2) assms(4,5)] by (simp add: sel(3))
  show "\<not> (\<exists>m'\<in>set ms. om_tenant m' = t' \<and> om_id m' = i)"
    using sel(2) assms(4,5) by (auto simp: sel(1) lease_choice_def eligible_def)
qed

text \<open>After a batch every returned message is stored as leased by the caller.\<close>

lemma lease_batch_stored:
  assumes "outbox_ok s" "iter_order ks s"
    and "outbox_lease_batch ks t now lease_ms batch w grp s = (s', Ok ms)" and "m \<in> set ms"
  shows "s' (t, om_id m) = Some m" "om_tenant m = t" "om_status m = Leased"
    "om_worker m = Some w" "om_lease_until m = Some (lease_deadline now lease_ms)"
proof -
  from lease_batch_spec[OF assms(1-3)] obtain sel where
    sel: "ms = map (mark_leased (lease_deadline now lease_ms) w) sel"
      "lease_choice t now batch w grp s sel" "s' = lease_all t (lease_deadline now lease_ms) w sel s"
    by auto
  then obtain m0 where m0: "m0 \<in> set sel" "m = mark_leased (lease_deadline now lease_ms) w m0"
    using assms(4) by auto
  have "s (t, om_id m0) = Some m0" and t0: "om_tenant m0 = t"
    using sel(2) m0(1) by (auto simp: lease_choice_def eligible_def)
  with m0 show "s' (t, om_id m) = Some m"
    by (simp add: sel(3) lease_all_def)
  show "om_tenant m = t" "om_status m = Leased" "om_worker m = Some w"
    "om_lease_until m = Some (lease_deadline now lease_ms)"
    using t0 by (simp_all add: m0 mark_leased_def)
qed

section \<open>Properties\<close>

text \<open>
  A lease batch returns what it should.  On a well-formed store, every message it
  returns belongs to the tenant, was neither done nor dead, was due and free (or already the
  caller's); it is now stored as leased by the caller until the deadline.  No message comes
  twice, there are at most \<open>max 1 batch\<close> of them (a batch of 0 still takes one), with
  grouping no dispatch key comes twice, and every message not returned is left as it was.
\<close>

theorem lease_batch_sound:
  assumes "outbox_ok s" and "iter_order ks s"
    and "outbox_lease_batch ks t now lease_ms batch w grp s = (s', r)"
  shows "\<exists>ms. r = Ok ms \<and> distinct (map om_id ms) \<and> length ms \<le> max 1 batch \<and>
    (grp \<longrightarrow> distinct (List.map_filter om_dispatch_key ms)) \<and>
    (\<forall>m\<in>set ms. \<exists>m0. s (t, om_id m) = Some m0 \<and> eligible t now w m0 \<and>
       m = mark_leased (i64_add now lease_ms) w m0 \<and> s' (t, om_id m) = Some m) \<and>
    (\<forall>k. k \<notin> (\<lambda>m. (t, om_id m)) ` set ms \<longrightarrow> s' k = s k) \<and> outbox_ok s'"
proof -
  let ?u = "i64_add now lease_ms"
  obtain sel where sel: "r = Ok (map (mark_leased ?u w) sel)" "lease_choice t now batch w grp s sel"
    "s' = lease_all t ?u w sel s"
    using lease_batch_spec[OF assms] by (auto simp: lease_deadline_def)
  have "List.map_filter om_dispatch_key (map (mark_leased ?u w) sel)
      = List.map_filter om_dispatch_key sel"
    by (simp add: List.map_filter_def filter_map comp_def mark_leased_def)
  moreover have "outbox_ok s'"
    using outbox_ok_ops(2)[OF assms(1), of ks t now lease_ms batch w grp] assms(3) by simp
  ultimately show ?thesis
    using sel(2)
    by (intro exI[of _ "map (mark_leased ?u w) sel"])
      (auto simp: sel(1,3) lease_all_def lease_choice_def comp_def image_image)
qed

definition demo_message :: "id \<Rightarrow> outbox_message" where
  "demo_message i = build_outbox_message 1 1
     \<lparr>no_id = i, no_tenant = ''acme'', no_envelope_id = ''e'', no_topic = ''orders'',
      no_payload = JNull, no_not_before = None, no_dispatch_key = Some ''k''\<rparr>"

definition demo_outbox :: outbox where
  "demo_outbox = [(''acme'', ''m1'') \<mapsto> demo_message ''m1'', (''acme'', ''m2'') \<mapsto> demo_message ''m2'']"

lemma demo_outbox_ok:
  "outbox_ok demo_outbox" "iter_order [(''acme'', ''m1''), (''acme'', ''m2'')] demo_outbox"
  by (auto simp: demo_outbox_def demo_message_def outbox_ok_def build_outbox_message_def
      message_ok_def iter_order_def split: if_splits)

lemma demo_lease:
  "outbox_lease_batch [(''acme'', ''m1''), (''acme'', ''m2'')] ''acme'' 5 100 8 ''w1'' True demo_outbox
     = (demo_outbox((''acme'', ''m1'') \<mapsto> mark_leased 105 ''w1'' (demo_message ''m1'')),
        Ok [mark_leased 105 ''w1'' (demo_message ''m1'')])"
  "outbox_lease_batch [(''acme'', ''m1''), (''acme'', ''m2'')] ''acme'' 6 100 8 ''w2'' True
     (demo_outbox((''acme'', ''m1'') \<mapsto> mark_leased 105 ''w1'' (demo_message ''m1'')))
     = (demo_outbox((''acme'', ''m1'') \<mapsto> mark_leased 105 ''w1'' (demo_message ''m1''),
                    (''acme'', ''m2'') \<mapsto> mark_leased 106 ''w2'' (demo_message ''m2'')),
        Ok [mark_leased 106 ''w2'' (demo_message ''m2'')])"
  by (simp_all add: demo_outbox_def demo_message_def build_outbox_message_def outbox_lease_batch_def
      select_messages_def mark_leased_def i64_add_def i64_wrap_def Let_def)

theorem lease_batch_sound_witness:
  "\<exists>ms. Ok [mark_leased 105 ''w1'' (demo_message ''m1'')] = (Ok ms :: outbox_message list tx_result) \<and>
     distinct (List.map_filter om_dispatch_key ms)"
  using lease_batch_sound[OF demo_outbox_ok demo_lease(1)] by blast

text \<open>
  C17: No due message is overlooked.  Without grouping, a batch that comes back shorter than
  asked for has returned every eligible message of the tenant.
\<close>

theorem lease_batch_complete:
  assumes "outbox_ok s" and "iter_order ks s"
    and "outbox_lease_batch ks t now lease_ms batch w False s = (s', Ok ms)"
    and "length ms < batch"
  shows "s (t, i) = Some m \<Longrightarrow> eligible t now w m \<Longrightarrow> i \<in> om_id ` set ms"
proof -
  assume i: "s (t, i) = Some m" "eligible t now w m"
  let ?ids = "select_messages (map_values ks s) t now batch w False"
  obtain sel where sel: "?ids = map om_id sel" "subseq sel (map_values ks s)"
      "list_all (eligible t now w) sel"
    using select_loop_sublist[of t now batch w False "map_values ks s" "[]" "{}"]
    by (auto simp: select_messages_def)
  note ids = snapshot_eligible_ids[OF assms(1,2) sel(2,3)]
  have pres: "\<forall>i\<in>set ?ids. s (t, i) \<noteq> None" and d: "distinct ?ids"
    using ids by (auto simp: sel(1))
  have ms: "ms = map (\<lambda>i. mark_leased (i64_add now lease_ms) w (the (s (t, i)))) ?ids"
    using assms(3) lease_ids_spec(1)[OF d pres] by (auto simp: outbox_lease_batch_def split_beta Let_def)
  then have "?ids = map om_id (filter (eligible t now w) (map_values ks s))"
    using select_loop_complete[of t now batch w "map_values ks s" "[]" "{}"] assms(4)
    by (simp add: select_messages_def)
  moreover have "m \<in> set (map_values ks s)" "om_id m = i"
    using i assms(1,2) by (auto simp: map_values_ran ran_def dest: outbox_okD)
  ultimately have "i \<in> set ?ids"
    using i(2) by force
  moreover have "om_id ` set ms = set ?ids"
    using ids(2) by (auto simp: ms sel(1) image_image)
  ultimately show ?thesis
    by simp
qed

theorem lease_batch_complete_witness:
  "''m2'' \<in> om_id ` set (map (mark_leased 105 ''w1'') [demo_message ''m1'', demo_message ''m2''])"
  by (rule lease_batch_complete[OF demo_outbox_ok, where t = "''acme''" and now = 5
        and lease_ms = 100 and batch = 8 and w = "''w1''" and m = "demo_message ''m2''"])
    (simp_all add: demo_outbox_def demo_message_def build_outbox_message_def outbox_lease_batch_def
      select_messages_def mark_leased_def i64_add_def i64_wrap_def eligible_def Let_def)



end
