(* ===== verification/KeyedStore.thy ===== *)
theory KeyedStore
  imports Prelude
begin

text \<open>
  The contract every store of the platform shares: an operation names one key, and the
  records of all other keys survive it (\<open>keyed_store\<close>).  A store whose records
  satisfy a per-record invariant extends it (\<open>guarded_store\<close>).  The lemmas lift both
  laws from one operation to any sequence of them; the components interpret the locales
  on their own operations.
\<close>

locale keyed_store =
  fixes get :: "'s \<Rightarrow> 'k \<Rightarrow> 'v option"
    and step :: "'op \<Rightarrow> 's \<Rightarrow> 's"
    and key_of :: "'op \<Rightarrow> 'k"
  assumes frame: "key_of x \<noteq> k \<Longrightarrow> get (step x s) k = get s k"
begin

lemma run_frame: "k \<notin> key_of ` set xs \<Longrightarrow> get (fold step xs s) k = get s k"
  by (induction xs arbitrary: s) (auto simp: frame)

text \<open>Only the operations on a key matter for its record.\<close>

lemma last_touch:
  "k \<notin> key_of ` set ys \<Longrightarrow> get (fold step (xs @ x # ys) s) k = get (step x (fold step xs s)) k"
  by (simp add: run_frame)

end

locale guarded_store = keyed_store get step key_of
  for get :: "'s \<Rightarrow> 'k \<Rightarrow> 'v option" and step :: "'op \<Rightarrow> 's \<Rightarrow> 's" and key_of :: "'op \<Rightarrow> 'k" +
  fixes ok :: "'k \<Rightarrow> 'v \<Rightarrow> bool"
  assumes step_ok:
    "(\<And>v. get s (key_of x) = Some v \<Longrightarrow> ok (key_of x) v) \<Longrightarrow>
     get (step x s) (key_of x) = Some v' \<Longrightarrow> ok (key_of x) v'"
begin

lemma step_all_ok:
  assumes "\<forall>k v. get s k = Some v \<longrightarrow> ok k v"
  shows "\<forall>k v. get (step x s) k = Some v \<longrightarrow> ok k v"
proof (intro allI impI)
  fix k v assume v: "get (step x s) k = Some v"
  show "ok k v"
  proof (cases "k = key_of x")
    case True
    with v assms step_ok[of s x v] show ?thesis by auto
  next
    case False
    with v assms show ?thesis by (auto simp: frame)
  qed
qed

lemma run_ok:
  "\<forall>k v. get s k = Some v \<longrightarrow> ok k v \<Longrightarrow> \<forall>k v. get (fold step xs s) k = Some v \<longrightarrow> ok k v"
  by (induction xs arbitrary: s) (auto dest: step_all_ok[rule_format, rotated])

end

end
