(* ===== verification/TxIdempo.thy ===== *)
theory TxIdempo
  imports TxModel KeyedStore
begin

text \<open>
  The idempotency store of \<open>sb-tx\<close> (\<open>idempo.rs\<close>,
  \<open>memory/idempo_store.rs\<close>): claiming a key, finishing, failing, expiry.  Each
  operation reads the clock once; the reading is an argument.
\<close>

type_synonym idempo_store = "tenant_id \<times> string \<Rightarrow> idempo_record option"

definition build_record :: "int \<Rightarrow> tenant_id \<Rightarrow> string \<Rightarrow> string \<Rightarrow> 64 word \<Rightarrow> idempo_record" where
  "build_record now tenant key hash ttl =
     \<lparr>ir_key = key, ir_tenant = tenant, ir_hash = hash, ir_status = IdInFlight,
      ir_result_digest = None, ir_last_error = None, ir_ttl_ms = ttl, ir_created_at = now,
      ir_updated_at = now\<rparr>"

text \<open>\<open>now.saturating_sub(updated_at) as u64 > ttl_ms\<close>: a negative difference becomes huge.\<close>

definition idempo_expired :: "int \<Rightarrow> idempo_record \<Rightarrow> bool" where
  "idempo_expired now r \<longleftrightarrow>
     (word_of_int (i64_sat_sub now (ir_updated_at r)) :: 64 word) > ir_ttl_ms r"

definition drop_expired :: "int \<Rightarrow> tenant_id \<times> string \<Rightarrow> idempo_store \<Rightarrow> idempo_store" where
  "drop_expired now k s =
     (case s k of Some r \<Rightarrow> if idempo_expired now r then s(k := None) else s | None \<Rightarrow> s)"

definition check_and_put ::
  "int \<Rightarrow> tenant_id \<Rightarrow> string \<Rightarrow> string \<Rightarrow> 64 word \<Rightarrow> idempo_store
     \<Rightarrow> idempo_store \<times> string option tx_result" where
  "check_and_put now tenant key hash ttl s =
     (let k = (tenant, key); s = drop_expired now k s in
      case s k of
        Some r \<Rightarrow>
          if ir_hash r \<noteq> hash then (s, Err (tx_conflict ''idempotency key hash mismatch''))
          else (s, case ir_status r of
                     IdInFlight \<Rightarrow> Err idempo_busy
                   | IdSucceeded \<Rightarrow> Ok (ir_result_digest r)
                   | IdFailed \<Rightarrow> Err idempo_failed)
      | None \<Rightarrow> (s(k \<mapsto> build_record now tenant key hash ttl), Ok None))"

definition idempo_finish ::
  "int \<Rightarrow> tenant_id \<Rightarrow> string \<Rightarrow> string \<Rightarrow> idempo_store \<Rightarrow> idempo_store \<times> unit tx_result" where
  "idempo_finish now tenant key digest s =
     (case s (tenant, key) of
        None \<Rightarrow> (s, Err (tx_unknown ''idempotency record missing''))
      | Some r \<Rightarrow>
          (s((tenant, key) \<mapsto> r\<lparr>ir_status := IdSucceeded, ir_result_digest := Some digest,
                                 ir_last_error := None, ir_updated_at := now\<rparr>), Ok ()))"

definition idempo_fail ::
  "int \<Rightarrow> tenant_id \<Rightarrow> string \<Rightarrow> string option \<Rightarrow> idempo_store \<Rightarrow> idempo_store \<times> unit tx_result" where
  "idempo_fail now tenant key err s =
     (case s (tenant, key) of
        None \<Rightarrow> (s, Err (tx_unknown ''idempotency record missing''))
      | Some r \<Rightarrow>
          (s((tenant, key) \<mapsto> r\<lparr>ir_status := IdFailed, ir_last_error := err,
                                 ir_updated_at := now\<rparr>), Ok ()))"

definition idempo_get :: "tenant_id \<Rightarrow> string \<Rightarrow> idempo_store \<Rightarrow> idempo_record option tx_result" where
  "idempo_get tenant key s = Ok (s (tenant, key))"

section \<open>Runs of the store\<close>

datatype idempo_op =
    OpCheck int tenant_id string string "64 word"
  | OpFinish int tenant_id string string
  | OpFail int tenant_id string "string option"

fun idempo_step :: "idempo_op \<Rightarrow> idempo_store \<Rightarrow> idempo_store" where
  "idempo_step (OpCheck now t k h ttl) s = fst (check_and_put now t k h ttl s)"
| "idempo_step (OpFinish now t k d) s = fst (idempo_finish now t k d s)"
| "idempo_step (OpFail now t k e) s = fst (idempo_fail now t k e s)"

fun idempo_op_key :: "idempo_op \<Rightarrow> tenant_id \<times> string" where
  "idempo_op_key (OpCheck now t k h ttl) = (t, k)"
| "idempo_op_key (OpFinish now t k d) = (t, k)"
| "idempo_op_key (OpFail now t k e) = (t, k)"

fun idempo_op_time :: "idempo_op \<Rightarrow> int" where
  "idempo_op_time (OpCheck now t k h ttl) = now"
| "idempo_op_time (OpFinish now t k d) = now"
| "idempo_op_time (OpFail now t k e) = now"

lemmas idempo_defs = check_and_put_def idempo_finish_def idempo_fail_def drop_expired_def

text \<open>A record sits under its own key, and a success carries its digest.\<close>

definition idempo_record_ok :: "tenant_id \<times> string \<Rightarrow> idempo_record \<Rightarrow> bool" where
  "idempo_record_ok k r \<longleftrightarrow>
     (ir_tenant r, ir_key r) = k \<and> (ir_status r = IdSucceeded \<longrightarrow> ir_result_digest r \<noteq> None)"

interpretation idempo: guarded_store "\<lambda>s. s" idempo_step idempo_op_key idempo_record_ok
proof (unfold_locales, goal_cases)
  case (1 x k s)
  then show ?case
    by (cases x) (auto simp: idempo_defs Let_def split: option.splits if_splits)
next
  case (2 s x v)
  then show ?case
    by (cases x) (auto simp: idempo_defs Let_def idempo_record_ok_def build_record_def
        split: option.splits if_splits)
qed

section \<open>Expiry and the claim of a key\<close>

lemma not_expired:
  assumes "ir_updated_at r \<le> now" "now - ir_updated_at r \<le> uint (ir_ttl_ms r)"
  shows "\<not> idempo_expired now r"
proof -
  let ?d = "i64_sat_sub now (ir_updated_at r)"
  have d: "0 \<le> ?d" "?d \<le> uint (ir_ttl_ms r)"
    using assms by (auto simp: i64_sat_sub_def)
  then have "uint (word_of_int ?d :: 64 word) = ?d"
    using uint_lt2p[of "ir_ttl_ms r"] by (simp add: uint_word_of_int_eq take_bit_int_eq_self)
  with d show ?thesis
    by (simp add: idempo_expired_def word_less_def)
qed

text \<open>
  The state a claimed key is in for as long as its time to live has not run out since the
  last update: the record of the claim, with its hash and lifetime, never replaced.
\<close>

definition claimed :: "int \<Rightarrow> string \<Rightarrow> 64 word \<Rightarrow> idempo_record \<Rightarrow> bool" where
  "claimed t0 hash ttl r \<longleftrightarrow> t0 \<le> ir_updated_at r \<and> ir_hash r = hash \<and> ir_ttl_ms r = ttl
     \<and> (ir_status r = IdSucceeded \<longrightarrow> ir_result_digest r \<noteq> None)"

lemma claimed_live:
  "claimed t0 hash ttl r \<Longrightarrow> ir_updated_at r \<le> now \<Longrightarrow> now \<le> t0 + uint ttl \<Longrightarrow> \<not> idempo_expired now r"
  by (rule not_expired) (auto simp: claimed_def)

lemma idempo_step_claimed:
  assumes "s k = Some r" "claimed t0 hash ttl r" "ir_updated_at r \<le> idempo_op_time x"
    "idempo_op_time x \<le> t0 + uint ttl"
  shows "\<exists>r'. idempo_step x s k = Some r' \<and> claimed t0 hash ttl r'
           \<and> ir_updated_at r' \<le> idempo_op_time x"
proof (cases "idempo_op_key x = k")
  case True
  note live = claimed_live[OF assms(2-4)]
  show ?thesis
    using True assms live
    by (cases x) (auto simp: idempo_defs Let_def claimed_def split: option.splits)
next
  case False
  then show ?thesis
    using assms idempo.frame[of x k s] by auto
qed

lemma idempo_run_claimed:
  "s k = Some r \<Longrightarrow> claimed t0 hash ttl r \<Longrightarrow>
   sorted (ir_updated_at r # map idempo_op_time xs) \<Longrightarrow>
   \<forall>x\<in>set xs. idempo_op_time x \<le> t0 + uint ttl \<Longrightarrow>
   \<exists>r'. fold idempo_step xs s k = Some r' \<and> claimed t0 hash ttl r' \<and>
     ir_updated_at r' \<le> last (ir_updated_at r # map idempo_op_time xs)"
proof (induction xs arbitrary: s r)
  case (Cons x xs)
  from Cons.prems have "ir_updated_at r \<le> idempo_op_time x" "idempo_op_time x \<le> t0 + uint ttl"
    by auto
  from idempo_step_claimed[of s k r t0 hash ttl x, OF Cons.prems(1,2) this] obtain r' where
    r': "idempo_step x s k = Some r'" "claimed t0 hash ttl r'" "ir_updated_at r' \<le> idempo_op_time x"
    by blast
  have "sorted (ir_updated_at r' # map idempo_op_time xs)"
    using Cons.prems(3) r'(3) by auto
  from Cons.IH[of "idempo_step x s" r', OF r'(1,2) this] Cons.prems(4) obtain r'' where
    "fold idempo_step xs (idempo_step x s) k = Some r''" "claimed t0 hash ttl r''"
    "ir_updated_at r'' \<le> last (ir_updated_at r' # map idempo_op_time xs)"
    by auto
  with r'(3) show ?case
    by (auto split: if_splits)
qed simp

section \<open>Properties\<close>

lemma claim_fresh:
  assumes "check_and_put t0 t k h ttl s = (s1, Ok None)"
    and "\<And>r. s (t, k) = Some r \<Longrightarrow> idempo_record_ok (t, k) r"
  shows "s1 (t, k) = Some (build_record t0 t k h ttl)"
  using assms
  by (auto simp: check_and_put_def Let_def drop_expired_def idempo_record_ok_def
      split: option.splits if_splits idempo_status.splits)

lemma claimed_fresh: "claimed t0 h ttl (build_record t0 t k h ttl)"
  by (simp add: claimed_def build_record_def)

lemma check_live:
  assumes "s (t, k) = Some r" "\<not> idempo_expired now r"
  shows "check_and_put now t k h ttl s =
    (s, if ir_hash r \<noteq> h then Err (tx_conflict ''idempotency key hash mismatch'')
        else case ir_status r of
               IdInFlight \<Rightarrow> Err idempo_busy
             | IdSucceeded \<Rightarrow> Ok (ir_result_digest r)
             | IdFailed \<Rightarrow> Err idempo_failed)"
  using assms by (simp add: check_and_put_def drop_expired_def)



text \<open>
  C12: Replay.  After the owner of a key has finished with a digest, and as long as nobody
  touches that key, every check within the time to live answers with that digest when the
  request hash is the one claimed, and with a conflict when it is not; the store is not
  changed.  Operations on all other keys are irrelevant.
\<close>

theorem idempo_replay:
  assumes "s (t, k) = Some r" and "idempo_finish t1 t k d s = (s1, Ok ())"
    and "(t, k) \<notin> idempo_op_key ` set ops"
    and "t1 \<le> t2" and "t2 - t1 \<le> uint (ir_ttl_ms r)"
  shows "check_and_put t2 t k h ttl (fold idempo_step ops s1) =
    (fold idempo_step ops s1,
     if h = ir_hash r then Ok (Some d) else Err (tx_conflict ''idempotency key hash mismatch''))"
proof -
  let ?r1 = "r\<lparr>ir_status := IdSucceeded, ir_result_digest := Some d, ir_last_error := None,
      ir_updated_at := t1\<rparr>"
  have "fold idempo_step ops s1 (t, k) = Some ?r1"
    using assms(1-3) idempo.run_frame[of "(t, k)" ops s1] by (auto simp: idempo_finish_def)
  moreover have "\<not> idempo_expired t2 ?r1"
    using assms(4,5) by (intro not_expired) simp_all
  ultimately show ?thesis
    using check_live[of "fold idempo_step ops s1" t k ?r1 t2 h ttl] by auto
qed

theorem idempo_replay_witness:
  "snd (check_and_put 9 ''acme'' ''k'' ''h'' 60
     (fold idempo_step [OpCheck 8 ''acme'' ''k2'' ''z'' 60]
        [(''acme'', ''k'') \<mapsto> (build_record 1 ''acme'' ''k'' ''h'' 60)
           \<lparr>ir_status := IdSucceeded, ir_result_digest := Some ''d'', ir_last_error := None,
            ir_updated_at := 5\<rparr>])) = Ok (Some ''d'')"
  by (subst idempo_replay[of "[(''acme'', ''k'') \<mapsto> build_record 1 ''acme'' ''k'' ''h'' 60]"
        "''acme''" "''k''" "build_record 1 ''acme'' ''k'' ''h'' 60" 5 "''d''"])
    (simp_all add: idempo_finish_def build_record_def)

text \<open>
  A clock that runs backwards voids every claim.  The age is computed as a signed
  difference and cast to \<open>u64\<close>, so any record whose last update lies in the future
  of the reader's clock counts as expired: the key is granted again, while in flight and
  after success alike.
\<close>

theorem idempo_clock_regression_grants:
  assumes "s (t, k) = Some r" and "now < ir_updated_at r" and "uint (ir_ttl_ms r) < 2 ^ 63"
  shows "snd (check_and_put now t k h ttl s) = Ok None"
proof -
  let ?d = "i64_sat_sub now (ir_updated_at r)"
  have "?d < 0" "- (2 ^ 63) \<le> ?d"
    using assms(2) by (simp_all add: i64_sat_sub_def)
  then have range: "0 \<le> ?d + 2 ^ 64" "?d + 2 ^ 64 < 2 ^ 64" "2 ^ 63 \<le> ?d + 2 ^ 64"
    by simp_all
  have "uint (word_of_int ?d :: 64 word) = (?d + 2 ^ 64) mod 2 ^ 64"
    by (simp add: uint_word_of_int)
  also have "\<dots> = ?d + 2 ^ 64"
    using range(1,2) by (rule mod_pos_pos_trivial)
  finally have "idempo_expired now r"
    using range(3) assms(3) by (simp add: idempo_expired_def word_less_def)
  then show ?thesis
    using assms(1) by (simp add: check_and_put_def drop_expired_def)
qed

theorem idempo_clock_regression_grants_witness:
  "snd (check_and_put 4 ''acme'' ''k'' ''h'' 60
     [(''acme'', ''k'') \<mapsto> build_record 5 ''acme'' ''k'' ''h'' 60]) = Ok None"
  by (rule idempo_clock_regression_grants[where r = "build_record 5 ''acme'' ''k'' ''h'' 60"])
    (simp_all add: build_record_def)

end
