(* ===== verification/TxSaga.thy ===== *)
theory TxSaga
  imports TxModel KeyedStore
begin

text \<open>
  The saga orchestrator (\<open>saga.rs\<close>) and the in-memory saga store
  (\<open>memory/saga_store.rs\<close>).  The participant is whatever the deployment plugs in:
  a function from the URI, the saga it is shown and its own state \<open>'p\<close> to a new state
  and an answer.  One clock reading is taken per tick.  Indexing past the end of the steps
  panics in Rust and is \<open>None\<close> here.
\<close>

type_synonym saga_store = "id \<Rightarrow> saga_instance option"
type_synonym 'p participant_call =
  "string \<Rightarrow> saga_instance \<Rightarrow> 'p \<Rightarrow> 'p \<times> bool tx_result"

section \<open>The store\<close>

definition saga_insert :: "saga_instance \<Rightarrow> saga_store \<Rightarrow> saga_store \<times> unit tx_result" where
  "saga_insert saga s =
     (if s (si_id saga) \<noteq> None then (s, Err (tx_conflict ''saga already exists''))
      else (s(si_id saga \<mapsto> saga), Ok ()))"

definition saga_load :: "id \<Rightarrow> saga_store \<Rightarrow> saga_instance option tx_result" where
  "saga_load i s = Ok (s i)"

definition saga_save :: "saga_instance \<Rightarrow> saga_store \<Rightarrow> saga_store \<times> unit tx_result" where
  "saga_save saga s =
     (if s (si_id saga) = None then (s, Err (tx_unknown ''saga instance missing''))
      else (s(si_id saga \<mapsto> saga), Ok ()))"

section \<open>The orchestrator\<close>

definition saga_instance_new ::
  "int \<Rightarrow> id \<Rightarrow> tenant_id \<Rightarrow> saga_definition \<Rightarrow> int option \<Rightarrow> saga_instance" where
  "saga_instance_new now i tenant d timeout =
     \<lparr>si_id = i, si_tenant = tenant, si_state = SagaRunning, si_def_name = sdef_name d,
      si_steps = map saga_step_new (sdef_steps d), si_cursor = 0, si_created_at = now,
      si_updated_at = now, si_timeout_at = timeout\<rparr>"

text \<open>\<open>new_saga_id\<close> draws a random suffix, the argument \<open>sfx\<close>.\<close>

definition new_saga_id :: "string \<Rightarrow> id" where
  "new_saga_id sfx = ''sg-'' @ sfx"

definition saga_start ::
  "int \<Rightarrow> string \<Rightarrow> tenant_id \<Rightarrow> saga_definition \<Rightarrow> int option \<Rightarrow> saga_store
     \<Rightarrow> saga_store \<times> id tx_result" where
  "saga_start now sfx tenant d timeout s =
     (let i = new_saga_id sfx in
      case saga_insert (saga_instance_new now i tenant d timeout) s of
        (s', Inl e) \<Rightarrow> (s', Err e)
      | (s', Inr _) \<Rightarrow> (s', Ok i))"

definition set_step :: "nat \<Rightarrow> (saga_step_state \<Rightarrow> saga_step_state) \<Rightarrow> saga_instance \<Rightarrow> saga_instance"
  where
  "set_step i f saga = saga\<lparr>si_steps := (si_steps saga)[i := f (si_steps saga ! i)]\<rparr>"

text \<open>Advance past a step that succeeded, completing the saga behind the last one.\<close>

definition advance :: "saga_instance \<Rightarrow> saga_instance" where
  "advance saga =
     (let saga = saga\<lparr>si_cursor := si_cursor saga + 1\<rparr>
      in if si_cursor saga \<ge> length (si_steps saga) then saga\<lparr>si_state := SagaCompleted\<rparr> else saga)"

definition tick_running ::
  "'p participant_call \<Rightarrow> int \<Rightarrow> saga_instance \<Rightarrow> 'p \<Rightarrow> 'p \<times> saga_instance" where
  "tick_running execute now saga p =
     (if si_cursor saga \<ge> length (si_steps saga) then (p, saga\<lparr>si_state := SagaCompleted\<rparr>)
      else
        let idx = si_cursor saga in
        if ss_state (si_steps saga ! idx) = StepSucceeded then (p, advance saga)
        else
          let uri = sd_action_uri (ss_def (si_steps saga ! idx));
              saga = set_step idx (\<lambda>st. st\<lparr>ss_state := StepInFlight,
                       ss_started_at := (case ss_started_at st of Some t \<Rightarrow> Some t | None \<Rightarrow> Some now)\<rparr>)
                       saga;
              (p, result) = execute uri saga p
          in case result of
               Inr True \<Rightarrow>
                 (p, advance (set_step idx (\<lambda>st. st\<lparr>ss_state := StepSucceeded,
                                                   ss_completed_at := Some now\<rparr>) saga))
             | Inr False \<Rightarrow>
                 (p, (set_step idx (\<lambda>st. st\<lparr>ss_state := StepFailed,
                                     ss_last_error := Some ''step returned failure''\<rparr>) saga)
                       \<lparr>si_state := SagaCompensating, si_cursor := idx + 1\<rparr>)
             | Inl err \<Rightarrow>
                 (p, (set_step idx (\<lambda>st. st\<lparr>ss_state := StepFailed,
                                     ss_last_error := Some (tx_to_string err)\<rparr>) saga)
                       \<lparr>si_state := SagaCompensating, si_cursor := idx + 1\<rparr>))"

function tick_compensating ::
  "'p participant_call \<Rightarrow> int \<Rightarrow> saga_instance \<Rightarrow> 'p \<Rightarrow> ('p \<times> saga_instance) option" where
  "tick_compensating compensate now saga p =
     (if si_cursor saga = 0 then Some (p, saga\<lparr>si_state := SagaCancelled\<rparr>)
      else
        let idx = si_cursor saga - 1 in
        if idx \<ge> length (si_steps saga) then None
        else if ss_state (si_steps saga ! idx) \<in> {StepCompensated, StepSkipped} then
          tick_compensating compensate now (saga\<lparr>si_cursor := idx\<rparr>) p
        else
          case sd_compensate_uri (ss_def (si_steps saga ! idx)) of
            None \<Rightarrow>
              (let saga = (set_step idx (\<lambda>st. st\<lparr>ss_state := StepSkipped\<rparr>) saga)\<lparr>si_cursor := idx\<rparr>
               in tick_compensating compensate now
                    (if idx = 0 then saga\<lparr>si_state := SagaFailed\<rparr> else saga) p)
          | Some uri \<Rightarrow>
              (let (p, result) = compensate uri saga p in
               case result of
                 Inr True \<Rightarrow>
                   tick_compensating compensate now
                     ((set_step idx (\<lambda>st. st\<lparr>ss_state := StepCompensated,
                                        ss_completed_at := Some now\<rparr>) saga)\<lparr>si_cursor := idx\<rparr>) p
               | Inr False \<Rightarrow>
                   Some (p, (set_step idx (\<lambda>st. st\<lparr>ss_last_error :=
                                Some ''compensate returned failure''\<rparr>) saga)\<lparr>si_state := SagaFailed\<rparr>)
               | Inl err \<Rightarrow>
                   Some (p, (set_step idx (\<lambda>st. st\<lparr>ss_last_error := Some (tx_to_string err)\<rparr>) saga)
                              \<lparr>si_state := SagaFailed\<rparr>)))"
  by pat_completeness auto

termination tick_compensating
  by (relation "measure (\<lambda>(_, _, saga, _). si_cursor saga)") (auto simp: set_step_def)

declare tick_compensating.simps [simp del]

text \<open>The body of \<open>tick\<close> on a loaded saga, before it is saved.\<close>

definition tick_saga ::
  "'p participant_call \<Rightarrow> 'p participant_call \<Rightarrow> int \<Rightarrow> saga_instance \<Rightarrow> 'p
     \<Rightarrow> ('p \<times> saga_instance) option" where
  "tick_saga execute compensate now saga p =
     map_option (\<lambda>(p, saga). (p, saga\<lparr>si_updated_at := now\<rparr>))
       (case si_state saga of
          SagaRunning \<Rightarrow> Some (tick_running execute now saga p)
        | SagaCompensating \<Rightarrow> tick_compensating compensate now saga p
        | _ \<Rightarrow> Some (p, saga))"

definition saga_tick ::
  "'p participant_call \<Rightarrow> 'p participant_call \<Rightarrow> int \<Rightarrow> id \<Rightarrow> saga_store \<times> 'p
     \<Rightarrow> ((saga_store \<times> 'p) \<times> unit tx_result) option" where
  "saga_tick execute compensate now i sp =
     (let (s, p) = sp in
      case s i of
        None \<Rightarrow> Some ((s, p), Ok ())
      | Some saga \<Rightarrow>
          (case tick_saga execute compensate now saga p of
             None \<Rightarrow> None
           | Some (p', saga') \<Rightarrow>
               (let (s', r) = saga_save saga' s in Some ((s', p'), r))))"

section \<open>The shape of a saga\<close>

definition step_at :: "saga_instance \<Rightarrow> nat \<Rightarrow> step_state" where
  "step_at saga j = ss_state (si_steps saga ! j)"

definition settled :: "step_state \<Rightarrow> bool" where
  "settled st \<longleftrightarrow> st \<in> {StepReady, StepCompensated, StepSkipped}"

definition all_steps :: "(step_state \<Rightarrow> bool) \<Rightarrow> nat \<Rightarrow> nat \<Rightarrow> saga_instance \<Rightarrow> bool" where
  "all_steps P a b saga \<longleftrightarrow> (\<forall>j. a \<le> j \<longrightarrow> j < b \<longrightarrow> P (step_at saga j))"

text \<open>
  While a saga runs, the steps before the cursor succeeded and the others have not started;
  while it compensates, nothing from the cursor on is left to undo; a completed saga has
  all its steps done and a cancelled one has every step that ran undone or skipped.
\<close>

definition saga_ok :: "saga_instance \<Rightarrow> bool" where
  "saga_ok saga \<longleftrightarrow>
     si_cursor saga \<le> length (si_steps saga) \<and>
     (case si_state saga of
        SagaRunning \<Rightarrow> all_steps (\<lambda>st. st = StepSucceeded) 0 (si_cursor saga) saga \<and>
                       all_steps (\<lambda>st. st = StepReady) (si_cursor saga) (length (si_steps saga)) saga
      | SagaCompensating \<Rightarrow> all_steps settled (si_cursor saga) (length (si_steps saga)) saga
      | SagaCompleted \<Rightarrow> all_steps (\<lambda>st. st = StepSucceeded) 0 (length (si_steps saga)) saga
      | SagaCancelled \<Rightarrow> all_steps settled 0 (length (si_steps saga)) saga
      | SagaFailed \<Rightarrow> all_steps settled (si_cursor saga) (length (si_steps saga)) saga
      | SagaPaused \<Rightarrow> True)"

lemma set_step_simps [simp, op_frames]:
  "length (si_steps (set_step i f saga)) = length (si_steps saga)"
  "si_cursor (set_step i f saga) = si_cursor saga"
  "si_state (set_step i f saga) = si_state saga"
  "si_id (set_step i f saga) = si_id saga"
  "si_tenant (set_step i f saga) = si_tenant saga"
  by (simp_all add: set_step_def)

lemma step_at_set_step:
  "i < length (si_steps saga) \<Longrightarrow>
   step_at (set_step i f saga) j = (if j = i then ss_state (f (si_steps saga ! i)) else step_at saga j)"
  by (simp add: step_at_def set_step_def nth_list_update)

lemma step_at_frames [simp]:
  "step_at (saga\<lparr>si_cursor := c\<rparr>) j = step_at saga j"
  "step_at (saga\<lparr>si_state := st\<rparr>) j = step_at saga j"
  "step_at (saga\<lparr>si_updated_at := u\<rparr>) j = step_at saga j"
  by (simp_all add: step_at_def)

lemma saga_ok_new: "saga_ok (saga_instance_new now i t d timeout)"
  by (simp add: saga_ok_def saga_instance_new_def all_steps_def step_at_def saga_step_new_def)

text \<open>
  One round of compensation ends the saga, in a state that satisfies the invariant, and
  never indexes past the steps.
\<close>

lemma tick_compensating_ends:
  assumes "all_steps settled (si_cursor saga) (length (si_steps saga)) saga"
    and "si_cursor saga \<le> length (si_steps saga)"
  shows "\<exists>p' saga'. tick_compensating cmp now saga p = Some (p', saga') \<and> saga_ok saga' \<and>
    si_state saga' \<in> {SagaCancelled, SagaFailed} \<and> si_id saga' = si_id saga \<and>
    length (si_steps saga') = length (si_steps saga) \<and>
    (si_state saga' = SagaCancelled \<longleftrightarrow> si_cursor saga' = 0)"
  using assms
proof (induction "si_cursor saga" arbitrary: saga p)
  case 0
  then show ?case
    by (subst tick_compensating.simps) (simp add: saga_ok_def all_steps_def)
next
  case (Suc idx)
  then have c: "si_cursor saga = Suc idx" by simp
  let ?st = "si_steps saga ! idx"
  have IH: "\<exists>p' saga'. tick_compensating cmp now saga2 p2 = Some (p', saga') \<and> saga_ok saga' \<and>
      si_state saga' \<in> {SagaCancelled, SagaFailed} \<and> si_id saga' = si_id saga \<and>
      length (si_steps saga') = length (si_steps saga) \<and>
      (si_state saga' = SagaCancelled \<longleftrightarrow> si_cursor saga' = 0)"
    if "si_cursor saga2 = idx" "length (si_steps saga2) = length (si_steps saga)"
      "si_id saga2 = si_id saga" "settled (step_at saga2 idx)"
      "\<And>j. Suc idx \<le> j \<Longrightarrow> step_at saga2 j = step_at saga j" for saga2 p2
  proof -
    have "all_steps settled idx (length (si_steps saga)) saga2"
      unfolding all_steps_def
    proof (intro allI impI)
      fix j assume "idx \<le> j" "j < length (si_steps saga)"
      then show "settled (step_at saga2 j)"
        using that(4,5) Suc.prems(1) c by (cases "j = idx") (auto simp: all_steps_def)
    qed
    then show ?thesis
      using Suc(1)[of saga2 p2] Suc.prems(2) that(1-3) c by auto
  qed
  have no_panic: "\<not> length (si_steps saga) \<le> idx"
    using Suc.prems c by simp
  show ?case
  proof (cases "ss_state ?st \<in> {StepCompensated, StepSkipped}")
    case True
    then show ?thesis
      using IH[of "saga\<lparr>si_cursor := idx\<rparr>"] no_panic c
      by (subst tick_compensating.simps) (auto simp: Let_def step_at_def settled_def)
  next
    case pending: False
    show ?thesis
    proof (cases "sd_compensate_uri (ss_def ?st)")
      case None
      let ?s1 = "(set_step idx (\<lambda>st. st\<lparr>ss_state := StepSkipped\<rparr>) saga)\<lparr>si_cursor := idx\<rparr>"
      let ?s2 = "if idx = 0 then ?s1\<lparr>si_state := SagaFailed\<rparr> else ?s1"
      have "step_at ?s2 j = (if j = idx then StepSkipped else step_at saga j)" for j
        using step_at_set_step[of idx saga "\<lambda>st. st\<lparr>ss_state := StepSkipped\<rparr>" j] no_panic
        by (auto simp: not_le)
      then show ?thesis
        using IH[of ?s2 p] None pending no_panic c
        by (subst tick_compensating.simps) (simp add: Let_def settled_def)
    next
      case (Some uri)
      obtain p2 r where r: "cmp uri saga p = (p2, r)" by (cases "cmp uri saga p")
      show ?thesis
        using IH pending no_panic c Some r Suc.prems
        by (subst tick_compensating.simps)
          (auto simp: Let_def step_at_set_step settled_def saga_ok_def all_steps_def Suc_le_eq
            split: sum.splits bool.splits)
    qed
  qed
qed

lemma advance_simps [simp, op_frames]:
  "si_cursor (advance saga) = Suc (si_cursor saga)"
  "si_steps (advance saga) = si_steps saga" "si_id (advance saga) = si_id saga"
  "step_at (advance saga) j = step_at saga j"
  "si_state (advance saga) =
     (if Suc (si_cursor saga) \<ge> length (si_steps saga) then SagaCompleted else si_state saga)"
  by (simp_all add: advance_def step_at_def Let_def)

lemma all_steps_Suc:
  "all_steps P 0 (Suc c) saga \<longleftrightarrow> all_steps P 0 c saga \<and> P (step_at saga c)"
  by (auto simp: all_steps_def less_Suc_eq)

text \<open>One step forward: the cursor moves, the saga completes, or compensation begins.\<close>

lemma tick_running_ok:
  assumes "saga_ok saga" "si_state saga = SagaRunning"
    and "tick_running execute now saga p = (p', saga')"
  shows "saga_ok saga' \<and> si_id saga' = si_id saga \<and>
    length (si_steps saga') = length (si_steps saga) \<and>
    (si_state saga' \<in> {SagaCompleted, SagaCompensating} \<or>
     si_state saga' = SagaRunning \<and> si_cursor saga' = Suc (si_cursor saga))"
proof (cases "si_cursor saga \<ge> length (si_steps saga)")
  case True
  with assms show ?thesis
    by (auto simp: tick_running_def saga_ok_def all_steps_def)
next
  case False
  let ?idx = "si_cursor saga"
  let ?start = "\<lambda>st. st\<lparr>ss_state := StepInFlight,
      ss_started_at := (case ss_started_at st of Some t \<Rightarrow> Some t | None \<Rightarrow> Some now)\<rparr>"
  have ready: "step_at saga ?idx = StepReady"
    using assms(1,2) False by (auto simp: saga_ok_def all_steps_def)
  obtain p2 r where r: "execute (sd_action_uri (ss_def (si_steps saga ! ?idx)))
      (set_step ?idx ?start saga) p = (p2, r)"
    by (cases "execute (sd_action_uri (ss_def (si_steps saga ! ?idx)))
      (set_step ?idx ?start saga) p")
  show ?thesis
    using assms False ready r
    by (auto simp: tick_running_def Let_def step_at_def[symmetric] saga_ok_def all_steps_def
        step_at_set_step settled_def less_Suc_eq Suc_le_eq
        split: sum.splits bool.splits if_splits)
qed

section \<open>Termination\<close>

definition saga_rank :: "saga_instance \<Rightarrow> nat" where
  "saga_rank saga =
     (case si_state saga of
        SagaRunning \<Rightarrow> 2 + (length (si_steps saga) - si_cursor saga)
      | SagaCompensating \<Rightarrow> 1
      | _ \<Rightarrow> 0)"

definition saga_final :: "saga_instance \<Rightarrow> bool" where
  "saga_final saga \<longleftrightarrow> si_state saga \<in> {SagaCompleted, SagaCancelled, SagaFailed}"

lemma saga_ok_touch [simp]: "saga_ok (saga\<lparr>si_updated_at := t\<rparr>) = saga_ok saga"
  by (cases "si_state saga") (simp_all add: saga_ok_def all_steps_def)

lemma saga_rank_touch [simp]: "saga_rank (saga\<lparr>si_updated_at := t\<rparr>) = saga_rank saga"
  by (cases "si_state saga") (simp_all add: saga_rank_def)

lemma tick_saga_progress:
  assumes "saga_ok saga" "si_state saga \<noteq> SagaPaused"
  shows "\<exists>p' saga'. tick_saga execute compensate now saga p = Some (p', saga') \<and>
    saga_ok saga' \<and> si_id saga' = si_id saga \<and> si_state saga' \<noteq> SagaPaused \<and>
    (saga_rank saga' < saga_rank saga \<or> saga_rank saga = 0 \<and> saga_rank saga' = 0)"
proof (cases "si_state saga")
  case SagaRunning
  obtain p' saga' where t: "tick_running execute now saga p = (p', saga')"
    by (cases "tick_running execute now saga p")
  note ok = tick_running_ok[OF assms(1) SagaRunning t]
  have "si_cursor saga' \<le> length (si_steps saga')"
    using ok by (simp add: saga_ok_def)
  then show ?thesis
    using ok t SagaRunning by (auto simp: tick_saga_def saga_rank_def)
next
  case SagaCompensating
  then have "all_steps settled (si_cursor saga) (length (si_steps saga)) saga"
    "si_cursor saga \<le> length (si_steps saga)"
    using assms(1) by (simp_all add: saga_ok_def)
  from tick_compensating_ends[OF this, of compensate now p] SagaCompensating show ?thesis
    by (auto simp: tick_saga_def saga_rank_def)
qed (use assms in \<open>auto simp: tick_saga_def saga_rank_def\<close>)

text \<open>A run of ticks on one saga of the store, one clock reading per tick.\<close>

fun saga_ticks ::
  "'p participant_call \<Rightarrow> 'p participant_call \<Rightarrow> id \<Rightarrow> int list \<Rightarrow> saga_store \<times> 'p
     \<Rightarrow> (saga_store \<times> 'p) option" where
  "saga_ticks execute compensate i [] sp = Some sp"
| "saga_ticks execute compensate i (t # ts) sp =
     (case saga_tick execute compensate t i sp of
        None \<Rightarrow> None
      | Some (sp', _) \<Rightarrow> saga_ticks execute compensate i ts sp')"

lemma saga_tick_stored:
  assumes "s i = Some saga" "si_id saga = i"
    and "tick_saga execute compensate now saga p = Some (p', saga')" "si_id saga' = si_id saga"
  shows "saga_tick execute compensate now i (s, p) = Some ((s(i \<mapsto> saga'), p'), Ok ())"
  using assms by (simp add: saga_tick_def saga_save_def)

lemma saga_ticks_progress:
  assumes "s i = Some saga" "si_id saga = i" "saga_ok saga" "si_state saga \<noteq> SagaPaused"
  shows "\<exists>s' p' saga'. saga_ticks execute compensate i ts (s, p) = Some (s', p') \<and>
    s' = s(i \<mapsto> saga') \<and> si_id saga' = i \<and> saga_ok saga' \<and> si_state saga' \<noteq> SagaPaused \<and>
    saga_rank saga' \<le> saga_rank saga - length ts"
  using assms
proof (induction ts arbitrary: s p saga)
  case Nil
  then show ?case
    by (intro exI[of _ s] exI[of _ p] exI[of _ saga]) (simp add: fun_upd_idem)
next
  case (Cons t ts)
  from tick_saga_progress[OF Cons.prems(3,4), of execute compensate t p] obtain p1 saga1 where
    t: "tick_saga execute compensate t saga p = Some (p1, saga1)" "saga_ok saga1"
      "si_id saga1 = si_id saga" "si_state saga1 \<noteq> SagaPaused"
      "saga_rank saga1 < saga_rank saga \<or> saga_rank saga = 0 \<and> saga_rank saga1 = 0"
    by blast
  have "(s(i \<mapsto> saga1)) i = Some saga1" "si_id saga1 = i"
    using t(3) Cons.prems(2) by simp_all
  from Cons.IH[of "s(i \<mapsto> saga1)" saga1 p1, OF this t(2,4)] obtain s' p' saga' where
    ih: "saga_ticks execute compensate i ts (s(i \<mapsto> saga1), p1) = Some (s', p')"
      "s' = s(i \<mapsto> saga1, i \<mapsto> saga')"
      "si_id saga' = i" "saga_ok saga'" "si_state saga' \<noteq> SagaPaused"
      "saga_rank saga' \<le> saga_rank saga1 - length ts"
    by blast
  have "saga_rank saga' \<le> saga_rank saga - length (t # ts)"
    using ih(6) t(5) by auto
  with ih saga_tick_stored[of s i saga, OF Cons.prems(1,2) t(1,3)] show ?case
    by (intro exI[of _ s'] exI[of _ p'] exI[of _ saga'])
      (simp del: fun_upd_apply)
qed

lemma saga_ticks_append:
  "saga_ticks execute compensate i (ts @ ts') sp =
     (case saga_ticks execute compensate i ts sp of
        None \<Rightarrow> None | Some sp' \<Rightarrow> saga_ticks execute compensate i ts' sp')"
  by (induction ts arbitrary: sp) (auto split: option.splits)

lemma rank_zero_final: "saga_rank saga = 0 \<Longrightarrow> si_state saga \<noteq> SagaPaused \<Longrightarrow> saga_final saga"
  by (cases "si_state saga") (simp_all add: saga_rank_def saga_final_def)

section \<open>The order of calls\<close>

text \<open>
  A participant that records each call it gets and answers by the URI: the trace of a
  saga is the log such a participant ends with.
\<close>

datatype saga_call = Executed string | Undone string

definition log_execute :: "(string \<Rightarrow> bool tx_result) \<Rightarrow> saga_call list participant_call" where
  "log_execute v uri saga log = (log @ [Executed uri], v uri)"

definition log_compensate :: "(string \<Rightarrow> bool tx_result) \<Rightarrow> saga_call list participant_call" where
  "log_compensate v uri saga log = (log @ [Undone uri], v uri)"

text \<open>The compensations of a list of steps: last step first, steps without a URI skipped.\<close>

definition undo_plan :: "saga_step_state list \<Rightarrow> string list" where
  "undo_plan steps = List.map_filter (\<lambda>st. sd_compensate_uri (ss_def st)) (rev steps)"

definition action_plan :: "saga_step_state list \<Rightarrow> string list" where
  "action_plan steps = map (\<lambda>st. sd_action_uri (ss_def st)) steps"

lemma undo_plan_snoc:
  "undo_plan (steps @ [st]) =
     (case sd_compensate_uri (ss_def st) of Some u \<Rightarrow> u # undo_plan steps | None \<Rightarrow> undo_plan steps)"
  by (simp add: undo_plan_def List.map_filter_simps split: option.splits)

lemma take_steps_set_step [simp]:
  "n \<le> i \<Longrightarrow> take n (si_steps (set_step i f saga)) = take n (si_steps saga)"
  by (simp add: set_step_def)

lemma compensation_trace:
  assumes "si_cursor saga \<le> length (si_steps saga)"
    and "\<forall>j < si_cursor saga. step_at saga j \<notin> {StepCompensated, StepSkipped}"
    and "\<forall>u\<in>set (undo_plan (take (si_cursor saga) (si_steps saga))). v u = Ok True"
  shows "\<exists>saga'. tick_compensating (log_compensate v) now saga log
      = Some (log @ map Undone (undo_plan (take (si_cursor saga) (si_steps saga))), saga')
    \<and> si_state saga' = SagaCancelled"
  using assms
proof (induction "si_cursor saga" arbitrary: saga log)
  case 0
  then show ?case
    by (subst tick_compensating.simps) (simp add: undo_plan_def List.map_filter_simps)
next
  case (Suc idx)
  then have c: "si_cursor saga = Suc idx" by simp
  let ?st = "si_steps saga ! idx"
  have in_range: "idx < length (si_steps saga)"
    using Suc.prems(1) c by simp
  have split: "take (Suc idx) (si_steps saga) = take idx (si_steps saga) @ [?st]"
    using in_range by (simp add: take_Suc_conv_app_nth)
  have pending: "ss_state ?st \<notin> {StepCompensated, StepSkipped}"
    using Suc.prems(2) c by (auto simp: step_at_def)
  have IH: "\<exists>saga'. tick_compensating (log_compensate v) now saga2 log2
      = Some (log2 @ map Undone (undo_plan (take idx (si_steps saga))), saga')
    \<and> si_state saga' = SagaCancelled"
    if "si_cursor saga2 = idx" "take idx (si_steps saga2) = take idx (si_steps saga)"
      "length (si_steps saga2) = length (si_steps saga)" for saga2 log2
  proof -
    have "step_at saga2 j = step_at saga j" if "j < idx" for j
      using arg_cong[OF \<open>take idx (si_steps saga2) = _\<close>, of "\<lambda>xs. xs ! j"] that
      by (simp add: step_at_def)
    then show ?thesis
      using Suc(1)[of saga2 log2] that Suc.prems(2,3) c in_range
      by (simp add: split undo_plan_snoc split: option.splits)
  qed
  show ?case
  proof (cases "sd_compensate_uri (ss_def ?st)")
    case None
    then show ?thesis
      using IH pending c in_range
      by (subst tick_compensating.simps) (auto simp: Let_def split undo_plan_snoc)
  next
    case (Some uri)
    then have "v uri = Ok True"
      using Suc.prems(3) c by (simp add: split undo_plan_snoc)
    then show ?thesis
      using IH[of "(set_step idx (\<lambda>st. st\<lparr>ss_state := StepCompensated,
          ss_completed_at := Some now\<rparr>) saga)\<lparr>si_cursor := idx\<rparr>" "log @ [Undone uri]"]
        pending c in_range Some
      by (subst tick_compensating.simps)
        (auto simp: Let_def split undo_plan_snoc log_compensate_def)
  qed
qed

text \<open>Forward: the next action is executed, and the cursor moves when it succeeds.\<close>

lemma tick_running_trace:
  assumes "saga_ok saga" "si_state saga = SagaRunning" "si_cursor saga < length (si_steps saga)"
  defines "uri \<equiv> sd_action_uri (ss_def (si_steps saga ! si_cursor saga))"
  shows "fst (tick_running (log_execute v) now saga log) = log @ [Executed uri]"
    and "map ss_def (si_steps (snd (tick_running (log_execute v) now saga log)))
           = map ss_def (si_steps saga)"
    and "v uri = Ok True \<Longrightarrow>
      si_cursor (snd (tick_running (log_execute v) now saga log)) = Suc (si_cursor saga) \<and>
      (Suc (si_cursor saga) < length (si_steps saga) \<longrightarrow>
         si_state (snd (tick_running (log_execute v) now saga log)) = SagaRunning) \<and>
      (Suc (si_cursor saga) = length (si_steps saga) \<longrightarrow>
         si_state (snd (tick_running (log_execute v) now saga log)) = SagaCompleted)"
    and "v uri \<noteq> Ok True \<Longrightarrow>
      si_cursor (snd (tick_running (log_execute v) now saga log)) = Suc (si_cursor saga) \<and>
      si_state (snd (tick_running (log_execute v) now saga log)) = SagaCompensating \<and>
      step_at (snd (tick_running (log_execute v) now saga log)) (si_cursor saga) = StepFailed \<and>
      (\<forall>j < si_cursor saga.
         step_at (snd (tick_running (log_execute v) now saga log)) j = StepSucceeded)"
proof -
  have ready: "step_at saga (si_cursor saga) = StepReady"
    and past: "\<forall>j < si_cursor saga. step_at saga j = StepSucceeded"
    using assms(1-3) by (auto simp: saga_ok_def all_steps_def)
  note defs = tick_running_def Let_def log_execute_def uri_def[symmetric] step_at_def[symmetric]
  show "fst (tick_running (log_execute v) now saga log) = log @ [Executed uri]"
    using assms(3) ready by (simp add: defs split: sum.splits bool.splits)
  show "map ss_def (si_steps (snd (tick_running (log_execute v) now saga log)))
           = map ss_def (si_steps saga)"
    using assms(3) ready
    by (auto simp: defs set_step_def nth_list_update intro!: nth_equalityI
        split: sum.splits bool.splits)
  show "v uri = Ok True \<Longrightarrow>
      si_cursor (snd (tick_running (log_execute v) now saga log)) = Suc (si_cursor saga) \<and>
      (Suc (si_cursor saga) < length (si_steps saga) \<longrightarrow>
         si_state (snd (tick_running (log_execute v) now saga log)) = SagaRunning) \<and>
      (Suc (si_cursor saga) = length (si_steps saga) \<longrightarrow>
         si_state (snd (tick_running (log_execute v) now saga log)) = SagaCompleted)"
    using assms(2,3) ready by (simp add: defs)
  show "v uri \<noteq> Ok True \<Longrightarrow>
      si_cursor (snd (tick_running (log_execute v) now saga log)) = Suc (si_cursor saga) \<and>
      si_state (snd (tick_running (log_execute v) now saga log)) = SagaCompensating \<and>
      step_at (snd (tick_running (log_execute v) now saga log)) (si_cursor saga) = StepFailed \<and>
      (\<forall>j < si_cursor saga.
         step_at (snd (tick_running (log_execute v) now saga log)) j = StepSucceeded)"
    using assms(2,3) ready past
    by (auto simp: defs step_at_set_step split: sum.splits bool.splits)
qed

lemma undo_plan_defs: "undo_plan steps = List.map_filter sd_compensate_uri (rev (map ss_def steps))"
  by (simp add: undo_plan_def rev_map List.map_filter_def comp_def filter_map)

lemma action_plan_defs: "action_plan steps = map sd_action_uri (map ss_def steps)"
  by (simp add: action_plan_def)

text \<open>Ticks through the steps that succeed.\<close>

lemma saga_ticks_forward:
  assumes "s i = Some saga" "si_id saga = i" "saga_ok saga" "si_state saga = SagaRunning"
    and "si_cursor saga + length ts < length (si_steps saga)"
    and "\<forall>u\<in>set (take (length ts) (drop (si_cursor saga) (action_plan (si_steps saga)))). v u = Ok True"
  shows "\<exists>saga'. saga_ticks (log_execute v) cmp i ts (s, log) =
      Some (s(i \<mapsto> saga'),
            log @ map Executed (take (length ts) (drop (si_cursor saga) (action_plan (si_steps saga)))))
    \<and> si_id saga' = i \<and> saga_ok saga' \<and> si_state saga' = SagaRunning
    \<and> si_cursor saga' = si_cursor saga + length ts
    \<and> map ss_def (si_steps saga') = map ss_def (si_steps saga)"
  using assms
proof (induction ts arbitrary: s saga log)
  case Nil
  then show ?case
    by (intro exI[of _ saga]) (simp add: fun_upd_idem)
next
  case (Cons t ts)
  let ?plan = "action_plan (si_steps saga)"
  let ?c = "si_cursor saga"
  let ?uri = "sd_action_uri (ss_def (si_steps saga ! ?c))"
  have c: "?c < length (si_steps saga)"
    using Cons.prems(5) by simp
  have plan: "drop ?c ?plan = ?uri # drop (Suc ?c) ?plan"
    using c by (simp add: action_plan_def Cons_nth_drop_Suc[symmetric] nth_map)
  obtain log1 saga1 where r: "tick_running (log_execute v) t saga log = (log1, saga1)"
    by (cases "tick_running (log_execute v) t saga log")
  note trace = tick_running_trace[OF Cons.prems(3,4) c, where v = v and now = t and log = log]
  note ok = tick_running_ok[OF Cons.prems(3,4) r]
  let ?saga1 = "saga1\<lparr>si_updated_at := t\<rparr>"
  have v: "v ?uri = Ok True"
    using Cons.prems(6) by (simp add: plan)
  have s1: "log1 = log @ [Executed ?uri]" "map ss_def (si_steps saga1) = map ss_def (si_steps saga)"
    "si_cursor saga1 = Suc ?c" "si_state saga1 = SagaRunning"
    using trace(1,2) trace(3)[OF v] r Cons.prems(5) by simp_all
  have tick: "saga_tick (log_execute v) cmp t i (s, log) = Some ((s(i \<mapsto> ?saga1), log1), Ok ())"
    by (rule saga_tick_stored[of s i saga, OF Cons.prems(1,2)])
      (use Cons.prems(4) r ok in \<open>simp_all add: tick_saga_def\<close>)
  have plan1: "action_plan (si_steps saga1) = ?plan"
    using s1(2) by (simp add: action_plan_defs del: map_map)
  have "\<exists>saga'. saga_ticks (log_execute v) cmp i ts (s(i \<mapsto> ?saga1), log1) =
      Some ((s(i \<mapsto> ?saga1))(i \<mapsto> saga'), log1 @ map Executed (take (length ts) (drop (Suc ?c) ?plan)))
    \<and> si_id saga' = i \<and> saga_ok saga' \<and> si_state saga' = SagaRunning
    \<and> si_cursor saga' = Suc ?c + length ts
    \<and> map ss_def (si_steps saga') = map ss_def (si_steps saga)"
    using Cons.IH[of "s(i \<mapsto> ?saga1)" ?saga1 log1, OF fun_upd_same] ok s1 Cons.prems plan1
    by (simp add: plan del: map_map fun_upd_apply)
  then show ?case
    by (auto simp: tick plan s1(1) simp del: fun_upd_apply)
qed

text \<open>The two ticks of a rollback: the failing action, then all the compensations.\<close>

lemma saga_ticks_rollback:
  fixes s :: saga_store and log :: "saga_call list" and saga :: saga_instance
  defines "k \<equiv> si_cursor saga" and "steps \<equiv> map ss_def (si_steps saga)"
  defines "undone \<equiv> List.map_filter sd_compensate_uri (rev (take (Suc k) steps))"
  assumes s: "s i = Some saga" "si_id saga = i"
    and ok: "saga_ok saga" "si_state saga = SagaRunning" and k: "k < length steps"
    and v: "v (sd_action_uri (steps ! k)) \<noteq> Ok True" and c: "\<forall>u\<in>set undone. c u = Ok True"
  shows "\<exists>saga'. saga_ticks (log_execute v) (log_compensate c) i [t1, t2] (s, log) =
      Some (s(i \<mapsto> saga'), log @ [Executed (sd_action_uri (steps ! k))] @ map Undone undone)
    \<and> si_state saga' = SagaCancelled"
proof -
  have len: "k < length (si_steps saga)"
    using k by (simp add: steps_def)
  obtain log1 saga1 where r: "tick_running (log_execute v) t1 saga log = (log1, saga1)"
    by (cases "tick_running (log_execute v) t1 saga log")
  have uri: "sd_action_uri (ss_def (si_steps saga ! k)) = sd_action_uri (steps ! k)"
    using len by (simp add: steps_def)
  note trace = tick_running_trace[OF ok len[unfolded k_def], where v = v and now = t1 and log = log,
      folded k_def, unfolded r fst_conv snd_conv uri]
  have s1: "log1 = log @ [Executed (sd_action_uri (steps ! k))]"
    "map ss_def (si_steps saga1) = steps" "si_cursor saga1 = Suc k"
    "si_state saga1 = SagaCompensating" "\<forall>j < Suc k. step_at saga1 j \<notin> {StepCompensated, StepSkipped}"
    using trace(1,2) trace(4) v by (auto simp: less_Suc_eq steps_def)
  note ok1 = tick_running_ok[OF ok r]
  let ?saga1 = "saga1\<lparr>si_updated_at := t1\<rparr>"
  have tick1: "saga_tick (log_execute v) (log_compensate c) t1 i (s, log)
      = Some ((s(i \<mapsto> ?saga1), log1), Ok ())"
    by (rule saga_tick_stored[of s i saga]) (use s ok ok1 r in \<open>simp_all add: tick_saga_def\<close>)
  have plan: "undo_plan (take (Suc k) (si_steps saga1)) = undone"
    by (simp add: undo_plan_defs take_map[symmetric] s1(2) undone_def del: map_map)
  obtain saga2 where comp: "tick_compensating (log_compensate c) t2 ?saga1 log1
      = Some (log1 @ map Undone undone, saga2)" and st: "si_state saga2 = SagaCancelled"
    using compensation_trace[of ?saga1 c t2 log1] s1 ok1 plan c by (auto simp: saga_ok_def)
  have "all_steps settled (si_cursor ?saga1) (length (si_steps ?saga1)) ?saga1"
    "si_cursor ?saga1 \<le> length (si_steps ?saga1)"
    using ok1 s1(4) by (simp_all add: saga_ok_def all_steps_def)
  from tick_compensating_ends[OF this, of "log_compensate c" t2 log1] comp
  have "si_id saga2 = i"
    using ok1 s(2) by simp
  then have "saga_tick (log_execute v) (log_compensate c) t2 i (s(i \<mapsto> ?saga1), log1)
      = Some ((s(i \<mapsto> ?saga1, i \<mapsto> saga2\<lparr>si_updated_at := t2\<rparr>), log1 @ map Undone undone), Ok ())"
    by (intro saga_tick_stored[of "s(i \<mapsto> ?saga1)" i ?saga1])
      (use s(2) ok1 s1(4) comp in \<open>simp_all add: tick_saga_def\<close>)
  then show ?thesis
    using tick1 st s1(1) by (intro exI[of _ "saga2\<lparr>si_updated_at := t2\<rparr>"]) simp
qed

section \<open>Properties\<close>

lemma saga_start_ok:
  assumes "saga_start now sfx t d timeout s = (s1, Ok i)"
  shows "i = new_saga_id sfx" "s1 = s(i \<mapsto> saga_instance_new now i t d timeout)"
  using assms by (auto simp: saga_start_def saga_insert_def saga_instance_new_def Let_def split: if_splits)

text \<open>
  C8: A saga always ends.  Whatever the participant answers, once a started saga of n steps
  has been ticked n + 2 times it is completed, cancelled or failed; no tick indexes past its
  steps.  Completed means that every step succeeded, cancelled that every step is undone,
  skipped or was never started, and no other saga of the store is touched.
\<close>

theorem saga_run_terminates:
  assumes "saga_start now sfx t d timeout s = (s1, Ok i)"
    and "length (sdef_steps d) + 2 \<le> length ts"
  shows "\<exists>s' p' saga. saga_ticks execute compensate i ts (s1, p) = Some (s', p') \<and>
    s' i = Some saga \<and> saga_final saga \<and>
    (si_state saga = SagaCompleted \<longrightarrow> all_steps (\<lambda>st. st = StepSucceeded) 0 (length (si_steps saga)) saga) \<and>
    (si_state saga = SagaCancelled \<longrightarrow> all_steps settled 0 (length (si_steps saga)) saga) \<and>
    (\<forall>j. j \<noteq> i \<longrightarrow> s' j = s j)"
proof -
  let ?saga = "saga_instance_new now i t d timeout"
  have s1: "s1 i = Some ?saga" "si_id ?saga = i" "si_state ?saga \<noteq> SagaPaused"
    and rank: "saga_rank ?saga \<le> length ts"
    using saga_start_ok[OF assms(1)] assms(2)
    by (simp_all add: saga_instance_new_def saga_rank_def)
  from saga_ticks_progress[of s1 i ?saga, OF s1(1,2) saga_ok_new s1(3)] rank
  obtain p' saga' where "saga_ticks execute compensate i ts (s1, p) = Some (s1(i \<mapsto> saga'), p')"
    "saga_ok saga'" "si_state saga' \<noteq> SagaPaused" "saga_rank saga' = 0"
    by fastforce
  then show ?thesis
    using saga_start_ok(2)[OF assms(1)] rank_zero_final[of saga']
    by (intro exI[of _ "s1(i \<mapsto> saga')"] exI[of _ p'] exI[of _ saga']) (auto simp: saga_ok_def)
qed

definition demo_retry :: retry_policy where
  "demo_retry = retry_policy_default"

definition demo_step :: "string \<Rightarrow> string option \<Rightarrow> saga_step_def" where
  "demo_step a c =
     \<lparr>sd_name = a, sd_action_uri = a, sd_compensate_uri = c, sd_idempotent = True,
      sd_timeout_ms = 1000, sd_retry = demo_retry, sd_concurrency_tag = None\<rparr>"

definition demo_saga :: saga_definition where
  "demo_saga = \<lparr>sdef_name = ''order'', sdef_steps =
     [demo_step ''reserve'' (Some ''release''), demo_step ''notify'' None,
      demo_step ''charge'' (Some ''refund'')]\<rparr>"

lemma demo_start:
  "saga_start 1 ''x'' ''acme'' demo_saga None Map.empty =
     ([''sg-x'' \<mapsto> saga_instance_new 1 ''sg-x'' ''acme'' demo_saga None], Ok ''sg-x'')"
  by (simp add: saga_start_def new_saga_id_def saga_insert_def saga_instance_new_def Let_def)

theorem saga_run_terminates_witness:
  "\<exists>s' p' saga. saga_ticks (log_execute (\<lambda>u. Ok (u \<noteq> ''charge''))) (log_compensate (\<lambda>_. Ok True))
      ''sg-x'' [2, 3, 4, 5, 6] ([''sg-x'' \<mapsto> saga_instance_new 1 ''sg-x'' ''acme'' demo_saga None], [])
      = Some (s', p') \<and> s' ''sg-x'' = Some saga \<and> saga_final saga"
  using saga_run_terminates[OF demo_start, of "[2, 3, 4, 5, 6]"] by (fastforce simp: demo_saga_def)



end
