(* ===== verification/TxMapper.thy ===== *)
theory TxMapper
  imports TxOutboxStore TxIdempo TxSaga
begin

text \<open>
  The documents \<open>sb-tx\<close> keeps in SurrealDB (\<open>surreal/mapper.rs\<close>) and their
  translation to and from the model types.  serde's conversion of the dead-letter payload is
  a pair of parameters; the record id comes from \<open>sb-storage\<close>
  (\<open>model.rs\<close>, \<open>make_record_id\<close>).
\<close>

definition OUTBOX_TABLE :: string where "OUTBOX_TABLE = ''tx_outbox''"
definition IDEMPO_TABLE :: string where "IDEMPO_TABLE = ''tx_idempo''"
definition SAGA_TABLE :: string where "SAGA_TABLE = ''tx_saga''"
definition DEAD_TABLE :: string where "DEAD_TABLE = ''tx_dead_letter''"

definition make_record_id :: "string \<Rightarrow> tenant_id \<Rightarrow> string \<Rightarrow> string" where
  "make_record_id table tenant sfx = table @ '':'' @ tenant @ ''_'' @ sfx"

fun outbox_status_to_str :: "outbox_status \<Rightarrow> string" where
  "outbox_status_to_str Pending = ''Pending''"
| "outbox_status_to_str Leased = ''Leased''"
| "outbox_status_to_str Done = ''Done''"
| "outbox_status_to_str Dead = ''Dead''"

definition outbox_status_from_str :: "string \<Rightarrow> outbox_status option" where
  "outbox_status_from_str s =
     (if s = ''Pending'' then Some Pending else if s = ''Leased'' then Some Leased
      else if s = ''Done'' then Some Done else if s = ''Dead'' then Some Dead else None)"

fun idempo_status_to_str :: "idempo_status \<Rightarrow> string" where
  "idempo_status_to_str IdInFlight = ''InFlight''"
| "idempo_status_to_str IdSucceeded = ''Succeeded''"
| "idempo_status_to_str IdFailed = ''Failed''"

definition idempo_status_from_str :: "string \<Rightarrow> idempo_status option" where
  "idempo_status_from_str s =
     (if s = ''InFlight'' then Some IdInFlight else if s = ''Succeeded'' then Some IdSucceeded
      else if s = ''Failed'' then Some IdFailed else None)"

fun saga_state_to_str :: "saga_state \<Rightarrow> string" where
  "saga_state_to_str SagaRunning = ''Running''"
| "saga_state_to_str SagaCompensating = ''Compensating''"
| "saga_state_to_str SagaCompleted = ''Completed''"
| "saga_state_to_str SagaFailed = ''Failed''"
| "saga_state_to_str SagaCancelled = ''Cancelled''"
| "saga_state_to_str SagaPaused = ''Paused''"

definition saga_state_from_str :: "string \<Rightarrow> saga_state option" where
  "saga_state_from_str s =
     (if s = ''Running'' then Some SagaRunning
      else if s = ''Compensating'' then Some SagaCompensating
      else if s = ''Completed'' then Some SagaCompleted
      else if s = ''Failed'' then Some SagaFailed
      else if s = ''Cancelled'' then Some SagaCancelled
      else if s = ''Paused'' then Some SagaPaused else None)"

fun dead_kind_to_str :: "dead_kind \<Rightarrow> string" where
  "dead_kind_to_str DeadOutbox = ''Outbox''"
| "dead_kind_to_str DeadSaga = ''Saga''"

definition dead_kind_from_str :: "string \<Rightarrow> dead_kind option" where
  "dead_kind_from_str s =
     (if s = ''Outbox'' then Some DeadOutbox else if s = ''Saga'' then Some DeadSaga else None)"

definition dead_suffix :: "dead_kind \<Rightarrow> id \<Rightarrow> string" where
  "dead_suffix kind i = to_lower (dead_kind_to_str kind) @ ''-'' @ i"

record outbox_doc =
  od_id :: string
  od_tenant :: string
  od_message_id :: string
  od_envelope_id :: string
  od_topic :: string
  od_payload :: json
  od_created_at :: int
  od_not_before :: int
  od_attempts :: "32 word"
  od_status :: string
  od_last_error :: "string option"
  od_dispatch_key :: "string option"
  od_lease_until :: "int option"
  od_worker :: "string option"

record idempo_doc =
  idd_id :: string
  idd_tenant :: string
  idd_key :: string
  idd_hash :: string
  idd_status :: string
  idd_result_digest :: "string option"
  idd_last_error :: "string option"
  idd_ttl_ms :: "64 word"
  idd_created_at :: int
  idd_updated_at :: int

record saga_doc =
  sgd_id :: string
  sgd_tenant :: string
  sgd_saga_id :: string
  sgd_state :: string
  sgd_def_name :: string
  sgd_steps :: "saga_step_state list"
  sgd_cursor :: nat
  sgd_created_at :: int
  sgd_updated_at :: int
  sgd_timeout_at :: "int option"

record dead_letter_doc =
  dld_id :: string
  dld_tenant :: string
  dld_reference_kind :: string
  dld_reference_id :: string
  dld_payload :: json
  dld_error :: "string option"
  dld_occurred_at :: int

definition outbox_doc_from_message :: "outbox_message \<Rightarrow> outbox_doc" where
  "outbox_doc_from_message m =
     \<lparr>od_id = make_record_id OUTBOX_TABLE (om_tenant m) (om_id m), od_tenant = om_tenant m,
      od_message_id = om_id m, od_envelope_id = om_envelope_id m, od_topic = om_topic m,
      od_payload = om_payload m, od_created_at = om_created_at m,
      od_not_before = om_not_before m, od_attempts = om_attempts m,
      od_status = outbox_status_to_str (om_status m), od_last_error = om_last_error m,
      od_dispatch_key = om_dispatch_key m, od_lease_until = om_lease_until m,
      od_worker = om_worker m\<rparr>"

definition outbox_message_from_doc :: "outbox_doc \<Rightarrow> outbox_message tx_result" where
  "outbox_message_from_doc doc =
     and_then (ok_or (tx_schema (''unknown outbox status: '' @ od_status doc))
                (outbox_status_from_str (od_status doc))) (\<lambda>status.
       Ok \<lparr>om_id = od_message_id doc, om_tenant = od_tenant doc,
           om_envelope_id = od_envelope_id doc, om_topic = od_topic doc,
           om_payload = od_payload doc, om_created_at = od_created_at doc,
           om_not_before = od_not_before doc, om_attempts = od_attempts doc,
           om_status = status, om_last_error = od_last_error doc,
           om_dispatch_key = od_dispatch_key doc, om_lease_until = od_lease_until doc,
           om_worker = od_worker doc\<rparr>)"

definition idempo_doc_from_record :: "idempo_record \<Rightarrow> idempo_doc" where
  "idempo_doc_from_record r =
     \<lparr>idd_id = make_record_id IDEMPO_TABLE (ir_tenant r) (ir_key r), idd_tenant = ir_tenant r,
      idd_key = ir_key r, idd_hash = ir_hash r, idd_status = idempo_status_to_str (ir_status r),
      idd_result_digest = ir_result_digest r, idd_last_error = ir_last_error r,
      idd_ttl_ms = ir_ttl_ms r, idd_created_at = ir_created_at r,
      idd_updated_at = ir_updated_at r\<rparr>"

definition idempo_record_from_doc :: "idempo_doc \<Rightarrow> idempo_record tx_result" where
  "idempo_record_from_doc doc =
     and_then (ok_or (tx_schema (''unknown idempotency status: '' @ idd_status doc))
                (idempo_status_from_str (idd_status doc))) (\<lambda>status.
       Ok \<lparr>ir_key = idd_key doc, ir_tenant = idd_tenant doc, ir_hash = idd_hash doc,
           ir_status = status, ir_result_digest = idd_result_digest doc,
           ir_last_error = idd_last_error doc, ir_ttl_ms = idd_ttl_ms doc,
           ir_created_at = idd_created_at doc, ir_updated_at = idd_updated_at doc\<rparr>)"

definition saga_doc_from_instance :: "saga_instance \<Rightarrow> saga_doc" where
  "saga_doc_from_instance s =
     \<lparr>sgd_id = make_record_id SAGA_TABLE (si_tenant s) (si_id s), sgd_tenant = si_tenant s,
      sgd_saga_id = si_id s, sgd_state = saga_state_to_str (si_state s),
      sgd_def_name = si_def_name s, sgd_steps = si_steps s, sgd_cursor = si_cursor s,
      sgd_created_at = si_created_at s, sgd_updated_at = si_updated_at s,
      sgd_timeout_at = si_timeout_at s\<rparr>"

definition saga_instance_from_doc :: "saga_doc \<Rightarrow> saga_instance tx_result" where
  "saga_instance_from_doc doc =
     and_then (ok_or (tx_schema (''unknown saga state: '' @ sgd_state doc))
                (saga_state_from_str (sgd_state doc))) (\<lambda>state.
       Ok \<lparr>si_id = sgd_saga_id doc, si_tenant = sgd_tenant doc, si_state = state,
           si_def_name = sgd_def_name doc, si_steps = sgd_steps doc, si_cursor = sgd_cursor doc,
           si_created_at = sgd_created_at doc, si_updated_at = sgd_updated_at doc,
           si_timeout_at = sgd_timeout_at doc\<rparr>)"

text \<open>serde: \<open>to_value\<close> and \<open>from_value\<close> return the error text on the left.\<close>

type_synonym payload_ser = "dead_letter_payload \<Rightarrow> string + json"
type_synonym payload_de = "json \<Rightarrow> string + dead_letter_payload"

definition dead_doc_from_letter :: "payload_ser \<Rightarrow> dead_letter \<Rightarrow> dead_letter_doc tx_result" where
  "dead_doc_from_letter ser l =
     and_then (map_err (\<lambda>err. tx_schema (''serialize dead-letter payload failed: '' @ err))
                (ser (dl_payload l))) (\<lambda>p.
       Ok \<lparr>dld_id = make_record_id DEAD_TABLE (dl_tenant l)
                      (dead_suffix (dr_kind (dl_reference l)) (dr_id (dl_reference l))),
           dld_tenant = dl_tenant l,
           dld_reference_kind = dead_kind_to_str (dr_kind (dl_reference l)),
           dld_reference_id = dr_id (dl_reference l), dld_payload = p,
           dld_error = dl_error l, dld_occurred_at = dl_occurred_at l\<rparr>)"

definition dead_letter_from_doc :: "payload_de \<Rightarrow> dead_letter_doc \<Rightarrow> dead_letter tx_result" where
  "dead_letter_from_doc de doc =
     and_then (ok_or (tx_schema (''unknown dead-letter kind: '' @ dld_reference_kind doc))
                (dead_kind_from_str (dld_reference_kind doc))) (\<lambda>kind.
     and_then (map_err (\<lambda>err. tx_schema (''deserialize dead-letter payload failed: '' @ err))
                (de (dld_payload doc))) (\<lambda>p.
       Ok \<lparr>dl_reference = \<lparr>dr_kind = kind, dr_id = dld_reference_id doc\<rparr>,
           dl_tenant = dld_tenant doc, dl_error = dld_error doc,
           dl_occurred_at = dld_occurred_at doc, dl_payload = p\<rparr>))"

fun decode_row :: "(json \<Rightarrow> string + 'a) \<Rightarrow> json \<Rightarrow> string \<Rightarrow> 'a tx_result" where
  "decode_row de (JArr arr) ctx =
     (case arr of
        [] \<Rightarrow> Err (tx_unknown (ctx @ '': empty response''))
      | item # _ \<Rightarrow>
          map_err (\<lambda>err. tx_schema (ctx @ '': deserialize array element failed: '' @ err)) (de item))"
| "decode_row de other ctx =
     map_err (\<lambda>err. tx_schema (ctx @ '': deserialize failed: '' @ err)) (de other)"

definition decode_optional_row ::
  "(json \<Rightarrow> string + 'a) \<Rightarrow> json option \<Rightarrow> string \<Rightarrow> 'a option tx_result" where
  "decode_optional_row de value ctx =
     (case value of
        Some (JArr []) \<Rightarrow> Ok None
      | Some other \<Rightarrow> (case decode_row de other ctx of Inl e \<Rightarrow> Err e | Inr a \<Rightarrow> Ok (Some a))
      | None \<Rightarrow> Ok None)"

section \<open>Round trips\<close>

lemma status_round_trips [simp]:
  "outbox_status_from_str (outbox_status_to_str s) = Some s"
  "idempo_status_from_str (idempo_status_to_str i) = Some i"
  "saga_state_from_str (saga_state_to_str g) = Some g"
  "dead_kind_from_str (dead_kind_to_str k) = Some k"
  by ((cases s; simp add: outbox_status_from_str_def),
      (cases i; simp add: idempo_status_from_str_def),
      (cases g; simp add: saga_state_from_str_def), (cases k; simp add: dead_kind_from_str_def))

section \<open>Properties\<close>

text \<open>
  C15: Nothing is lost in the database.  Every outbox message, idempotency record, saga and
  dead letter reads back from the document written for it as it was, provided serde reads
  back the dead-letter payload it wrote; no two documents of one tenant share a record id.
\<close>

theorem documents_round_trip:
  assumes "\<And>p v. ser p = Ok v \<Longrightarrow> de v = Ok p"
  shows "outbox_message_from_doc (outbox_doc_from_message m) = Ok m \<and>
    idempo_record_from_doc (idempo_doc_from_record r) = Ok r \<and>
    saga_instance_from_doc (saga_doc_from_instance s) = Ok s \<and>
    (\<forall>doc. dead_doc_from_letter ser l = Ok doc \<longrightarrow> dead_letter_from_doc de doc = Ok l) \<and>
    (make_record_id table t i = make_record_id table t j \<longrightarrow> i = j)"
  using assms
  by (auto simp: outbox_message_from_doc_def outbox_doc_from_message_def idempo_record_from_doc_def
      idempo_doc_from_record_def saga_instance_from_doc_def saga_doc_from_instance_def
      dead_doc_from_letter_def dead_letter_from_doc_def make_record_id_def map_err_def
      split: sum.splits)

definition demo_ser :: payload_ser where
  "demo_ser p = (case p of PayloadOutbox m \<Rightarrow> if m = demo_message ''m1'' then Ok JNull else Err ''x''
     | PayloadSaga s \<Rightarrow> Err ''x'')"

definition demo_de :: payload_de where
  "demo_de v = (if v = JNull then Ok (PayloadOutbox (demo_message ''m1'')) else Err ''x'')"

theorem documents_round_trip_witness:
  "\<exists>doc. dead_doc_from_letter demo_ser (build_dead_letter 9 (demo_message ''m1'') None) = Ok doc \<and>
     dead_letter_from_doc demo_de doc = Ok (build_dead_letter 9 (demo_message ''m1'') None)"
proof -
  have serde: "demo_ser p = Ok v \<Longrightarrow> demo_de v = Ok p" for p v
    by (auto simp: demo_ser_def demo_de_def split: dead_letter_payload.splits if_splits)
  obtain doc where doc: "dead_doc_from_letter demo_ser (build_dead_letter 9 (demo_message ''m1'') None) = Ok doc"
    by (simp add: dead_doc_from_letter_def build_dead_letter_def demo_ser_def)
  with documents_round_trip[of demo_ser demo_de, OF serde] show ?thesis
    by blast
qed

text \<open>
  Record ids of different tenants collide.  The id is \<open>table:tenant_suffix\<close>, so a
  tenant name or suffix with an underscore makes two tenants share a record: writing one
  tenant's message overwrites the other's.
\<close>

theorem record_ids_collide_across_tenants:
  "make_record_id table t (u @ ''_'' @ i) = make_record_id table (t @ ''_'' @ u) i"
  by (simp add: make_record_id_def)

end
