(* ===== verification/TxDead.thy ===== *)
theory TxDead
  imports TxOutboxStore TxSaga
begin

text \<open>
  The dead-letter store (\<open>memory/dead_store.rs\<close>).  It shares the outbox and the
  sagas with the live stores, so the state here is all three; \<open>replay\<close> puts a dead
  message or saga back and drops the letter.  Letters are keyed by kind and id alone, as in
  the code.
\<close>

type_synonym dead_entries = "dead_kind \<times> id \<Rightarrow> dead_letter option"

record dead_state =
  ds_outbox :: outbox
  ds_saga :: saga_store
  ds_entries :: dead_entries

definition dead_key :: "dead_letter_ref \<Rightarrow> dead_kind \<times> id" where
  "dead_key r = (dr_kind r, dr_id r)"

definition dead_push :: "dead_letter \<Rightarrow> dead_entries \<Rightarrow> dead_entries \<times> unit tx_result" where
  "dead_push l s = (s(dead_key (dl_reference l) \<mapsto> l), Ok ())"

fun dead_list_loop ::
  "tenant_id \<Rightarrow> dead_kind option \<Rightarrow> nat \<Rightarrow> dead_letter list \<Rightarrow> dead_letter list \<Rightarrow> dead_letter list"
  where
  "dead_list_loop tenant kind limit [] out = out"
| "dead_list_loop tenant kind limit (l # ls) out =
     (if dl_tenant l \<noteq> tenant then dead_list_loop tenant kind limit ls out
      else if (case kind of Some k \<Rightarrow> dl_kind l \<noteq> k | None \<Rightarrow> False) then
        dead_list_loop tenant kind limit ls out
      else
        let out' = out @ [l]
        in if length out' \<ge> limit then out' else dead_list_loop tenant kind limit ls out')"

definition dead_list ::
  "(dead_kind \<times> id) list \<Rightarrow> tenant_id \<Rightarrow> dead_kind option \<Rightarrow> nat \<Rightarrow> dead_entries
     \<Rightarrow> dead_letter list tx_result" where
  "dead_list ks tenant kind limit s = Ok (dead_list_loop tenant kind limit (map_values ks s) [])"

definition dead_get :: "dead_letter_ref \<Rightarrow> dead_entries \<Rightarrow> dead_letter option tx_result" where
  "dead_get r s = Ok (s (dead_key r))"

definition dead_remove :: "dead_letter_ref \<Rightarrow> dead_entries \<Rightarrow> dead_entries \<times> unit tx_result" where
  "dead_remove r s = (s(dead_key r := None), Ok ())"

definition dead_replay ::
  "int \<Rightarrow> dead_letter_ref \<Rightarrow> dead_state \<Rightarrow> dead_state \<times> unit tx_result" where
  "dead_replay now r s =
     (case ds_entries s (dead_key r) of
        None \<Rightarrow> (s, Err (tx_unknown ''dead letter not found''))
      | Some letter \<Rightarrow>
          (let r = dl_reference letter;
               (s, res) =
                 (case dl_payload letter of
                    PayloadOutbox _ \<Rightarrow>
                      (let (ob, res) = outbox_revive (dl_tenant letter) (dr_id r) now (ds_outbox s)
                       in (s\<lparr>ds_outbox := ob\<rparr>, res))
                  | PayloadSaga saga \<Rightarrow>
                      (let saga = saga\<lparr>si_state := SagaRunning, si_updated_at := now\<rparr>;
                           (sg, res) = saga_save saga (ds_saga s)
                       in (s\<lparr>ds_saga := sg\<rparr>, res)))
           in case res of
                Inl e \<Rightarrow> (s, Err e)
              | Inr _ \<Rightarrow>
                  (let (en, res) = dead_remove r (ds_entries s) in (s\<lparr>ds_entries := en\<rparr>, res))))"

definition purge_older_than :: "tenant_id \<Rightarrow> int \<Rightarrow> dead_entries \<Rightarrow> dead_entries \<times> unit tx_result" where
  "purge_older_than tenant before s =
     ((\<lambda>k. case s k of
             Some l \<Rightarrow> if dl_tenant l = tenant \<and> dl_occurred_at l < before then None else Some l
           | None \<Rightarrow> None), Ok ())"

section \<open>What the operations promise\<close>

text \<open>A letter sits under its own reference.\<close>

definition dead_entries_ok :: "dead_entries \<Rightarrow> bool" where
  "dead_entries_ok s \<longleftrightarrow> (\<forall>k l. s k = Some l \<longrightarrow> dead_key (dl_reference l) = k)"

datatype dead_op = Push dead_letter | Remove dead_letter_ref

fun dead_step :: "dead_op \<Rightarrow> dead_entries \<Rightarrow> dead_entries" where
  "dead_step (Push l) s = fst (dead_push l s)"
| "dead_step (Remove r) s = fst (dead_remove r s)"

fun dead_op_key :: "dead_op \<Rightarrow> dead_kind \<times> id" where
  "dead_op_key (Push l) = dead_key (dl_reference l)"
| "dead_op_key (Remove r) = dead_key r"

interpretation dead: guarded_store "\<lambda>s. s" dead_step dead_op_key "\<lambda>k l. dead_key (dl_reference l) = k"
proof (unfold_locales, goal_cases)
  case (1 x k s)
  then show ?case by (cases x) (auto simp: dead_push_def dead_remove_def)
next
  case (2 s x v)
  then show ?case by (cases x) (auto simp: dead_push_def dead_remove_def)
qed

lemma dead_run_ok: "dead_entries_ok s \<Longrightarrow> dead_entries_ok (fold dead_step xs s)"
  unfolding dead_entries_ok_def by (rule dead.run_ok)

lemma purge_ok: "dead_entries_ok s \<Longrightarrow> dead_entries_ok (fst (purge_older_than t b s))"
  by (auto simp: dead_entries_ok_def purge_older_than_def split: option.splits if_splits)

lemma dead_list_loop_spec:
  "length out < max 1 limit \<Longrightarrow>
   \<exists>ls'. dead_list_loop t kind limit ls out = out @ ls' \<and> subseq ls' ls \<and>
     length (out @ ls') \<le> max 1 limit \<and>
     (\<forall>l\<in>set ls'. dl_tenant l = t \<and> (\<forall>k. kind = Some k \<longrightarrow> dl_kind l = k))"
proof (induction ls arbitrary: out)
  case (Cons l ls)
  let ?skip = "dl_tenant l \<noteq> t \<or> (case kind of Some k \<Rightarrow> dl_kind l \<noteq> k | None \<Rightarrow> False)"
  show ?case
  proof (cases ?skip)
    case True
    then have "dead_list_loop t kind limit (l # ls) out = dead_list_loop t kind limit ls out"
      by auto
    with Cons.IH[OF Cons.prems] show ?thesis
      by (metis subseq_Cons' list_emb_Cons)
  next
    case keep: False
    show ?thesis
    proof (cases "length (out @ [l]) \<ge> limit")
      case True
      with keep Cons.prems show ?thesis
        by (intro exI[of _ "[l]"]) (auto split: option.splits)
    next
      case False
      then obtain ls' where "dead_list_loop t kind limit ls (out @ [l]) = (out @ [l]) @ ls'"
        "subseq ls' ls" "length ((out @ [l]) @ ls') \<le> max 1 limit"
        "\<forall>l\<in>set ls'. dl_tenant l = t \<and> (\<forall>k. kind = Some k \<longrightarrow> dl_kind l = k)"
        using Cons.IH[of "out @ [l]"] by auto
      with keep False show ?thesis
        by (intro exI[of _ "l # ls'"]) (auto split: option.splits)
    qed
  qed
qed simp

text \<open>Replay of a dead message: it is pending again with no attempts, and the letter is gone.\<close>

lemma dead_replay_outbox:
  assumes "dead_entries_ok (ds_entries s)" "ds_entries s (dead_key r) = Some l"
    and "dl_payload l = PayloadOutbox pm" "ds_outbox s (dl_tenant l, dr_id r) = Some m"
  shows "dead_replay now r s =
    (s\<lparr>ds_outbox := (ds_outbox s)((dl_tenant l, dr_id r) \<mapsto> mark_revived now m),
       ds_entries := (ds_entries s)(dead_key r := None)\<rparr>, Ok ())"
proof -
  have "dead_key (dl_reference l) = dead_key r"
    using assms(1,2) unfolding dead_entries_ok_def by blast
  then have "dl_reference l = r"
    by (simp add: dead_key_def)
  then show ?thesis
    using assms by (simp add: dead_replay_def dead_remove_def outbox_revive_def with_message_def)
qed

text \<open>A replay that fails changes nothing.\<close>

lemma dead_replay_error: "dead_replay now r s = (s', Err e) \<Longrightarrow> s' = s"
  by (auto simp: dead_replay_def dead_remove_def outbox_revive_def with_message_def saga_save_def
      Let_def split: option.splits dead_letter_payload.splits if_splits)

section \<open>Properties\<close>

text \<open>
  Replay revives and consumes.  Replaying the letter of a message that is still in the
  outbox puts it back to pending with no attempts, due at once and eligible for every
  worker, and removes the letter, so a second replay fails; a failed replay changes nothing.
\<close>

theorem dead_replay_revives:
  assumes "dead_entries_ok (ds_entries s)" and "ds_entries s (dead_key r) = Some l"
    and "dl_payload l = PayloadOutbox pm" and "ds_outbox s (dl_tenant l, dr_id r) = Some m"
    and "dead_replay now r s = (s', res)"
  shows "res = Ok () \<and>
    (\<exists>m'. ds_outbox s' (dl_tenant l, dr_id r) = Some m' \<and> om_attempts m' = 0 \<and>
       (om_tenant m = dl_tenant l \<longrightarrow> eligible (dl_tenant l) now w m')) \<and>
    ds_entries s' (dead_key r) = None \<and> ds_saga s' = ds_saga s \<and>
    dead_replay now' r s' = (s', Err (tx_unknown ''dead letter not found''))"
  using assms(5) unfolding dead_replay_outbox[OF assms(1-4)]
  by (auto simp: dead_replay_def mark_revived_def eligible_def)

definition demo_dead :: dead_state where
  "demo_dead =
     \<lparr>ds_outbox = [(''acme'', ''m1'') \<mapsto> mark_dead None (demo_message ''m1'')], ds_saga = Map.empty,
      ds_entries = [(DeadOutbox, ''m1'') \<mapsto> build_dead_letter 9 (mark_dead None (demo_message ''m1'')) None]\<rparr>"

theorem dead_replay_revives_witness:
  "\<exists>s' res. dead_replay 10 \<lparr>dr_kind = DeadOutbox, dr_id = ''m1''\<rparr> demo_dead = (s', res) \<and> res = Ok ()"
proof -
  obtain s' res where run: "dead_replay 10 \<lparr>dr_kind = DeadOutbox, dr_id = ''m1''\<rparr> demo_dead = (s', res)"
    by fastforce
  have "res = Ok ()"
    by (rule dead_replay_revives[THEN conjunct1, of demo_dead "\<lparr>dr_kind = DeadOutbox, dr_id = ''m1''\<rparr>"
          "build_dead_letter 9 (mark_dead None (demo_message ''m1'')) None"
          "mark_dead None (demo_message ''m1'')" "mark_dead None (demo_message ''m1'')" 10 s'])
      (use run in \<open>auto simp: demo_dead_def dead_entries_ok_def dead_key_def build_dead_letter_def
        demo_message_def build_outbox_message_def\<close>)
  with run show ?thesis by blast
qed

text \<open>
  Dead letters of different tenants collide.  Letters are stored under kind and id
  only, while outbox ids are unique per tenant; pushing one tenant's letter silently drops
  another tenant's letter for the same id, which can then neither be listed nor replayed.
\<close>

theorem dead_push_overwrites_other_tenant:
  assumes "s (dead_key (dl_reference l1)) = Some l1" and "dl_reference l2 = dl_reference l1"
    and "dl_tenant l2 \<noteq> dl_tenant l1" and "dead_entries_ok s"
  shows "l1 \<notin> ran (fst (dead_push l2 s))"
  using assms by (auto simp: dead_push_def ran_def dead_entries_ok_def split: if_splits)

theorem dead_push_overwrites_other_tenant_witness:
  "build_dead_letter 9 (demo_message ''m1'') None \<notin>
     ran (fst (dead_push (build_dead_letter 9 ((demo_message ''m1'')\<lparr>om_tenant := ''other''\<rparr>) None)
       [(DeadOutbox, ''m1'') \<mapsto> build_dead_letter 9 (demo_message ''m1'') None]))"
  by (rule dead_push_overwrites_other_tenant)
    (auto simp: dead_key_def build_dead_letter_def demo_message_def build_outbox_message_def
      dead_entries_ok_def)

end
