(* ===== verification/TxQos.thy ===== *)
theory TxQos
  imports TxModel
begin

text \<open>
  The dispatch budget of a tenant (\<open>qos.rs\<close>): the in-flight ceiling and the
  per-window ceiling of \<open>SimpleBudgetGuard\<close>, the no-op guard, and the choice
  \<open>build_budget_guard\<close> makes between them.  Counters are \<open>u32\<close> words.
\<close>

record tenant_budget =
  inflight :: "32 word"
  window_start_ms :: int
  window_count :: "32 word"

type_synonym budgets = "tenant_id \<Rightarrow> tenant_budget option"

definition fresh_budget :: tenant_budget where
  "fresh_budget = \<lparr>inflight = 0, window_start_ms = 0, window_count = 0\<rparr>"

definition tenant_entry :: "tenant_id \<Rightarrow> budgets \<Rightarrow> tenant_budget" where
  "tenant_entry t s = (case s t of Some b \<Rightarrow> b | None \<Rightarrow> fresh_budget)"

text \<open>\<open>(window_sec as i64).max(1) * 1_000\<close>.\<close>

definition window_ms_of :: "64 word \<Rightarrow> int" where
  "window_ms_of secs = i64_wrap (max (sint secs) 1 * 1000)"

definition roll_window :: "int \<Rightarrow> 64 word \<Rightarrow> tenant_budget \<Rightarrow> tenant_budget" where
  "roll_window now secs b =
     (if i64_sub now (window_start_ms b) \<ge> window_ms_of secs
      then b\<lparr>window_start_ms := now, window_count := 0\<rparr> else b)"

definition over_inflight :: "budget_config \<Rightarrow> tenant_budget \<Rightarrow> bool" where
  "over_inflight cfg b = (case max_inflight cfg of Some mx \<Rightarrow> inflight b \<ge> mx | None \<Rightarrow> False)"

definition attempt_budget ::
  "budget_config \<Rightarrow> tenant_id \<Rightarrow> int \<Rightarrow> tenant_budget \<Rightarrow> tenant_budget \<times> string option" where
  "attempt_budget cfg t now b =
     (if over_inflight cfg b then
        (b, Some (''tenant '' @ t @ '' exceeds max inflight ''
                    @ show_nat (unat (the (max_inflight cfg)))))
      else
        case (max_dispatch_per_window cfg, window_seconds cfg) of
          (Some limit, Some secs) \<Rightarrow>
            (let b = roll_window now secs b in
             if window_count b \<ge> limit then
               (b, Some (''tenant '' @ t @ '' exceeds dispatch limit '' @ show_nat (unat limit)
                          @ ''/'' @ show_nat (unat secs) @ ''s''))
             else (b\<lparr>window_count := window_count b + 1, inflight := inflight b + 1\<rparr>, None))
        | _ \<Rightarrow> (b\<lparr>inflight := inflight b + 1\<rparr>, None))"

definition simple_on_attempt ::
  "budget_config \<Rightarrow> int \<Rightarrow> tenant_id \<Rightarrow> budgets \<Rightarrow> budgets \<times> unit tx_result" where
  "simple_on_attempt cfg now t s =
     (let (b, exceeded) = attempt_budget cfg t now (tenant_entry t s)
      in (s(t \<mapsto> b), case exceeded of Some msg \<Rightarrow> Err (budget_exhausted msg) | None \<Rightarrow> Ok ()))"

definition simple_on_result :: "tenant_id \<Rightarrow> budgets \<Rightarrow> budgets \<times> unit tx_result" where
  "simple_on_result t s =
     (let b = tenant_entry t s
      in (s(t \<mapsto> (if inflight b > 0 then b\<lparr>inflight := inflight b - 1\<rparr> else b)), Ok ()))"

datatype budget_guard = NoopGuard | SimpleGuard budget_config

definition build_budget_guard :: "budget_config \<Rightarrow> budget_guard" where
  "build_budget_guard cfg =
     (if max_inflight cfg = None \<and> max_dispatch_per_window cfg = None then NoopGuard
      else SimpleGuard cfg)"

fun on_dispatch_attempt ::
  "budget_guard \<Rightarrow> int \<Rightarrow> tenant_id \<Rightarrow> outbox_message \<Rightarrow> budgets \<Rightarrow> budgets \<times> unit tx_result" where
  "on_dispatch_attempt NoopGuard now t m s = (s, Ok ())"
| "on_dispatch_attempt (SimpleGuard cfg) now t m s = simple_on_attempt cfg now t s"

fun on_dispatch_result ::
  "budget_guard \<Rightarrow> tenant_id \<Rightarrow> outbox_message \<Rightarrow> bool \<Rightarrow> budgets \<Rightarrow> budgets \<times> unit tx_result" where
  "on_dispatch_result NoopGuard t m ok s = (s, Ok ())"
| "on_dispatch_result (SimpleGuard cfg) t m ok s = simple_on_result t s"

section \<open>The guard as a state machine\<close>

text \<open>
  One call on the guard, for any tenant, at any clock reading; \<open>granted\<close> says whether
  the call took a slot, \<open>freed\<close> whether it gave one back.
\<close>

datatype guard_call = Attempt tenant_id int | Finished tenant_id

fun guard_step :: "budget_config \<Rightarrow> guard_call \<Rightarrow> budgets \<Rightarrow> budgets" where
  "guard_step cfg (Attempt t now) s = fst (simple_on_attempt cfg now t s)"
| "guard_step cfg (Finished t) s = fst (simple_on_result t s)"

definition guard_run :: "budget_config \<Rightarrow> guard_call list \<Rightarrow> budgets \<Rightarrow> budgets" where
  "guard_run cfg calls s = fold (guard_step cfg) calls s"

definition within_ceiling :: "budget_config \<Rightarrow> budgets \<Rightarrow> bool" where
  "within_ceiling cfg s \<longleftrightarrow>
     (\<forall>t b mx. s t = Some b \<longrightarrow> max_inflight cfg = Some mx \<longrightarrow> inflight b \<le> mx)"

definition within_window :: "budget_config \<Rightarrow> budgets \<Rightarrow> bool" where
  "within_window cfg s \<longleftrightarrow>
     (\<forall>t b limit. s t = Some b \<longrightarrow> max_dispatch_per_window cfg = Some limit \<longrightarrow>
        window_count b \<le> limit)"

lemma word_Suc_le: "a < b \<Longrightarrow> a + 1 \<le> b" for a b :: "'a::len word"
  by (metis add.commute inc_le)

lemma roll_window_simps [simp]:
  "inflight (roll_window now secs b) = inflight b"
  by (simp_all add: roll_window_def)

lemma roll_window_le: "window_count b \<le> n \<Longrightarrow> window_count (roll_window now secs b) \<le> n"
  by (simp add: roll_window_def)

lemma attempt_budget_inflight:
  "inflight (fst (attempt_budget cfg t now b)) =
     (if snd (attempt_budget cfg t now b) = None then inflight b + 1 else inflight b)"
  by (auto simp: attempt_budget_def Let_def split: option.splits)

lemma attempt_budget_ceiling:
  "max_inflight cfg = Some mx \<Longrightarrow> inflight b \<le> mx \<Longrightarrow>
   inflight (fst (attempt_budget cfg t now b)) \<le> mx"
  by (auto simp: attempt_budget_def Let_def over_inflight_def not_le intro: word_Suc_le
      split: option.splits)

lemma attempt_budget_window:
  "max_dispatch_per_window cfg = Some limit \<Longrightarrow> window_count b \<le> limit \<Longrightarrow>
   window_count (fst (attempt_budget cfg t now b)) \<le> limit"
  by (auto simp: attempt_budget_def Let_def not_le intro!: word_Suc_le order_antisym
      intro: roll_window_le split: option.splits)

lemma tenant_entry_fresh: "s t = None \<Longrightarrow> tenant_entry t s = fresh_budget"
  by (simp add: tenant_entry_def)

lemma tenant_entry_Some [simp]: "s t = Some b \<Longrightarrow> tenant_entry t s = b"
  by (simp add: tenant_entry_def)

lemma within_entry:
  "within_ceiling cfg s \<Longrightarrow> max_inflight cfg = Some mx \<Longrightarrow> inflight (tenant_entry t s) \<le> mx"
  "within_window cfg s \<Longrightarrow> max_dispatch_per_window cfg = Some limit \<Longrightarrow>
     window_count (tenant_entry t s) \<le> limit"
  by (cases "s t"; simp add: tenant_entry_fresh fresh_budget_def within_ceiling_def
      within_window_def)+

lemma word_pred_le: "0 < a \<Longrightarrow> a \<le> b \<Longrightarrow> a - 1 \<le> b" for a b :: "'a::len word"
  using unat_minus_one[of a] by (cases "a = 0") (simp_all add: word_le_nat_alt)

lemma guard_step_ceiling: "within_ceiling cfg s \<Longrightarrow> within_ceiling cfg (guard_step cfg c s)"
proof (cases c)
  case (Attempt t now)
  assume "within_ceiling cfg s"
  with Attempt show ?thesis
    using within_entry(1) attempt_budget_ceiling
    by (fastforce simp: within_ceiling_def simple_on_attempt_def Let_def split_beta)
next
  case (Finished t)
  assume s: "within_ceiling cfg s"
  show ?thesis
    unfolding within_ceiling_def
  proof (intro allI impI)
    fix t' b mx
    assume *: "guard_step cfg c s t' = Some b" "max_inflight cfg = Some mx"
    show "inflight b \<le> mx"
      using * within_entry(1)[OF s *(2), of t] s
      by (auto simp: Finished simple_on_result_def Let_def within_ceiling_def word_pred_le
          split: if_splits)
  qed
qed

lemma guard_step_window: "within_window cfg s \<Longrightarrow> within_window cfg (guard_step cfg c s)"
proof (cases c)
  case (Attempt t now)
  assume "within_window cfg s"
  with Attempt show ?thesis
    using within_entry(2) attempt_budget_window
    by (fastforce simp: within_window_def simple_on_attempt_def Let_def split_beta)
next
  case (Finished t)
  assume "within_window cfg s"
  with Finished show ?thesis
    using within_entry(2)
    by (fastforce simp: within_window_def simple_on_result_def Let_def)
qed

lemma guard_run_within:
  "within_ceiling cfg s \<Longrightarrow> within_ceiling cfg (guard_run cfg calls s)"
  "within_window cfg s \<Longrightarrow> within_window cfg (guard_run cfg calls s)"
  by (induction calls arbitrary: s) (auto simp: guard_run_def guard_step_ceiling guard_step_window)

lemma within_empty [simp]: "within_ceiling cfg Map.empty" "within_window cfg Map.empty"
  by (simp_all add: within_ceiling_def within_window_def)

section \<open>Properties\<close>



text \<open>
  A refused attempt costs nothing, a granted one takes exactly one slot, and finishing
  gives exactly one back: the in-flight count of the tenant is what its grants and
  completions make it, and other tenants are not touched.
\<close>

theorem budget_attempt_accounting:
  assumes "simple_on_attempt cfg now t s = (s', r)"
  shows "inflight (tenant_entry t s') =
      (if is_ok r then inflight (tenant_entry t s) + 1 else inflight (tenant_entry t s)) \<and>
    (is_ok r \<longleftrightarrow> \<not> over_inflight cfg (tenant_entry t s) \<and>
      (case (max_dispatch_per_window cfg, window_seconds cfg) of
         (Some limit, Some secs) \<Rightarrow> window_count (roll_window now secs (tenant_entry t s)) < limit
       | _ \<Rightarrow> True)) \<and>
    (\<forall>t'. t' \<noteq> t \<longrightarrow> s' t' = s t') \<and>
    (is_ok r \<and> inflight (tenant_entry t s) \<noteq> - 1 \<longrightarrow>
      inflight (tenant_entry t (fst (simple_on_result t s'))) = inflight (tenant_entry t s))"
proof -
  obtain b ex where b: "attempt_budget cfg t now (tenant_entry t s) = (b, ex)"
    by (cases "attempt_budget cfg t now (tenant_entry t s)")
  have s': "s' = s(t \<mapsto> b)" and r: "is_ok r \<longleftrightarrow> ex = None"
    using assms b by (auto simp: simple_on_attempt_def split: option.splits)
  have count: "inflight b = (if ex = None then inflight (tenant_entry t s) + 1 else inflight (tenant_entry t s))"
    using attempt_budget_inflight[of cfg t now "tenant_entry t s"] b by simp
  have grant: "ex = None \<longleftrightarrow> \<not> over_inflight cfg (tenant_entry t s) \<and>
      (case (max_dispatch_per_window cfg, window_seconds cfg) of
         (Some limit, Some secs) \<Rightarrow> window_count (roll_window now secs (tenant_entry t s)) < limit
       | _ \<Rightarrow> True)"
    using b by (auto simp: attempt_budget_def Let_def not_le[symmetric] split: option.splits if_splits)
  have "x + 1 \<noteq> 0" if "x \<noteq> - 1" for x :: "32 word"
    using that by (metis add.commute add_eq_0_iff)
  then show ?thesis
    using count grant by (auto simp: s' r simple_on_result_def word_gt_0)
qed

theorem budget_attempt_accounting_witness:
  "inflight (tenant_entry ''t'' [''t'' \<mapsto> \<lparr>inflight = 1, window_start_ms = 0, window_count = 0\<rparr>]) = 1"
  using budget_attempt_accounting[of "\<lparr>max_inflight = Some 1, max_dispatch_per_window = None,
      window_seconds = None\<rparr>" 5 "''t''" Map.empty
      "[''t'' \<mapsto> \<lparr>inflight = 1, window_start_ms = 0, window_count = 0\<rparr>]" "Ok ()"]
  by (simp add: simple_on_attempt_def attempt_budget_def over_inflight_def tenant_entry_def
      fresh_budget_def)

end
