(* ===== verification/TxDispatcher.thy ===== *)
theory TxDispatcher
  imports TxDead TxQos
begin

text \<open>
  The dispatcher (\<open>outbox.rs\<close>, \<open>Dispatcher::tick\<close>).  The transport, the
  store, the dead-letter store, the metrics sink and the budget guard are trait objects:
  \<open>dispatcher\<close> is the record of the calls the dispatcher makes on them, each a
  function on one world \<open>'w\<close> that holds all their states.  The locale
  \<open>outbox_backend\<close> states what the dispatcher relies on, and its lemmas hold for
  every backend that keeps it.
\<close>

datatype metric_event =
    MetricEnqueue tenant_id string
  | MetricDispatch tenant_id string "32 word" bool "string option"
  | MetricDeadLetter tenant_id string "string option"
  | MetricDeadReplay tenant_id dead_kind
  | MetricIdempotency tenant_id idempo_status

record 'w dispatcher =
  d_send :: "outbox_message \<Rightarrow> 'w \<Rightarrow> 'w \<times> unit tx_result"
  d_lease_batch ::
    "tenant_id \<Rightarrow> int \<Rightarrow> int \<Rightarrow> nat \<Rightarrow> string \<Rightarrow> bool \<Rightarrow> 'w \<Rightarrow> 'w \<times> outbox_message list tx_result"
  d_ack_done :: "tenant_id \<Rightarrow> id \<Rightarrow> 'w \<Rightarrow> 'w \<times> unit tx_result"
  d_nack_backoff :: "tenant_id \<Rightarrow> id \<Rightarrow> int \<Rightarrow> string option \<Rightarrow> 'w \<Rightarrow> 'w \<times> unit tx_result"
  d_dead_letter :: "tenant_id \<Rightarrow> id \<Rightarrow> string option \<Rightarrow> 'w \<Rightarrow> 'w \<times> dead_letter tx_result"
  d_dead_push :: "(dead_letter \<Rightarrow> 'w \<Rightarrow> 'w \<times> unit tx_result) option"
  d_metric :: "metric_event \<Rightarrow> 'w \<Rightarrow> 'w"
  d_qos_attempt :: "tenant_id \<Rightarrow> outbox_message \<Rightarrow> 'w \<Rightarrow> 'w \<times> unit tx_result"
  d_qos_result :: "tenant_id \<Rightarrow> outbox_message \<Rightarrow> bool \<Rightarrow> 'w \<Rightarrow> 'w \<times> unit tx_result"
  d_worker_id :: string
  d_max_attempts :: "32 word"
  d_lease_ms :: int
  d_batch :: nat
  d_next_after :: "int \<Rightarrow> 32 word \<Rightarrow> int"
  d_group_by_dispatch_key :: bool

text \<open>The body of the loop over the leased messages.\<close>

definition dispatch_sent ::
  "'w dispatcher \<Rightarrow> tenant_id \<Rightarrow> outbox_message \<Rightarrow> 'w \<Rightarrow> 'w \<times> unit tx_result" where
  "dispatch_sent d tenant m w =
     and_do (d_ack_done d tenant (om_id m) w) (\<lambda>_ w.
       d_qos_result d tenant m True
         (d_metric d (MetricDispatch tenant (om_topic m) (om_attempts m + 1) True None) w))"

definition dispatch_failed ::
  "'w dispatcher \<Rightarrow> tenant_id \<Rightarrow> int \<Rightarrow> outbox_message \<Rightarrow> tx_error \<Rightarrow> 'w \<Rightarrow> 'w \<times> unit tx_result" where
  "dispatch_failed d tenant now m err w =
     (let attempts = om_attempts m + 1;
          code = tx_code err;
          err_string = tx_to_string err
      in if attempts \<ge> d_max_attempts d then
           and_do (d_dead_letter d tenant (om_id m) (Some err_string) w) (\<lambda>letter w.
           and_do (case d_dead_push d of Some push \<Rightarrow> push letter w | None \<Rightarrow> (w, Ok ())) (\<lambda>_ w.
             d_qos_result d tenant m False
               (d_metric d (MetricDeadLetter tenant (om_topic m) (Some code))
               (d_metric d (MetricDispatch tenant (om_topic m) attempts False (Some code)) w))))
         else
           let next_ms = d_next_after d now attempts in
           and_do (d_nack_backoff d tenant (om_id m) next_ms (Some err_string) w) (\<lambda>_ w.
             d_qos_result d tenant m False
               (d_metric d (MetricDispatch tenant (om_topic m) attempts False (Some code)) w)))"

definition dispatch_one ::
  "'w dispatcher \<Rightarrow> tenant_id \<Rightarrow> int \<Rightarrow> outbox_message \<Rightarrow> 'w \<Rightarrow> 'w \<times> unit tx_result" where
  "dispatch_one d tenant now m w =
     and_do (d_qos_attempt d tenant m w) (\<lambda>_ w.
       let (w, sent) = d_send d m w in
       case sent of
         Inr _ \<Rightarrow> dispatch_sent d tenant m w
       | Inl err \<Rightarrow> dispatch_failed d tenant now m err w)"

fun dispatch_all ::
  "'w dispatcher \<Rightarrow> tenant_id \<Rightarrow> int \<Rightarrow> outbox_message list \<Rightarrow> 'w \<Rightarrow> 'w \<times> unit tx_result" where
  "dispatch_all d tenant now [] w = (w, Ok ())"
| "dispatch_all d tenant now (m # ms) w =
     and_do (dispatch_one d tenant now m w) (\<lambda>_. dispatch_all d tenant now ms)"

definition dispatcher_tick ::
  "'w dispatcher \<Rightarrow> tenant_id \<Rightarrow> int \<Rightarrow> 'w \<Rightarrow> 'w \<times> unit tx_result" where
  "dispatcher_tick d tenant now w =
     and_do (d_lease_batch d tenant now (d_lease_ms d) (d_batch d) (d_worker_id d)
               (d_group_by_dispatch_key d) w)
       (dispatch_all d tenant now)"

text \<open>
  What the tick makes of a leased message, given the transport's answer: the abstract
  transition of the outbox.
\<close>

definition outcome ::
  "32 word \<Rightarrow> (int \<Rightarrow> 32 word \<Rightarrow> int) \<Rightarrow> int \<Rightarrow> unit tx_result \<Rightarrow> outbox_message \<Rightarrow> outbox_message" where
  "outcome max_attempts next_after now answer m =
     (case answer of
        Inr _ \<Rightarrow> mark_done m
      | Inl err \<Rightarrow>
          if om_attempts m + 1 \<ge> max_attempts then mark_dead (Some (tx_to_string err)) m
          else mark_backoff (next_after now (om_attempts m + 1)) (Some (tx_to_string err)) m)"

section \<open>The backend contract\<close>

text \<open>
  \<open>msgs\<close> is the outbox inside the world and \<open>answer\<close> the transport's verdict on
  each message.  The store's operations act on the addressed message, everything else
  leaves the messages alone.  A backend may wear out, as a counter of fixed width does: \<open>inv n w\<close>
  says that the world can take \<open>n\<close> more operations of the store.
\<close>

locale outbox_backend =
  fixes d :: "'w dispatcher"
    and msgs :: "'w \<Rightarrow> outbox"
    and answer :: "outbox_message \<Rightarrow> unit tx_result"
    and inv :: "nat \<Rightarrow> 'w \<Rightarrow> bool"
  assumes inv_less: "inv (Suc n) w \<Longrightarrow> inv n w"
    and send_law: "msgs (fst (d_send d m w)) = msgs w" "snd (d_send d m w) = answer m"
      "inv n w \<Longrightarrow> inv n (fst (d_send d m w))"
    and ack_law: "inv (Suc n) w \<Longrightarrow> msgs w (t, i) = Some m \<Longrightarrow>
      msgs (fst (d_ack_done d t i w)) = (msgs w)((t, i) \<mapsto> mark_done m)
      \<and> snd (d_ack_done d t i w) = Ok () \<and> inv n (fst (d_ack_done d t i w))"
    and nack_law: "inv (Suc n) w \<Longrightarrow> msgs w (t, i) = Some m \<Longrightarrow> nb = d_next_after d now a \<Longrightarrow>
      msgs (fst (d_nack_backoff d t i nb err w)) = (msgs w)((t, i) \<mapsto> mark_backoff nb err m)
      \<and> snd (d_nack_backoff d t i nb err w) = Ok () \<and> inv n (fst (d_nack_backoff d t i nb err w))"
    and dead_law: "inv (Suc n) w \<Longrightarrow> msgs w (t, i) = Some m \<Longrightarrow>
      msgs (fst (d_dead_letter d t i err w)) = (msgs w)((t, i) \<mapsto> mark_dead err m)
      \<and> inv n (fst (d_dead_letter d t i err w))"
    and push_law: "inv n w \<Longrightarrow> d_dead_push d = Some push \<Longrightarrow> msgs (fst (push l w)) = msgs w \<and> inv n (fst (push l w))"
    and metric_law: "msgs (d_metric d e w) = msgs w" "inv n w \<Longrightarrow> inv n (d_metric d e w)"
    and qos_law: "msgs (fst (d_qos_attempt d t m w)) = msgs w" "inv n w \<Longrightarrow> inv n (fst (d_qos_attempt d t m w))"
      "msgs (fst (d_qos_result d t m ok w)) = msgs w" "inv n w \<Longrightarrow> inv n (fst (d_qos_result d t m ok w))"
begin

abbreviation result_of :: "int \<Rightarrow> outbox_message \<Rightarrow> outbox_message" where
  "result_of now m \<equiv> outcome (d_max_attempts d) (d_next_after d) now (answer m) m"

lemma inv_le: "inv n w \<Longrightarrow> k \<le> n \<Longrightarrow> inv k w"
proof (induction n)
  case (Suc n)
  then show ?case using inv_less by (cases "k = Suc n") auto
qed simp

lemma dispatch_sent_msgs:
  "inv (Suc n) w \<Longrightarrow> msgs w (t, om_id m) = Some m \<Longrightarrow>
   msgs (fst (dispatch_sent d t m w)) = (msgs w)((t, om_id m) \<mapsto> mark_done m) \<and>
   inv n (fst (dispatch_sent d t m w))"
  using ack_law[of n w t "om_id m" m]
  by (simp add: dispatch_sent_def and_do_def qos_law metric_law)

lemma dispatch_failed_msgs:
  assumes "inv (Suc n) w" "msgs w (t, om_id m) = Some m"
  shows "msgs (fst (dispatch_failed d t now m err w)) =
    (msgs w)((t, om_id m) \<mapsto> outcome (d_max_attempts d) (d_next_after d) now (Err err) m) \<and>
    inv n (fst (dispatch_failed d t now m err w))"
proof -
  have push: "msgs (fst (case d_dead_push d of Some push \<Rightarrow> push l w' | None \<Rightarrow> (w', Ok ()))) = msgs w'"
    "inv n (fst (case d_dead_push d of Some push \<Rightarrow> push l w' | None \<Rightarrow> (w', Ok ())))" if "inv n w'" for l w'
    using that by (cases "d_dead_push d"; simp add: push_law)+
  note nack = nack_law[OF assms refl, of now "om_attempts m + 1" "Some (tx_to_string err)"]
  note dead = dead_law[OF assms, of "Some (tx_to_string err)"]
  show ?thesis
  proof (cases "om_attempts m + 1 \<ge> d_max_attempts d")
    case False
    then show ?thesis
      using nack by (simp add: dispatch_failed_def Let_def and_do_def outcome_def qos_law metric_law)
  next
    case True
    obtain w1 r where w1: "d_dead_letter d t (om_id m) (Some (tx_to_string err)) w = (w1, r)" by fastforce
    show ?thesis
    proof (cases r)
      case (Inl e)
      with True w1 dead show ?thesis
        by (simp add: dispatch_failed_def Let_def and_do_def outcome_def)
    next
      case (Inr l)
      obtain w2 r2 where w2: "(case d_dead_push d of Some push \<Rightarrow> push l w1 | None \<Rightarrow> (w1, Ok ())) = (w2, r2)" by fastforce
      have "msgs w2 = msgs w1" "inv n w2"
        using push[of w1 l] dead w1 w2 by simp_all
      moreover have "dispatch_failed d t now m err w = and_do (w2, r2) (\<lambda>_ w.
          d_qos_result d t m False (d_metric d (MetricDeadLetter t (om_topic m) (Some (tx_code err)))
            (d_metric d (MetricDispatch t (om_topic m) (om_attempts m + 1) False (Some (tx_code err))) w)))"
        by (simp only: dispatch_failed_def Let_def True if_True w1 Inr and_do_simps w2)
      ultimately show ?thesis
        using True w1 dead by (cases r2) (simp_all add: outcome_def qos_law metric_law)
    qed
  qed
qed

text \<open>
  One message: refused by the guard and untouched, or sent and given its outcome.  A
  successful return always means the second.
\<close>

lemma dispatch_one_msgs:
  assumes "inv (Suc n) w" "msgs w (t, om_id m) = Some m"
  shows "(msgs (fst (dispatch_one d t now m w)) = (msgs w)((t, om_id m) \<mapsto> result_of now m) \<or>
    msgs (fst (dispatch_one d t now m w)) = msgs w \<and> \<not> is_ok (snd (dispatch_one d t now m w))) \<and>
    inv n (fst (dispatch_one d t now m w))"
proof (cases "snd (d_qos_attempt d t m w)")
  case (Inl e)
  then show ?thesis
    using assms(1) inv_less by (simp add: dispatch_one_def and_do_def qos_law)
next
  case (Inr u)
  let ?w1 = "fst (d_qos_attempt d t m w)"
  obtain w2 where send: "d_send d m ?w1 = (w2, answer m)"
    using send_law(2)[of m ?w1] by (cases "d_send d m ?w1") auto
  have w2: "msgs w2 = msgs w"
    using send_law(1)[of m ?w1] by (simp add: send qos_law)
  have inv2: "inv (Suc n) w2"
    using send_law(3)[of "Suc n" ?w1 m] assms(1) by (simp add: send qos_law)
  have "dispatch_one d t now m w = (case answer m of
      Inr _ \<Rightarrow> dispatch_sent d t m w2 | Inl err \<Rightarrow> dispatch_failed d t now m err w2)"
    using Inr send by (simp add: dispatch_one_def and_do_def)
  then show ?thesis
    using assms(2) dispatch_sent_msgs[OF inv2, of t m] dispatch_failed_msgs[OF inv2, of t m now]
    by (cases "answer m") (simp_all add: w2 outcome_def)
qed

text \<open>
  The whole batch: a prefix of it is processed in order, all of it when the tick returns
  without an error.
\<close>

lemma dispatch_all_msgs:
  assumes "inv (length ms + k) w" "distinct (map om_id ms)" "\<forall>m\<in>set ms. msgs w (t, om_id m) = Some m"
  shows "inv k (fst (dispatch_all d t now ms w)) \<and> (\<exists>n\<le>length ms.
    msgs (fst (dispatch_all d t now ms w)) =
      (\<lambda>k. if fst k = t \<and> snd k \<in> om_id ` set (take n ms)
           then map_option (result_of now) (msgs w k) else msgs w k) \<and>
    (is_ok (snd (dispatch_all d t now ms w)) \<longrightarrow> n = length ms))"
  using assms
proof (induction ms arbitrary: w)
  case Nil
  then show ?case by auto
next
  case (Cons m ms)
  let ?p = "dispatch_one d t now m w"
  have m: "msgs w (t, om_id m) = Some m"
    using Cons.prems(3) by simp
  have wear: "inv (Suc (length ms + k)) w"
    using Cons.prems(1) by simp
  note one = dispatch_one_msgs[OF wear m, of now]
  show ?case
  proof (cases "snd ?p")
    case (Inl e)
    then have err: "dispatch_all d t now (m # ms) w = (fst ?p, Err e)"
      by (simp add: and_do_def)
    have kept: "inv k (fst ?p)"
      using one inv_le[of "length ms + k" "fst ?p" k] by simp
    from one Inl consider "msgs (fst ?p) = (msgs w)((t, om_id m) \<mapsto> result_of now m)"
      | "msgs (fst ?p) = msgs w" by blast
    then show ?thesis
    proof cases
      case 1
      then show ?thesis
        unfolding err using m kept by (intro conjI exI[of _ 1]) (auto simp: fun_eq_iff)
    next
      case 2
      then show ?thesis
        unfolding err using kept by (intro conjI exI[of _ 0]) auto
    qed
  next
    case (Inr u)
    then have rest: "dispatch_all d t now (m # ms) w = dispatch_all d t now ms (fst ?p)"
      by (simp add: and_do_def)
    have w1: "msgs (fst ?p) = (msgs w)((t, om_id m) \<mapsto> result_of now m)"
      using one Inr by (elim conjE disjE) simp_all
    have new: "om_id m' \<noteq> om_id m" if "m' \<in> set ms" for m'
      using Cons.prems(2) imageI[OF that, of om_id] by auto
    have "\<forall>m'\<in>set ms. msgs (fst ?p) (t, om_id m') = Some m'" "distinct (map om_id ms)" "inv (length ms + k) (fst ?p)"
      using Cons.prems(2,3) new one by (simp_all add: w1)
    from Cons.IH[OF this(3,2,1)] obtain n where n: "n \<le> length ms"
      "msgs (fst (dispatch_all d t now ms (fst ?p))) =
        (\<lambda>k. if fst k = t \<and> snd k \<in> om_id ` set (take n ms)
             then map_option (result_of now) (msgs (fst ?p) k) else msgs (fst ?p) k)"
      "is_ok (snd (dispatch_all d t now ms (fst ?p))) \<longrightarrow> n = length ms"
      and kept: "inv k (fst (dispatch_all d t now ms (fst ?p)))"
      by blast
    have fresh: "om_id m \<notin> om_id ` set (take n ms)"
      using Cons.prems(2) by (auto dest: in_set_takeD)
    show ?thesis
      unfolding rest n(2) using n(1,3) m fresh kept
      by (intro conjI exI[of _ "Suc n"]) (auto simp: w1 fun_eq_iff)
  qed
qed

text \<open>With a transport that takes every message and no budget the batch is delivered.\<close>

lemma dispatch_all_delivers:
  assumes "inv (length ms) w" "distinct (map om_id ms)" "\<forall>m\<in>set ms. msgs w (t, om_id m) = Some m"
    and free: "\<And>m w. is_ok (snd (d_qos_attempt d t m w))" "\<And>m w. is_ok (snd (d_qos_result d t m True w))"
    and taken: "\<And>m. answer m = Ok ()"
  shows "is_ok (snd (dispatch_all d t now ms w))"
  using assms(1-3)
proof (induction ms arbitrary: w)
  case (Cons m ms)
  let ?p = "dispatch_one d t now m w"
  have wear: "inv (Suc (length ms)) w" and m: "msgs w (t, om_id m) = Some m"
    using Cons.prems by simp_all
  obtain w1 where w1: "d_qos_attempt d t m w = (w1, Ok ())"
    using free(1)[of m w] by (cases "d_qos_attempt d t m w"; cases "snd (d_qos_attempt d t m w)") auto
  obtain w2 where w2: "d_send d m w1 = (w2, Ok ())"
    using send_law(2)[of m w1] taken by (cases "d_send d m w1") auto
  have same: "msgs w2 = msgs w" "inv (Suc (length ms)) w2"
    using qos_law(1)[of t m w] qos_law(2)[of "Suc (length ms)" w t m] send_law(1)[of m w1] send_law(3)[of "Suc (length ms)" w1 m] wear by (simp_all add: w1 w2)
  have "is_ok (snd ?p)"
    using ack_law[OF same(2), of t "om_id m" m] m same(1) free(2)
    by (simp add: dispatch_one_def w1 w2 dispatch_sent_def and_do_def)
  moreover from this have done1: "msgs (fst ?p) = (msgs w)((t, om_id m) \<mapsto> result_of now m)" "inv (length ms) (fst ?p)"
    using dispatch_one_msgs[OF wear m, of now] by blast+
  moreover have "om_id m' \<noteq> om_id m" if "m' \<in> set ms" for m'
    using Cons.prems(2) imageI[OF that, of om_id] by auto
  then have "is_ok (snd (dispatch_all d t now ms (fst ?p)))"
    using Cons.prems(2,3) by (intro Cons.IH) (simp_all add: done1)
  ultimately show ?case
    by (cases "snd ?p") (simp_all add: and_do_def)
qed simp

end

text \<open>
  A backend whose lease obeys the outbox's lease contract; \<open>eff\<close> is the grouping
  flag it really applies, \<open>ready\<close> what it needs of the clock and the world.  A lease that fails has
  leased nothing.
\<close>

locale leasing_backend = outbox_backend d msgs answer inv
  for d :: "'w dispatcher" and msgs :: "'w \<Rightarrow> outbox"
    and answer :: "outbox_message \<Rightarrow> unit tx_result" and inv :: "nat \<Rightarrow> 'w \<Rightarrow> bool" +
  fixes ready :: "int \<Rightarrow> 'w \<Rightarrow> bool" and eff :: bool
  assumes lease_law: "inv n w \<Longrightarrow> ready now w \<Longrightarrow>
    p = d_lease_batch d t now (d_lease_ms d) (d_batch d) (d_worker_id d) (d_group_by_dispatch_key d) w \<Longrightarrow>
    inv n (fst p) \<and>
    (case snd p of
       Inl e \<Rightarrow> msgs (fst p) = msgs w
     | Inr ms \<Rightarrow> \<exists>sel. ms = map (mark_leased (lease_deadline now (d_lease_ms d)) (d_worker_id d)) sel
         \<and> lease_choice t now (d_batch d) (d_worker_id d) eff (msgs w) sel
         \<and> msgs (fst p) = lease_all t (lease_deadline now (d_lease_ms d)) (d_worker_id d) sel (msgs w))"
begin

abbreviation leased_by :: "int \<Rightarrow> outbox_message \<Rightarrow> outbox_message" where
  "leased_by now m \<equiv> mark_leased (lease_deadline now (d_lease_ms d)) (d_worker_id d) m"

abbreviation lease_of :: "tenant_id \<Rightarrow> int \<Rightarrow> 'w \<Rightarrow> 'w \<times> outbox_message list tx_result" where
  "lease_of t now w \<equiv>
     d_lease_batch d t now (d_lease_ms d) (d_batch d) (d_worker_id d) (d_group_by_dispatch_key d) w"

lemma tick_lease_fails:
  assumes "inv n w" "ready now w" "snd (lease_of t now w) = Err e"
  shows "snd (dispatcher_tick d t now w) = Err e \<and> msgs (fst (dispatcher_tick d t now w)) = msgs w"
  using lease_law[OF assms(1,2) refl, of t] assms(3)
  by (simp add: dispatcher_tick_def and_do_def)

lemma leased_batch:
  assumes "inv (max 1 (d_batch d)) w" "ready now w" "is_ok (snd (lease_of t now w))"
  shows "\<exists>sel. snd (lease_of t now w) = Ok (map (leased_by now) sel) \<and>
    lease_choice t now (d_batch d) (d_worker_id d) eff (msgs w) sel \<and>
    msgs (fst (lease_of t now w)) = lease_all t (lease_deadline now (d_lease_ms d)) (d_worker_id d) sel (msgs w) \<and>
    inv (length (map (leased_by now) sel)) (fst (lease_of t now w)) \<and>
    distinct (map om_id (map (leased_by now) sel)) \<and>
    (\<forall>m\<in>set sel. msgs (fst (lease_of t now w)) (t, om_id m) = Some (leased_by now m)) \<and>
    dispatcher_tick d t now w = dispatch_all d t now (map (leased_by now) sel) (fst (lease_of t now w))"
proof -
  let ?p = "lease_of t now w"
  obtain sel where sel: "snd ?p = Ok (map (leased_by now) sel)"
    "lease_choice t now (d_batch d) (d_worker_id d) eff (msgs w) sel"
    "msgs (fst ?p) = lease_all t (lease_deadline now (d_lease_ms d)) (d_worker_id d) sel (msgs w)"
    and kept: "inv (max 1 (d_batch d)) (fst ?p)"
    using lease_law[OF assms(1,2) refl, of t] assms(3) by (cases "snd ?p") auto
  have "length sel \<le> max 1 (d_batch d)" "distinct (map om_id sel)"
    using sel(2) by (simp_all add: lease_choice_def)
  then have "inv (length (map (leased_by now) sel)) (fst ?p)" "distinct (map om_id (map (leased_by now) sel))"
    using inv_le[OF kept] by (simp_all add: comp_def)
  moreover have "\<forall>m\<in>set sel. msgs (fst ?p) (t, om_id m) = Some (leased_by now m)"
    using sel(2) by (auto simp: sel(3) lease_all_def lease_choice_def)
  moreover have "dispatcher_tick d t now w = dispatch_all d t now (map (leased_by now) sel) (fst ?p)"
    by (simp add: dispatcher_tick_def and_do_def sel(1))
  ultimately show ?thesis
    using sel by blast
qed

lemma tick_delivers:
  assumes "inv (max 1 (d_batch d)) w" "ready now w" "is_ok (snd (lease_of t now w))"
    and "\<And>m w. is_ok (snd (d_qos_attempt d t m w))" "\<And>m w. is_ok (snd (d_qos_result d t m True w))"
    and "\<And>m. answer m = Ok ()"
  shows "is_ok (snd (dispatcher_tick d t now w))"
proof -
  from leased_batch[OF assms(1-3)] obtain sel where sel:
    "inv (length (map (leased_by now) sel)) (fst (lease_of t now w))" "distinct (map om_id (map (leased_by now) sel))"
    "\<forall>m\<in>set sel. msgs (fst (lease_of t now w)) (t, om_id m) = Some (leased_by now m)"
    "dispatcher_tick d t now w = dispatch_all d t now (map (leased_by now) sel) (fst (lease_of t now w))"
    by blast
  have "\<forall>m\<in>set (map (leased_by now) sel). msgs (fst (lease_of t now w)) (t, om_id m) = Some m"
    using sel(3) by simp
  from dispatch_all_delivers[OF sel(1,2) this assms(4-6)] show ?thesis
    unfolding sel(4) .
qed

lemma tick_msgs:
  assumes "inv (max 1 (d_batch d)) w" "ready now w" "is_ok (snd (lease_of t now w))"
  shows "\<exists>sel n. lease_choice t now (d_batch d) (d_worker_id d) eff (msgs w) sel \<and> n \<le> length sel \<and>
    (\<forall>m\<in>set (take n sel). msgs (fst (dispatcher_tick d t now w)) (t, om_id m)
        = Some (result_of now (leased_by now m))) \<and>
    (\<forall>m\<in>set (drop n sel). msgs (fst (dispatcher_tick d t now w)) (t, om_id m)
        = Some (leased_by now m)) \<and>
    (\<forall>k. k \<notin> (\<lambda>m. (t, om_id m)) ` set sel \<longrightarrow> msgs (fst (dispatcher_tick d t now w)) k = msgs w k) \<and>
    (is_ok (snd (dispatcher_tick d t now w)) \<longrightarrow> n = length sel)"
proof -
  let ?p = "lease_of t now w"
  from leased_batch[OF assms] obtain sel where sel:
    "lease_choice t now (d_batch d) (d_worker_id d) eff (msgs w) sel"
    "msgs (fst ?p) = lease_all t (lease_deadline now (d_lease_ms d)) (d_worker_id d) sel (msgs w)"
    "inv (length (map (leased_by now) sel)) (fst ?p)" "distinct (map om_id (map (leased_by now) sel))"
    "\<forall>m\<in>set sel. msgs (fst ?p) (t, om_id m) = Some (leased_by now m)"
    "dispatcher_tick d t now w = dispatch_all d t now (map (leased_by now) sel) (fst ?p)"
    by blast
  note stored = sel(5)[rule_format] and tick = sel(6)
  have wear: "inv (length (map (leased_by now) sel) + 0) (fst ?p)"
    using sel(3) by simp
  from dispatch_all_msgs[OF wear sel(4), of t now] stored
  obtain n where n: "n \<le> length sel"
    "msgs (fst (dispatcher_tick d t now w)) =
      (\<lambda>k. if fst k = t \<and> snd k \<in> om_id ` set (take n sel)
           then map_option (result_of now) (msgs (fst ?p) k) else msgs (fst ?p) k)"
    "is_ok (snd (dispatcher_tick d t now w)) \<longrightarrow> n = length sel"
    by (auto simp: tick take_map image_image)
  have "distinct (map om_id sel)"
    using sel(1) by (simp add: lease_choice_def)
  then have "distinct (map om_id (take n sel @ drop n sel))"
    by simp
  then have late: "om_id m \<notin> om_id ` set (take n sel)" if "m \<in> set (drop n sel)" for m
    using imageI[OF that, of om_id] by (auto simp del: append_take_drop_id)
  have "msgs (fst (dispatcher_tick d t now w)) (t, om_id m) = Some (result_of now (leased_by now m))"
    if "m \<in> set (take n sel)" for m
    using stored[OF in_set_takeD[OF that]] imageI[OF that, of om_id] by (simp add: n(2))
  moreover have "msgs (fst (dispatcher_tick d t now w)) (t, om_id m) = Some (leased_by now m)"
    if "m \<in> set (drop n sel)" for m
    using stored[OF in_set_dropD[OF that]] late[OF that] by (simp add: n(2))
  moreover have "msgs (fst (dispatcher_tick d t now w)) k = msgs w k"
    if "k \<notin> (\<lambda>m. (t, om_id m)) ` set sel" for k
    using that by (cases k) (auto simp: n(2) sel(2) lease_all_def dest: in_set_takeD)
  ultimately show ?thesis
    using sel(1) n(1,3) by (intro exI[of _ sel] exI[of _ n]) blast
qed

end

end
