(* ===== verification/TxMemory.thy ===== *)
theory TxMemory
  imports TxDispatcher TxIdempo
begin

text \<open>
  \<open>InMemoryTxStore\<close> (\<open>memory/mod.rs\<close>): the wrapper that adds metrics, the
  budget guard and the a2a hooks to the in-memory stores, and the dispatcher over it.  The
  world \<open>tx_world\<close> holds every store behind its lock, the metrics emitted and the
  messages handed to the transport, in order.
\<close>

record tx_world =
  w_outbox :: outbox
  w_idempo :: idempo_store
  w_sagas :: saga_store
  w_dead :: dead_entries
  w_budgets :: budgets
  w_metrics :: "metric_event list"
  w_sent :: "outbox_message list"

text \<open>
  The wrapper's fixed parts.  The a2a hook is supplied by the deployment; the budget
  guards keep the trait's default for \<open>on_enqueue\<close> and \<open>on_dead_letter\<close>.
\<close>

record tx_store =
  ts_config :: tx_config
  ts_a2a_dead_letter :: "tenant_id \<Rightarrow> outbox_message \<Rightarrow> string option \<Rightarrow> unit tx_result"

definition guard_on_enqueue :: "outbox_message \<Rightarrow> unit tx_result" where
  "guard_on_enqueue m = Ok ()"

definition guard_on_dead_letter ::
  "tenant_id \<Rightarrow> outbox_message \<Rightarrow> string option \<Rightarrow> unit tx_result" where
  "guard_on_dead_letter t m code = Ok ()"

definition emit :: "metric_event \<Rightarrow> tx_world \<Rightarrow> tx_world" where
  "emit e w = w\<lparr>w_metrics := w_metrics w @ [e]\<rparr>"

text \<open>Running an operation of the outbox, or of the idempotency store, inside the world.\<close>

definition on_outbox :: "(outbox \<Rightarrow> outbox \<times> 'a) \<Rightarrow> tx_world \<Rightarrow> tx_world \<times> 'a" where
  "on_outbox f w = (let (s, r) = f (w_outbox w) in (w\<lparr>w_outbox := s\<rparr>, r))"

definition on_idempo :: "(idempo_store \<Rightarrow> idempo_store \<times> 'a) \<Rightarrow> tx_world \<Rightarrow> tx_world \<times> 'a" where
  "on_idempo f w = (let (s, r) = f (w_idempo w) in (w\<lparr>w_idempo := s\<rparr>, r))"

definition mem_enqueue ::
  "int \<Rightarrow> int \<Rightarrow> new_outbox_message \<Rightarrow> tx_world \<Rightarrow> tx_world \<times> outbox_message tx_result" where
  "mem_enqueue now1 now2 n w =
     and_do (on_outbox (outbox_enqueue now1 now2 n) w) (\<lambda>stored w.
       let w = emit (MetricEnqueue (om_tenant stored) (om_topic stored)) w
       in and_do (w, guard_on_enqueue stored) (\<lambda>_ w. (w, Ok stored)))"

definition mem_lease_batch ::
  "tx_store \<Rightarrow> (outbox \<Rightarrow> (tenant_id \<times> id) list) \<Rightarrow> tenant_id \<Rightarrow> int \<Rightarrow> int \<Rightarrow> nat \<Rightarrow> string \<Rightarrow> bool
     \<Rightarrow> tx_world \<Rightarrow> tx_world \<times> outbox_message list tx_result" where
  "mem_lease_batch ts order tenant now lease_ms batch worker grp w =
     (let grouping = (if oc_group_by_dispatch_key (tc_outbox (ts_config ts)) then grp else False)
      in on_outbox
           (\<lambda>s. outbox_lease_batch (order s) tenant now lease_ms batch worker grouping s) w)"

definition mem_dead_letter ::
  "tx_store \<Rightarrow> int \<Rightarrow> tenant_id \<Rightarrow> id \<Rightarrow> string option \<Rightarrow> tx_world \<Rightarrow> tx_world \<times> dead_letter tx_result"
  where
  "mem_dead_letter ts now tenant i err w =
     and_do (on_outbox (outbox_dead_letter now tenant i err) w) (\<lambda>letter w.
       case dl_payload letter of
         PayloadOutbox m \<Rightarrow>
           (let w = emit (MetricDeadLetter tenant (om_topic m) (dl_error letter)) w in
            and_do (w, guard_on_dead_letter tenant m (dl_error letter)) (\<lambda>_ w.
            and_do (w, ts_a2a_dead_letter ts tenant m (dl_error letter)) (\<lambda>_ w. (w, Ok letter))))
       | PayloadSaga _ \<Rightarrow> (w, Ok letter))"

definition mem_check_and_put ::
  "int \<Rightarrow> tenant_id \<Rightarrow> string \<Rightarrow> string \<Rightarrow> 64 word \<Rightarrow> tx_world \<Rightarrow> tx_world \<times> string option tx_result"
  where
  "mem_check_and_put now tenant key hash ttl w =
     (let (w, result) = on_idempo (check_and_put now tenant key hash ttl) w in
      (case result of
         Inr (Some _) \<Rightarrow> emit (MetricIdempotency tenant IdSucceeded) w
       | Inr None \<Rightarrow> emit (MetricIdempotency tenant IdInFlight) w
       | Inl err \<Rightarrow>
           (let code = tx_code err in
            if code = code_str TX_IDEMPOTENT_BUSY then emit (MetricIdempotency tenant IdInFlight) w
            else if code = code_str TX_IDEMPOTENT_LAST_FAILED then
              emit (MetricIdempotency tenant IdFailed) w
            else w), result))"

definition mem_finish ::
  "int \<Rightarrow> tenant_id \<Rightarrow> string \<Rightarrow> string \<Rightarrow> tx_world \<Rightarrow> tx_world \<times> unit tx_result" where
  "mem_finish now tenant key digest w =
     (let (w, res) = on_idempo (idempo_finish now tenant key digest) w
      in (if is_ok res then emit (MetricIdempotency tenant IdSucceeded) w else w, res))"

definition mem_fail ::
  "int \<Rightarrow> tenant_id \<Rightarrow> string \<Rightarrow> string option \<Rightarrow> tx_world \<Rightarrow> tx_world \<times> unit tx_result" where
  "mem_fail now tenant key err w =
     (let (w, res) = on_idempo (idempo_fail now tenant key err) w
      in (if is_ok res then emit (MetricIdempotency tenant IdFailed) w else w, res))"

definition mem_dead_push :: "dead_letter \<Rightarrow> tx_world \<Rightarrow> tx_world \<times> unit tx_result" where
  "mem_dead_push l w = (let (s, r) = dead_push l (w_dead w) in (w\<lparr>w_dead := s\<rparr>, r))"

definition mem_replay :: "int \<Rightarrow> dead_letter_ref \<Rightarrow> tx_world \<Rightarrow> tx_world \<times> unit tx_result" where
  "mem_replay now r w =
     (let (s, res) = dead_replay now r
            \<lparr>ds_outbox = w_outbox w, ds_saga = w_sagas w, ds_entries = w_dead w\<rparr>
      in (w\<lparr>w_outbox := ds_outbox s, w_sagas := ds_saga s, w_dead := ds_entries s\<rparr>, res))"

text \<open>The operations the wrapper hands through.\<close>

definition mem_ack_done :: "tenant_id \<Rightarrow> id \<Rightarrow> tx_world \<Rightarrow> tx_world \<times> unit tx_result" where
  "mem_ack_done tenant i w = on_outbox (outbox_ack_done tenant i) w"

definition mem_nack_backoff ::
  "tenant_id \<Rightarrow> id \<Rightarrow> int \<Rightarrow> string option \<Rightarrow> tx_world \<Rightarrow> tx_world \<times> unit tx_result" where
  "mem_nack_backoff tenant i not_before error w = on_outbox (outbox_nack_backoff tenant i not_before error) w"

definition mem_heartbeat :: "tenant_id \<Rightarrow> id \<Rightarrow> int \<Rightarrow> string \<Rightarrow> tx_world \<Rightarrow> tx_world \<times> unit tx_result" where
  "mem_heartbeat tenant i until worker w = on_outbox (outbox_heartbeat tenant i until worker) w"

definition mem_revive :: "tenant_id \<Rightarrow> id \<Rightarrow> int \<Rightarrow> tx_world \<Rightarrow> tx_world \<times> unit tx_result" where
  "mem_revive tenant i at w = on_outbox (outbox_revive tenant i at) w"

definition mem_outbox_get :: "tenant_id \<Rightarrow> id \<Rightarrow> tx_world \<Rightarrow> tx_world \<times> outbox_message option tx_result" where
  "mem_outbox_get tenant i w = (w, outbox_get tenant i (w_outbox w))"

definition mem_idempo_get :: "tenant_id \<Rightarrow> string \<Rightarrow> tx_world \<Rightarrow> tx_world \<times> idempo_record option tx_result" where
  "mem_idempo_get tenant key w = (w, idempo_get tenant key (w_idempo w))"

definition mem_status :: "string \<Rightarrow> string \<Rightarrow> tx_world \<Rightarrow> outbox_status option" where
  "mem_status tenant i w = outbox_status_of (w_outbox w) tenant i"

section \<open>The dispatcher over the in-memory store\<close>

text \<open>
  How a dispatcher is put together (\<open>Dispatcher::new\<close>) over this store: \<open>order\<close>
  resolves the hash map's iteration order, \<open>clock\<close> is what \<open>now_ms()\<close> reads
  during the tick, \<open>answer\<close> the transport's verdict on a message.
\<close>

record dispatch_env =
  de_order :: "outbox \<Rightarrow> (tenant_id \<times> id) list"
  de_clock :: int
  de_answer :: "outbox_message \<Rightarrow> unit tx_result"
  de_guard :: budget_guard
  de_use_dead_store :: bool
  de_worker_id :: string
  de_next_after :: "int \<Rightarrow> 32 word \<Rightarrow> int"

definition on_budgets :: "(budgets \<Rightarrow> budgets \<times> 'a) \<Rightarrow> tx_world \<Rightarrow> tx_world \<times> 'a" where
  "on_budgets f w = (let (s, r) = f (w_budgets w) in (w\<lparr>w_budgets := s\<rparr>, r))"

definition mem_send :: "(outbox_message \<Rightarrow> unit tx_result) \<Rightarrow> outbox_message \<Rightarrow> tx_world
    \<Rightarrow> tx_world \<times> unit tx_result" where
  "mem_send answer m w = (w\<lparr>w_sent := w_sent w @ [m]\<rparr>, answer m)"

definition memory_dispatcher :: "tx_store \<Rightarrow> dispatch_env \<Rightarrow> tx_world dispatcher" where
  "memory_dispatcher ts e =
     \<lparr>d_send = mem_send (de_answer e),
      d_lease_batch = mem_lease_batch ts (de_order e),
      d_ack_done = mem_ack_done,
      d_nack_backoff = mem_nack_backoff,
      d_dead_letter = mem_dead_letter ts (de_clock e),
      d_dead_push = (if de_use_dead_store e then Some mem_dead_push else None),
      d_metric = emit,
      d_qos_attempt = (\<lambda>t m. on_budgets (on_dispatch_attempt (de_guard e) (de_clock e) t m)),
      d_qos_result = (\<lambda>t m ok. on_budgets (on_dispatch_result (de_guard e) t m ok)),
      d_worker_id = de_worker_id e,
      d_max_attempts = oc_max_attempts (tc_outbox (ts_config ts)),
      d_lease_ms = oc_lease_ms (tc_outbox (ts_config ts)),
      d_batch = oc_batch (tc_outbox (ts_config ts)),
      d_next_after = de_next_after e,
      d_group_by_dispatch_key = oc_group_by_dispatch_key (tc_outbox (ts_config ts))\<rparr>"

definition world_ok :: "dispatch_env \<Rightarrow> tx_world \<Rightarrow> bool" where
  "world_ok e w \<longleftrightarrow> outbox_ok (w_outbox w) \<and> iter_order (de_order e (w_outbox w)) (w_outbox w)"

lemmas mem_defs = mem_ack_done_def mem_nack_backoff_def on_outbox_def on_idempo_def on_budgets_def emit_def mem_dead_push_def mem_send_def

lemma mem_lease_run:
  assumes "world_ok e w"
  shows "\<exists>sel. snd (mem_lease_batch ts (de_order e) t now lms b wk g w) =
      Ok (map (mark_leased (lease_deadline now lms) wk) sel) \<and>
    lease_choice t now b wk (oc_group_by_dispatch_key (tc_outbox (ts_config ts)) \<and> g) (w_outbox w) sel \<and>
    w_outbox (fst (mem_lease_batch ts (de_order e) t now lms b wk g w)) =
      lease_all t (lease_deadline now lms) wk sel (w_outbox w)"
proof -
  let ?G = "oc_group_by_dispatch_key (tc_outbox (ts_config ts)) \<and> g"
  obtain s' r where l: "outbox_lease_batch (de_order e (w_outbox w)) t now lms b wk ?G (w_outbox w) = (s', r)"
    by (cases "outbox_lease_batch (de_order e (w_outbox w)) t now lms b wk ?G (w_outbox w)")
  have G: "(if oc_group_by_dispatch_key (tc_outbox (ts_config ts)) then g else False) = ?G"
    by simp
  have run: "mem_lease_batch ts (de_order e) t now lms b wk g w = (w\<lparr>w_outbox := s'\<rparr>, r)"
    by (simp only: mem_lease_batch_def Let_def G on_outbox_def l prod.case)
  from lease_batch_spec[OF _ _ l] assms obtain sel where
    "r = Ok (map (mark_leased (lease_deadline now lms) wk) sel)"
    "lease_choice t now b wk ?G (w_outbox w) sel"
    "s' = lease_all t (lease_deadline now lms) wk sel (w_outbox w)"
    unfolding world_ok_def by blast
  then show ?thesis
    unfolding run by (intro exI[of _ sel]) simp
qed

lemma memory_dispatcher_fields:
  "d_lease_batch (memory_dispatcher ts e) = mem_lease_batch ts (de_order e)"
  "d_batch (memory_dispatcher ts e) = oc_batch (tc_outbox (ts_config ts))"
  "d_worker_id (memory_dispatcher ts e) = de_worker_id e"
  "d_group_by_dispatch_key (memory_dispatcher ts e) = oc_group_by_dispatch_key (tc_outbox (ts_config ts))"
  "d_lease_ms (memory_dispatcher ts e) = oc_lease_ms (tc_outbox (ts_config ts))"
  "d_max_attempts (memory_dispatcher ts e) = oc_max_attempts (tc_outbox (ts_config ts))"
  "d_next_after (memory_dispatcher ts e) = de_next_after e"
  by (simp_all add: memory_dispatcher_def)

text \<open>The in-memory store does not wear out: its counters saturate.\<close>

interpretation mem: leasing_backend "memory_dispatcher ts e" w_outbox "de_answer e" "\<lambda>_ _. True" "\<lambda>_. world_ok e"
    "oc_group_by_dispatch_key (tc_outbox (ts_config ts))" for ts e
proof (unfold_locales, goal_cases)
  case (7 n w t i m err)
  then show ?case
    by (auto simp: memory_dispatcher_def mem_dead_letter_def mem_defs outbox_dead_letter_def
        with_message_def and_do_def build_dead_letter_def guard_on_dead_letter_def Let_def
        split: sum.splits)
next
  case (8 n w push l)
  then show ?case
    by (auto simp: memory_dispatcher_def mem_defs dead_push_def split: if_splits)
next
  case (15 n w now p t)
  from mem_lease_run[OF 15(2), of ts t now "d_lease_ms (memory_dispatcher ts e)" "d_batch (memory_dispatcher ts e)"
      "d_worker_id (memory_dispatcher ts e)" "d_group_by_dispatch_key (memory_dispatcher ts e)"]
  show ?case
    unfolding 15(3) memory_dispatcher_fields by auto
qed (auto simp: memory_dispatcher_def mem_defs outbox_ack_done_def outbox_nack_backoff_def
      with_message_def Let_def split_beta)

text \<open>A tick over the in-memory store: its lease always succeeds.\<close>

lemma mem_lease_ok: "world_ok e w \<Longrightarrow> is_ok (snd (mem.lease_of ts e t now w))"
  using mem_lease_run unfolding memory_dispatcher_fields by (metis is_ok_simps(1))

lemmas mem_tick_msgs = mem.tick_msgs[OF TrueI _ mem_lease_ok]

section \<open>Totality and the attempt bound\<close>

text \<open>Without a budget and with a2a hooks that agree, no step of the tick fails.\<close>

lemma mem_dispatch_one_ok:
  assumes "w_outbox w (t, om_id m) = Some m" and "de_guard e = NoopGuard"
    and "\<And>t m c. ts_a2a_dead_letter ts t m c = Ok ()"
  shows "is_ok (snd (dispatch_one (memory_dispatcher ts e) t now m w))"
  using assms
  by (auto simp: dispatch_one_def dispatch_sent_def dispatch_failed_def memory_dispatcher_def
      mem_defs outbox_ack_done_def outbox_nack_backoff_def outbox_dead_letter_def with_message_def
      mem_dead_letter_def build_dead_letter_def guard_on_dead_letter_def dead_push_def and_do_def
      Let_def split_beta split: sum.splits)

lemma mem_dispatch_all_ok:
  assumes "distinct (map om_id ms)" "\<forall>m\<in>set ms. w_outbox w (t, om_id m) = Some m"
    and "de_guard e = NoopGuard" and "\<And>t m c. ts_a2a_dead_letter ts t m c = Ok ()"
  shows "is_ok (snd (dispatch_all (memory_dispatcher ts e) t now ms w))"
  using assms(1,2)
proof (induction ms arbitrary: w)
  case (Cons m ms)
  let ?p = "dispatch_one (memory_dispatcher ts e) t now m w"
  have m: "w_outbox w (t, om_id m) = Some m"
    using Cons.prems(2) by simp
  have ok: "is_ok (snd ?p)"
    by (rule mem_dispatch_one_ok[OF m assms(3,4)])
  then have w1: "w_outbox (fst ?p) = (w_outbox w)((t, om_id m) \<mapsto>
      outcome (d_max_attempts (memory_dispatcher ts e)) (d_next_after (memory_dispatcher ts e)) now
        (de_answer e m) m)"
    using mem.dispatch_one_msgs[OF TrueI m, where ts = ts and e = e and now = now] by blast
  have new: "om_id m' \<noteq> om_id m" if "m' \<in> set ms" for m'
    using Cons.prems(1) imageI[OF that, of om_id] by auto
  have "is_ok (snd (dispatch_all (memory_dispatcher ts e) t now ms (fst ?p)))"
    by (rule Cons.IH) (use Cons.prems new in \<open>simp_all add: w1\<close>)
  with ok show ?case
    by (cases "snd ?p") (simp_all add: and_do_def)
qed simp

lemma mem_tick_ok:
  assumes "world_ok e w" "de_guard e = NoopGuard" "\<And>t m c. ts_a2a_dead_letter ts t m c = Ok ()"
  shows "is_ok (snd (dispatcher_tick (memory_dispatcher ts e) t now w))"
proof -
  let ?d = "memory_dispatcher ts e"
  let ?p = "mem.lease_of ts e t now w"
  let ?leased = "mark_leased (lease_deadline now (d_lease_ms ?d)) (d_worker_id ?d)"
  obtain sel where sel: "snd ?p = Ok (map ?leased sel)"
    "lease_choice t now (d_batch ?d) (d_worker_id ?d) (d_group_by_dispatch_key ?d) (w_outbox w) sel"
    "w_outbox (fst ?p) = lease_all t (lease_deadline now (d_lease_ms ?d)) (d_worker_id ?d) sel (w_outbox w)"
    using mem_lease_run[OF assms(1), of ts t now "d_lease_ms ?d" "d_batch ?d" "d_worker_id ?d" "d_group_by_dispatch_key ?d"]
    unfolding memory_dispatcher_fields by auto
  have "is_ok (snd (dispatch_all ?d t now (map ?leased sel) (fst ?p)))"
    using sel(2) by (intro mem_dispatch_all_ok assms(2,3))
      (auto simp: sel(3) lease_all_def lease_choice_def comp_def)
  then show ?thesis
    using sel(1) by (simp add: dispatcher_tick_def and_do_def)
qed

text \<open>Every message that may still be sent has attempts left.\<close>

definition attempts_left :: "32 word \<Rightarrow> outbox \<Rightarrow> bool" where
  "attempts_left mx s \<longleftrightarrow>
     (\<forall>k m. s k = Some m \<longrightarrow> \<not> status_is_terminal (om_status m) \<longrightarrow> om_attempts m < mx)"

lemma unat_lt_2p32: "unat b < 2 ^ 32" for b :: "32 word"
  using unsigned_less[of b] by simp

lemma sat_add_one: "a < b \<Longrightarrow> sat_add a 1 = a + 1" for a b :: "32 word"
proof -
  assume "a < b"
  then have "unat a + unat (1 :: 32 word) < 2 ^ LENGTH(32)"
    using unat_lt_2p32[of b] by (simp add: word_less_nat_alt)
  then show ?thesis
    by (simp add: sat_add_def)
qed

lemma outcome_attempts:
  "om_attempts m < mx \<Longrightarrow> \<not> status_is_terminal (om_status (outcome mx nf now ans m)) \<Longrightarrow>
   om_attempts (outcome mx nf now ans m) < mx"
  by (auto simp: outcome_def mark_done_def mark_dead_def mark_backoff_def sat_add_one not_le
      split: sum.splits if_splits)

lemma check_and_put_errors:
  "check_and_put now t k h ttl s = (s', Err e) \<Longrightarrow>
   tx_code e \<in> {''STORAGE.CONFLICT'', ''QUOTA.RATE_LIMITED'', ''UNKNOWN.INTERNAL''}"
  by (auto simp: check_and_put_def Let_def split: option.splits if_splits idempo_status.splits)

section \<open>Properties\<close>

text \<open>
  C1: What a dispatcher tick does.  The tick leases a batch of eligible messages and works
  through it in order; each message it finishes is done when the transport took it, dead when
  the failure used up \<open>max_attempts\<close>, and otherwise pending again with one more attempt,
  the error and the backoff date.  Messages behind an error stay leased to this worker, all
  others are untouched; a tick that returns no error has finished its whole batch, and with
  no budget guard and agreeing a2a hooks it always does.
\<close>

theorem dispatcher_tick_outcome:
  assumes "world_ok e w"
    and "dispatcher_tick (memory_dispatcher ts e) t now w = (w', r)"
  defines "cfg \<equiv> tc_outbox (ts_config ts)"
  defines "leased \<equiv> mark_leased (i64_add now (oc_lease_ms cfg)) (de_worker_id e)"
  shows "\<exists>sel n. lease_choice t now (oc_batch cfg) (de_worker_id e) (oc_group_by_dispatch_key cfg)
      (w_outbox w) sel \<and> n \<le> length sel \<and>
    (\<forall>m\<in>set (take n sel). w_outbox w' (t, om_id m) =
       Some (outcome (oc_max_attempts cfg) (de_next_after e) now (de_answer e (leased m)) (leased m))) \<and>
    (\<forall>m\<in>set (drop n sel). w_outbox w' (t, om_id m) = Some (leased m)) \<and>
    (\<forall>k. k \<notin> (\<lambda>m. (t, om_id m)) ` set sel \<longrightarrow> w_outbox w' k = w_outbox w k) \<and>
    (is_ok r \<longrightarrow> n = length sel) \<and>
    (de_guard e = NoopGuard \<and> (\<forall>t m c. ts_a2a_dead_letter ts t m c = Ok ()) \<longrightarrow> is_ok r)"
proof -
  have fields: "d_batch (memory_dispatcher ts e) = oc_batch cfg"
    "d_worker_id (memory_dispatcher ts e) = de_worker_id e"
    "d_group_by_dispatch_key (memory_dispatcher ts e) = oc_group_by_dispatch_key cfg"
    "d_lease_ms (memory_dispatcher ts e) = oc_lease_ms cfg"
    "d_max_attempts (memory_dispatcher ts e) = oc_max_attempts cfg"
    "d_next_after (memory_dispatcher ts e) = de_next_after e"
    by (simp_all add: memory_dispatcher_def cfg_def)
  have "is_ok r" if "de_guard e = NoopGuard" "\<forall>t m c. ts_a2a_dead_letter ts t m c = Ok ()"
    using mem_tick_ok[OF assms(1) that(1), of ts t now] that(2) assms(2) by simp
  then show ?thesis
    using mem_tick_msgs[OF assms(1) assms(1), where ts = ts and t = t and now = now] assms(2)
    unfolding fields lease_deadline_def leased_def[symmetric] by (simp add: cfg_def)
qed

definition demo_store :: tx_store where
  "demo_store = \<lparr>ts_config = tx_config_default, ts_a2a_dead_letter = (\<lambda>_ _ _. Ok ())\<rparr>"

definition demo_env :: "unit tx_result \<Rightarrow> dispatch_env" where
  "demo_env ans =
     \<lparr>de_order = (\<lambda>_. [(''acme'', ''m1''), (''acme'', ''m2'')]), de_clock = 5,
      de_answer = (\<lambda>_. ans), de_guard = NoopGuard, de_use_dead_store = True,
      de_worker_id = ''w1'', de_next_after = (\<lambda>now _. now + 500)\<rparr>"

definition demo_world :: tx_world where
  "demo_world =
     \<lparr>w_outbox = demo_outbox, w_idempo = Map.empty, w_sagas = Map.empty, w_dead = Map.empty,
      w_budgets = Map.empty, w_metrics = [], w_sent = []\<rparr>"

lemma demo_world_ok: "world_ok (demo_env ans) demo_world"
  using demo_outbox_ok by (simp add: world_ok_def demo_env_def demo_world_def)

theorem dispatcher_tick_outcome_witness:
  "is_ok (snd (dispatcher_tick (memory_dispatcher demo_store (demo_env (Ok ()))) ''acme'' 5 demo_world))"
proof -
  obtain w' r where "dispatcher_tick (memory_dispatcher demo_store (demo_env (Ok ()))) ''acme'' 5 demo_world
      = (w', r)" by fastforce
  with dispatcher_tick_outcome[OF demo_world_ok this] show ?thesis
    by (auto simp: demo_env_def demo_store_def)
qed

text \<open>
  C9: The number of attempts is bounded.  If every unfinished message of the store still has
  attempts left, the same holds after any tick of any worker, whatever the transport and the
  budget answer and also when the tick stops with an error: a message that fails on its last
  attempt is dead, never retried.
\<close>

theorem attempts_never_exceed_max:
  assumes "world_ok e w" and "attempts_left (oc_max_attempts (tc_outbox (ts_config ts))) (w_outbox w)"
  shows "attempts_left (oc_max_attempts (tc_outbox (ts_config ts)))
    (w_outbox (fst (dispatcher_tick (memory_dispatcher ts e) t now w)))"
proof -
  let ?mx = "oc_max_attempts (tc_outbox (ts_config ts))"
  let ?w' = "fst (dispatcher_tick (memory_dispatcher ts e) t now w)"
  have fields: "d_max_attempts (memory_dispatcher ts e) = ?mx"
    by (simp add: memory_dispatcher_def)
  let ?d = "memory_dispatcher ts e"
  let ?lease = "mark_leased (lease_deadline now (d_lease_ms ?d)) (d_worker_id ?d)"
  obtain sel n where choice: "lease_choice t now (d_batch ?d) (d_worker_id ?d)
      (oc_group_by_dispatch_key (tc_outbox (ts_config ts))) (w_outbox w) sel"
    and fst_part: "\<forall>m\<in>set (take n sel). w_outbox ?w' (t, om_id m)
        = Some (outcome ?mx (d_next_after ?d) now (de_answer e (?lease m)) (?lease m))"
    and snd_part: "\<forall>m\<in>set (drop n sel). w_outbox ?w' (t, om_id m) = Some (?lease m)"
    and rest: "\<forall>k. k \<notin> (\<lambda>m. (t, om_id m)) ` set sel \<longrightarrow> w_outbox ?w' k = w_outbox w k"
    using mem_tick_msgs[OF assms(1) assms(1), where ts = ts and t = t and now = now]
    unfolding fields by (elim exE conjE)
  have left: "om_attempts m < ?mx" if "m \<in> set sel" for m
    using choice assms(2) that by (auto simp: lease_choice_def eligible_def attempts_left_def)
  show ?thesis
    unfolding attempts_left_def
  proof (intro allI impI)
    fix k m' assume k: "w_outbox ?w' k = Some m'" "\<not> status_is_terminal (om_status m')"
    show "om_attempts m' < ?mx"
    proof (cases "k \<in> (\<lambda>m. (t, om_id m)) ` set sel")
      case True
      then obtain m where m: "m \<in> set sel" "k = (t, om_id m)" by blast
      have lt: "om_attempts (?lease m) < ?mx"
        using left[OF m(1)] by (simp add: mark_leased_def)
      from m(1) have "m \<in> set (take n sel) \<or> m \<in> set (drop n sel)"
        by (metis Un_iff append_take_drop_id set_append)
      then show ?thesis
      proof
        assume "m \<in> set (take n sel)"
        then show ?thesis
          using fst_part k m(2) outcome_attempts[OF lt] by auto
      next
        assume "m \<in> set (drop n sel)"
        then show ?thesis
          using snd_part k m(2) lt by auto
      qed
    next
      case False
      then have "w_outbox w k = Some m'"
        using rest k(1) by metis
      then show ?thesis
        using k(2) assms(2) unfolding attempts_left_def by blast
    qed
  qed
qed

theorem attempts_never_exceed_max_witness:
  "attempts_left 12 (w_outbox (fst (dispatcher_tick
     (memory_dispatcher demo_store (demo_env (Err idempo_busy))) ''acme'' 5 demo_world)))"
proof -
  have mx: "oc_max_attempts (tc_outbox (ts_config demo_store)) = 12"
    by (simp add: demo_store_def tx_config_default_def outbox_config_default_def)
  have "attempts_left 12 (w_outbox demo_world)"
    by (auto simp: attempts_left_def demo_world_def demo_outbox_def demo_message_def
        build_outbox_message_def split: if_splits)
  from attempts_never_exceed_max[OF demo_world_ok, of demo_store, unfolded mx, OF this]
  show ?thesis .
qed

text \<open>
  The busy and failed metrics of the idempotency wrapper are never recorded.  The
  wrapper looks for the codes \<open>TX.IDEMPOTENT_BUSY\<close> and
  \<open>TX.IDEMPOTENT_LAST_FAILED\<close>, but the store reports a busy key as
  \<open>QUOTA.RATE_LIMITED\<close> and a failed one as \<open>UNKNOWN.INTERNAL\<close>: a check
  that fails emits no metric at all.
\<close>

theorem idempo_error_metrics_never_emitted:
  "mem_check_and_put now t k h ttl w = (w', Err e) \<Longrightarrow> w_metrics w' = w_metrics w"
proof -
  assume run: "mem_check_and_put now t k h ttl w = (w', Err e)"
  obtain s r where c: "check_and_put now t k h ttl (w_idempo w) = (s, r)"
    by fastforce
  with run have "r = Err e"
    by (simp add: mem_check_and_put_def on_idempo_def)
  with run c check_and_put_errors[of now t k h ttl "w_idempo w" s e] show ?thesis
    by (auto simp: mem_check_and_put_def on_idempo_def Let_def error_codes)
qed

theorem idempo_error_metrics_never_emitted_witness:
  "w_metrics (demo_world\<lparr>w_idempo := [(''acme'', ''k'') \<mapsto> build_record 1 ''acme'' ''k'' ''h'' 60]\<rparr>) = []"
  using idempo_error_metrics_never_emitted[of 2 "''acme''" "''k''" "''h''" 60
      "demo_world\<lparr>w_idempo := [(''acme'', ''k'') \<mapsto> build_record 1 ''acme'' ''k'' ''h'' 60]\<rparr>"
      "demo_world\<lparr>w_idempo := [(''acme'', ''k'') \<mapsto> build_record 1 ''acme'' ''k'' ''h'' 60]\<rparr>" idempo_busy]
  by (simp add: mem_check_and_put_def on_idempo_def check_and_put_def drop_expired_def build_record_def
      idempo_expired_def i64_sat_sub_def demo_world_def error_codes)

end
