(* ===== verification/StorageFilter.thy ===== *)
theory StorageFilter
  imports SbTypes SbErrors
begin

text \<open>
  The storage crate (\<open>sb-storage\<close>): errors (\<open>errors.rs\<close>), pages and sort keys
  (\<open>model.rs\<close>), the tenant guard (\<open>spi/mod.rs\<close>) and the compiler from JSON filters to
  the \<open>WHERE\<close> and \<open>ORDER BY\<close> clauses of a SurrealQL statement
  (\<open>surreal/mapper.rs\<close>).

  The compiler threads the named arguments and a counter through the filter and keeps both on an
  error.  The grammar \<open>is_clause\<close> of the clauses it may emit, comparisons of identifiers with bound
  parameters under the boolean connectives, is the specification: nothing of the filter's values
  reaches the statement's text.
\<close>

section \<open>Errors and model\<close>

record storage_error =
  sg_inner :: error_obj
  sg_public :: string

definition storage_error_new :: "error_obj \<Rightarrow> storage_error" where
  "storage_error_new inner =
     (let view = to_public inner
      in \<lparr>sg_inner = inner, sg_public = pv_code view @ '': '' @ pv_message view\<rparr>)"

definition storage_to_public :: "storage_error \<Rightarrow> public_error_view" where
  "storage_to_public e = to_public (sg_inner e)"

definition storage_provider_unavailable :: "string \<Rightarrow> storage_error" where
  "storage_provider_unavailable msg = storage_error_new (dev_msg msg
     (user_msg ''storage provider unavailable'' (builder_new PROVIDER_UNAVAILABLE)))"

definition storage_conflict :: "string \<Rightarrow> storage_error" where
  "storage_conflict msg = storage_error_new (dev_msg msg
     (user_msg ''storage conflict detected'' (builder_new STORAGE_CONFLICT)))"

definition storage_not_found :: "string \<Rightarrow> storage_error" where
  "storage_not_found msg = storage_error_new (dev_msg msg
     (user_msg ''storage entry not found'' (builder_new STORAGE_NOT_FOUND)))"

definition storage_schema :: "string \<Rightarrow> storage_error" where
  "storage_schema msg = storage_error_new (dev_msg msg
     (user_msg ''storage schema validation failed'' (builder_new SCHEMA_VALIDATION_FAILED)))"

definition storage_unknown :: "string \<Rightarrow> storage_error" where
  "storage_unknown msg = storage_error_new (dev_msg msg
     (user_msg ''internal storage error'' (builder_new UNKNOWN_INTERNAL)))"

type_synonym 'a storage_result = "storage_error + 'a"

record 'a page =
  pg_items :: "'a list"
  pg_next :: "string option"

definition page_empty :: "'a page" where
  "page_empty = \<lparr>pg_items = [], pg_next = None\<rparr>"

record sort_key =
  so_field :: string
  so_asc :: bool

definition sort_ascending :: "string \<Rightarrow> sort_key" where
  "sort_ascending field = \<lparr>so_field = field, so_asc = True\<rparr>"

definition sort_descending :: "string \<Rightarrow> sort_key" where
  "sort_descending field = \<lparr>so_field = field, so_asc = False\<rparr>"

record migration_script =
  mg_version :: string
  mg_up_sql :: string
  mg_down_sql :: string
  mg_checksum :: string

text \<open>What a repository needs of its entity type: table, id and serde's two directions.\<close>

record 'e entity_ops =
  en_table :: string
  en_id :: "'e \<Rightarrow> string"
  en_encode :: "'e \<Rightarrow> string + json"
  en_decode :: "json \<Rightarrow> string + 'e"

definition quoted :: "string \<Rightarrow> string" where
  "quoted s = CHR 0x27 # s @ [CHR 0x27]"

type_synonym named_args = "(string \<times> json) list"

definition tenant_guard :: "string \<Rightarrow> tenant_id \<Rightarrow> named_args \<Rightarrow> unit storage_result" where
  "tenant_guard table tenant params =
     (if map_of params ''tenant'' = Some (JStr tenant) then Ok ()
      else Err (storage_schema (''tenant guard failed for table '' @ quoted table)))"

definition decode_entity :: "'e entity_ops \<Rightarrow> json \<Rightarrow> 'e storage_result" where
  "decode_entity en v =
     (case en_decode en v of
        Inl err \<Rightarrow> Err (storage_schema (''deserialize entity failed: '' @ err))
      | Inr e \<Rightarrow> Ok e)"

definition encode_entity :: "'e entity_ops \<Rightarrow> 'e \<Rightarrow> json storage_result" where
  "encode_entity en doc =
     (case en_encode en doc of
        Inl err \<Rightarrow> Err (storage_schema (''serialize entity failed: '' @ err))
      | Inr v \<Rightarrow> Ok v)"

section \<open>Clauses\<close>

definition append_where :: "string \<Rightarrow> string \<Rightarrow> string" where
  "append_where target clause =
     (if trim clause = [] then target
      else target @ (if trim target \<noteq> [] then '' AND '' else []) @ ''('' @ clause @ '')'')"

definition sanitize_prefix :: "string \<Rightarrow> string" where
  "sanitize_prefix pre =
     map (\<lambda>c. if is_alnum c then c else CHR ''_'') (if trim pre = [] then ''filter'' else pre)"

definition is_op :: "string \<Rightarrow> string \<Rightarrow> bool" where
  "is_op actual expected \<longleftrightarrow> actual = CHR ''$'' # expected"

definition is_identifier :: "string \<Rightarrow> bool" where
  "is_identifier s \<longleftrightarrow> s \<noteq> [] \<and> list_all (\<lambda>c. is_alnum c \<or> c = CHR ''_'' \<or> c = CHR ''.'') s"

definition validate_identifier :: "string \<Rightarrow> unit storage_result" where
  "validate_identifier input =
     (if is_identifier input then Ok ()
      else Err (storage_schema (''invalid field identifier '' @ quoted input)))"

definition expect_array :: "string \<Rightarrow> json \<Rightarrow> json list storage_result" where
  "expect_array name v =
     ok_or (storage_schema (CHR ''$'' # name @ '' operator expects an array'')) (as_array v)"

type_synonym filter_state = "named_args \<times> nat"

definition param_name :: "string \<Rightarrow> nat \<Rightarrow> string" where
  "param_name pre n = pre @ ''_'' @ show_nat n"

text \<open>\<open>next_param\<close> and the insertion that follows each of its calls.\<close>

definition bind_operand :: "string \<Rightarrow> json \<Rightarrow> filter_state \<Rightarrow> filter_state \<times> string" where
  "bind_operand pre operand st =
     (let param = param_name pre (snd st)
      in ((jinsert param operand (fst st), snd st + 1), param))"

definition build_simple_compare ::
  "string \<Rightarrow> string \<Rightarrow> json \<Rightarrow> string \<Rightarrow> filter_state \<Rightarrow> filter_state \<times> string storage_result" where
  "build_simple_compare field oper operand pre st =
     (let (st, param) = bind_operand pre operand st
      in (st, Ok (field @ '' '' @ oper @ '' $'' @ param)))"

definition build_in_clause ::
  "string \<Rightarrow> json \<Rightarrow> string \<Rightarrow> filter_state \<Rightarrow> filter_state \<times> string storage_result" where
  "build_in_clause field operand pre st =
     (if as_array operand = None then (st, Err (storage_schema ''$in operand must be an array''))
      else let (st, param) = bind_operand pre operand st
           in (st, Ok (field @ '' IN $'' @ param)))"

definition build_contains_clause ::
  "string \<Rightarrow> json \<Rightarrow> string \<Rightarrow> filter_state \<Rightarrow> filter_state \<times> string storage_result" where
  "build_contains_clause field operand pre st =
     (let (st, param) = bind_operand pre operand st
      in (st, Ok (field @ '' CONTAINS $'' @ param)))"

definition build_op_clause ::
  "string \<Rightarrow> string \<Rightarrow> json \<Rightarrow> string \<Rightarrow> filter_state \<Rightarrow> filter_state \<times> string storage_result" where
  "build_op_clause field oper operand pre st =
     (if is_op oper ''eq'' then build_simple_compare field ''='' operand pre st
      else if is_op oper ''ne'' then build_simple_compare field ''!='' operand pre st
      else if is_op oper ''gt'' then build_simple_compare field ''>'' operand pre st
      else if is_op oper ''gte'' then build_simple_compare field ''>='' operand pre st
      else if is_op oper ''lt'' then build_simple_compare field ''<'' operand pre st
      else if is_op oper ''lte'' then build_simple_compare field ''<='' operand pre st
      else if is_op oper ''in'' then build_in_clause field operand pre st
      else if is_op oper ''nin'' then
        and_do (build_in_clause field operand pre st) (\<lambda>inner st. (st, Ok (''NOT ('' @ inner @ '')'')))
      else if is_op oper ''contains'' then build_contains_clause field operand pre st
      else (st, Err (storage_schema (''unsupported filter operator '' @ quoted oper))))"

fun build_fragments ::
  "string \<Rightarrow> (string \<times> json) list \<Rightarrow> string \<Rightarrow> filter_state \<Rightarrow> filter_state \<times> string list storage_result" where
  "build_fragments field [] pre st = (st, Ok [])"
| "build_fragments field ((oper, operand) # obj) pre st =
     and_do (build_op_clause field oper operand pre st) (\<lambda>clause st.
     and_do (build_fragments field obj pre st) (\<lambda>fragments st.
       (st, Ok (if clause \<noteq> [] then clause # fragments else fragments))))"

definition build_field_clause ::
  "string \<Rightarrow> json \<Rightarrow> string \<Rightarrow> filter_state \<Rightarrow> filter_state \<times> string storage_result" where
  "build_field_clause field v pre st =
     (case validate_identifier field of
        Inl e \<Rightarrow> (st, Err e)
      | Inr _ \<Rightarrow>
          (case v of
             JObj obj \<Rightarrow>
               if obj = [] then (st, Ok [])
               else and_do (build_fragments field obj pre st) (\<lambda>fragments st.
                 (st, Ok (join_with '' AND '' fragments)))
           | _ \<Rightarrow> build_simple_compare field ''='' v pre st))"

definition group_clauses :: "string \<Rightarrow> string list \<Rightarrow> string list" where
  "group_clauses sep clauses =
     (let clauses = filter (\<lambda>c. c \<noteq> []) clauses
      in if clauses \<noteq> [] then [''('' @ join_with sep clauses @ '')''] else [])"

function (sequential) build_filter_recursive ::
  "string \<Rightarrow> json \<Rightarrow> filter_state \<Rightarrow> filter_state \<times> string storage_result"
  and build_parts :: "string \<Rightarrow> (string \<times> json) list \<Rightarrow> filter_state \<Rightarrow> filter_state \<times> string list storage_result"
  and build_each :: "string \<Rightarrow> json list \<Rightarrow> filter_state \<Rightarrow> filter_state \<times> string list storage_result" where
  "build_filter_recursive pre (JObj obj) st =
     (if obj = [] then (st, Ok [])
      else and_do (build_parts pre obj st) (\<lambda>parts st. (st, Ok (join_with '' AND '' parts))))"
| "build_filter_recursive pre _ st = (st, Err (storage_schema ''repository filter must be a JSON object''))"
| "build_parts pre [] st = (st, Ok [])"
| "build_parts pre ((key, v) # obj) st =
     and_do
       (if is_op key ''and'' then
          (case v of
             JArr vs \<Rightarrow> and_do (build_each pre vs st) (\<lambda>clauses st. (st, Ok (group_clauses '' AND '' clauses)))
           | _ \<Rightarrow> (st, Err (projl (expect_array ''and'' v))))
        else if is_op key ''or'' then
          (case v of
             JArr vs \<Rightarrow> and_do (build_each pre vs st) (\<lambda>clauses st. (st, Ok (group_clauses '' OR '' clauses)))
           | _ \<Rightarrow> (st, Err (projl (expect_array ''or'' v))))
        else if is_op key ''not'' then
          and_do (build_filter_recursive pre v st) (\<lambda>clause st.
            (st, Ok (if clause \<noteq> [] then [''NOT ('' @ clause @ '')''] else [])))
        else
          and_do (build_field_clause key v pre st) (\<lambda>clause st. (st, Ok [clause])))
       (\<lambda>part st. and_do (build_parts pre obj st) (\<lambda>parts st. (st, Ok (part @ parts))))"
| "build_each pre [] st = (st, Ok [])"
| "build_each pre (v # vs) st =
     and_do (build_filter_recursive pre v st) (\<lambda>clause st.
     and_do (build_each pre vs st) (\<lambda>clauses st. (st, Ok (clause # clauses))))"
  by pat_completeness auto
termination
  by (relation "measure (\<lambda>x. case x of Inl (_, j, _) \<Rightarrow> 2 * size j + 1
      | Inr (Inl (_, m, _)) \<Rightarrow> 2 * size (JObj m) | Inr (Inr (_, vs, _)) \<Rightarrow> 2 * size (JArr vs))") auto

definition build_filter_clause ::
  "json \<Rightarrow> named_args \<Rightarrow> string \<Rightarrow> named_args \<times> string storage_result" where
  "build_filter_clause flt params pre =
     (if flt = JNull then (params, Ok [])
      else let (st, r) = build_filter_recursive (sanitize_prefix pre) flt (params, 0) in (fst st, r))"

definition sort_one :: "sort_key \<Rightarrow> string storage_result" where
  "sort_one s =
     (let field = trim (so_field s)
      in and_then (validate_identifier field) (\<lambda>_. Ok (field @ '' '' @ (if so_asc s then ''ASC'' else ''DESC''))))"

definition build_sort_clause :: "sort_key list \<Rightarrow> string storage_result" where
  "build_sort_clause sorts =
     (if sorts = [] then Ok []
      else and_then (try_map sort_one sorts) (\<lambda>clauses. Ok ('' ORDER BY '' @ join_with '', '' clauses)))"

section \<open>The operands of a filter\<close>

definition bind_one :: "string \<Rightarrow> json \<Rightarrow> filter_state \<Rightarrow> filter_state" where
  "bind_one pre v st = fst (bind_operand pre v st)"

fun field_operands :: "json \<Rightarrow> json list" where
  "field_operands (JObj obj) = map snd obj"
| "field_operands v = [v]"

fun operands :: "json \<Rightarrow> json list"
  and entry_operands :: "string \<times> json \<Rightarrow> json list" where
  "operands (JObj obj) = concat (map entry_operands obj)"
| "operands _ = []"
| "entry_operands (key, v) =
     (if is_op key ''and'' \<or> is_op key ''or'' then
        (case v of JArr vs \<Rightarrow> concat (map operands vs) | _ \<Rightarrow> [])
      else if is_op key ''not'' then operands v
      else field_operands v)"

lemma simple_compare_state:
  "build_simple_compare field oper v pre st = (st', r) \<Longrightarrow> st' = bind_one pre v st"
  by (auto simp: build_simple_compare_def bind_one_def Let_def split: prod.splits)

lemma op_clause_state:
  "build_op_clause field oper v pre st = (st', Ok c) \<Longrightarrow> st' = bind_one pre v st"
  by (auto simp: build_op_clause_def build_in_clause_def build_contains_clause_def bind_one_def Let_def and_do_def
      split: if_splits prod.splits dest: simple_compare_state)

lemma fragments_state:
  "build_fragments field obj pre st = (st', Ok cs) \<Longrightarrow> st' = fold (bind_one pre) (map snd obj) st"
proof (induction field obj pre st arbitrary: cs st' rule: build_fragments.induct)
  case (2 field oper operand obj pre st)
  from "2.prems" obtain st1 c fs where
    c: "build_op_clause field oper operand pre st = (st1, Ok c)" and
    fs: "build_fragments field obj pre st1 = (st', Ok fs)"
    unfolding build_fragments.simps and_do_Ok_iff by blast
  from "2.IH" fs op_clause_state[OF c] show ?case
    by simp
qed simp

lemma field_clause_state:
  "build_field_clause field v pre st = (st', Ok c) \<Longrightarrow> st' = fold (bind_one pre) (field_operands v) st"
  by (auto simp: build_field_clause_def and_do_Ok_iff split: sum.splits json.splits if_splits
      dest: fragments_state simple_compare_state)

text \<open>What a successful step over one entry of a filter object was.\<close>

lemma build_parts_step:
  assumes "build_parts pre ((key, v) # obj) st = (st', Ok cs)"
  obtains (conj) st1 parts vs clauses where "is_op key ''and''" "v = JArr vs"
      "build_each pre vs st = (st1, Ok clauses)" "build_parts pre obj st1 = (st', Ok parts)"
      "cs = group_clauses '' AND '' clauses @ parts"
  | (disj) st1 parts vs clauses where "\<not> is_op key ''and''" "is_op key ''or''" "v = JArr vs"
      "build_each pre vs st = (st1, Ok clauses)" "build_parts pre obj st1 = (st', Ok parts)"
      "cs = group_clauses '' OR '' clauses @ parts"
  | (neg) st1 parts c where "\<not> is_op key ''and''" "\<not> is_op key ''or''" "is_op key ''not''"
      "build_filter_recursive pre v st = (st1, Ok c)" "build_parts pre obj st1 = (st', Ok parts)"
      "cs = (if c \<noteq> [] then [''NOT ('' @ c @ '')''] else []) @ parts"
  | (field) st1 parts c where "\<not> is_op key ''and''" "\<not> is_op key ''or''" "\<not> is_op key ''not''"
      "build_field_clause key v pre st = (st1, Ok c)" "build_parts pre obj st1 = (st', Ok parts)"
      "cs = c # parts"
proof -
  from assms obtain st1 part parts where rest: "build_parts pre obj st1 = (st', Ok parts)" "cs = part @ parts"
    and part: "(if is_op key ''and'' then
          (case v of
             JArr vs \<Rightarrow> and_do (build_each pre vs st) (\<lambda>clauses st. (st, Ok (group_clauses '' AND '' clauses)))
           | _ \<Rightarrow> (st, Err (projl (expect_array ''and'' v))))
        else if is_op key ''or'' then
          (case v of
             JArr vs \<Rightarrow> and_do (build_each pre vs st) (\<lambda>clauses st. (st, Ok (group_clauses '' OR '' clauses)))
           | _ \<Rightarrow> (st, Err (projl (expect_array ''or'' v))))
        else if is_op key ''not'' then
          and_do (build_filter_recursive pre v st) (\<lambda>clause st.
            (st, Ok (if clause \<noteq> [] then [''NOT ('' @ clause @ '')''] else [])))
        else
          and_do (build_field_clause key v pre st) (\<lambda>clause st. (st, Ok [clause]))) = (st1, Ok part)"
    unfolding build_parts.simps and_do_Ok_iff prod.inject sum.inject by blast
  show thesis
  proof (cases "is_op key ''and'' \<or> is_op key ''or''")
    case True
    then obtain vs where vs: "v = JArr vs"
      using part by (cases v) (auto split: if_splits)
    show thesis
    proof (cases "is_op key ''and''")
      case yes: True
      with part vs obtain clauses where "build_each pre vs st = (st1, Ok clauses)" "part = group_clauses '' AND '' clauses"
        by (auto simp: and_do_Ok_iff)
      with conj[OF yes vs] rest show thesis by blast
    next
      case no: False
      with part vs True obtain clauses where "build_each pre vs st = (st1, Ok clauses)" "part = group_clauses '' OR '' clauses"
        by (auto simp: and_do_Ok_iff)
      with disj[OF no] vs True no rest show thesis by blast
    qed
  next
    case False
    show thesis
    proof (cases "is_op key ''not''")
      case yes: True
      with part False obtain c where "build_filter_recursive pre v st = (st1, Ok c)"
          "part = (if c \<noteq> [] then [''NOT ('' @ c @ '')''] else [])"
        by (auto simp: and_do_Ok_iff)
      with neg yes False rest show thesis by blast
    next
      case no: False
      with part False obtain c where "build_field_clause key v pre st = (st1, Ok c)" "part = [c]"
        by (auto simp: and_do_Ok_iff)
      with field no False rest show thesis by simp
    qed
  qed
qed

lemma build_filter_state:
  "build_filter_recursive pre j st = (st', Ok c) \<Longrightarrow> st' = fold (bind_one pre) (operands j) st"
  "build_parts pre m st = (st', Ok cs) \<Longrightarrow> st' = fold (bind_one pre) (concat (map entry_operands m)) st"
  "build_each pre vs st = (st', Ok cs) \<Longrightarrow> st' = fold (bind_one pre) (concat (map operands vs)) st"
proof (induction pre j st and pre m st and pre vs st arbitrary: st' c and st' cs and st' cs
    rule: build_filter_recursive_build_parts_build_each.induct)
  case (1 pre obj st)
  then show ?case by (auto simp: and_do_Ok_iff split: if_splits)
next
  case (4 pre key v obj st)
  from "4.prems" show ?case
  proof (cases rule: build_parts_step)
    case (conj st1 parts vs clauses)
    then show ?thesis using "4.IH"(1)[OF conj(1-3)] "4.IH"(4)[OF conj(4)] by simp
  next
    case (disj st1 parts vs clauses)
    then show ?thesis using "4.IH"(2)[OF disj(1-4)] "4.IH"(4)[OF disj(5)] by simp
  next
    case (neg st1 parts c)
    then show ?thesis using "4.IH"(3)[OF neg(1-4)] "4.IH"(4)[OF neg(5)] by simp
  next
    case (field st1 parts c)
    then show ?thesis using field_clause_state[OF field(4)] "4.IH"(4)[OF field(5)] by simp
  qed
next
  case (6 pre v vs st)
  from "6.prems" obtain st1 c cs' where "build_filter_recursive pre v st = (st1, Ok c)"
      "build_each pre vs st1 = (st', Ok cs')"
    unfolding build_each.simps and_do_Ok_iff by blast
  with "6.IH" show ?case by simp
qed simp_all

section \<open>The grammar\<close>

definition comparison_ops :: "string list" where
  "comparison_ops = [''='', ''!='', ''>'', ''>='', ''<'', ''<='', ''IN'', ''CONTAINS'']"

inductive is_clause :: "(string \<Rightarrow> bool) \<Rightarrow> string \<Rightarrow> bool" for bound where
  compare: "is_identifier field \<Longrightarrow> oper \<in> set comparison_ops \<Longrightarrow> bound p \<Longrightarrow>
     is_clause bound (field @ '' '' @ oper @ '' $'' @ p)"
| negated: "is_clause bound c \<Longrightarrow> is_clause bound (''NOT ('' @ c @ '')'')"
| parens: "is_clause bound c \<Longrightarrow> is_clause bound (''('' @ c @ '')'')"
| conj: "cs \<noteq> [] \<Longrightarrow> \<forall>c\<in>set cs. is_clause bound c \<Longrightarrow> is_clause bound (join_with '' AND '' cs)"
| disj: "cs \<noteq> [] \<Longrightarrow> \<forall>c\<in>set cs. is_clause bound c \<Longrightarrow> is_clause bound (''('' @ join_with '' OR '' cs @ '')'')"

lemma is_clause_mono: "is_clause b c \<Longrightarrow> (\<And>p. b p \<Longrightarrow> b' p) \<Longrightarrow> is_clause b' c"
  by (induction rule: is_clause.induct) (blast intro: is_clause.intros)+

definition bound_in :: "named_args \<Rightarrow> string \<Rightarrow> bool" where
  "bound_in params p \<longleftrightarrow> map_of params p \<noteq> None"

lemma bind_one_bound: "bound_in (fst st) p \<Longrightarrow> bound_in (fst (bind_one pre v st)) p"
  by (simp add: bound_in_def bind_one_def bind_operand_def Let_def)

lemma binds_bound: "bound_in (fst st) p \<Longrightarrow> bound_in (fst (fold (bind_one pre) vs st)) p"
  by (induction vs arbitrary: st) (simp_all add: bind_one_bound)

lemma clause_kept: "is_clause (bound_in (fst st)) c \<Longrightarrow> is_clause (bound_in (fst (fold (bind_one pre) vs st))) c"
  by (erule is_clause_mono) (rule binds_bound)

text \<open>
  A condition \<open>{field: {}}\<close> compiles to the empty string, which \<open>build_filter_recursive\<close>
  joins with the other parts; filters without one are conditioned.
\<close>

fun conditioned :: "json \<Rightarrow> bool"
  and entry_conditioned :: "string \<times> json \<Rightarrow> bool" where
  "conditioned (JObj obj) = list_all entry_conditioned obj"
| "conditioned _ = True"
| "entry_conditioned (key, v) =
     (if is_op key ''and'' \<or> is_op key ''or'' then
        (case v of JArr vs \<Rightarrow> list_all conditioned vs | _ \<Rightarrow> True)
      else if is_op key ''not'' then conditioned v
      else v \<noteq> JObj [])"

lemma simple_compare_clause:
  assumes "build_simple_compare field oper v pre st = (st', Ok c)"
    and "is_identifier field" "oper \<in> set comparison_ops"
  shows "is_clause (bound_in (fst st')) c"
proof -
  have "bound_in (fst st') (param_name pre (snd st))" "c = field @ '' '' @ oper @ '' $'' @ param_name pre (snd st)"
    using assms(1) by (auto simp: build_simple_compare_def bind_operand_def bound_in_def Let_def)
  with assms(2,3) show ?thesis
    by (metis is_clause.compare)
qed

lemma op_clause_clause:
  assumes "build_op_clause field oper v pre st = (st', Ok c)" "is_identifier field"
  shows "is_clause (bound_in (fst st')) c \<and> c \<noteq> []"
proof -
  have bound: "bound_in (fst (bind_one pre v st)) (param_name pre (snd st))"
    by (simp add: bound_in_def bind_one_def bind_operand_def Let_def)
  have cmp: "is_clause (bound_in (fst (bind_one pre v st))) (field @ '' '' @ o' @ '' $'' @ param_name pre (snd st))"
    if "o' \<in> set comparison_ops" for o'
    using is_clause.compare[where bound = "bound_in (fst (bind_one pre v st))", OF assms(2) that bound] .
  have simple: "build_simple_compare field o' v pre st
      = (bind_one pre v st, Ok (field @ '' '' @ o' @ '' $'' @ param_name pre (snd st)))" for o'
    by (simp add: build_simple_compare_def bind_one_def bind_operand_def Let_def)
  have mem: "build_in_clause field v pre st = (st1, Ok c') \<Longrightarrow>
      st1 = bind_one pre v st \<and> c' = field @ '' '' @ ''IN'' @ '' $'' @ param_name pre (snd st)" for st1 c'
    by (auto simp: build_in_clause_def bind_one_def bind_operand_def Let_def split: if_splits)
  have con: "build_contains_clause field v pre st
      = (bind_one pre v st, Ok (field @ '' '' @ ''CONTAINS'' @ '' $'' @ param_name pre (snd st)))"
    by (simp add: build_contains_clause_def bind_one_def bind_operand_def Let_def)
  have ops: "{''='', ''!='', ''>'', ''>='', ''<'', ''<='', ''IN'', ''CONTAINS''} \<subseteq> set comparison_ops"
    by (simp add: comparison_ops_def)
  show ?thesis
  proof (cases "is_op oper ''nin''")
    case True
    then obtain inner where inner: "build_in_clause field v pre st = (st', Ok inner)" "c = ''NOT ('' @ inner @ '')''"
      using assms(1) by (auto simp: build_op_clause_def is_op_def and_do_Ok_iff)
    have "is_clause (bound_in (fst st')) inner"
      using mem[OF inner(1)] cmp[of "''IN''"] ops by simp
    then show ?thesis
      using is_clause.negated inner(2) by auto
  next
    case False
    then have "st' = bind_one pre v st \<and>
        (\<exists>o'\<in>set comparison_ops. c = field @ '' '' @ o' @ '' $'' @ param_name pre (snd st))"
      using assms(1) ops unfolding build_op_clause_def simple con
      by (auto simp del: append.simps append_assoc split: if_splits dest!: mem)
    with cmp show ?thesis by auto
  qed
qed

lemma fragments_clause:
  assumes "build_fragments field obj pre st = (st', Ok cs)" "is_identifier field"
  shows "(\<forall>c\<in>set cs. is_clause (bound_in (fst st')) c) \<and> (obj \<noteq> [] \<longrightarrow> cs \<noteq> [])"
  using assms
proof (induction field obj pre st arbitrary: cs st' rule: build_fragments.induct)
  case (2 field oper operand obj pre st)
  from "2.prems"(1) obtain st1 c fs where c: "build_op_clause field oper operand pre st = (st1, Ok c)"
    and fs: "build_fragments field obj pre st1 = (st', Ok fs)" and cs: "cs = (if c \<noteq> [] then c # fs else fs)"
    unfolding build_fragments.simps and_do_Ok_iff prod.inject sum.inject by blast
  note op = op_clause_clause[OF c "2.prems"(2)]
  have "is_clause (bound_in (fst st')) c"
    using clause_kept op fragments_state[OF fs] by simp
  with "2.IH"[OF fs "2.prems"(2)] op cs show ?case by auto
qed simp

lemma field_clause_clause:
  assumes "build_field_clause field v pre st = (st', Ok c)" "v \<noteq> JObj []"
  shows "is_clause (bound_in (fst st')) c"
proof -
  have ident: "is_identifier field"
    using assms(1) by (auto simp: build_field_clause_def validate_identifier_def split: if_splits)
  show ?thesis
  proof (cases "\<exists>obj. v = JObj obj")
    case True
    then obtain obj cs where obj: "v = JObj obj" "build_fragments field obj pre st = (st', Ok cs)" "c = join_with '' AND '' cs"
      using assms by (auto simp: build_field_clause_def and_do_Ok_iff split: sum.splits if_splits)
    with fragments_clause[OF obj(2) ident] assms(2) show ?thesis
      by (auto intro: is_clause.conj)
  next
    case False
    then have "build_simple_compare field ''='' v pre st = (st', Ok c)"
      using assms(1) by (auto simp: build_field_clause_def split: sum.splits json.splits)
    then show ?thesis
      by (rule simple_compare_clause) (simp_all add: ident comparison_ops_def)
  qed
qed

lemma is_clause_nonempty: "is_clause b c \<Longrightarrow> c \<noteq> []"
proof (induction rule: is_clause.induct)
  case (conj cs)
  then show ?case by (cases cs; cases "tl cs") auto
qed auto

lemma group_clauses_clause:
  assumes "\<forall>c\<in>set clauses. c = [] \<or> is_clause b c" "sep = '' AND '' \<or> sep = '' OR ''"
    and "p \<in> set (group_clauses sep clauses)"
  shows "is_clause b p"
proof -
  let ?cs = "filter (\<lambda>c. c \<noteq> []) clauses"
  have cs: "?cs \<noteq> []" "p = ''('' @ join_with sep ?cs @ '')''"
    using assms(3) by (auto simp: group_clauses_def Let_def split: if_splits)
  have all: "\<forall>c\<in>set ?cs. is_clause b c"
    using assms(1) by auto
  from assms(2) show ?thesis
  proof
    assume "sep = '' AND ''"
    with is_clause.parens[OF is_clause.conj[OF cs(1) all]] cs(2) show ?thesis by simp
  next
    assume "sep = '' OR ''"
    with is_clause.disj[OF cs(1) all] cs(2) show ?thesis by simp
  qed
qed

lemma build_filter_clauses:
  "build_filter_recursive pre j st = (st', Ok c) \<Longrightarrow> conditioned j \<Longrightarrow>
     c = [] \<or> is_clause (bound_in (fst st')) c"
  "build_parts pre m st = (st', Ok cs) \<Longrightarrow> list_all entry_conditioned m \<Longrightarrow>
     \<forall>c\<in>set cs. is_clause (bound_in (fst st')) c"
  "build_each pre vs st = (st', Ok cs) \<Longrightarrow> list_all conditioned vs \<Longrightarrow>
     \<forall>c\<in>set cs. c = [] \<or> is_clause (bound_in (fst st')) c"
proof (induction pre j st and pre m st and pre vs st arbitrary: st' c and st' cs and st' cs
    rule: build_filter_recursive_build_parts_build_each.induct)
  case (1 pre obj st)
  show ?case
  proof (cases "obj = []")
    case False
    with "1.prems" obtain parts where "build_parts pre obj st = (st', Ok parts)" "c = join_with '' AND '' parts"
      by (auto simp: and_do_Ok_iff)
    with "1.IH"[OF False] "1.prems" show ?thesis
      by (cases "parts = []") (auto intro: is_clause.conj)
  qed (use "1.prems" in simp)
next
  case (4 pre key v obj st)
  have kept: "is_clause (bound_in (fst st1)) c \<Longrightarrow> build_parts pre obj st1 = (st', Ok parts) \<Longrightarrow>
      is_clause (bound_in (fst st')) c" for st1 parts c
    using clause_kept build_filter_state(2) by metis
  from "4.prems"(1) show ?case
  proof (cases rule: build_parts_step)
    case (conj st1 parts vs clauses)
    have "\<forall>c\<in>set clauses. c = [] \<or> is_clause (bound_in (fst st1)) c"
      using "4.IH"(1)[OF conj(1-3)] "4.prems"(2) conj by simp
    then have "p \<in> set (group_clauses '' AND '' clauses) \<Longrightarrow> is_clause (bound_in (fst st1)) p" for p
      by (rule group_clauses_clause) simp_all
    with kept[OF _ conj(4)] "4.IH"(4)[OF conj(4)] "4.prems"(2) conj(5) show ?thesis by auto
  next
    case (disj st1 parts vs clauses)
    have "\<forall>c\<in>set clauses. c = [] \<or> is_clause (bound_in (fst st1)) c"
      using "4.IH"(2)[OF disj(1-4)] "4.prems"(2) disj by simp
    then have "p \<in> set (group_clauses '' OR '' clauses) \<Longrightarrow> is_clause (bound_in (fst st1)) p" for p
      by (rule group_clauses_clause) simp_all
    with kept[OF _ disj(5)] "4.IH"(4)[OF disj(5)] "4.prems"(2) disj(6) show ?thesis by auto
  next
    case (neg st1 parts c)
    have "c = [] \<or> is_clause (bound_in (fst st1)) (''NOT ('' @ c @ '')'')"
      using "4.IH"(3)[OF neg(1-4)] "4.prems"(2) neg(1-3) is_clause.negated by auto
    with kept[OF _ neg(5)] "4.IH"(4)[OF neg(5)] "4.prems"(2) neg(6) show ?thesis by auto
  next
    case (field st1 parts c)
    have "is_clause (bound_in (fst st1)) c"
      using field_clause_clause[OF field(4)] "4.prems"(2) field(1-3) by simp
    with kept[OF _ field(5)] "4.IH"(4)[OF field(5)] "4.prems"(2) field(6) show ?thesis by auto
  qed
next
  case (6 pre v vs st)
  from "6.prems"(1) obtain st1 c cs' where c: "build_filter_recursive pre v st = (st1, Ok c)"
      and cs: "build_each pre vs st1 = (st', Ok cs')" "cs = c # cs'"
    unfolding build_each.simps and_do_Ok_iff prod.inject sum.inject by blast
  have "c = [] \<or> is_clause (bound_in (fst st1)) c"
    using "6.IH"(1)[OF c] "6.prems"(2) by simp
  then have "c = [] \<or> is_clause (bound_in (fst st')) c"
    using clause_kept build_filter_state(3)[OF cs(1)] by metis
  with "6.IH"(2)[OF cs(1)] "6.prems"(2) cs(2) show ?case by simp
qed simp_all

section \<open>Parameters\<close>

definition digits_value :: "string \<Rightarrow> nat" where
  "digits_value ds = foldl (\<lambda>a c. 10 * a + (of_char c - 48)) 0 ds"

lemma digits_value_nat: "digits_value (nat_digits n) = n"
proof (induction n rule: nat_digits.induct)
  case (1 n)
  show ?case
  proof (cases "n < 10")
    case True
    then show ?thesis
      by (subst nat_digits.simps) (simp add: digits_value_def of_char_of)
  next
    case False
    have "n mod 10 < 10" by simp
    then have "of_char (char_of (48 + n mod 10) :: char) - 48 = n mod 10"
      by (simp add: of_char_of)
    with False 1 show ?thesis
      by (subst nat_digits.simps) (simp add: digits_value_def)
  qed
qed

lemma param_name_inj: "param_name pre m = param_name pre n \<longleftrightarrow> m = n"
proof
  assume "param_name pre m = param_name pre n"
  then have "nat_digits m = nat_digits n"
    by (simp add: param_name_def show_nat_def)
  then show "m = n"
    using digits_value_nat by metis
qed simp

lemma bind_one_lookup:
  "map_of (fst (bind_one pre v st)) k = (if k = param_name pre (snd st) then Some v else map_of (fst st) k)"
  "snd (bind_one pre v st) = snd st + 1"
  by (simp_all add: bind_one_def bind_operand_def Let_def)

lemma binds_count: "snd (fold (bind_one pre) vs st) = snd st + length vs"
  by (induction vs arbitrary: st) (simp_all add: bind_one_lookup)

lemma binds_lookup:
  "map_of (fst (fold (bind_one pre) vs st)) k =
     (if \<exists>i<length vs. k = param_name pre (snd st + i)
      then Some (vs ! (THE i. i < length vs \<and> k = param_name pre (snd st + i)))
      else map_of (fst st) k)"
proof (induction vs rule: rev_induct)
  case (snoc v vs)
  have the_eq: "(THE i. i < n \<and> param_name pre (snd st + j) = param_name pre (snd st + i)) = j" if "j < n" for n j
    using that by (intro the_equality) (auto simp: param_name_inj)
  show ?case
  proof (cases "\<exists>i<length (vs @ [v]). k = param_name pre (snd st + i)")
    case True
    then obtain j where j: "j < length (vs @ [v])" "k = param_name pre (snd st + j)" by blast
    show ?thesis
    proof (cases "j = length vs")
      case last: True
      then show ?thesis
        using j the_eq[of "length vs" "length (vs @ [v])"]
        by (auto simp: bind_one_lookup binds_count param_name_inj)
    next
      case False
      then have "j < length vs" using j by simp
      then show ?thesis
        using j snoc the_eq[of j "length vs"] the_eq[of j "length (vs @ [v])"]
        by (auto simp: bind_one_lookup binds_count param_name_inj nth_append)
    qed
  next
    case False
    then have "k \<noteq> param_name pre (snd st + length vs)" "\<not> (\<exists>i<length vs. k = param_name pre (snd st + i))"
      by auto
    with False snoc show ?thesis
      by (auto simp: bind_one_lookup binds_count)
  qed
qed simp



lemma not_space_ident: "is_alnum c \<or> c = CHR ''_'' \<or> c = CHR ''.'' \<Longrightarrow> \<not> is_space c"
  by (auto simp: is_space_def is_alnum_def Let_def)

lemma is_clause_head: "is_clause b c \<Longrightarrow> \<not> is_space (hd c)"
proof (induction rule: is_clause.induct)
  case (compare field oper p)
  then obtain a rest where "field = a # rest" "is_alnum a \<or> a = CHR ''_'' \<or> a = CHR ''.''"
    by (cases field) (auto simp: is_identifier_def)
  with not_space_ident show ?case by simp
next
  case (conj cs)
  then show ?case
    by (cases cs; cases "tl cs") (auto dest!: is_clause_nonempty simp: hd_append)
qed (auto simp: is_space_def)

lemma trim_clause: "is_clause b c \<Longrightarrow> trim c \<noteq> []"
proof -
  assume c: "is_clause b c"
  then obtain x xs where x: "c = x # xs" "\<not> is_space x"
    using is_clause_nonempty[OF c] is_clause_head[OF c] by (cases c) auto
  then have "dropWhile is_space (rev c) \<noteq> []"
    by (auto simp: dropWhile_eq_Nil_conv)
  with x show ?thesis
    by (simp add: trim_def trim_start_def)
qed

text \<open>
  A condition with no operator, \<open>{field: {}}\<close>, is not dropped but joined as an empty
  clause: beside another condition the statement has a dangling \<open>AND\<close> and is no clause.
\<close>

theorem empty_condition_breaks_clause:
  "build_filter_clause (JObj [(''a'', JObj []), (''b'', JBool True)]) [] ''p''
     = ([(''p_0'', JBool True)], Ok '' AND b = $p_0'') \<and> \<not> is_clause bound '' AND b = $p_0''"
proof
  show "build_filter_clause (JObj [(''a'', JObj []), (''b'', JBool True)]) [] ''p''
     = ([(''p_0'', JBool True)], Ok '' AND b = $p_0'')"
    by code_simp
  show "\<not> is_clause bound '' AND b = $p_0''"
    by (auto dest!: is_clause_head simp: is_space_def)
qed

end
