(* ===== verification/StorageSurreal.thy ===== *)
theory StorageSurreal
  imports StorageFilter
begin

text \<open>
  The SurrealDB side of the storage crate: binding of the tenant (\<open>surreal/binder.rs\<close>),
  sessions and transactions (\<open>surreal/datastore.rs\<close>), the repository
  (\<open>surreal/repo.rs\<close>), the graph (\<open>surreal/graph.rs\<close>), the search
  (\<open>surreal/search.rs\<close>) and the migrator (\<open>surreal/migrate.rs\<close>).

  The database is the record \<open>db_ops\<close>: running a statement with its bindings changes the
  database's state and answers an error or a response, and \<open>take\<close> reads the first result set
  of a response.  The requests recorded by the metrics are the list \<open>sd_metrics\<close> of the
  store's state; latencies are not modelled.
\<close>

section \<open>Binding\<close>

definition bind_tenant :: "named_args \<Rightarrow> tenant_id \<Rightarrow> named_args storage_result" where
  "bind_tenant params tenant =
     (case map_of params ''tenant'' of
        Some existing \<Rightarrow>
          (case as_str existing of
             Some v \<Rightarrow>
               if v = tenant then Ok (jinsert ''tenant'' (JStr tenant) params)
               else Err (storage_schema (''tenant guard mismatch: expected '' @ quoted tenant @ '', got '' @ quoted v))
           | None \<Rightarrow> Err (storage_schema ''tenant parameter must be a string value''))
      | None \<Rightarrow> Ok (jinsert ''tenant'' (JStr tenant) params))"

definition filtered_bindings :: "named_args \<Rightarrow> json" where
  "filtered_bindings params =
     JObj (fold (\<lambda>(k, v) m. if starts_with k ''__'' then m else jinsert k v m) params [])"

definition extract_meta :: "named_args \<Rightarrow> bool \<Rightarrow> (tenant_id \<times> string \<times> string) storage_result" where
  "extract_meta params strict =
     and_then
       (case map_of params ''tenant'' of
          Some v \<Rightarrow> ok_or (storage_schema ''tenant parameter must be a string'') (as_str v)
        | None \<Rightarrow>
            if strict then Err (storage_schema ''missing tenant parameter for strict Surreal session'')
            else Ok ''__system__'')
       (\<lambda>tenant.
          let table = (case Option.bind (map_of params ''table'') as_str of Some t \<Rightarrow> t | None \<Rightarrow> ''__raw__'');
              kind = (case Option.bind (map_of params ''__kind'') as_str of Some k \<Rightarrow> k | None \<Rightarrow> ''read'')
          in Ok (tenant, table, kind))"

section \<open>The database\<close>

record ('d, 'r) db_ops =
  db_query :: "string \<Rightarrow> json \<Rightarrow> 'd \<Rightarrow> 'd \<times> 'r storage_result"
  db_take_value :: "'r \<Rightarrow> json option storage_result"
  db_take_rows :: "'r \<Rightarrow> json list storage_result"

record storage_metric =
  mt_tenant :: string
  mt_table :: string
  mt_kind :: string
  mt_code :: "string option"
  mt_rows :: nat

record 'd surreal_state =
  sd_db :: 'd
  sd_metrics :: "storage_metric list"
  sd_rollbacks :: "tenant_id list"

definition record_request ::
  "tenant_id \<Rightarrow> string \<Rightarrow> string \<Rightarrow> nat \<Rightarrow> 'd surreal_state \<Rightarrow> 'd surreal_state" where
  "record_request tenant table kind rows s =
     s\<lparr>sd_metrics := sd_metrics s @ [\<lparr>mt_tenant = tenant, mt_table = table, mt_kind = kind,
        mt_code = None, mt_rows = rows\<rparr>]\<rparr>"

definition run_raw ::
  "('d, 'r) db_ops \<Rightarrow> string \<Rightarrow> named_args \<Rightarrow> 'd surreal_state \<Rightarrow> 'd surreal_state \<times> 'r storage_result" where
  "run_raw db statement params s =
     (let (d, r) = db_query db statement (filtered_bindings params) (sd_db s) in (s\<lparr>sd_db := d\<rparr>, r))"

record health_info =
  hi_ok :: bool
  hi_message :: string

definition healthy :: health_info where
  "healthy = \<lparr>hi_ok = True, hi_message = ''ok''\<rparr>"

definition unhealthy :: "string \<Rightarrow> health_info" where
  "unhealthy msg = \<lparr>hi_ok = False, hi_message = msg\<rparr>"

definition pool_health :: "('d, 'r) db_ops \<Rightarrow> 'd surreal_state \<Rightarrow> 'd surreal_state \<times> health_info storage_result" where
  "pool_health db s =
     (case run_raw db ''INFO FOR DB'' [] s of
        (s, Inr _) \<Rightarrow> (s, Ok healthy)
      | (s, Inl err) \<Rightarrow> (s, Ok (unhealthy (sg_public err))))"

record query_result =
  qr_rows :: nat
  qr_bytes :: nat
  qr_meta :: json

definition query_result_new :: "nat \<Rightarrow> nat \<Rightarrow> query_result" where
  "query_result_new rows bytes = \<lparr>qr_rows = rows, qr_bytes = bytes, qr_meta = JNull\<rparr>"

section \<open>Sessions and transactions\<close>

definition session_query ::
  "('d, 'r) db_ops \<Rightarrow> bool \<Rightarrow> string \<Rightarrow> named_args \<Rightarrow> 'd surreal_state
   \<Rightarrow> 'd surreal_state \<times> query_result storage_result" where
  "session_query db strict statement params s =
     and_do (s, extract_meta params strict) (\<lambda>(tenant, table, kind) s.
     and_do (s, bind_tenant params tenant) (\<lambda>args s.
     and_do (run_raw db statement args s) (\<lambda>_ s.
       (record_request tenant table kind 0 s, Ok (query_result_new 0 0)))))"

definition session_query_json ::
  "('d, 'r) db_ops \<Rightarrow> bool \<Rightarrow> string \<Rightarrow> named_args \<Rightarrow> 'd surreal_state
   \<Rightarrow> 'd surreal_state \<times> json option storage_result" where
  "session_query_json db strict statement params s =
     and_do (s, extract_meta params strict) (\<lambda>(tenant, table, kind) s.
     and_do (s, bind_tenant params tenant) (\<lambda>args s.
     and_do (run_raw db statement args s) (\<lambda>response s.
     and_do (s, db_take_value db response) (\<lambda>v s.
       let rows = (case v of Some (JArr arr) \<Rightarrow> length arr | Some _ \<Rightarrow> 1 | None \<Rightarrow> 0)
       in (record_request tenant table kind rows s, Ok v)))))"

record surreal_tx =
  tx_active :: bool
  tx_last_tenant :: "tenant_id option"

definition surreal_tx_begin ::
  "('d, 'r) db_ops \<Rightarrow> 'd surreal_state \<Rightarrow> 'd surreal_state \<times> surreal_tx storage_result" where
  "surreal_tx_begin db s =
     and_do (run_raw db ''BEGIN TRANSACTION'' [] s) (\<lambda>_ s.
       (s, Ok \<lparr>tx_active = True, tx_last_tenant = None\<rparr>))"

definition surreal_tx_execute ::
  "('d, 'r) db_ops \<Rightarrow> bool \<Rightarrow> string \<Rightarrow> named_args \<Rightarrow> surreal_tx \<Rightarrow> 'd surreal_state
   \<Rightarrow> 'd surreal_state \<times> surreal_tx \<times> query_result storage_result" where
  "surreal_tx_execute db strict statement params tx s =
     (case extract_meta params strict of
        Inl e \<Rightarrow> (s, tx, Err e)
      | Inr (tenant, table, kind) \<Rightarrow>
          (case bind_tenant params tenant of
             Inl e \<Rightarrow> (s, tx, Err e)
           | Inr args \<Rightarrow>
               let tx = tx\<lparr>tx_last_tenant := Some tenant\<rparr> in
               (case run_raw db statement args s of
                  (s, Inl e) \<Rightarrow> (s, tx, Err e)
                | (s, Inr _) \<Rightarrow> (record_request tenant table kind 0 s, tx, Ok (query_result_new 0 0)))))"

text \<open>\<open>commit\<close> and \<open>rollback\<close> consume the transaction.\<close>

definition surreal_tx_commit ::
  "('d, 'r) db_ops \<Rightarrow> surreal_tx \<Rightarrow> 'd surreal_state \<Rightarrow> 'd surreal_state \<times> unit storage_result" where
  "surreal_tx_commit db tx s =
     (if tx_active tx then and_do (run_raw db ''COMMIT TRANSACTION'' [] s) (\<lambda>_ s. (s, Ok ()))
      else (s, Ok ()))"

definition surreal_tx_rollback ::
  "('d, 'r) db_ops \<Rightarrow> surreal_tx \<Rightarrow> 'd surreal_state \<Rightarrow> 'd surreal_state \<times> unit storage_result" where
  "surreal_tx_rollback db tx s =
     (if tx_active tx then
        and_do (run_raw db ''CANCEL TRANSACTION'' [] s) (\<lambda>_ s.
          (case tx_last_tenant tx of
             Some tenant \<Rightarrow> (s\<lparr>sd_rollbacks := sd_rollbacks s @ [tenant]\<rparr>, Ok ())
           | None \<Rightarrow> (s, Ok ())))
      else (s, Ok ()))"

section \<open>Repository\<close>

definition base_params :: "'e entity_ops \<Rightarrow> tenant_id \<Rightarrow> named_args" where
  "base_params en tenant = jinsert ''table'' (JStr (en_table en)) (jinsert ''tenant'' (JStr tenant) [])"

definition repo_get ::
  "('d, 'r) db_ops \<Rightarrow> bool \<Rightarrow> 'e entity_ops \<Rightarrow> tenant_id \<Rightarrow> string \<Rightarrow> 'd surreal_state
   \<Rightarrow> 'd surreal_state \<times> 'e option storage_result" where
  "repo_get db strict en tenant rid s =
     (let params = jinsert ''__kind'' (JStr ''read'') (jinsert ''id'' (JStr rid) (base_params en tenant)) in
      and_do (session_query_json db strict
        ''SELECT * FROM type::thing($table, $id) WHERE tenant = $tenant LIMIT 1'' params s) (\<lambda>raw s.
        (s, case raw of
              Some v \<Rightarrow> and_then (decode_entity en v) (\<lambda>e. Ok (Some e))
            | None \<Rightarrow> Ok None)))"

definition repo_create ::
  "('d, 'r) db_ops \<Rightarrow> bool \<Rightarrow> 'e entity_ops \<Rightarrow> tenant_id \<Rightarrow> 'e \<Rightarrow> 'd surreal_state
   \<Rightarrow> 'd surreal_state \<times> 'e storage_result" where
  "repo_create db strict en tenant doc s =
     and_do (s, encode_entity en doc) (\<lambda>data s.
     let params = jinsert ''data'' data (jinsert ''__kind'' (JStr ''write'')
           (jinsert ''id'' (JStr (en_id en doc)) (base_params en tenant))) in
     and_do (session_query_json db strict
       ''CREATE type::thing($table, $id) CONTENT $data RETURN AFTER'' params s) (\<lambda>raw s.
       (s, and_then (ok_or (storage_unknown ''failed to create record'') raw) (decode_entity en))))"

definition upsert_params :: "'e entity_ops \<Rightarrow> tenant_id \<Rightarrow> string \<Rightarrow> json \<Rightarrow> named_args" where
  "upsert_params en tenant rid patch =
     jinsert ''__kind'' (JStr ''write'') (jinsert ''patch'' patch (jinsert ''id'' (JStr rid) (base_params en tenant)))"

definition repo_upsert_returning_none ::
  "('d, 'r) db_ops \<Rightarrow> bool \<Rightarrow> 'e entity_ops \<Rightarrow> tenant_id \<Rightarrow> string \<Rightarrow> json \<Rightarrow> 'd surreal_state
   \<Rightarrow> 'd surreal_state \<times> unit storage_result" where
  "repo_upsert_returning_none db strict en tenant rid patch s =
     and_do (session_query db strict ''UPSERT type::thing($table, $id) MERGE $patch RETURN NONE''
       (upsert_params en tenant rid patch) s) (\<lambda>_ s. (s, Ok ()))"

definition repo_upsert ::
  "('d, 'r) db_ops \<Rightarrow> bool \<Rightarrow> 'e entity_ops \<Rightarrow> tenant_id \<Rightarrow> string \<Rightarrow> json \<Rightarrow> 64 word option
   \<Rightarrow> 'd surreal_state \<Rightarrow> 'd surreal_state \<times> 'e storage_result" where
  "repo_upsert db strict en tenant rid patch expected_version s =
     (case expected_version of
        Some ver \<Rightarrow>
          and_do (session_query_json db strict
            ''UPDATE type::thing($table, $id) MERGE $patch WHERE tenant = $tenant AND ver = $expected_ver RETURN AFTER''
            (jinsert ''expected_ver'' (JNum (PosInt ver)) (upsert_params en tenant rid patch)) s) (\<lambda>raw s.
            (s, and_then (ok_or (storage_not_found ''record not found'') raw) (decode_entity en)))
      | None \<Rightarrow>
          and_do (session_query_json db strict
            ''UPSERT type::thing($table, $id) MERGE $patch RETURN AFTER''
            (upsert_params en tenant rid patch) s) (\<lambda>raw s.
            (s, and_then (ok_or (storage_unknown ''upsert returned no record'') raw) (decode_entity en))))"

definition repo_delete ::
  "('d, 'r) db_ops \<Rightarrow> bool \<Rightarrow> 'e entity_ops \<Rightarrow> tenant_id \<Rightarrow> string \<Rightarrow> 'd surreal_state
   \<Rightarrow> 'd surreal_state \<times> unit storage_result" where
  "repo_delete db strict en tenant rid s =
     and_do (session_query db strict ''DELETE type::thing($table, $id) WHERE tenant = $tenant''
       (jinsert ''__kind'' (JStr ''write'') (jinsert ''id'' (JStr rid) (base_params en tenant))) s) (\<lambda>_ s. (s, Ok ()))"

text \<open>
  \<open>take_items\<close> is the response's \<open>take(0)\<close> into entities.  \<open>limit\<close> is a
  \<open>usize\<close>.
\<close>

definition select_where ::
  "json \<Rightarrow> string option \<Rightarrow> named_args \<Rightarrow> named_args \<times> string storage_result" where
  "select_where flt cursor params =
     and_do (build_filter_clause flt params ''select'') (\<lambda>filter_clause params.
       let where_clause = (if filter_clause \<noteq> [] then append_where ''tenant = $tenant'' filter_clause
                           else ''tenant = $tenant'')
       in case cursor of
            Some c \<Rightarrow> (jinsert ''cursor'' (JStr c) params, Ok (append_where where_clause ''id > $cursor''))
          | None \<Rightarrow> (params, Ok where_clause))"

definition repo_select ::
  "('d, 'r) db_ops \<Rightarrow> ('r \<Rightarrow> 'e list storage_result) \<Rightarrow> 'e entity_ops \<Rightarrow> tenant_id \<Rightarrow> json \<Rightarrow> sort_key list option
   \<Rightarrow> 64 word \<Rightarrow> string option \<Rightarrow> 'd surreal_state \<Rightarrow> 'd surreal_state \<times> 'e page storage_result" where
  "repo_select db take_items en tenant flt sorts limit cursor s =
     (let params = jinsert ''limit'' (JNum (PosInt limit)) (jinsert ''__kind'' (JStr ''read'') (base_params en tenant));
          (params, r) = select_where flt cursor params in
      and_do (s, r) (\<lambda>where_clause s.
      and_do (s, case sorts of Some ks \<Rightarrow> build_sort_clause ks | None \<Rightarrow> Ok []) (\<lambda>order_clause s.
      let statement = ''SELECT * FROM '' @ en_table en @ '' WHERE '' @ where_clause @ order_clause @ '' LIMIT $limit'' in
      and_do (s, bind_tenant params tenant) (\<lambda>args s.
      and_do (run_raw db statement args s) (\<lambda>response s.
      and_do (s, take_items response) (\<lambda>items s.
        let s = record_request tenant (en_table en) ''read'' (length items) s;
            next_cursor = (if length items = unat limit \<and> limit > 0 then Some (en_id en (last items)) else None)
        in (s, Ok \<lparr>pg_items = items, pg_next = next_cursor\<rparr>)))))))"

section \<open>Graph\<close>

definition validate_edge :: "string \<Rightarrow> unit storage_result" where
  "validate_edge edge =
     (if edge = [] \<or> \<not> list_all (\<lambda>c. is_alnum c \<or> c = CHR ''_'' \<or> c = CHR ''-'') edge
      then Err (storage_schema (''invalid graph edge identifier '' @ quoted edge))
      else Ok ())"

definition ensure_properties :: "tenant_id \<Rightarrow> json \<Rightarrow> json storage_result" where
  "ensure_properties tenant properties =
     (case properties of
        JObj m \<Rightarrow> Ok (JObj (jinsert ''tenant'' (JStr tenant) m))
      | JNull \<Rightarrow> Ok (JObj (jinsert ''tenant'' (JStr tenant) []))
      | _ \<Rightarrow> Err (storage_schema ''graph properties must be a JSON object''))"

definition graph_relate ::
  "('d, 'r) db_ops \<Rightarrow> tenant_id \<Rightarrow> string \<Rightarrow> string \<Rightarrow> string \<Rightarrow> json \<Rightarrow> 'd surreal_state
   \<Rightarrow> 'd surreal_state \<times> unit storage_result" where
  "graph_relate db tenant src edge dst properties s =
     and_do (s, validate_edge edge) (\<lambda>_ s.
     and_do (s, ensure_properties tenant properties) (\<lambda>props s.
     let params = jinsert ''properties'' props (jinsert ''__kind'' (JStr ''graph'') (jinsert ''to'' (JStr dst)
           (jinsert ''from'' (JStr src) (jinsert ''tenant'' (JStr tenant) [])))) in
     and_do (s, bind_tenant params tenant) (\<lambda>args s.
     and_do (run_raw db (''RELATE type::thing($from) -> '' @ edge @ '' -> type::thing($to) CONTENT $properties'') args s)
       (\<lambda>_ s. (record_request tenant edge ''graph'' 0 s, Ok ())))))"

definition graph_query ::
  "('d, 'r) db_ops \<Rightarrow> ('r \<Rightarrow> 'e list storage_result) \<Rightarrow> tenant_id \<Rightarrow> string \<Rightarrow> string \<Rightarrow> string \<Rightarrow> 64 word \<Rightarrow> string
   \<Rightarrow> 'd surreal_state \<Rightarrow> 'd surreal_state \<times> 'e list storage_result" where
  "graph_query db take_items tenant param node edge limit stmt s =
     and_do (s, validate_edge edge) (\<lambda>_ s.
     let params = jinsert ''__kind'' (JStr ''graph'') (jinsert ''limit'' (JNum (PosInt limit))
           (jinsert param (JStr node) (jinsert ''tenant'' (JStr tenant) []))) in
     and_do (s, bind_tenant params tenant) (\<lambda>args s.
     and_do (run_raw db stmt args s) (\<lambda>response s.
     and_do (s, take_items response) (\<lambda>items s.
       (record_request tenant edge ''graph'' (length items) s, Ok items)))))"

definition graph_out ::
  "('d, 'r) db_ops \<Rightarrow> ('r \<Rightarrow> 'e list storage_result) \<Rightarrow> tenant_id \<Rightarrow> string \<Rightarrow> string \<Rightarrow> 64 word
   \<Rightarrow> 'd surreal_state \<Rightarrow> 'd surreal_state \<times> 'e list storage_result" where
  "graph_out db take_items tenant src edge limit s =
     graph_query db take_items tenant ''from'' src edge limit
       (''SELECT out.* FROM type::thing($from) -> '' @ edge @ '' WHERE tenant = $tenant LIMIT $limit'') s"

definition graph_in ::
  "('d, 'r) db_ops \<Rightarrow> ('r \<Rightarrow> 'e list storage_result) \<Rightarrow> tenant_id \<Rightarrow> string \<Rightarrow> string \<Rightarrow> 64 word
   \<Rightarrow> 'd surreal_state \<Rightarrow> 'd surreal_state \<times> 'e list storage_result" where
  "graph_in db take_items tenant dst edge limit s =
     graph_query db take_items tenant ''to'' dst edge limit
       (''SELECT in.* FROM type::thing($to) <- '' @ edge @ '' WHERE tenant = $tenant LIMIT $limit'') s"

section \<open>Search\<close>

definition drop_score :: "json \<Rightarrow> json" where
  "drop_score row = (case row of JObj m \<Rightarrow> JObj (jremove ''score'' m) | _ \<Rightarrow> row)"

definition surreal_search ::
  "('d, 'r) db_ops \<Rightarrow> 'e entity_ops \<Rightarrow> tenant_id \<Rightarrow> string \<Rightarrow> 64 word
   \<Rightarrow> 'd surreal_state \<Rightarrow> 'd surreal_state \<times> 'e page storage_result" where
  "surreal_search db en tenant query limit s =
     (if trim query = [] then (s, Ok page_empty)
      else
        let params = jinsert ''__kind'' (JStr ''search'') (jinsert ''query'' (JStr query)
              (jinsert ''limit'' (JNum (PosInt limit)) (jinsert ''tenant'' (JStr tenant) [])));
            stmt = ''SELECT *, SEARCH::SCORE('' @ en_table en @ '', $query) AS score FROM '' @ en_table en
              @ '' WHERE tenant = $tenant AND SEARCH::SCORE('' @ en_table en
              @ '', $query) > 0 ORDER BY score DESC LIMIT $limit'' in
        and_do (s, bind_tenant params tenant) (\<lambda>args s.
        and_do (run_raw db stmt args s) (\<lambda>response s.
        and_do (s, db_take_rows db response) (\<lambda>rows s.
          (record_request tenant (en_table en) ''search'' (length rows) s,
           and_then (try_map (\<lambda>row. decode_entity en (drop_score row)) rows)
             (\<lambda>items. Ok \<lparr>pg_items = items, pg_next = None\<rparr>))))))"

section \<open>Migrations\<close>

definition MIGRATION_TABLE :: string where "MIGRATION_TABLE = ''__sb_migrations''"

definition ensure_table_stmt :: string where
  "ensure_table_stmt = join_with [CHR 0x0A]
     [''DEFINE TABLE IF NOT EXISTS '' @ MIGRATION_TABLE @ '' SCHEMAFULL;'',
      ''DEFINE FIELD version ON '' @ MIGRATION_TABLE @ '' TYPE string ASSERT string::len(value) > 0;'',
      ''DEFINE FIELD checksum ON '' @ MIGRATION_TABLE @ '' TYPE string;'',
      ''DEFINE FIELD applied_at ON '' @ MIGRATION_TABLE @ '' TYPE datetime;'',
      ''DEFINE INDEX idx_'' @ MIGRATION_TABLE @ ''_version ON TABLE '' @ MIGRATION_TABLE @ '' UNIQUE FIELDS version;'']"

definition ensure_table :: "('d, 'r) db_ops \<Rightarrow> 'd surreal_state \<Rightarrow> 'd surreal_state \<times> unit storage_result" where
  "ensure_table db s = and_do (run_raw db ensure_table_stmt [] s) (\<lambda>_ s. (s, Ok ()))"

definition current_version :: "('d, 'r) db_ops \<Rightarrow> 'd surreal_state \<Rightarrow> 'd surreal_state \<times> string storage_result" where
  "current_version db s =
     and_do (ensure_table db s) (\<lambda>_ s.
     and_do (run_raw db (''SELECT version FROM '' @ MIGRATION_TABLE @ '' ORDER BY applied_at DESC LIMIT 1'') [] s) (\<lambda>response s.
     and_do (s, db_take_rows db response) (\<lambda>rows s.
       (s, Ok (case rows of
            row # _ \<Rightarrow> (case Option.bind (json_get ''version'' row) as_str of Some v \<Rightarrow> v | None \<Rightarrow> ''none'')
          | [] \<Rightarrow> ''none'')))))"

definition applied_versions :: "('d, 'r) db_ops \<Rightarrow> 'd surreal_state \<Rightarrow> 'd surreal_state \<times> string list storage_result" where
  "applied_versions db s =
     and_do (ensure_table db s) (\<lambda>_ s.
     and_do (run_raw db (''SELECT version FROM '' @ MIGRATION_TABLE @ '' ORDER BY applied_at ASC'') [] s) (\<lambda>response s.
     and_do (s, db_take_rows db response) (\<lambda>rows s.
       (s, Ok (List.map_filter (\<lambda>row. Option.bind (json_get ''version'' row) as_str) rows)))))"

definition migrate_params :: named_args where
  "migrate_params = jinsert ''__kind'' (JStr ''migrate'') []"

definition run_script ::
  "('d, 'r) db_ops \<Rightarrow> string \<Rightarrow> 'd surreal_state \<Rightarrow> 'd surreal_state \<times> unit storage_result" where
  "run_script db sql s =
     (case run_raw db sql migrate_params s of
        (s, Inl err) \<Rightarrow> (fst (run_raw db ''CANCEL TRANSACTION'' [] s), Err err)
      | (s, Inr _) \<Rightarrow> (s, Ok ()))"

fun apply_scripts ::
  "('d, 'r) db_ops \<Rightarrow> (migration_script \<Rightarrow> string) \<Rightarrow> (migration_script \<Rightarrow> string \<times> named_args) \<Rightarrow> migration_script list
   \<Rightarrow> 'd surreal_state \<Rightarrow> 'd surreal_state \<times> unit storage_result" where
  "apply_scripts db sql record_stmt [] s = (s, Ok ())"
| "apply_scripts db sql record_stmt (script # scripts) s =
     and_do (run_script db (sql script) s) (\<lambda>_ s.
     and_do (run_raw db (fst (record_stmt script)) (snd (record_stmt script)) s) (\<lambda>_ s.
       apply_scripts db sql record_stmt scripts s))"

definition apply_migrations ::
  "('d, 'r) db_ops \<Rightarrow> (migration_script \<Rightarrow> string) \<Rightarrow> (migration_script \<Rightarrow> string \<times> named_args) \<Rightarrow> migration_script list
   \<Rightarrow> 'd surreal_state \<Rightarrow> 'd surreal_state \<times> unit storage_result" where
  "apply_migrations db sql record_stmt scripts s =
     and_do (ensure_table db s) (\<lambda>_ s.
     if scripts = [] then (s, Ok ())
     else
       and_do (run_raw db ''BEGIN TRANSACTION'' [] s) (\<lambda>_ s.
       and_do (apply_scripts db sql record_stmt scripts s) (\<lambda>_ s.
       and_do (run_raw db ''COMMIT TRANSACTION'' [] s) (\<lambda>_ s.
         (record_request ''__system__'' MIGRATION_TABLE ''migrate'' (length scripts) s, Ok ())))))"

definition insert_migration :: "migration_script \<Rightarrow> string \<times> named_args" where
  "insert_migration script =
     (''INSERT INTO '' @ MIGRATION_TABLE @ '' (version, checksum, applied_at) VALUES ($version, $checksum, time::now())'',
      jinsert ''checksum'' (JStr (mg_checksum script)) (jinsert ''version'' (JStr (mg_version script)) []))"

definition delete_migration :: "migration_script \<Rightarrow> string \<times> named_args" where
  "delete_migration script =
     (''DELETE '' @ MIGRATION_TABLE @ '' WHERE version = $version'',
      jinsert ''version'' (JStr (mg_version script)) [])"

definition apply_up ::
  "('d, 'r) db_ops \<Rightarrow> migration_script list \<Rightarrow> 'd surreal_state \<Rightarrow> 'd surreal_state \<times> unit storage_result" where
  "apply_up db scripts s = apply_migrations db mg_up_sql insert_migration scripts s"

definition apply_down ::
  "('d, 'r) db_ops \<Rightarrow> migration_script list \<Rightarrow> 'd surreal_state \<Rightarrow> 'd surreal_state \<times> unit storage_result" where
  "apply_down db scripts s = apply_migrations db mg_down_sql delete_migration scripts s"

section \<open>What a statement is sent with\<close>

text \<open>
  The invariant of the store that statements of one tenant keep: \<open>keeps P db t\<close> says that every
  statement whose bindings name the tenant \<open>t\<close> keeps \<open>P\<close>.
\<close>

definition binds_to :: "tenant_id \<Rightarrow> json \<Rightarrow> bool" where
  "binds_to tenant bindings \<longleftrightarrow>
     json_get ''tenant'' bindings = Some (JStr tenant) \<and>
     (\<forall>k. starts_with k ''__'' \<longrightarrow> json_get k bindings = None)"

definition keeps :: "('d \<Rightarrow> bool) \<Rightarrow> ('d, 'r) db_ops \<Rightarrow> tenant_id \<Rightarrow> bool" where
  "keeps P db tenant \<longleftrightarrow>
     (\<forall>stmt bindings d. binds_to tenant bindings \<longrightarrow> P d \<longrightarrow> P (fst (db_query db stmt bindings d)))"

lemma filtered_fold:
  "map_of (fold (\<lambda>(k, v) m. if starts_with k ''__'' then m else jinsert k v m) params m) k =
     (if starts_with k ''__'' then map_of m k
      else case map_of (rev params) k of Some v \<Rightarrow> Some v | None \<Rightarrow> map_of m k)"
  by (induction params arbitrary: m) (auto split: option.splits)

lemma map_of_rev_sorted: "jsorted m \<Longrightarrow> map_of (rev m) = map_of m"
  by (subst map_of_inject_set) (simp_all add: jsorted_distinct rev_map[symmetric])

lemma filtered_bindings_lookup:
  "jsorted params \<Longrightarrow> json_get k (filtered_bindings params)
     = (if starts_with k ''__'' then None else map_of params k)"
  by (simp add: filtered_bindings_def filtered_fold map_of_rev_sorted split: option.splits)

definition scoped :: "tenant_id \<Rightarrow> named_args \<Rightarrow> bool" where
  "scoped tenant params \<longleftrightarrow> jsorted params \<and> map_of params ''tenant'' = Some (JStr tenant)"

lemma scoped_jinsert [simp]: "k \<noteq> ''tenant'' \<Longrightarrow> scoped t params \<Longrightarrow> scoped t (jinsert k v params)"
  by (simp add: scoped_def)

lemma scoped_tenant [simp]: "jsorted params \<Longrightarrow> scoped t (jinsert ''tenant'' (JStr t) params)"
  by (simp add: scoped_def)

lemma scoped_base [simp]: "scoped t (base_params en t)"
  by (simp add: base_params_def del: jinsert.simps)

lemma scoped_bind: "scoped t params \<Longrightarrow> bind_tenant params t = Ok (jinsert ''tenant'' (JStr t) params)"
  by (simp add: scoped_def bind_tenant_def)

lemma scoped_bind_scoped: "scoped t params \<Longrightarrow> scoped t (jinsert ''tenant'' (JStr t) params)"
  by (simp add: scoped_def)

lemma scoped_meta: "scoped t params \<Longrightarrow> extract_meta params strict = Ok x \<Longrightarrow> fst x = t"
  by (auto simp: scoped_def extract_meta_def Let_def)

lemma scoped_binds_to: "scoped t params \<Longrightarrow> binds_to t (filtered_bindings params)"
  by (simp add: scoped_def binds_to_def filtered_bindings_lookup starts_with_def)

lemma and_do_inv:
  "Q (fst p) \<Longrightarrow> (\<And>a. snd p = Ok a \<Longrightarrow> Q (fst (f a (fst p)))) \<Longrightarrow> Q (fst (and_do p f))"
  by (cases p; cases "snd p") auto

lemma record_request_db [simp]: "sd_db (record_request t tb k n s) = sd_db s"
  by (simp add: record_request_def)

lemma run_raw_keeps:
  "keeps P db t \<Longrightarrow> scoped t params \<Longrightarrow> P (sd_db s) \<Longrightarrow> P (sd_db (fst (run_raw db stmt params s)))"
  using scoped_binds_to[of t params]
  by (auto simp: run_raw_def keeps_def Let_def split: prod.splits) (metis fst_conv)

lemma session_query_keeps:
  assumes "keeps P db t" "scoped t params" "P (sd_db s)"
  shows "P (sd_db (fst (session_query db strict stmt params s)))"
  unfolding session_query_def
  by (auto intro!: and_do_inv[where Q = "\<lambda>s. P (sd_db s)"] run_raw_keeps[OF assms(1)] scoped_bind_scoped
      simp: assms scoped_bind dest!: scoped_meta[OF assms(2)])

lemma session_query_json_keeps:
  assumes "keeps P db t" "scoped t params" "P (sd_db s)"
  shows "P (sd_db (fst (session_query_json db strict stmt params s)))"
  unfolding session_query_json_def
  by (auto intro!: and_do_inv[where Q = "\<lambda>s. P (sd_db s)"] run_raw_keeps[OF assms(1)] scoped_bind_scoped
      simp: assms scoped_bind Let_def dest!: scoped_meta[OF assms(2)])

lemma binds_sorted: "jsorted (fst st) \<Longrightarrow> jsorted (fst (fold (bind_one pre) vs st))"
  by (induction vs arbitrary: st) (simp_all add: bind_one_def bind_operand_def Let_def)

lemma build_filter_scoped:
  assumes "build_filter_clause flt params ''select'' = (params', Ok clause)" "scoped t params"
  shows "scoped t params'"
proof (cases "flt = JNull")
  case True
  with assms show ?thesis by (simp add: build_filter_clause_def)
next
  case False
  have pre: "sanitize_prefix ''select'' = ''select''"
    by code_simp
  from False assms(1) obtain n where "build_filter_recursive ''select'' flt (params, 0) = ((params', n), Ok clause)"
    by (auto simp: build_filter_clause_def pre split: prod.splits)
  from build_filter_state(1)[OF this]
  have st: "params' = fst (fold (bind_one ''select'') (operands flt) (params, 0))"
    by (metis fst_conv)
  have "\<not> (\<exists>i<length (operands flt). ''tenant'' = param_name ''select'' (snd (params, 0) + i))"
    by (simp add: param_name_def)
  then show ?thesis
    using assms(2) binds_sorted[of "(params, 0)" "''select''"] by (simp only: scoped_def st binds_lookup) simp
qed

definition base_where :: "string \<Rightarrow> string" where
  "base_where fc = (if fc \<noteq> [] then append_where ''tenant = $tenant'' fc else ''tenant = $tenant'')"

lemma select_where_Ok:
  assumes "select_where flt cursor params = (params', Ok w)"
  obtains fc p1 where "build_filter_clause flt params ''select'' = (p1, Ok fc)"
    "params' = (case cursor of Some c \<Rightarrow> jinsert ''cursor'' (JStr c) p1 | None \<Rightarrow> p1)"
    "w = (case cursor of Some c \<Rightarrow> append_where (base_where fc) ''id > $cursor'' | None \<Rightarrow> base_where fc)"
  using assms by (cases cursor) (auto simp: select_where_def and_do_Ok_iff Let_def base_where_def)

lemma select_where_scoped:
  "select_where flt cursor params = (params', Ok w) \<Longrightarrow> scoped t params \<Longrightarrow> scoped t params'"
  by (erule select_where_Ok, drule (1) build_filter_scoped) (simp split: option.splits)



datatype 'e repo_request =
    RepoGet string
  | RepoCreate 'e
  | RepoUpsert string json "64 word option"
  | RepoUpsertNone string json
  | RepoDelete string
  | RepoSelect json "sort_key list option" "64 word" "string option"
  | RepoSearch string "64 word"
  | GraphRelate string string string json
  | GraphOut string string "64 word"
  | GraphIn string string "64 word"

fun repo_run ::
  "('d, 'r) db_ops \<Rightarrow> bool \<Rightarrow> ('r \<Rightarrow> 'e list storage_result) \<Rightarrow> 'e entity_ops \<Rightarrow> tenant_id \<Rightarrow> 'e repo_request
   \<Rightarrow> 'd surreal_state \<Rightarrow> 'd surreal_state" where
  "repo_run db strict take_items en t (RepoGet rid) s = fst (repo_get db strict en t rid s)"
| "repo_run db strict take_items en t (RepoCreate doc) s = fst (repo_create db strict en t doc s)"
| "repo_run db strict take_items en t (RepoUpsert rid patch ver) s = fst (repo_upsert db strict en t rid patch ver s)"
| "repo_run db strict take_items en t (RepoUpsertNone rid patch) s
     = fst (repo_upsert_returning_none db strict en t rid patch s)"
| "repo_run db strict take_items en t (RepoDelete rid) s = fst (repo_delete db strict en t rid s)"
| "repo_run db strict take_items en t (RepoSelect flt sorts limit cursor) s
     = fst (repo_select db take_items en t flt sorts limit cursor s)"
| "repo_run db strict take_items en t (RepoSearch query limit) s = fst (surreal_search db en t query limit s)"
| "repo_run db strict take_items en t (GraphRelate src edge dst properties) s
     = fst (graph_relate db t src edge dst properties s)"
| "repo_run db strict take_items en t (GraphOut src edge limit) s = fst (graph_out db take_items t src edge limit s)"
| "repo_run db strict take_items en t (GraphIn dst edge limit) s = fst (graph_in db take_items t dst edge limit s)"

lemma select_keeps:
  assumes "keeps P db t" "P (sd_db s)"
  shows "P (sd_db (fst (repo_select db take_items en t flt sorts limit cursor s)))"
proof -
  let ?params = "jinsert ''limit'' (JNum (PosInt limit)) (jinsert ''__kind'' (JStr ''read'') (base_params en t))"
  obtain params r where sel: "select_where flt cursor ?params = (params, r)"
    by (cases "select_where flt cursor ?params")
  have sc: "scoped t params" if "r = Ok w" for w
    using select_where_scoped[of flt cursor ?params params w t] sel that by simp
  show ?thesis
    unfolding repo_select_def Let_def sel prod.case
    by (auto intro!: and_do_inv[where Q = "\<lambda>s. P (sd_db s)"] run_raw_keeps[OF assms(1)] scoped_bind_scoped
        simp: assms scoped_bind[OF sc] sc Let_def)
qed

lemma graph_query_keeps:
  assumes "keeps P db t" "P (sd_db s)" "param \<noteq> ''tenant''"
  shows "P (sd_db (fst (graph_query db take_items t param node edge limit stmt s)))"
  unfolding graph_query_def Let_def
  using assms(3) by (auto intro!: and_do_inv[where Q = "\<lambda>s. P (sd_db s)"] run_raw_keeps[OF assms(1)] scoped_bind_scoped
      simp: assms scoped_bind simp del: jinsert.simps)

text \<open>
  C35: Every statement the repository, the search and the graph send for a tenant is sent with that
  tenant bound and without internal arguments: an invariant of the database that such statements keep,
  whatever their text, survives every request of the tenant.
\<close>

theorem repository_binds_tenant:
  assumes "keeps P db t" "P (sd_db s)"
  shows "P (sd_db (repo_run db strict take_items en t request s))"
proof (cases request)
  case (RepoSelect flt sorts limit cursor)
  then show ?thesis by (auto intro!: select_keeps assms)
next
  case (GraphOut src edge limit)
  then show ?thesis by (auto simp: graph_out_def intro!: graph_query_keeps assms)
next
  case (GraphIn dst edge limit)
  then show ?thesis by (auto simp: graph_in_def intro!: graph_query_keeps assms)
next
  case (RepoUpsert rid patch ver)
  then show ?thesis
    by (cases ver) (auto simp: repo_upsert_def upsert_params_def assms simp del: jinsert.simps
      intro!: and_do_inv[where Q = "\<lambda>s. P (sd_db s)"] session_query_json_keeps[OF assms(1)])
qed (auto simp: repo_get_def repo_create_def repo_upsert_returning_none_def upsert_params_def repo_delete_def
    surreal_search_def graph_relate_def Let_def assms scoped_bind simp del: jinsert.simps
    intro!: and_do_inv[where Q = "\<lambda>s. P (sd_db s)"] session_query_json_keeps[OF assms(1)]
      session_query_keeps[OF assms(1)] run_raw_keeps[OF assms(1)] scoped_bind_scoped)

text \<open>A database that logs what it is asked, and answers with nothing.\<close>

definition log_db :: "((string \<times> json) list, unit) db_ops" where
  "log_db = \<lparr>db_query = (\<lambda>stmt bindings d. (d @ [(stmt, bindings)], Ok ())),
     db_take_value = (\<lambda>_. Ok None), db_take_rows = (\<lambda>_. Ok [])\<rparr>"

definition demo_entity :: "json entity_ops" where
  "demo_entity = \<lparr>en_table = ''doc'', en_id = (\<lambda>_. ''doc:1''), en_encode = (\<lambda>e. Ok e), en_decode = (\<lambda>j. Ok j)\<rparr>"

theorem repository_binds_tenant_witness:
  "list_all (\<lambda>x. binds_to ''t1'' (snd x)) (sd_db (repo_run log_db True (\<lambda>_. Ok []) demo_entity ''t1''
     (RepoUpsert ''doc:1'' JNull None) \<lparr>sd_db = [], sd_metrics = [], sd_rollbacks = []\<rparr>))"
proof -
  let ?P = "\<lambda>log :: (string \<times> json) list. list_all (\<lambda>x. binds_to ''t1'' (snd x)) log"
  have "keeps ?P log_db ''t1''"
    by (auto simp: keeps_def log_db_def)
  then show ?thesis
    by (rule repository_binds_tenant[where P = ?P]) simp
qed

section \<open>Migrations and transactions\<close>

text \<open>
  A migration whose bookkeeping statement is refused, as that of a version applied before is by
  the unique index, ends with the error and neither commits nor cancels: the transaction it began
  stays open.
\<close>

theorem migration_leaves_transaction_open:
  assumes "\<And>stmt b d. snd (db_query db stmt b d) =
      (if stmt = fst (insert_migration script) then Err e else Ok r)"
    and "mg_up_sql script \<noteq> fst (insert_migration script)"
    and "\<And>stmt b d. fst (db_query db stmt b d) = d @ [stmt]"
  shows "apply_up db (script # scripts) s =
    (s\<lparr>sd_db := sd_db s @ [ensure_table_stmt, ''BEGIN TRANSACTION'', mg_up_sql script, fst (insert_migration script)]\<rparr>, Err e)"
proof -
  have run: "run_raw db stmt params s' = (s'\<lparr>sd_db := sd_db s' @ [stmt]\<rparr>,
      if stmt = fst (insert_migration script) then Err e else Ok r)" for stmt params s'
    using assms(1,3)[of stmt "filtered_bindings params" "sd_db s'"]
    by (cases "db_query db stmt (filtered_bindings params) (sd_db s')") (simp add: run_raw_def)
  have other: "ensure_table_stmt \<noteq> fst (insert_migration script)" "''BEGIN TRANSACTION'' \<noteq> fst (insert_migration script)"
    by (simp_all add: ensure_table_stmt_def insert_migration_def MIGRATION_TABLE_def)
  show ?thesis
    using assms(2) other
    by (simp add: apply_up_def apply_migrations_def ensure_table_def run run_script_def)
qed

definition refusing_db :: "string \<Rightarrow> (string list, unit) db_ops" where
  "refusing_db refused = \<lparr>db_query = (\<lambda>stmt _ d. (d @ [stmt],
       if stmt = refused then Err (storage_schema ''index'') else Ok ())),
     db_take_value = (\<lambda>_. Ok None), db_take_rows = (\<lambda>_. Ok [])\<rparr>"

definition demo_script :: migration_script where
  "demo_script = \<lparr>mg_version = ''1'', mg_up_sql = ''UP'', mg_down_sql = ''DOWN'', mg_checksum = ''c''\<rparr>"

theorem migration_leaves_transaction_open_witness:
  "let s = fst (apply_up (refusing_db (fst (insert_migration demo_script))) [demo_script]
       \<lparr>sd_db = [], sd_metrics = [], sd_rollbacks = []\<rparr>)
   in ''BEGIN TRANSACTION'' \<in> set (sd_db s) \<and> ''CANCEL TRANSACTION'' \<notin> set (sd_db s)
     \<and> ''COMMIT TRANSACTION'' \<notin> set (sd_db s)"
proof -
  have "apply_up (refusing_db (fst (insert_migration demo_script))) [demo_script]
       \<lparr>sd_db = [], sd_metrics = [], sd_rollbacks = []\<rparr>
     = (\<lparr>sd_db = [], sd_metrics = [], sd_rollbacks = []\<rparr>\<lparr>sd_db := [] @ [ensure_table_stmt, ''BEGIN TRANSACTION'',
         mg_up_sql demo_script, fst (insert_migration demo_script)]\<rparr>, Err (storage_schema ''index''))"
    using migration_leaves_transaction_open[where db = "refusing_db (fst (insert_migration demo_script))"
        and script = demo_script and scripts = "[]" and e = "storage_schema ''index''" and r = "()"
        and s = "\<lparr>sd_db = [], sd_metrics = [], sd_rollbacks = []\<rparr>"]
    by (simp add: refusing_db_def demo_script_def insert_migration_def MIGRATION_TABLE_def)
  then show ?thesis
    by (simp add: ensure_table_stmt_def MIGRATION_TABLE_def demo_script_def insert_migration_def)
qed

text \<open>A transaction ends with one statement, and rolling back reports the last tenant it served.\<close>

lemma tx_rollback_reports:
  "snd (run_raw db ''CANCEL TRANSACTION'' [] s) = Ok r \<Longrightarrow> tx_active tx \<Longrightarrow> tx_last_tenant tx = Some t \<Longrightarrow>
   sd_rollbacks (fst (surreal_tx_rollback db tx s)) = sd_rollbacks (fst (run_raw db ''CANCEL TRANSACTION'' [] s)) @ [t]"
  by (cases "run_raw db ''CANCEL TRANSACTION'' [] s") (simp add: surreal_tx_rollback_def)

end
