(* ===== verification/TxSurreal.thy ===== *)
theory TxSurreal
  imports TxMapper TxMemory StorageSurreal
begin

text \<open>
  The SurrealDB stores of \<open>sb-tx\<close> (\<open>surreal/store.rs\<close>): outbox, idempotency keys, sagas
  and dead letters as statements over the sessions of \<open>StorageSurreal\<close>, and the wrapper
  \<open>SurrealTxStore\<close> that adds metrics and hooks.  The statements are the source's constants;
  the database that runs them is the parameter \<open>db\<close>, and serde's conversion of the documents is
  the record \<open>tx_serde\<close>.  Readings of the clock are arguments.
\<close>

section \<open>Statements\<close>

text \<open>A raw string literal that starts and ends with a line break.\<close>

definition raw_lines :: "string list \<Rightarrow> string" where
  "raw_lines ls = concat (map (\<lambda>l. CHR 0x0A # l) ls) @ [CHR 0x0A]"

definition CREATE_RECORD :: string where
  "CREATE_RECORD = ''CREATE type::thing($table, $id) CONTENT $data RETURN AFTER''"

definition UPSERT_RECORD :: string where
  "UPSERT_RECORD = ''UPDATE type::thing($table, $id) CONTENT $data RETURN AFTER''"

definition DELETE_RECORD :: string where
  "DELETE_RECORD = ''DELETE type::thing($table, $id)''"

definition SELECT_SINGLE :: string where
  "SELECT_SINGLE = ''SELECT * FROM type::thing($table, $id) WHERE tenant = $tenant LIMIT 1''"

definition SELECT_CANDIDATES :: string where
  \<open>SELECT_CANDIDATES = raw_lines
     [''    SELECT * FROM tx_outbox'',
      ''    WHERE tenant = $tenant'',
      ''      AND status IN ["Pending", "Leased"]'',
      ''      AND not_before <= $now'',
      ''      AND (status = "Pending" OR lease_until <= $now OR worker = $worker OR lease_until IS NONE)'',
      ''    ORDER BY not_before, created_at'',
      ''    LIMIT $limit'']\<close>

definition LEASE_UPDATE :: string where
  \<open>LEASE_UPDATE = raw_lines
     [''    UPDATE type::thing($table, $id)'',
      ''    SET status = "Leased",'',
      ''        worker = $worker,'',
      ''        lease_until = $lease_until'',
      ''    WHERE tenant = $tenant'',
      ''      AND status IN ["Pending", "Leased"]'',
      ''      AND not_before <= $now'',
      ''      AND (status = "Pending" OR lease_until <= $now OR worker = $worker OR lease_until IS NONE)'',
      ''    RETURN AFTER'']\<close>

definition ACK_UPDATE :: string where
  \<open>ACK_UPDATE = raw_lines
     [''    UPDATE type::thing($table, $id)'',
      ''    SET status = $status,'',
      ''        worker = $worker,'',
      ''        lease_until = $lease_until,'',
      ''        last_error = $last_error,'',
      ''        attempts = attempts,'',
      ''        not_before = not_before'',
      ''    WHERE tenant = $tenant'',
      ''    RETURN AFTER'']\<close>

definition NACK_UPDATE :: string where
  \<open>NACK_UPDATE = raw_lines
     [''    UPDATE type::thing($table, $id)'',
      ''    SET status = "Pending",'',
      ''        worker = NULL,'',
      ''        lease_until = NULL,'',
      ''        last_error = $error,'',
      ''        not_before = $not_before,'',
      ''        attempts = attempts + 1'',
      ''    WHERE tenant = $tenant'',
      ''    RETURN AFTER'']\<close>

definition DEAD_UPDATE :: string where
  \<open>DEAD_UPDATE = raw_lines
     [''    UPDATE type::thing($table, $id)'',
      ''    SET status = "Dead",'',
      ''        worker = NULL,'',
      ''        lease_until = NULL,'',
      ''        last_error = $error,'',
      ''        attempts = attempts + 1'',
      ''    WHERE tenant = $tenant'',
      ''    RETURN AFTER'']\<close>

definition HEARTBEAT_UPDATE :: string where
  \<open>HEARTBEAT_UPDATE = raw_lines
     [''    UPDATE type::thing($table, $id)'',
      ''    SET lease_until = $lease_until'',
      ''    WHERE tenant = $tenant AND worker = $worker'',
      ''    RETURN AFTER'']\<close>

definition REVIVE_UPDATE :: string where
  \<open>REVIVE_UPDATE = raw_lines
     [''    UPDATE type::thing($table, $id)'',
      ''    SET status = "Pending",'',
      ''        worker = NULL,'',
      ''        lease_until = NULL,'',
      ''        last_error = NULL,'',
      ''        attempts = 0,'',
      ''        not_before = $at'',
      ''    WHERE tenant = $tenant'',
      ''    RETURN AFTER'']\<close>

definition IDEMPO_FINISH :: string where
  \<open>IDEMPO_FINISH = raw_lines
     [''    UPDATE type::thing($table, $id)'',
      ''    SET status = $status,'',
      ''        result_digest = $result,'',
      ''        last_error = NULL,'',
      ''        updated_at = $now'',
      ''    WHERE tenant = $tenant'',
      ''    RETURN AFTER'']\<close>

definition IDEMPO_FAIL :: string where
  \<open>IDEMPO_FAIL = raw_lines
     [''    UPDATE type::thing($table, $id)'',
      ''    SET status = $status,'',
      ''        last_error = $error,'',
      ''        updated_at = $now'',
      ''    WHERE tenant = $tenant'',
      ''    RETURN AFTER'']\<close>

definition LIST_DEAD :: string where
  \<open>LIST_DEAD = raw_lines
     [''    SELECT * FROM tx_dead_letter'',
      ''    WHERE tenant = $tenant'',
      ''      AND ($kind IS NONE OR reference_kind = $kind)'',
      ''    ORDER BY occurred_at DESC'',
      ''    LIMIT $limit'']\<close>

definition SELECT_DEAD_BY_REFERENCE :: string where
  \<open>SELECT_DEAD_BY_REFERENCE = raw_lines
     [''    SELECT * FROM tx_dead_letter'',
      ''    WHERE reference_kind = $ref_kind AND reference_id = $ref_id'',
      ''    LIMIT 1'']\<close>

definition DELETE_DEAD_BY_REFERENCE :: string where
  \<open>DELETE_DEAD_BY_REFERENCE = raw_lines
     [''    DELETE tx_dead_letter'',
      ''    WHERE reference_kind = $ref_kind AND reference_id = $ref_id'']\<close>

definition SELECT_SAGA_BY_ID :: string where
  \<open>SELECT_SAGA_BY_ID = raw_lines
     [''    SELECT * FROM tx_saga WHERE saga_id = $saga_id LIMIT 1'']\<close>

definition PURGE_DEAD :: string where
  \<open>PURGE_DEAD = raw_lines
     [''    DELETE tx_dead_letter'',
      ''    WHERE tenant = $tenant AND occurred_at < $before'']\<close>

section \<open>Parameters and queries\<close>

record tx_serde =
  ser_outbox_doc :: "outbox_doc \<Rightarrow> string + json"
  de_outbox_doc :: "json \<Rightarrow> string + outbox_doc"
  ser_idempo_doc :: "idempo_doc \<Rightarrow> string + json"
  de_idempo_doc :: "json \<Rightarrow> string + idempo_doc"
  ser_saga_doc :: "saga_doc \<Rightarrow> string + json"
  de_saga_doc :: "json \<Rightarrow> string + saga_doc"
  ser_dead_doc :: "dead_letter_doc \<Rightarrow> string + json"
  de_dead_doc :: "json \<Rightarrow> string + dead_letter_doc"
  ser_payload :: payload_ser
  de_payload :: payload_de

definition json_i64 :: "int \<Rightarrow> json" where
  "json_i64 i = JNum (if i < 0 then NegInt i else PosInt (word_of_int i))"

definition json_opt_str :: "string option \<Rightarrow> json" where
  "json_opt_str v = (case v of Some s \<Rightarrow> JStr s | None \<Rightarrow> JNull)"

definition map_storage_error :: "storage_error \<Rightarrow> tx_error" where
  "map_storage_error err = tx_error_new (sg_inner err)"

definition map_idempo_create_error :: "storage_error \<Rightarrow> tx_error" where
  "map_idempo_create_error err =
     (if pv_code (storage_to_public err) = code_str STORAGE_CONFLICT then idempo_busy else map_storage_error err)"

definition base_args :: "string \<Rightarrow> tenant_id \<Rightarrow> string \<Rightarrow> named_args" where
  "base_args table tenant kind =
     jinsert ''__kind'' (JStr kind) (jinsert ''tenant'' (JStr tenant) (jinsert ''table'' (JStr table) []))"

definition lookup_args :: "string \<Rightarrow> string \<Rightarrow> named_args" where
  "lookup_args table kind = base_args table ''__lookup__'' kind"

definition decode_vec :: "(json \<Rightarrow> string + 'a) \<Rightarrow> json option \<Rightarrow> string \<Rightarrow> 'a list tx_result" where
  "decode_vec de v ctx =
     (case v of
        Some (JArr arr) \<Rightarrow> try_map (\<lambda>item. decode_row de item ctx) arr
      | Some other \<Rightarrow> and_then (decode_row de other ctx) (\<lambda>item. Ok [item])
      | None \<Rightarrow> Ok [])"

text \<open>\<open>query_json\<close> and \<open>execute_query\<close> on a fresh session, with the error mapped.\<close>

definition tx_query_json ::
  "('d, 'r) db_ops \<Rightarrow> bool \<Rightarrow> (storage_error \<Rightarrow> tx_error) \<Rightarrow> string \<Rightarrow> named_args \<Rightarrow> 'd surreal_state
   \<Rightarrow> 'd surreal_state \<times> json option tx_result" where
  "tx_query_json db strict mapper statement params s =
     (let (s, r) = session_query_json db strict statement params s in (s, map_err mapper r))"

definition tx_execute_query ::
  "('d, 'r) db_ops \<Rightarrow> bool \<Rightarrow> string \<Rightarrow> named_args \<Rightarrow> 'd surreal_state
   \<Rightarrow> 'd surreal_state \<times> unit tx_result" where
  "tx_execute_query db strict statement params s =
     (let (s, r) = session_query db strict statement params s
      in (s, map_err map_storage_error (and_then r (\<lambda>_. Ok ()))))"

text \<open>What every store is over: the database, its strictness and serde.\<close>

record ('d, 'r) tx_db =
  xd_ops :: "('d, 'r) db_ops"
  xd_strict :: bool
  xd_serde :: tx_serde

abbreviation xquery ::
  "('d, 'r) tx_db \<Rightarrow> string \<Rightarrow> named_args \<Rightarrow> 'd surreal_state \<Rightarrow> 'd surreal_state \<times> json option tx_result" where
  "xquery x statement params s \<equiv> tx_query_json (xd_ops x) (xd_strict x) map_storage_error statement params s"

abbreviation xexecute ::
  "('d, 'r) tx_db \<Rightarrow> string \<Rightarrow> named_args \<Rightarrow> 'd surreal_state \<Rightarrow> 'd surreal_state \<times> unit tx_result" where
  "xexecute x statement params s \<equiv> tx_execute_query (xd_ops x) (xd_strict x) statement params s"

section \<open>Outbox\<close>

definition outbox_args :: "tenant_id \<Rightarrow> id \<Rightarrow> string \<Rightarrow> named_args" where
  "outbox_args tenant i kind =
     jinsert ''id'' (JStr (make_record_id OUTBOX_TABLE tenant i)) (base_args OUTBOX_TABLE tenant kind)"

definition sq_outbox_fetch ::
  "('d, 'r) tx_db \<Rightarrow> tenant_id \<Rightarrow> id \<Rightarrow> 'd surreal_state \<Rightarrow> 'd surreal_state \<times> outbox_doc option tx_result" where
  "sq_outbox_fetch x tenant i s =
     and_do (xquery x SELECT_SINGLE (outbox_args tenant i ''read'') s) (\<lambda>v s.
       (s, decode_optional_row (de_outbox_doc (xd_serde x)) v ''outbox fetch''))"

definition try_lease ::
  "('d, 'r) tx_db \<Rightarrow> tenant_id \<Rightarrow> outbox_doc \<Rightarrow> int \<Rightarrow> int \<Rightarrow> string \<Rightarrow> 'd surreal_state
   \<Rightarrow> 'd surreal_state \<times> outbox_doc option tx_result" where
  "try_lease x tenant doc now lease_until worker s =
     (let params = jinsert ''now'' (json_i64 now) (jinsert ''worker'' (JStr worker)
           (jinsert ''lease_until'' (json_i64 lease_until) (jinsert ''id'' (JStr (od_id doc))
             (base_args OUTBOX_TABLE tenant ''write''))))
      in and_do (xquery x LEASE_UPDATE params s) (\<lambda>v s.
           (s, case v of
                 Some val \<Rightarrow> decode_optional_row (de_outbox_doc (xd_serde x)) (Some val) ''outbox lease''
               | None \<Rightarrow> Ok None)))"

definition select_candidates ::
  "('d, 'r) tx_db \<Rightarrow> tenant_id \<Rightarrow> int \<Rightarrow> string \<Rightarrow> nat \<Rightarrow> 'd surreal_state
   \<Rightarrow> 'd surreal_state \<times> outbox_doc list tx_result" where
  "select_candidates x tenant now worker limit s =
     (let params = jinsert ''limit'' (JNum (PosInt (of_nat limit))) (jinsert ''worker'' (JStr worker)
           (jinsert ''now'' (json_i64 now) (base_args OUTBOX_TABLE tenant ''read'')))
      in and_do (xquery x SELECT_CANDIDATES params s) (\<lambda>v s.
           (s, decode_vec (de_outbox_doc (xd_serde x)) v ''outbox select'')))"

definition sq_enqueue ::
  "('d, 'r) tx_db \<Rightarrow> int \<Rightarrow> int \<Rightarrow> new_outbox_message \<Rightarrow> 'd surreal_state
   \<Rightarrow> 'd surreal_state \<times> outbox_message tx_result" where
  "sq_enqueue x now1 now2 n s =
     (let message = build_outbox_message now1 now2 n; doc = outbox_doc_from_message message in
      and_do (s, map_err (\<lambda>err. tx_schema (''serialize outbox doc failed: '' @ err))
                   (ser_outbox_doc (xd_serde x) doc)) (\<lambda>data s.
      let params = jinsert ''data'' data (jinsert ''id'' (JStr (od_id doc))
            (base_args OUTBOX_TABLE (om_tenant message) ''write'')) in
      and_do (xquery x CREATE_RECORD params s) (\<lambda>v s.
      (s, and_then (ok_or (tx_unknown ''outbox enqueue returned empty response'') v) (\<lambda>v.
          and_then (decode_row (de_outbox_doc (xd_serde x)) v ''outbox enqueue'') outbox_message_from_doc)))))"

text \<open>The loop over the candidates: a lease is taken only where the database confirms it.\<close>

fun lease_candidates ::
  "('d, 'r) tx_db \<Rightarrow> tenant_id \<Rightarrow> int \<Rightarrow> int \<Rightarrow> nat \<Rightarrow> string \<Rightarrow> bool \<Rightarrow> outbox_doc list
   \<Rightarrow> outbox_message list \<Rightarrow> string set \<Rightarrow> 'd surreal_state
   \<Rightarrow> 'd surreal_state \<times> outbox_message list tx_result" where
  "lease_candidates x tenant now lease_ms batch worker grp [] selected seen s = (s, Ok selected)"
| "lease_candidates x tenant now lease_ms batch worker grp (doc # docs) selected seen s =
     (if grp \<and> (case od_dispatch_key doc of Some k \<Rightarrow> k \<in> seen | None \<Rightarrow> False)
      then lease_candidates x tenant now lease_ms batch worker grp docs selected seen s
      else
        let seen = (if grp then (case od_dispatch_key doc of Some k \<Rightarrow> insert k seen | None \<Rightarrow> seen) else seen) in
        and_do (try_lease x tenant doc now (i64_add now lease_ms) worker s) (\<lambda>leased s.
        and_do (s, case leased of
                     Some d \<Rightarrow> and_then (outbox_message_from_doc d) (\<lambda>m. Ok (selected @ [m]))
                   | None \<Rightarrow> Ok selected) (\<lambda>selected s.
        if length selected \<ge> batch then (s, Ok selected)
        else lease_candidates x tenant now lease_ms batch worker grp docs selected seen s)))"

definition sq_lease_batch ::
  "('d, 'r) tx_db \<Rightarrow> tenant_id \<Rightarrow> int \<Rightarrow> int \<Rightarrow> nat \<Rightarrow> string \<Rightarrow> bool \<Rightarrow> 'd surreal_state
   \<Rightarrow> 'd surreal_state \<times> outbox_message list tx_result" where
  "sq_lease_batch x tenant now lease_ms batch worker grp s =
     (let prefetch = max (batch * 4 mod 2 ^ 64) batch in
      and_do (select_candidates x tenant now worker prefetch s) (\<lambda>candidates s.
        lease_candidates x tenant now lease_ms batch worker grp candidates [] {} s))"

definition sq_ack_done ::
  "('d, 'r) tx_db \<Rightarrow> int \<Rightarrow> tenant_id \<Rightarrow> id \<Rightarrow> 'd surreal_state \<Rightarrow> 'd surreal_state \<times> unit tx_result" where
  "sq_ack_done x now tenant i s =
     (let params = jinsert ''lease_until'' JNull (jinsert ''worker'' JNull (jinsert ''last_error'' JNull
           (jinsert ''now'' (json_i64 now) (jinsert ''status'' (JStr ''Done'') (outbox_args tenant i ''write'')))))
      in and_do (xquery x ACK_UPDATE params s) (\<lambda>_ s. (s, Ok ())))"

definition sq_nack_backoff ::
  "('d, 'r) tx_db \<Rightarrow> int \<Rightarrow> tenant_id \<Rightarrow> id \<Rightarrow> int \<Rightarrow> string option \<Rightarrow> 'd surreal_state
   \<Rightarrow> 'd surreal_state \<times> unit tx_result" where
  "sq_nack_backoff x now tenant i not_before error s =
     (let params = jinsert ''now'' (json_i64 now) (jinsert ''error'' (json_opt_str error)
           (jinsert ''not_before'' (json_i64 not_before) (outbox_args tenant i ''write'')))
      in and_do (xquery x NACK_UPDATE params s) (\<lambda>_ s. (s, Ok ())))"

definition sq_dead_letter ::
  "('d, 'r) tx_db \<Rightarrow> int \<Rightarrow> int \<Rightarrow> tenant_id \<Rightarrow> id \<Rightarrow> string option \<Rightarrow> 'd surreal_state
   \<Rightarrow> 'd surreal_state \<times> dead_letter tx_result" where
  "sq_dead_letter x now1 now2 tenant i error s =
     (let params = jinsert ''now'' (json_i64 now1) (jinsert ''error'' (json_opt_str error)
           (outbox_args tenant i ''write''))
      in and_do (xquery x DEAD_UPDATE params s) (\<lambda>v s.
           (s, and_then (ok_or (tx_unknown ''dead-letter update returned empty payload'') v) (\<lambda>v.
               and_then (decode_row (de_outbox_doc (xd_serde x)) v ''outbox dead-letter'') (\<lambda>doc.
               and_then (outbox_message_from_doc doc) (\<lambda>message.
                 Ok (build_dead_letter now2 message (od_last_error doc))))))))"

definition sq_heartbeat ::
  "('d, 'r) tx_db \<Rightarrow> tenant_id \<Rightarrow> id \<Rightarrow> int \<Rightarrow> string \<Rightarrow> 'd surreal_state
   \<Rightarrow> 'd surreal_state \<times> unit tx_result" where
  "sq_heartbeat x tenant i lease_until worker s =
     (let params = jinsert ''worker'' (JStr worker) (jinsert ''lease_until'' (json_i64 lease_until)
           (outbox_args tenant i ''write''))
      in and_do (xquery x HEARTBEAT_UPDATE params s) (\<lambda>_ s. (s, Ok ())))"

definition sq_revive ::
  "('d, 'r) tx_db \<Rightarrow> tenant_id \<Rightarrow> id \<Rightarrow> int \<Rightarrow> 'd surreal_state \<Rightarrow> 'd surreal_state \<times> unit tx_result" where
  "sq_revive x tenant i at s =
     and_do (xquery x REVIVE_UPDATE (jinsert ''at'' (json_i64 at) (outbox_args tenant i ''write'')) s)
       (\<lambda>_ s. (s, Ok ()))"

definition sq_outbox_get ::
  "('d, 'r) tx_db \<Rightarrow> tenant_id \<Rightarrow> id \<Rightarrow> 'd surreal_state \<Rightarrow> 'd surreal_state \<times> outbox_message option tx_result" where
  "sq_outbox_get x tenant i s =
     and_do (sq_outbox_fetch x tenant i s) (\<lambda>doc s.
       (s, case doc of
             Some d \<Rightarrow> and_then (outbox_message_from_doc d) (\<lambda>m. Ok (Some m))
           | None \<Rightarrow> Ok None))"

section \<open>Idempotency keys\<close>

definition idempo_args :: "tenant_id \<Rightarrow> string \<Rightarrow> string \<Rightarrow> named_args" where
  "idempo_args tenant key kind =
     jinsert ''id'' (JStr (make_record_id IDEMPO_TABLE tenant key)) (base_args IDEMPO_TABLE tenant kind)"

definition sq_idempo_fetch ::
  "('d, 'r) tx_db \<Rightarrow> tenant_id \<Rightarrow> string \<Rightarrow> 'd surreal_state \<Rightarrow> 'd surreal_state \<times> idempo_doc option tx_result" where
  "sq_idempo_fetch x tenant key s =
     and_do (xquery x SELECT_SINGLE (idempo_args tenant key ''read'') s) (\<lambda>v s.
       (s, decode_optional_row (de_idempo_doc (xd_serde x)) v ''idempotency fetch''))"

definition sq_idempo_delete ::
  "('d, 'r) tx_db \<Rightarrow> tenant_id \<Rightarrow> string \<Rightarrow> 'd surreal_state \<Rightarrow> 'd surreal_state \<times> unit tx_result" where
  "sq_idempo_delete x tenant key s = xexecute x DELETE_RECORD (idempo_args tenant key ''write'') s"

text \<open>
  \<open>check_and_put\<close> is several requests to the database: reading the record, deleting an expired
  one, creating a new one.  What the reading decides is a \<open>claim\<close>.
\<close>

datatype claim = Answer "string option tx_result" | ClaimFresh | ClaimExpired

definition doc_expired :: "int \<Rightarrow> idempo_doc \<Rightarrow> bool" where
  "doc_expired now doc \<longleftrightarrow> (word_of_int (i64_sat_sub now (idd_updated_at doc)) :: 64 word) \<ge> idd_ttl_ms doc"

definition claim_of :: "int \<Rightarrow> string \<Rightarrow> idempo_doc option \<Rightarrow> claim tx_result" where
  "claim_of now hash found =
     (case found of
        Some doc \<Rightarrow>
          and_then (idempo_record_from_doc doc) (\<lambda>record.
            if doc_expired now doc then Ok ClaimExpired
            else if idd_hash doc \<noteq> hash then Err (tx_conflict ''idempotency hash mismatch'')
            else Ok (Answer (case ir_status record of
                               IdInFlight \<Rightarrow> Err idempo_busy
                             | IdSucceeded \<Rightarrow> Ok (ir_result_digest record)
                             | IdFailed \<Rightarrow> Err idempo_failed)))
      | None \<Rightarrow> Ok ClaimFresh)"

definition sq_claim_read ::
  "('d, 'r) tx_db \<Rightarrow> int \<Rightarrow> tenant_id \<Rightarrow> string \<Rightarrow> string \<Rightarrow> 'd surreal_state
   \<Rightarrow> 'd surreal_state \<times> claim tx_result" where
  "sq_claim_read x now tenant key hash s =
     and_do (sq_idempo_fetch x tenant key s) (\<lambda>found s. (s, claim_of now hash found))"

definition sq_claim_create ::
  "('d, 'r) tx_db \<Rightarrow> int \<Rightarrow> tenant_id \<Rightarrow> string \<Rightarrow> string \<Rightarrow> 64 word \<Rightarrow> 'd surreal_state
   \<Rightarrow> 'd surreal_state \<times> string option tx_result" where
  "sq_claim_create x now tenant key hash ttl s =
     (let doc = idempo_doc_from_record (build_record now tenant key hash ttl) in
      and_do (s, map_err (\<lambda>err. tx_schema (''serialize idempotency doc failed: '' @ err))
                   (ser_idempo_doc (xd_serde x) doc)) (\<lambda>data s.
      let params = jinsert ''data'' data (jinsert ''id'' (JStr (idd_id doc))
            (base_args IDEMPO_TABLE tenant ''write'')) in
      and_do (tx_query_json (xd_ops x) (xd_strict x) map_idempo_create_error CREATE_RECORD params s)
        (\<lambda>_ s. (s, Ok None))))"

definition sq_claim_act ::
  "('d, 'r) tx_db \<Rightarrow> int \<Rightarrow> tenant_id \<Rightarrow> string \<Rightarrow> string \<Rightarrow> 64 word \<Rightarrow> claim \<Rightarrow> 'd surreal_state
   \<Rightarrow> 'd surreal_state \<times> string option tx_result" where
  "sq_claim_act x now tenant key hash ttl claim s =
     (case claim of
        Answer r \<Rightarrow> (s, r)
      | ClaimFresh \<Rightarrow> sq_claim_create x now tenant key hash ttl s
      | ClaimExpired \<Rightarrow>
          and_do (sq_idempo_delete x tenant key s) (\<lambda>_ s. sq_claim_create x now tenant key hash ttl s))"

definition sq_check_and_put ::
  "('d, 'r) tx_db \<Rightarrow> int \<Rightarrow> int \<Rightarrow> tenant_id \<Rightarrow> string \<Rightarrow> string \<Rightarrow> 64 word \<Rightarrow> 'd surreal_state
   \<Rightarrow> 'd surreal_state \<times> string option tx_result" where
  "sq_check_and_put x now1 now2 tenant key hash ttl s =
     and_do (sq_claim_read x now1 tenant key hash s)
       (\<lambda>claim s. sq_claim_act x now2 tenant key hash ttl claim s)"

definition sq_finish ::
  "('d, 'r) tx_db \<Rightarrow> int \<Rightarrow> tenant_id \<Rightarrow> string \<Rightarrow> string \<Rightarrow> 'd surreal_state
   \<Rightarrow> 'd surreal_state \<times> unit tx_result" where
  "sq_finish x now tenant key result_digest s =
     (let params = jinsert ''now'' (json_i64 now) (jinsert ''result'' (JStr result_digest)
           (jinsert ''status'' (JStr ''Succeeded'') (idempo_args tenant key ''write'')))
      in and_do (xquery x IDEMPO_FINISH params s) (\<lambda>_ s. (s, Ok ())))"

definition sq_fail ::
  "('d, 'r) tx_db \<Rightarrow> int \<Rightarrow> tenant_id \<Rightarrow> string \<Rightarrow> string option \<Rightarrow> 'd surreal_state
   \<Rightarrow> 'd surreal_state \<times> unit tx_result" where
  "sq_fail x now tenant key error s =
     (let params = jinsert ''now'' (json_i64 now) (jinsert ''error'' (json_opt_str error)
           (jinsert ''status'' (JStr ''Failed'') (idempo_args tenant key ''write'')))
      in and_do (xquery x IDEMPO_FAIL params s) (\<lambda>_ s. (s, Ok ())))"

definition sq_idempo_get ::
  "('d, 'r) tx_db \<Rightarrow> tenant_id \<Rightarrow> string \<Rightarrow> 'd surreal_state \<Rightarrow> 'd surreal_state \<times> idempo_record option tx_result" where
  "sq_idempo_get x tenant key s =
     and_do (sq_idempo_fetch x tenant key s) (\<lambda>doc s.
       (s, case doc of
             Some d \<Rightarrow> and_then (idempo_record_from_doc d) (\<lambda>r. Ok (Some r))
           | None \<Rightarrow> Ok None))"

section \<open>Sagas\<close>

definition write_saga ::
  "('d, 'r) tx_db \<Rightarrow> string \<Rightarrow> saga_instance \<Rightarrow> 'd surreal_state \<Rightarrow> 'd surreal_state \<times> unit tx_result" where
  "write_saga x statement saga s =
     (let doc = saga_doc_from_instance saga in
      and_do (s, map_err (\<lambda>err. tx_schema (''serialize saga doc failed: '' @ err))
                   (ser_saga_doc (xd_serde x) doc)) (\<lambda>data s.
      and_do (xquery x statement (jinsert ''data'' data (jinsert ''id'' (JStr (sgd_id doc))
                (base_args SAGA_TABLE (si_tenant saga) ''write''))) s) (\<lambda>_ s. (s, Ok ()))))"

definition sq_saga_insert ::
  "('d, 'r) tx_db \<Rightarrow> saga_instance \<Rightarrow> 'd surreal_state \<Rightarrow> 'd surreal_state \<times> unit tx_result" where
  "sq_saga_insert x saga s = write_saga x CREATE_RECORD saga s"

definition sq_saga_save ::
  "('d, 'r) tx_db \<Rightarrow> saga_instance \<Rightarrow> 'd surreal_state \<Rightarrow> 'd surreal_state \<times> unit tx_result" where
  "sq_saga_save x saga s = write_saga x UPSERT_RECORD saga s"

definition sq_saga_load ::
  "('d, 'r) tx_db \<Rightarrow> id \<Rightarrow> 'd surreal_state \<Rightarrow> 'd surreal_state \<times> saga_instance option tx_result" where
  "sq_saga_load x i s =
     and_do (xquery x SELECT_SAGA_BY_ID (jinsert ''saga_id'' (JStr i) (lookup_args SAGA_TABLE ''read'')) s) (\<lambda>v s.
       (s, and_then (decode_vec (de_saga_doc (xd_serde x)) v ''saga load'') (\<lambda>docs.
           case docs of
             doc # _ \<Rightarrow> and_then (saga_instance_from_doc doc) (\<lambda>saga. Ok (Some saga))
           | [] \<Rightarrow> Ok None)))"

section \<open>Dead letters\<close>

definition sq_dead_push ::
  "('d, 'r) tx_db \<Rightarrow> dead_letter \<Rightarrow> 'd surreal_state \<Rightarrow> 'd surreal_state \<times> unit tx_result" where
  "sq_dead_push x letter s =
     and_do (s, dead_doc_from_letter (ser_payload (xd_serde x)) letter) (\<lambda>doc s.
     and_do (s, map_err (\<lambda>err. tx_schema (''serialize dead-letter doc failed: '' @ err))
                  (ser_dead_doc (xd_serde x) doc)) (\<lambda>data s.
     and_do (xquery x UPSERT_RECORD (jinsert ''data'' data (jinsert ''id'' (JStr (dld_id doc))
               (base_args DEAD_TABLE (dl_tenant letter) ''write''))) s) (\<lambda>_ s. (s, Ok ()))))"

definition sq_dead_list ::
  "('d, 'r) tx_db \<Rightarrow> tenant_id \<Rightarrow> dead_kind option \<Rightarrow> nat \<Rightarrow> 'd surreal_state
   \<Rightarrow> 'd surreal_state \<times> dead_letter list tx_result" where
  "sq_dead_list x tenant kind limit s =
     (let params = jinsert ''kind'' (json_opt_str (map_option dead_kind_to_str kind))
           (jinsert ''limit'' (JNum (PosInt (of_nat limit))) (base_args DEAD_TABLE tenant ''read''))
      in and_do (xquery x LIST_DEAD params s) (\<lambda>v s.
           (s, and_then (decode_vec (de_dead_doc (xd_serde x)) v ''dead-letter list'')
                 (try_map (dead_letter_from_doc (de_payload (xd_serde x)))))))"

definition reference_args :: "dead_letter_ref \<Rightarrow> string \<Rightarrow> named_args" where
  "reference_args r kind =
     jinsert ''ref_id'' (JStr (dr_id r)) (jinsert ''ref_kind'' (JStr (dead_kind_to_str (dr_kind r)))
       (lookup_args DEAD_TABLE kind))"

definition sq_dead_get ::
  "('d, 'r) tx_db \<Rightarrow> dead_letter_ref \<Rightarrow> 'd surreal_state \<Rightarrow> 'd surreal_state \<times> dead_letter option tx_result" where
  "sq_dead_get x r s =
     and_do (xquery x SELECT_DEAD_BY_REFERENCE (reference_args r ''read'') s) (\<lambda>v s.
       (s, and_then (decode_optional_row (de_dead_doc (xd_serde x)) v ''dead-letter get'') (\<lambda>doc.
           case doc of
             Some d \<Rightarrow> and_then (dead_letter_from_doc (de_payload (xd_serde x)) d) (\<lambda>l. Ok (Some l))
           | None \<Rightarrow> Ok None)))"

definition sq_dead_remove ::
  "('d, 'r) tx_db \<Rightarrow> dead_letter_ref \<Rightarrow> 'd surreal_state \<Rightarrow> 'd surreal_state \<times> unit tx_result" where
  "sq_dead_remove x r s = xexecute x DELETE_DEAD_BY_REFERENCE (reference_args r ''write'') s"

definition sq_dead_replay ::
  "('d, 'r) tx_db \<Rightarrow> int \<Rightarrow> dead_letter_ref \<Rightarrow> 'd surreal_state \<Rightarrow> 'd surreal_state \<times> unit tx_result" where
  "sq_dead_replay x now r s =
     and_do (sq_dead_get x r s) (\<lambda>found s.
       case found of
         None \<Rightarrow> (s, Err (tx_unknown ''dead-letter not found''))
       | Some letter \<Rightarrow>
           and_do (case dl_kind letter of
                     DeadOutbox \<Rightarrow> sq_revive x (dl_tenant letter) (dr_id (dl_reference letter)) now s
                   | DeadSaga \<Rightarrow>
                       (case dl_payload letter of
                          PayloadSaga saga \<Rightarrow>
                            sq_saga_save x (saga\<lparr>si_state := SagaRunning, si_updated_at := now\<rparr>) s
                        | PayloadOutbox _ \<Rightarrow> (s, Err (tx_schema ''dead-letter payload is not saga instance''))))
             (\<lambda>_ s. sq_dead_remove x r s))"

definition sq_purge_older_than ::
  "('d, 'r) tx_db \<Rightarrow> tenant_id \<Rightarrow> int \<Rightarrow> 'd surreal_state \<Rightarrow> 'd surreal_state \<times> unit tx_result" where
  "sq_purge_older_than x tenant before s =
     xexecute x PURGE_DEAD (jinsert ''before'' (json_i64 before) (base_args DEAD_TABLE tenant ''write'')) s"

section \<open>Schema\<close>

text \<open>A block of DDL: its lines, indented, and the indentation of the closing quote.\<close>

definition ddl :: "string list \<Rightarrow> string" where
  "ddl ls = raw_lines (map (\<lambda>l. ''        '' @ l) ls) @ ''        ''"

definition OUTBOX_DDL :: string where
  "OUTBOX_DDL = ddl
     [''DEFINE TABLE tx_outbox SCHEMAFULL;'',
      ''DEFINE FIELD tenant ON tx_outbox TYPE string;'',
      ''DEFINE FIELD message_id ON tx_outbox TYPE string;'',
      ''DEFINE FIELD envelope_id ON tx_outbox TYPE string;'',
      ''DEFINE FIELD topic ON tx_outbox TYPE string;'',
      ''DEFINE FIELD payload ON tx_outbox TYPE object;'',
      ''DEFINE FIELD created_at ON tx_outbox TYPE number;'',
      ''DEFINE FIELD not_before ON tx_outbox TYPE number;'',
      ''DEFINE FIELD attempts ON tx_outbox TYPE number;'',
      ''DEFINE FIELD status ON tx_outbox TYPE string;'',
      ''DEFINE FIELD last_error ON tx_outbox TYPE option<string>;'',
      ''DEFINE FIELD dispatch_key ON tx_outbox TYPE option<string>;'',
      ''DEFINE FIELD lease_until ON tx_outbox TYPE option<number>;'',
      ''DEFINE FIELD worker ON tx_outbox TYPE option<string>;'',
      ''DEFINE INDEX tx_outbox_message_lookup ON TABLE tx_outbox FIELDS tenant, message_id UNIQUE;'',
      ''DEFINE INDEX tx_outbox_ready ON TABLE tx_outbox FIELDS tenant, status, not_before;'',
      ''DEFINE INDEX tx_outbox_dispatch_key ON TABLE tx_outbox FIELDS tenant, dispatch_key;'']"

definition IDEMPO_DDL :: string where
  "IDEMPO_DDL = ddl
     [''DEFINE TABLE tx_idempo SCHEMAFULL;'',
      ''DEFINE FIELD tenant ON tx_idempo TYPE string;'',
      ''DEFINE FIELD key ON tx_idempo TYPE string;'',
      ''DEFINE FIELD hash ON tx_idempo TYPE string;'',
      ''DEFINE FIELD status ON tx_idempo TYPE string;'',
      ''DEFINE FIELD result_digest ON tx_idempo TYPE option<string>;'',
      ''DEFINE FIELD last_error ON tx_idempo TYPE option<string>;'',
      ''DEFINE FIELD ttl_ms ON tx_idempo TYPE number;'',
      ''DEFINE FIELD created_at ON tx_idempo TYPE number;'',
      ''DEFINE FIELD updated_at ON tx_idempo TYPE number;'',
      ''DEFINE INDEX tx_idempo_key_lookup ON TABLE tx_idempo FIELDS tenant, key UNIQUE;'']"

definition SAGA_DDL :: string where
  "SAGA_DDL = ddl
     [''DEFINE TABLE tx_saga SCHEMAFULL;'',
      ''DEFINE FIELD tenant ON tx_saga TYPE string;'',
      ''DEFINE FIELD saga_id ON tx_saga TYPE string;'',
      ''DEFINE FIELD state ON tx_saga TYPE string;'',
      ''DEFINE FIELD def_name ON tx_saga TYPE string;'',
      ''DEFINE FIELD steps ON tx_saga TYPE array;'',
      ''DEFINE FIELD cursor ON tx_saga TYPE number;'',
      ''DEFINE FIELD created_at ON tx_saga TYPE number;'',
      ''DEFINE FIELD updated_at ON tx_saga TYPE number;'',
      ''DEFINE FIELD timeout_at ON tx_saga TYPE option<number>;'',
      ''DEFINE INDEX tx_saga_lookup ON TABLE tx_saga FIELDS tenant, saga_id UNIQUE;'']"

definition DEAD_DDL :: string where
  "DEAD_DDL = ddl
     [''DEFINE TABLE tx_dead_letter SCHEMAFULL;'',
      ''DEFINE FIELD tenant ON tx_dead_letter TYPE string;'',
      ''DEFINE FIELD reference_kind ON tx_dead_letter TYPE string;'',
      ''DEFINE FIELD reference_id ON tx_dead_letter TYPE string;'',
      ''DEFINE FIELD payload ON tx_dead_letter TYPE object;'',
      ''DEFINE FIELD error ON tx_dead_letter TYPE option<string>;'',
      ''DEFINE FIELD occurred_at ON tx_dead_letter TYPE number;'',
      ''DEFINE INDEX tx_dead_letter_lookup ON TABLE tx_dead_letter FIELDS tenant, reference_kind, reference_id UNIQUE;'',
      ''DEFINE INDEX tx_dead_letter_kind ON TABLE tx_dead_letter FIELDS tenant, reference_kind;'']"

definition tx_migrations :: "string list" where
  "tx_migrations = [OUTBOX_DDL, IDEMPO_DDL, SAGA_DDL, DEAD_DDL]"

fun run_statements ::
  "('d, 'r) db_ops \<Rightarrow> string list \<Rightarrow> 'd surreal_state \<Rightarrow> 'd surreal_state \<times> unit tx_result" where
  "run_statements db [] s = (s, Ok ())"
| "run_statements db (stmt # stmts) s =
     and_do (let (s, r) = run_raw db stmt [] s in (s, map_err map_storage_error r))
       (\<lambda>_ s. run_statements db stmts s)"

definition apply_tx_migrations ::
  "('d, 'r) db_ops \<Rightarrow> 'd surreal_state \<Rightarrow> 'd surreal_state \<times> unit tx_result" where
  "apply_tx_migrations db s = run_statements db tx_migrations s"

section \<open>The wrapper\<close>

text \<open>
  \<open>SurrealTxStore\<close> over the four stores: \<open>xw_metrics\<close> are the metrics recorded.  The
  budget guards keep the trait's default hooks, as over the in-memory stores.
\<close>

record 'd stx_world =
  xw_store :: "'d surreal_state"
  xw_metrics :: "metric_event list"

record ('d, 'r) surreal_tx_store =
  xt_db :: "('d, 'r) tx_db"
  xt_config :: tx_config
  xt_a2a_dead_letter :: "tenant_id \<Rightarrow> outbox_message \<Rightarrow> string option \<Rightarrow> unit tx_result"
  xt_a2a_replay :: "tenant_id \<Rightarrow> id \<Rightarrow> unit tx_result"

definition stx_emit :: "metric_event \<Rightarrow> 'd stx_world \<Rightarrow> 'd stx_world" where
  "stx_emit e w = w\<lparr>xw_metrics := xw_metrics w @ [e]\<rparr>"

definition on_surreal ::
  "('d surreal_state \<Rightarrow> 'd surreal_state \<times> 'a) \<Rightarrow> 'd stx_world \<Rightarrow> 'd stx_world \<times> 'a" where
  "on_surreal f w = (let (s, r) = f (xw_store w) in (w\<lparr>xw_store := s\<rparr>, r))"

definition stx_enqueue ::
  "('d, 'r) surreal_tx_store \<Rightarrow> int \<Rightarrow> int \<Rightarrow> new_outbox_message \<Rightarrow> 'd stx_world
   \<Rightarrow> 'd stx_world \<times> outbox_message tx_result" where
  "stx_enqueue st now1 now2 n w =
     and_do (on_surreal (sq_enqueue (xt_db st) now1 now2 n) w) (\<lambda>stored w.
       let w = stx_emit (MetricEnqueue (om_tenant stored) (om_topic stored)) w
       in and_do (w, guard_on_enqueue stored) (\<lambda>_ w. (w, Ok stored)))"

definition stx_lease_batch ::
  "('d, 'r) surreal_tx_store \<Rightarrow> tenant_id \<Rightarrow> int \<Rightarrow> int \<Rightarrow> nat \<Rightarrow> string \<Rightarrow> bool \<Rightarrow> 'd stx_world
   \<Rightarrow> 'd stx_world \<times> outbox_message list tx_result" where
  "stx_lease_batch st tenant now lease_ms batch worker grp w =
     (let grouping = (if oc_group_by_dispatch_key (tc_outbox (xt_config st)) then grp else False)
      in on_surreal (sq_lease_batch (xt_db st) tenant now lease_ms batch worker grouping) w)"

definition stx_dead_letter ::
  "('d, 'r) surreal_tx_store \<Rightarrow> int \<Rightarrow> int \<Rightarrow> tenant_id \<Rightarrow> id \<Rightarrow> string option \<Rightarrow> 'd stx_world
   \<Rightarrow> 'd stx_world \<times> dead_letter tx_result" where
  "stx_dead_letter st now1 now2 tenant i error w =
     and_do (on_surreal (sq_dead_letter (xt_db st) now1 now2 tenant i error) w) (\<lambda>letter w.
       case dl_payload letter of
         PayloadOutbox m \<Rightarrow>
           (let w = stx_emit (MetricDeadLetter tenant (om_topic m) (dl_error letter)) w in
            and_do (w, guard_on_dead_letter tenant m (dl_error letter)) (\<lambda>_ w.
            and_do (w, xt_a2a_dead_letter st tenant m (dl_error letter)) (\<lambda>_ w. (w, Ok letter))))
       | PayloadSaga _ \<Rightarrow> (w, Ok letter))"

definition stx_check_and_put ::
  "('d, 'r) surreal_tx_store \<Rightarrow> int \<Rightarrow> int \<Rightarrow> tenant_id \<Rightarrow> string \<Rightarrow> string \<Rightarrow> 64 word \<Rightarrow> 'd stx_world
   \<Rightarrow> 'd stx_world \<times> string option tx_result" where
  "stx_check_and_put st now1 now2 tenant key hash ttl w =
     (let (w, result) = on_surreal (sq_check_and_put (xt_db st) now1 now2 tenant key hash ttl) w in
      (case result of
         Inr (Some _) \<Rightarrow> stx_emit (MetricIdempotency tenant IdSucceeded) w
       | Inr None \<Rightarrow> stx_emit (MetricIdempotency tenant IdInFlight) w
       | Inl err \<Rightarrow>
           (let code = tx_code err in
            if code = code_str TX_IDEMPOTENT_BUSY then stx_emit (MetricIdempotency tenant IdInFlight) w
            else if code = code_str TX_IDEMPOTENT_LAST_FAILED then
              stx_emit (MetricIdempotency tenant IdFailed) w
            else w), result))"

definition stx_finish ::
  "('d, 'r) surreal_tx_store \<Rightarrow> int \<Rightarrow> tenant_id \<Rightarrow> string \<Rightarrow> string \<Rightarrow> 'd stx_world
   \<Rightarrow> 'd stx_world \<times> unit tx_result" where
  "stx_finish st now tenant key digest w =
     (let (w, res) = on_surreal (sq_finish (xt_db st) now tenant key digest) w
      in (if is_ok res then stx_emit (MetricIdempotency tenant IdSucceeded) w else w, res))"

definition stx_fail ::
  "('d, 'r) surreal_tx_store \<Rightarrow> int \<Rightarrow> tenant_id \<Rightarrow> string \<Rightarrow> string option \<Rightarrow> 'd stx_world
   \<Rightarrow> 'd stx_world \<times> unit tx_result" where
  "stx_fail st now tenant key error w =
     (let (w, res) = on_surreal (sq_fail (xt_db st) now tenant key error) w
      in (if is_ok res then stx_emit (MetricIdempotency tenant IdFailed) w else w, res))"

definition stx_dead_push ::
  "('d, 'r) surreal_tx_store \<Rightarrow> dead_letter \<Rightarrow> 'd stx_world \<Rightarrow> 'd stx_world \<times> unit tx_result" where
  "stx_dead_push st letter w =
     and_do (on_surreal (sq_dead_push (xt_db st) letter) w) (\<lambda>_ w.
       (case dl_payload letter of
          PayloadOutbox m \<Rightarrow> stx_emit (MetricDeadLetter (dl_tenant letter) (om_topic m) (dl_error letter)) w
        | PayloadSaga _ \<Rightarrow> w, Ok ()))"

definition stx_replay ::
  "('d, 'r) surreal_tx_store \<Rightarrow> int \<Rightarrow> dead_letter_ref \<Rightarrow> 'd stx_world \<Rightarrow> 'd stx_world \<times> unit tx_result" where
  "stx_replay st now r w =
     and_do (on_surreal (sq_dead_get (xt_db st) r) w) (\<lambda>found w.
     and_do (on_surreal (sq_dead_replay (xt_db st) now r) w) (\<lambda>_ w.
       case map_option dl_tenant found of
         Some tenant \<Rightarrow>
           let w = stx_emit (MetricDeadReplay tenant (dr_kind r)) w
           in and_do (w, xt_a2a_replay st tenant (dr_id r)) (\<lambda>_ w. (w, Ok ()))
       | None \<Rightarrow> (w, Ok ())))"

text \<open>The operations the wrapper hands through.\<close>

definition stx_ack_done ::
  "('d, 'r) surreal_tx_store \<Rightarrow> int \<Rightarrow> tenant_id \<Rightarrow> id \<Rightarrow> 'd stx_world \<Rightarrow> 'd stx_world \<times> unit tx_result" where
  "stx_ack_done st now tenant i w = on_surreal (sq_ack_done (xt_db st) now tenant i) w"

definition stx_nack_backoff ::
  "('d, 'r) surreal_tx_store \<Rightarrow> int \<Rightarrow> tenant_id \<Rightarrow> id \<Rightarrow> int \<Rightarrow> string option \<Rightarrow> 'd stx_world \<Rightarrow> 'd stx_world \<times> unit tx_result" where
  "stx_nack_backoff st now tenant i not_before error w = on_surreal (sq_nack_backoff (xt_db st) now tenant i not_before error) w"

definition stx_heartbeat ::
  "('d, 'r) surreal_tx_store \<Rightarrow> tenant_id \<Rightarrow> id \<Rightarrow> int \<Rightarrow> string \<Rightarrow> 'd stx_world \<Rightarrow> 'd stx_world \<times> unit tx_result" where
  "stx_heartbeat st tenant i until worker w = on_surreal (sq_heartbeat (xt_db st) tenant i until worker) w"

definition stx_revive ::
  "('d, 'r) surreal_tx_store \<Rightarrow> tenant_id \<Rightarrow> id \<Rightarrow> int \<Rightarrow> 'd stx_world \<Rightarrow> 'd stx_world \<times> unit tx_result" where
  "stx_revive st tenant i at w = on_surreal (sq_revive (xt_db st) tenant i at) w"

definition stx_outbox_get ::
  "('d, 'r) surreal_tx_store \<Rightarrow> tenant_id \<Rightarrow> id \<Rightarrow> 'd stx_world \<Rightarrow> 'd stx_world \<times> outbox_message option tx_result" where
  "stx_outbox_get st tenant i w = on_surreal (sq_outbox_get (xt_db st) tenant i) w"

definition stx_idempo_get ::
  "('d, 'r) surreal_tx_store \<Rightarrow> tenant_id \<Rightarrow> string \<Rightarrow> 'd stx_world \<Rightarrow> 'd stx_world \<times> idempo_record option tx_result" where
  "stx_idempo_get st tenant key w = on_surreal (sq_idempo_get (xt_db st) tenant key) w"

definition stx_saga_insert ::
  "('d, 'r) surreal_tx_store \<Rightarrow> saga_instance \<Rightarrow> 'd stx_world \<Rightarrow> 'd stx_world \<times> unit tx_result" where
  "stx_saga_insert st saga w = on_surreal (sq_saga_insert (xt_db st) saga) w"

definition stx_saga_load ::
  "('d, 'r) surreal_tx_store \<Rightarrow> id \<Rightarrow> 'd stx_world \<Rightarrow> 'd stx_world \<times> saga_instance option tx_result" where
  "stx_saga_load st i w = on_surreal (sq_saga_load (xt_db st) i) w"

definition stx_saga_save ::
  "('d, 'r) surreal_tx_store \<Rightarrow> saga_instance \<Rightarrow> 'd stx_world \<Rightarrow> 'd stx_world \<times> unit tx_result" where
  "stx_saga_save st saga w = on_surreal (sq_saga_save (xt_db st) saga) w"

definition stx_dead_list ::
  "('d, 'r) surreal_tx_store \<Rightarrow> tenant_id \<Rightarrow> dead_kind option \<Rightarrow> nat \<Rightarrow> 'd stx_world \<Rightarrow> 'd stx_world \<times> dead_letter list tx_result" where
  "stx_dead_list st tenant kind limit w = on_surreal (sq_dead_list (xt_db st) tenant kind limit) w"

definition stx_dead_get ::
  "('d, 'r) surreal_tx_store \<Rightarrow> dead_letter_ref \<Rightarrow> 'd stx_world \<Rightarrow> 'd stx_world \<times> dead_letter option tx_result" where
  "stx_dead_get st r w = on_surreal (sq_dead_get (xt_db st) r) w"

definition stx_dead_remove ::
  "('d, 'r) surreal_tx_store \<Rightarrow> dead_letter_ref \<Rightarrow> 'd stx_world \<Rightarrow> 'd stx_world \<times> unit tx_result" where
  "stx_dead_remove st r w = on_surreal (sq_dead_remove (xt_db st) r) w"

definition stx_purge_older_than ::
  "('d, 'r) surreal_tx_store \<Rightarrow> tenant_id \<Rightarrow> int \<Rightarrow> 'd stx_world \<Rightarrow> 'd stx_world \<times> unit tx_result" where
  "stx_purge_older_than st tenant before w = on_surreal (sq_purge_older_than (xt_db st) tenant before) w"

end
