(* ===== verification/StorageErrors.thy ===== *)
theory StorageErrors
  imports StorageFilter
begin

text \<open>
  How errors of the surrealdb crate become storage errors (\<open>sb-storage/src/surreal/errors.rs\<close>).
  The datatypes have the variants the source names; every other variant is \<open>DbOther\<close> or
  \<open>ApiOther\<close> with its text.  \<open>show\<close> is the crate's \<open>Display\<close>.
\<close>

datatype db_error =
    DbDs string | DbTx string
  | TxRetryable | TxTooLarge | TxFailure | TxFinished | TxReadonly | TxConditionNotMet
  | TxKeyAlreadyExists | TxKeyTooLarge | TxValueTooLarge
  | InvalidQuery string
  | InvalidContent | InvalidMerge | InvalidPatch | PatchTest | InvalidParam
  | NsEmpty | DbEmpty | QueryEmpty | QueryRemaining | Deprecated string | Thrown string | HttpDisabled
  | RetryWithId string
  | DbOther string

datatype api_error =
    ApiHttp string | ApiWs string
  | ApiQuery string | ApiScheme string | ApiInvalidRequest string | ApiInvalidParams string
  | ApiParseError string | ApiInvalidSemanticVersion string | ApiInvalidUrl string
  | ApiInvalidBindings string
  | ApiDuplicateRequestId string
  | RangeOnRecordId | RangeOnObject | RangeOnArray | RangeOnEdges | RangeOnRange | RangeOnUnspecified
  | ApiInternalError string
  | VersionMismatch | ConnectionUninitialised | AlreadyConnected | BackupsNotSupported
  | ApiOther string

datatype surreal_error = SurrealDb db_error | SurrealApi api_error

definition map_db_error :: "(db_error \<Rightarrow> string) \<Rightarrow> db_error \<Rightarrow> storage_error" where
  "map_db_error show err =
     (case err of
        DbDs msg \<Rightarrow> storage_provider_unavailable msg
      | DbTx msg \<Rightarrow> storage_provider_unavailable msg
      | InvalidQuery rendered \<Rightarrow> storage_schema rendered
      | RetryWithId _ \<Rightarrow> storage_provider_unavailable (show err)
      | _ \<Rightarrow>
          if err \<in> {TxRetryable, TxTooLarge, TxFailure, TxFinished, TxReadonly, TxConditionNotMet,
              TxKeyAlreadyExists, TxKeyTooLarge, TxValueTooLarge}
          then storage_provider_unavailable (show err)
          else storage_schema (show err))"

definition map_api_error :: "(api_error \<Rightarrow> string) \<Rightarrow> api_error \<Rightarrow> storage_error" where
  "map_api_error show err =
     (case err of
        ApiHttp msg \<Rightarrow> storage_provider_unavailable msg
      | ApiWs msg \<Rightarrow> storage_provider_unavailable msg
      | ApiQuery msg \<Rightarrow> storage_schema msg
      | ApiScheme msg \<Rightarrow> storage_schema msg
      | ApiInvalidRequest msg \<Rightarrow> storage_schema msg
      | ApiInvalidParams msg \<Rightarrow> storage_schema msg
      | ApiParseError msg \<Rightarrow> storage_schema msg
      | ApiInvalidSemanticVersion msg \<Rightarrow> storage_schema msg
      | ApiInvalidUrl msg \<Rightarrow> storage_schema msg
      | ApiInvalidBindings v \<Rightarrow> storage_schema (''invalid bindings: '' @ v)
      | ApiDuplicateRequestId i \<Rightarrow> storage_schema (''duplicate request id: '' @ i)
      | ApiInternalError msg \<Rightarrow> storage_provider_unavailable msg
      | ApiOther _ \<Rightarrow> storage_unknown (show err)
      | _ \<Rightarrow>
          if err \<in> {VersionMismatch, ConnectionUninitialised, AlreadyConnected, BackupsNotSupported}
          then storage_provider_unavailable (show err)
          else storage_schema ''range query not permitted on resource'')"

definition map_surreal_error ::
  "(db_error \<Rightarrow> string) \<Rightarrow> (api_error \<Rightarrow> string) \<Rightarrow> surreal_error \<Rightarrow> storage_error" where
  "map_surreal_error show_db show_api err =
     (case err of SurrealDb e \<Rightarrow> map_db_error show_db e | SurrealApi e \<Rightarrow> map_api_error show_api e)"

definition storage_code :: "storage_error \<Rightarrow> string" where
  "storage_code e = pv_code (storage_to_public e)"

lemma storage_codes [simp]:
  "storage_code (storage_provider_unavailable m) = ''PROVIDER.UNAVAILABLE''"
  "storage_code (storage_schema m) = ''SCHEMA.VALIDATION_FAILED''"
  "storage_code (storage_unknown m) = ''UNKNOWN.INTERNAL''"
  by (simp_all add: storage_code_def storage_to_public_def storage_provider_unavailable_def storage_schema_def
      storage_unknown_def storage_error_new_def to_public_def Let_def builder_new_code spec_of_eq
      registry_entries_defs code_spec_new_def error_codes)

text \<open>No error of the database is a conflict, not even that a record exists already.\<close>

lemma surreal_error_codes:
  "storage_code (map_surreal_error show_db show_api err) \<in>
     {''PROVIDER.UNAVAILABLE'', ''SCHEMA.VALIDATION_FAILED'', ''UNKNOWN.INTERNAL''}"
  by (cases err) (auto simp: map_surreal_error_def map_db_error_def map_api_error_def
      split: db_error.splits api_error.splits)

end
