(* ===== verification/TxSurrealLaws.thy ===== *)
theory TxSurrealLaws
  imports TxSurreal StorageErrors
begin

text \<open>
  What the SurrealDB stores of \<open>sb-tx\<close> promise when the database runs their statements as
  SurrealQL documents them.  \<open>docs\<close> reads the documents of a table, keyed by the \<open>$id\<close> the
  statements name, out of the database's state; each statement that touches one record is an effect on
  that record (\<open>ack_effect\<close> and so on, from the statement's WHERE and SET), and the hypotheses
  \<open>updates_row\<close>, \<open>reads_row\<close>, \<open>creates_row\<close> and \<open>deletes_row\<close> say that the
  database runs it so.  The outbox then refines the in-memory store over any sequence of
  operations, leases are exclusive whatever candidates were read before, and the idempotency store,
  whose claim is several requests, grants a key twice in a race.
\<close>

section \<open>Bindings and effects\<close>

definition b_str :: "string \<Rightarrow> json \<Rightarrow> string option" where
  "b_str k b = Option.bind (json_get k b) as_str"

definition b_int :: "string \<Rightarrow> json \<Rightarrow> int option" where
  "b_int k b = Option.bind (json_get k b) as_i64"

text \<open>The condition of both the candidates' SELECT and the lease's UPDATE.\<close>

definition where_leasable :: "json \<Rightarrow> outbox_doc \<Rightarrow> bool" where
  "where_leasable b d \<longleftrightarrow>
     (case b_int ''now'' b of
        Some now \<Rightarrow>
          b_str ''tenant'' b = Some (od_tenant d) \<and> od_status d \<in> {''Pending'', ''Leased''} \<and>
          od_not_before d \<le> now \<and>
          (od_status d = ''Pending'' \<or> (case od_lease_until d of Some u \<Rightarrow> u \<le> now | None \<Rightarrow> True) \<or>
           od_worker d = b_str ''worker'' b)
      | None \<Rightarrow> False)"

text \<open>The rows the SELECT of the candidates may return.\<close>

definition candidate_rows :: "json \<Rightarrow> (string \<Rightarrow> outbox_doc option) \<Rightarrow> string set" where
  "candidate_rows b rows = {rid. \<exists>doc. rows rid = Some doc \<and> where_leasable b doc}"

definition lease_effect :: "json \<Rightarrow> outbox_doc \<Rightarrow> outbox_doc option" where
  "lease_effect b d =
     (if where_leasable b d
      then Some (d\<lparr>od_status := ''Leased'', od_worker := b_str ''worker'' b, od_lease_until := b_int ''lease_until'' b\<rparr>)
      else None)"

definition when_tenant :: "json \<Rightarrow> outbox_doc \<Rightarrow> outbox_doc \<Rightarrow> outbox_doc option" where
  "when_tenant b d d' = (if b_str ''tenant'' b = Some (od_tenant d) then Some d' else None)"

definition ack_effect :: "json \<Rightarrow> outbox_doc \<Rightarrow> outbox_doc option" where
  "ack_effect b d = when_tenant b d
     (d\<lparr>od_status := (case b_str ''status'' b of Some s \<Rightarrow> s | None \<Rightarrow> od_status d),
        od_worker := b_str ''worker'' b, od_lease_until := b_int ''lease_until'' b,
        od_last_error := b_str ''last_error'' b\<rparr>)"

definition nack_effect :: "json \<Rightarrow> outbox_doc \<Rightarrow> outbox_doc option" where
  "nack_effect b d = when_tenant b d
     (d\<lparr>od_status := ''Pending'', od_worker := None, od_lease_until := None, od_last_error := b_str ''error'' b,
        od_not_before := (case b_int ''not_before'' b of Some t \<Rightarrow> t | None \<Rightarrow> od_not_before d),
        od_attempts := od_attempts d + 1\<rparr>)"

definition dead_effect :: "json \<Rightarrow> outbox_doc \<Rightarrow> outbox_doc option" where
  "dead_effect b d = when_tenant b d
     (d\<lparr>od_status := ''Dead'', od_worker := None, od_lease_until := None, od_last_error := b_str ''error'' b,
        od_attempts := od_attempts d + 1\<rparr>)"

definition heartbeat_effect :: "json \<Rightarrow> outbox_doc \<Rightarrow> outbox_doc option" where
  "heartbeat_effect b d =
     (if od_worker d = b_str ''worker'' b
      then when_tenant b d (d\<lparr>od_lease_until := b_int ''lease_until'' b\<rparr>) else None)"

definition revive_effect :: "json \<Rightarrow> outbox_doc \<Rightarrow> outbox_doc option" where
  "revive_effect b d = when_tenant b d
     (d\<lparr>od_status := ''Pending'', od_worker := None, od_lease_until := None, od_last_error := None,
        od_attempts := 0,
        od_not_before := (case b_int ''at'' b of Some t \<Rightarrow> t | None \<Rightarrow> od_not_before d)\<rparr>)"

definition idempo_when_tenant :: "json \<Rightarrow> idempo_doc \<Rightarrow> idempo_doc \<Rightarrow> idempo_doc option" where
  "idempo_when_tenant b d d' = (if b_str ''tenant'' b = Some (idd_tenant d) then Some d' else None)"

definition finish_effect :: "json \<Rightarrow> idempo_doc \<Rightarrow> idempo_doc option" where
  "finish_effect b d = idempo_when_tenant b d
     (d\<lparr>idd_status := (case b_str ''status'' b of Some s \<Rightarrow> s | None \<Rightarrow> idd_status d),
        idd_result_digest := b_str ''result'' b, idd_last_error := None,
        idd_updated_at := (case b_int ''now'' b of Some t \<Rightarrow> t | None \<Rightarrow> idd_updated_at d)\<rparr>)"

definition fail_effect :: "json \<Rightarrow> idempo_doc \<Rightarrow> idempo_doc option" where
  "fail_effect b d = idempo_when_tenant b d
     (d\<lparr>idd_status := (case b_str ''status'' b of Some s \<Rightarrow> s | None \<Rightarrow> idd_status d),
        idd_last_error := b_str ''error'' b,
        idd_updated_at := (case b_int ''now'' b of Some t \<Rightarrow> t | None \<Rightarrow> idd_updated_at d)\<rparr>)"

section \<open>What the database is taken to do\<close>

text \<open>
  A response: the value \<open>take(0)\<close> gives, which is the row itself or an array with it, or nothing
  or an empty array.
\<close>

definition row_answer :: "(json \<Rightarrow> string + 'a) \<Rightarrow> 'a option \<Rightarrow> json option \<Rightarrow> bool" where
  "row_answer de found v \<longleftrightarrow>
     (case found of
        Some doc \<Rightarrow> \<exists>row. (v = Some (JArr [row]) \<or> v = Some row \<and> (\<forall>xs. row \<noteq> JArr xs)) \<and> de row = Ok doc
      | None \<Rightarrow> v = None \<or> v = Some (JArr []))"

definition db_answers ::
  "('d, 'r) db_ops \<Rightarrow> string \<Rightarrow> json \<Rightarrow> 'd \<Rightarrow> 'd \<Rightarrow> json option \<Rightarrow> bool" where
  "db_answers db stmt b d d' v \<longleftrightarrow> (\<exists>r. db_query db stmt b d = (d', Ok r) \<and> db_take_value db r = Ok v)"

text \<open>A statement the database refuses: the query fails, or reading its response does.\<close>

definition db_refuses ::
  "('d, 'r) db_ops \<Rightarrow> string \<Rightarrow> json \<Rightarrow> 'd \<Rightarrow> 'd \<Rightarrow> storage_error \<Rightarrow> bool" where
  "db_refuses db stmt b d d' e \<longleftrightarrow>
     db_query db stmt b d = (d', Err e) \<or> (\<exists>r. db_query db stmt b d = (d', Ok r) \<and> db_take_value db r = Err e)"

text \<open>The record a statement names, in the table \<open>table\<close>.\<close>

definition names_row :: "json \<Rightarrow> string \<Rightarrow> string \<Rightarrow> bool" where
  "names_row b table rid \<longleftrightarrow> b_str ''table'' b = Some table \<and> b_str ''id'' b = Some rid"

type_synonym ('d, 'a) docs = "'d \<Rightarrow> string \<Rightarrow> 'a option"

definition updates_row ::
  "('d, 'r) db_ops \<Rightarrow> string \<Rightarrow> ('d, 'a) docs \<Rightarrow> (json \<Rightarrow> string + 'a) \<Rightarrow> ('a \<Rightarrow> bool) \<Rightarrow> string
   \<Rightarrow> (json \<Rightarrow> 'a \<Rightarrow> 'a option) \<Rightarrow> bool" where
  "updates_row db table docs de fits stmt eff \<longleftrightarrow>
     (\<forall>b d rid. names_row b table rid \<longrightarrow> pred_option fits (docs d rid) \<longrightarrow>
        (\<exists>d' v. db_answers db stmt b d d' v \<and> row_answer de (Option.bind (docs d rid) (eff b)) v \<and>
           docs d' = (case Option.bind (docs d rid) (eff b) of
                        Some doc \<Rightarrow> (docs d)(rid \<mapsto> doc) | None \<Rightarrow> docs d)))"

definition reads_row ::
  "('d, 'r) db_ops \<Rightarrow> string \<Rightarrow> ('d, 'a) docs \<Rightarrow> (json \<Rightarrow> string + 'a) \<Rightarrow> ('a \<Rightarrow> string) \<Rightarrow> bool" where
  "reads_row db table docs de ten \<longleftrightarrow>
     (\<forall>b d rid. names_row b table rid \<longrightarrow>
        (\<exists>d' v. db_answers db SELECT_SINGLE b d d' v \<and> docs d' = docs d \<and>
           row_answer de (Option.bind (docs d rid) (\<lambda>doc. if b_str ''tenant'' b = Some (ten doc) then Some doc else None)) v))"

definition creates_row ::
  "('d, 'r) db_ops \<Rightarrow> string \<Rightarrow> ('d, 'a) docs \<Rightarrow> (json \<Rightarrow> string + 'a) \<Rightarrow> bool" where
  "creates_row db table docs de \<longleftrightarrow>
     (\<forall>b d rid data doc. names_row b table rid \<longrightarrow> json_get ''data'' b = Some data \<longrightarrow> de data = Ok doc \<longrightarrow>
        (case docs d rid of
           None \<Rightarrow> \<exists>d' v. db_answers db CREATE_RECORD b d d' v \<and> row_answer de (Some doc) v \<and>
                     docs d' = (docs d)(rid \<mapsto> doc)
         | Some _ \<Rightarrow> \<exists>d' e. db_refuses db CREATE_RECORD b d d' e \<and> docs d' = docs d))"

definition deletes_row :: "('d, 'r) db_ops \<Rightarrow> string \<Rightarrow> ('d, 'a) docs \<Rightarrow> bool" where
  "deletes_row db table docs \<longleftrightarrow>
     (\<forall>b d rid. names_row b table rid \<longrightarrow>
        (\<exists>d' r. db_query db DELETE_RECORD b d = (d', Ok r) \<and> docs d' = (docs d)(rid := None)))"

text \<open>An attempt count that can be incremented and still be read as \<open>u32\<close>.\<close>

definition attempts_fit :: "outbox_doc \<Rightarrow> bool" where
  "attempts_fit d \<longleftrightarrow> od_attempts d \<noteq> - 1"

definition outbox_statements :: "('d, 'r) tx_db \<Rightarrow> ('d, outbox_doc) docs \<Rightarrow> bool" where
  "outbox_statements x docs \<longleftrightarrow>
     (let db = xd_ops x; de = de_outbox_doc (xd_serde x); upd = updates_row db OUTBOX_TABLE docs de in
      (\<forall>doc. \<exists>j. ser_outbox_doc (xd_serde x) doc = Ok j \<and> de j = Ok doc) \<and>
      reads_row db OUTBOX_TABLE docs de od_tenant \<and> creates_row db OUTBOX_TABLE docs de \<and>
      upd (\<lambda>_. True) LEASE_UPDATE lease_effect \<and> upd (\<lambda>_. True) ACK_UPDATE ack_effect \<and>
      upd attempts_fit NACK_UPDATE nack_effect \<and> upd attempts_fit DEAD_UPDATE dead_effect \<and>
      upd (\<lambda>_. True) HEARTBEAT_UPDATE heartbeat_effect \<and> upd (\<lambda>_. True) REVIVE_UPDATE revive_effect)"

definition idempo_statements :: "('d, 'r) tx_db \<Rightarrow> ('d, idempo_doc) docs \<Rightarrow> bool" where
  "idempo_statements x docs \<longleftrightarrow>
     (let db = xd_ops x; de = de_idempo_doc (xd_serde x); upd = updates_row db IDEMPO_TABLE docs de in
      (\<forall>doc. \<exists>j. ser_idempo_doc (xd_serde x) doc = Ok j \<and> de j = Ok doc) \<and>
      reads_row db IDEMPO_TABLE docs de idd_tenant \<and> creates_row db IDEMPO_TABLE docs de \<and>
      deletes_row db IDEMPO_TABLE docs \<and>
      upd (\<lambda>_. True) IDEMPO_FINISH finish_effect \<and> upd (\<lambda>_. True) IDEMPO_FAIL fail_effect)"

section \<open>Running a statement\<close>

definition bound :: "named_args \<Rightarrow> json" where
  "bound params = filtered_bindings params"

lemma bound_get:
  "scoped t params \<Longrightarrow> json_get k (bound params) = (if starts_with k ''__'' then None else map_of params k)"
  by (simp add: bound_def scoped_def filtered_bindings_lookup)

text \<open>Every request carries its tenant, so binding the tenant changes nothing.\<close>

lemma jinsert_same: "jsorted m \<Longrightarrow> map_of m k = Some v \<Longrightarrow> jinsert k v m = m"
  by (rule jsorted_unique) (auto simp: fun_eq_iff)

lemma session_meta:
  "scoped t params \<Longrightarrow> \<exists>table kind. extract_meta params strict = Ok (t, table, kind) \<and> bind_tenant params t = Ok params"
  by (auto simp: scoped_def extract_meta_def bind_tenant_def jinsert_same)

lemma tx_query_json_ok:
  assumes "scoped t params" "db_answers db stmt (bound params) (sd_db s) d' v"
  shows "\<exists>s'. tx_query_json db strict mapper stmt params s = (s', Ok v) \<and> sd_db s' = d'"
proof -
  obtain table kind where "extract_meta params strict = Ok (t, table, kind)" "bind_tenant params t = Ok params"
    using session_meta[OF assms(1)] by blast
  moreover obtain r where "db_query db stmt (bound params) (sd_db s) = (d', Ok r)" "db_take_value db r = Ok v"
    using assms(2) by (auto simp: db_answers_def)
  ultimately show ?thesis
    by (simp add: tx_query_json_def session_query_json_def run_raw_def record_request_def bound_def Let_def)
qed

lemma tx_query_json_err:
  assumes "scoped t params" "db_refuses db stmt (bound params) (sd_db s) d' e"
  shows "\<exists>s'. tx_query_json db strict mapper stmt params s = (s', Err (mapper e)) \<and> sd_db s' = d'"
proof -
  obtain table kind where "extract_meta params strict = Ok (t, table, kind)" "bind_tenant params t = Ok params"
    using session_meta[OF assms(1)] by blast
  with assms(2) show ?thesis
    by (auto simp: db_refuses_def tx_query_json_def session_query_json_def run_raw_def bound_def Let_def)
qed

lemma tx_execute_query_ok:
  assumes "scoped t params" "db_query db stmt (bound params) (sd_db s) = (d', Ok r)"
  shows "\<exists>s'. tx_execute_query db strict stmt params s = (s', Ok ()) \<and> sd_db s' = d'"
proof -
  obtain table kind where "extract_meta params strict = Ok (t, table, kind)" "bind_tenant params t = Ok params"
    using session_meta[OF assms(1)] by blast
  with assms(2) show ?thesis
    by (simp add: tx_execute_query_def session_query_def run_raw_def record_request_def bound_def Let_def)
qed

lemma scoped_base_args [simp]: "scoped t (base_args table t kind)"
  by (simp add: scoped_def base_args_def del: jinsert.simps)

lemma decode_optional_answer:
  "row_answer de found v \<Longrightarrow> decode_optional_row de v ctx = Ok found"
proof (cases found)
  case (Some doc)
  assume "row_answer de found v"
  with Some obtain row where row: "v = Some (JArr [row]) \<or> v = Some row \<and> (\<forall>xs. row \<noteq> JArr xs)" "de row = Ok doc"
    by (auto simp: row_answer_def)
  then show ?thesis
    using Some by (cases row) (auto simp: decode_optional_row_def)
qed (auto simp: row_answer_def decode_optional_row_def)

lemma decode_answer:
  "row_answer de (Some doc) (Some v) \<Longrightarrow> decode_row de v ctx = Ok doc"
  by (cases v) (auto simp: row_answer_def)

lemma decode_no_answer:
  "row_answer de None (Some v) \<Longrightarrow> decode_row de v ctx = Err (tx_unknown (ctx @ '': empty response''))"
  by (auto simp: row_answer_def)

section \<open>The outbox the documents stand for\<close>

text \<open>
  \<open>outbox_docs_ok K n\<close>: every document is that of a message of a key in \<open>K\<close>, under its
  record id, and its attempts can still grow \<open>n\<close> times; the keys in \<open>K\<close> have distinct record
  ids, which the underscore in tenant names can spoil.
\<close>

definition message_row :: "(tenant_id \<times> id) set \<Rightarrow> nat \<Rightarrow> string \<Rightarrow> outbox_doc \<Rightarrow> bool" where
  "message_row K n rid doc \<longleftrightarrow>
     (\<exists>m. doc = outbox_doc_from_message m \<and> rid = make_record_id OUTBOX_TABLE (om_tenant m) (om_id m) \<and>
          (om_tenant m, om_id m) \<in> K \<and> message_ok m \<and> unat (om_attempts m) + n < 2 ^ 32)"

definition outbox_docs_ok :: "(tenant_id \<times> id) set \<Rightarrow> nat \<Rightarrow> (string \<Rightarrow> outbox_doc option) \<Rightarrow> bool" where
  "outbox_docs_ok K n rows \<longleftrightarrow>
     n < 2 ^ 32 \<and> inj_on (\<lambda>(t, i). make_record_id OUTBOX_TABLE t i) K \<and>
     (\<forall>rid doc. rows rid = Some doc \<longrightarrow> message_row K n rid doc)"

definition outbox_view :: "(string \<Rightarrow> outbox_doc option) \<Rightarrow> outbox" where
  "outbox_view rows k =
     (case rows (make_record_id OUTBOX_TABLE (fst k) (snd k)) of
        Some doc \<Rightarrow>
          (case outbox_message_from_doc doc of
             Inr m \<Rightarrow> if (om_tenant m, om_id m) = k then Some m else None
           | Inl _ \<Rightarrow> None)
      | None \<Rightarrow> None)"

abbreviation "outbox_rid t i \<equiv> make_record_id OUTBOX_TABLE t i"

lemma outbox_doc_message [simp]: "outbox_message_from_doc (outbox_doc_from_message m) = Ok m"
  by (simp add: outbox_message_from_doc_def outbox_doc_from_message_def)

lemma outbox_docs_okD:
  assumes "outbox_docs_ok K n rows" "rows (outbox_rid t i) = Some doc" "(t, i) \<in> K"
  shows "\<exists>m. doc = outbox_doc_from_message m \<and> om_tenant m = t \<and> om_id m = i \<and> message_ok m \<and>
     unat (om_attempts m) + n < 2 ^ 32"
proof -
  obtain m where m: "doc = outbox_doc_from_message m" "outbox_rid t i = outbox_rid (om_tenant m) (om_id m)"
    "(om_tenant m, om_id m) \<in> K" "message_ok m" "unat (om_attempts m) + n < 2 ^ 32"
    using assms(1,2) unfolding outbox_docs_ok_def message_row_def by blast
  moreover have "inj_on (\<lambda>(t, i). outbox_rid t i) K"
    using assms(1) by (simp add: outbox_docs_ok_def)
  then have "(t, i) = (om_tenant m, om_id m)"
    by (rule inj_onD) (use m assms(3) in auto)
  ultimately show ?thesis by auto
qed

lemma outbox_view_present:
  assumes "outbox_docs_ok K n rows" "(t, i) \<in> K" "outbox_view rows (t, i) = Some m"
  shows "rows (outbox_rid t i) = Some (outbox_doc_from_message m)" "om_tenant m = t" "om_id m = i" "message_ok m"
    "unat (om_attempts m) + n < 2 ^ 32"
proof -
  obtain doc where doc: "rows (outbox_rid t i) = Some doc"
    using assms(3) by (auto simp: outbox_view_def split: option.splits)
  then obtain m' where "doc = outbox_doc_from_message m'" "om_tenant m' = t" "om_id m' = i" "message_ok m'"
      "unat (om_attempts m') + n < 2 ^ 32"
    using outbox_docs_okD[OF assms(1) _ assms(2)] by blast
  with doc assms(3) show "rows (outbox_rid t i) = Some (outbox_doc_from_message m)" "om_tenant m = t" "om_id m = i"
      "message_ok m" "unat (om_attempts m) + n < 2 ^ 32"
    by (auto simp: outbox_view_def)
qed

lemma outbox_view_absent:
  assumes "outbox_docs_ok K n rows" "(t, i) \<in> K" "outbox_view rows (t, i) = None"
  shows "rows (outbox_rid t i) = None"
proof (rule ccontr)
  assume "rows (outbox_rid t i) \<noteq> None"
  then obtain doc where doc: "rows (outbox_rid t i) = Some doc" by auto
  with outbox_docs_okD[OF assms(1) doc assms(2)] assms(3) show False
    by (auto simp: outbox_view_def)
qed

lemma outbox_view_put:
  assumes ok: "outbox_docs_ok K n rows" and k: "(om_tenant m, om_id m) \<in> K"
  shows "outbox_view (rows(outbox_rid (om_tenant m) (om_id m) \<mapsto> outbox_doc_from_message m)) =
    (outbox_view rows)((om_tenant m, om_id m) \<mapsto> m)"
proof
  fix k'
  let ?rid = "outbox_rid (om_tenant m) (om_id m)"
  show "outbox_view (rows(?rid \<mapsto> outbox_doc_from_message m)) k' = ((outbox_view rows)((om_tenant m, om_id m) \<mapsto> m)) k'"
  proof (cases "k' = (om_tenant m, om_id m)")
    case False
    have "outbox_view rows k' = None" if same: "outbox_rid (fst k') (snd k') = ?rid"
    proof (cases "rows ?rid")
      case (Some doc)
      with outbox_docs_okD[OF ok Some k] False same show ?thesis by (auto simp: outbox_view_def)
    qed (use same in \<open>simp add: outbox_view_def\<close>)
    with False show ?thesis by (auto simp: outbox_view_def)
  qed (simp add: outbox_view_def)
qed

lemma message_row_less: "message_row K (Suc n) rid doc \<Longrightarrow> message_row K n rid doc"
  unfolding message_row_def by (metis Suc_lessD add_Suc_right)

lemma outbox_docs_ok_less: "outbox_docs_ok K (Suc n) rows \<Longrightarrow> outbox_docs_ok K n rows"
  unfolding outbox_docs_ok_def by (auto intro: message_row_less)

lemma outbox_docs_ok_put:
  assumes "outbox_docs_ok K n rows" "(om_tenant m, om_id m) \<in> K" "message_ok m"
    "unat (om_attempts m) + n < 2 ^ 32"
  shows "outbox_docs_ok K n (rows(outbox_rid (om_tenant m) (om_id m) \<mapsto> outbox_doc_from_message m))"
proof -
  have "message_row K n (outbox_rid (om_tenant m) (om_id m)) (outbox_doc_from_message m)"
    using assms(2-4) unfolding message_row_def by blast
  with assms(1) show ?thesis
    by (simp add: outbox_docs_ok_def)
qed

section \<open>One statement on one message\<close>

lemma as_i64_json [simp]: "in_i64 i \<Longrightarrow> as_i64 (json_i64 i) = Some i"
  by (simp add: in_i64_def json_i64_def uint_word_of_int)

lemma as_str_json_opt [simp]: "as_str (json_opt_str v) = v"
  by (cases v) (simp_all add: json_opt_str_def)

lemma bound_str: "scoped t params \<Longrightarrow> \<not> starts_with k ''__'' \<Longrightarrow> b_str k (bound params) = Option.bind (map_of params k) as_str"
  and bound_int: "scoped t params \<Longrightarrow> \<not> starts_with k ''__'' \<Longrightarrow> b_int k (bound params) = Option.bind (map_of params k) as_i64"
  by (simp_all add: b_str_def b_int_def bound_get)

lemma scoped_outbox_args [simp]: "scoped t (outbox_args t i kind)"
  by (simp add: outbox_args_def del: jinsert.simps)

lemma names_outbox:
  assumes "scoped t params" "map_of params ''table'' = Some (JStr OUTBOX_TABLE)" "map_of params ''id'' = Some (JStr rid)"
  shows "names_row (bound params) OUTBOX_TABLE rid"
  using assms by (simp add: names_row_def bound_str[OF assms(1)] starts_with_def)

text \<open>
  Running an update for a message: its new document where the message exists, and nothing where it
  does not; in both cases the answer is not an error.
\<close>

lemma update_run:
  assumes upd: "updates_row db OUTBOX_TABLE docs de fits stmt eff"
    and ok: "outbox_docs_ok K n (docs (sd_db s))" "(t, i) \<in> K"
    and params: "scoped t params" "map_of params ''table'' = Some (JStr OUTBOX_TABLE)"
      "map_of params ''id'' = Some (JStr (outbox_rid t i))"
    and fits: "\<And>m. outbox_view (docs (sd_db s)) (t, i) = Some m \<Longrightarrow> fits (outbox_doc_from_message m)"
    and eff: "\<And>m. outbox_view (docs (sd_db s)) (t, i) = Some m \<Longrightarrow>
      eff (bound params) (outbox_doc_from_message m) = map_option outbox_doc_from_message (change m)"
  shows "\<exists>s' v. tx_query_json db strict mapper stmt params s = (s', Ok v) \<and>
     row_answer de (map_option outbox_doc_from_message (Option.bind (outbox_view (docs (sd_db s)) (t, i)) change)) v \<and>
     docs (sd_db s') = (case Option.bind (outbox_view (docs (sd_db s)) (t, i)) change of
        Some m' \<Rightarrow> (docs (sd_db s))(outbox_rid t i \<mapsto> outbox_doc_from_message m') | None \<Rightarrow> docs (sd_db s))"
proof -
  let ?rows = "docs (sd_db s)" and ?rid = "outbox_rid t i"
  have found: "Option.bind (?rows ?rid) (eff (bound params)) =
      map_option outbox_doc_from_message (Option.bind (outbox_view ?rows (t, i)) change)"
    and "pred_option fits (?rows ?rid)"
    using outbox_view_absent[OF ok] outbox_view_present(1)[OF ok] eff fits
    by (cases "outbox_view ?rows (t, i)"; simp)+
  then obtain d' v where "db_answers db stmt (bound params) (sd_db s) d' v"
    "row_answer de (map_option outbox_doc_from_message (Option.bind (outbox_view ?rows (t, i)) change)) v"
    "docs d' = (case map_option outbox_doc_from_message (Option.bind (outbox_view ?rows (t, i)) change) of
        Some doc \<Rightarrow> ?rows(?rid \<mapsto> doc) | None \<Rightarrow> ?rows)"
    using upd names_outbox[OF params] unfolding updates_row_def found[symmetric] by blast
  with tx_query_json_ok[OF params(1)] show ?thesis
    by (fastforce split: option.splits)
qed

section \<open>Simulation of the in-memory outbox\<close>

datatype sq_op =
    SqEnqueue int int new_outbox_message
  | SqAck tenant_id id
  | SqNack tenant_id id int "string option"
  | SqDead tenant_id id "string option"
  | SqHeartbeat tenant_id id int string
  | SqRevive tenant_id id int

fun sq_key :: "sq_op \<Rightarrow> tenant_id \<times> id" where
  "sq_key (SqEnqueue now1 now2 n) = (no_tenant n, no_id n)"
| "sq_key (SqAck t i) = (t, i)"
| "sq_key (SqNack t i nb err) = (t, i)"
| "sq_key (SqDead t i err) = (t, i)"
| "sq_key (SqHeartbeat t i until worker) = (t, i)"
| "sq_key (SqRevive t i at) = (t, i)"

fun sq_ints_ok :: "sq_op \<Rightarrow> bool" where
  "sq_ints_ok (SqNack t i nb err) \<longleftrightarrow> in_i64 nb"
| "sq_ints_ok (SqHeartbeat t i until worker) \<longleftrightarrow> in_i64 until"
| "sq_ints_ok (SqRevive t i at) \<longleftrightarrow> in_i64 at"
| "sq_ints_ok _ \<longleftrightarrow> True"

fun enqueues :: "sq_op \<Rightarrow> bool" where
  "enqueues (SqEnqueue now1 now2 n) \<longleftrightarrow> True"
| "enqueues _ \<longleftrightarrow> False"

text \<open>The operation on the database at clock reading \<open>now\<close>, and on the in-memory store.\<close>

fun sq_step :: "('d, 'r) tx_db \<Rightarrow> int \<Rightarrow> sq_op \<Rightarrow> 'd surreal_state \<Rightarrow> 'd surreal_state" where
  "sq_step x now (SqEnqueue now1 now2 n) s = fst (sq_enqueue x now1 now2 n s)"
| "sq_step x now (SqAck t i) s = fst (sq_ack_done x now t i s)"
| "sq_step x now (SqNack t i nb err) s = fst (sq_nack_backoff x now t i nb err s)"
| "sq_step x now (SqDead t i err) s = fst (sq_dead_letter x now now t i err s)"
| "sq_step x now (SqHeartbeat t i until worker) s = fst (sq_heartbeat x t i until worker s)"
| "sq_step x now (SqRevive t i at) s = fst (sq_revive x t i at s)"

fun mem_outbox_step :: "int \<Rightarrow> sq_op \<Rightarrow> outbox \<Rightarrow> outbox" where
  "mem_outbox_step now (SqEnqueue now1 now2 n) s = fst (outbox_enqueue now1 now2 n s)"
| "mem_outbox_step now (SqAck t i) s = fst (outbox_ack_done t i s)"
| "mem_outbox_step now (SqNack t i nb err) s = fst (outbox_nack_backoff t i nb err s)"
| "mem_outbox_step now (SqDead t i err) s = fst (outbox_dead_letter now t i err s)"
| "mem_outbox_step now (SqHeartbeat t i until worker) s = fst (outbox_heartbeat t i until worker s)"
| "mem_outbox_step now (SqRevive t i at) s = fst (outbox_revive t i at s)"

text \<open>What an operation makes of a message it finds.\<close>

fun sq_change :: "sq_op \<Rightarrow> outbox_message \<Rightarrow> outbox_message option" where
  "sq_change (SqAck t i) m = Some (mark_done m)"
| "sq_change (SqNack t i nb err) m = Some (mark_backoff nb err m)"
| "sq_change (SqDead t i err) m = Some (mark_dead err m)"
| "sq_change (SqHeartbeat t i until worker) m =
     (if om_worker m = Some worker then Some (m\<lparr>om_lease_until := Some until\<rparr>) else None)"
| "sq_change (SqRevive t i at) m = Some (mark_revived at m)"
| "sq_change (SqEnqueue now1 now2 n) m = None"

lemma mem_outbox_step_change:
  "\<not> enqueues op \<Longrightarrow>
   mem_outbox_step now op o' =
     (case Option.bind (o' (sq_key op)) (sq_change op) of Some m \<Rightarrow> o'(sq_key op \<mapsto> m) | None \<Rightarrow> o')"
  by (cases op) (auto simp: outbox_op_defs split: option.splits)

lemma attempts_step:
  "unat (om_attempts m) + Suc n < 2 ^ 32 \<Longrightarrow>
   attempts_fit (outbox_doc_from_message m) \<and> sat_add (om_attempts m) 1 = om_attempts m + 1 \<and>
   unat (om_attempts m + 1) + n < 2 ^ 32"
proof -
  assume "unat (om_attempts m) + Suc n < 2 ^ 32"
  then have fit: "unat (om_attempts m) + 1 < 2 ^ LENGTH(32)" and less: "unat (om_attempts m) + 1 + n < 2 ^ 32"
    by simp_all
  then have "unat (om_attempts m + 1) = unat (om_attempts m) + 1"
    by (simp add: unat_word_ariths)
  moreover have "om_attempts m \<noteq> - 1"
    using fit by (auto simp: unat_minus_one_eq)
  ultimately show ?thesis
    using fit less by (simp add: sat_add_def attempts_fit_def outbox_doc_from_message_def)
qed

text \<open>The statement an operation sends, its parameters and the effect it has on a document.\<close>

fun sq_stmt :: "sq_op \<Rightarrow> string" where
  "sq_stmt (SqEnqueue now1 now2 n) = CREATE_RECORD"
| "sq_stmt (SqAck t i) = ACK_UPDATE"
| "sq_stmt (SqNack t i nb err) = NACK_UPDATE"
| "sq_stmt (SqDead t i err) = DEAD_UPDATE"
| "sq_stmt (SqHeartbeat t i until worker) = HEARTBEAT_UPDATE"
| "sq_stmt (SqRevive t i at) = REVIVE_UPDATE"

fun sq_bound :: "int \<Rightarrow> sq_op \<Rightarrow> named_args" where
  "sq_bound now (SqAck t i) =
     jinsert ''lease_until'' JNull (jinsert ''worker'' JNull (jinsert ''last_error'' JNull
       (jinsert ''now'' (json_i64 now) (jinsert ''status'' (JStr ''Done'') (outbox_args t i ''write'')))))"
| "sq_bound now (SqNack t i nb err) =
     jinsert ''now'' (json_i64 now) (jinsert ''error'' (json_opt_str err)
       (jinsert ''not_before'' (json_i64 nb) (outbox_args t i ''write'')))"
| "sq_bound now (SqDead t i err) =
     jinsert ''now'' (json_i64 now) (jinsert ''error'' (json_opt_str err) (outbox_args t i ''write''))"
| "sq_bound now (SqHeartbeat t i until worker) =
     jinsert ''worker'' (JStr worker) (jinsert ''lease_until'' (json_i64 until) (outbox_args t i ''write''))"
| "sq_bound now (SqRevive t i at) = jinsert ''at'' (json_i64 at) (outbox_args t i ''write'')"
| "sq_bound now (SqEnqueue now1 now2 n) = []"

fun sq_effect :: "sq_op \<Rightarrow> json \<Rightarrow> outbox_doc \<Rightarrow> outbox_doc option" where
  "sq_effect (SqAck t i) = ack_effect"
| "sq_effect (SqNack t i nb err) = nack_effect"
| "sq_effect (SqDead t i err) = dead_effect"
| "sq_effect (SqHeartbeat t i until worker) = heartbeat_effect"
| "sq_effect (SqRevive t i at) = revive_effect"
| "sq_effect (SqEnqueue now1 now2 n) = (\<lambda>b d. None)"

lemma sq_bound_params:
  assumes "\<not> enqueues op"
  shows "scoped (fst (sq_key op)) (sq_bound now op)"
    "map_of (sq_bound now op) ''table'' = Some (JStr OUTBOX_TABLE)"
    "map_of (sq_bound now op) ''id'' = Some (JStr (outbox_rid (fst (sq_key op)) (snd (sq_key op))))"
  using assms by (cases op; simp add: outbox_args_def base_args_def del: jinsert.simps)+

lemma sq_step_sends:
  "\<not> enqueues op \<Longrightarrow> tx_query_json (xd_ops x) (xd_strict x) map_storage_error (sq_stmt op) (sq_bound now op) s = (s', r) \<Longrightarrow>
   sq_step x now op s = s'"
  by (cases op)
    (auto simp: sq_ack_done_def sq_nack_backoff_def sq_dead_letter_def sq_heartbeat_def sq_revive_def
      and_do_def Let_def simp del: jinsert.simps split: sum.splits)

lemmas sq_lookup = bound_str[OF sq_bound_params(1)] bound_int[OF sq_bound_params(1)]

lemma sq_tenant: "\<not> enqueues op \<Longrightarrow> b_str ''tenant'' (bound (sq_bound now op)) = Some (fst (sq_key op))"
  using sq_bound_params(1)[of op now] by (simp add: sq_lookup starts_with_def scoped_def del: sq_bound.simps)

lemma sq_bindings:
  "b_str ''status'' (bound (sq_bound now (SqAck t i))) = Some ''Done''"
  "b_str ''worker'' (bound (sq_bound now (SqAck t i))) = None"
  "b_int ''lease_until'' (bound (sq_bound now (SqAck t i))) = None"
  "b_str ''last_error'' (bound (sq_bound now (SqAck t i))) = None"
  "b_str ''error'' (bound (sq_bound now (SqNack t i nb err))) = err"
  "in_i64 nb \<Longrightarrow> b_int ''not_before'' (bound (sq_bound now (SqNack t i nb err))) = Some nb"
  "b_str ''error'' (bound (sq_bound now (SqDead t i err))) = err"
  "b_str ''worker'' (bound (sq_bound now (SqHeartbeat t i until worker))) = Some worker"
  "in_i64 until \<Longrightarrow> b_int ''lease_until'' (bound (sq_bound now (SqHeartbeat t i until worker))) = Some until"
  "in_i64 at \<Longrightarrow> b_int ''at'' (bound (sq_bound now (SqRevive t i at))) = Some at"
  by (subst sq_lookup, simp, simp add: starts_with_def, simp del: jinsert.simps)+

lemma sq_effect_change:
  assumes "\<not> enqueues op" "sq_ints_ok op" "om_tenant m = fst (sq_key op)" "unat (om_attempts m) + Suc n < 2 ^ 32"
  shows "sq_effect op (bound (sq_bound now op)) (outbox_doc_from_message m) =
    map_option outbox_doc_from_message (sq_change op m)"
  using assms(1-3) attempts_step[OF assms(4)] sq_tenant[OF assms(1), of now]
  by (cases op)
    (simp_all add: ack_effect_def nack_effect_def dead_effect_def heartbeat_effect_def revive_effect_def
      when_tenant_def mark_done_def mark_backoff_def mark_dead_def mark_revived_def sq_bindings
      outbox_doc_from_message_def del: sq_bound.simps)

text \<open>One statement of the store on the message of a key.\<close>

lemma outbox_statement_update:
  assumes "outbox_statements x docs" "\<not> enqueues op"
  shows "updates_row (xd_ops x) OUTBOX_TABLE docs (de_outbox_doc (xd_serde x)) attempts_fit (sq_stmt op) (sq_effect op)"
proof -
  have weaken: "updates_row db table docs de (\<lambda>_. True) stmt eff \<Longrightarrow> updates_row db table docs de fits stmt eff"
    for db table de fits stmt eff
    by (simp add: updates_row_def pred_option_def)
  show ?thesis
    using assms by (cases op) (auto simp: outbox_statements_def Let_def intro: weaken)
qed

lemma sq_step_query:
  assumes stmts: "outbox_statements x docs" and ok: "outbox_docs_ok K (Suc n) (docs (sd_db s))" "sq_key op \<in> K"
    and ints: "sq_ints_ok op" and upd: "\<not> enqueues op"
  defines "found \<equiv> Option.bind (outbox_view (docs (sd_db s)) (sq_key op)) (sq_change op)"
  shows "\<exists>s' v. xquery x (sq_stmt op) (sq_bound now op) s = (s', Ok v) \<and>
     row_answer (de_outbox_doc (xd_serde x)) (map_option outbox_doc_from_message found) v \<and>
     docs (sd_db s') = (case found of
        Some m' \<Rightarrow> (docs (sd_db s))(outbox_rid (fst (sq_key op)) (snd (sq_key op)) \<mapsto> outbox_doc_from_message m')
      | None \<Rightarrow> docs (sd_db s))"
proof -
  obtain t i where k: "sq_key op = (t, i)" by fastforce
  note ok' = ok[unfolded k]
  show ?thesis
    unfolding found_def k fst_conv snd_conv
    using outbox_view_present[OF ok'] attempts_step sq_effect_change[OF upd ints] k
    by (intro update_run[OF outbox_statement_update[OF stmts upd] ok' sq_bound_params[OF upd, of now, unfolded k fst_conv snd_conv]])
      auto
qed

lemma sq_step_update:
  assumes "outbox_statements x docs" "outbox_docs_ok K (Suc n) (docs (sd_db s))" "sq_key op \<in> K" "sq_ints_ok op"
    "\<not> enqueues op"
  shows "docs (sd_db (sq_step x now op s)) =
    (case Option.bind (outbox_view (docs (sd_db s)) (sq_key op)) (sq_change op) of
       Some m' \<Rightarrow> (docs (sd_db s))(outbox_rid (fst (sq_key op)) (snd (sq_key op)) \<mapsto> outbox_doc_from_message m')
     | None \<Rightarrow> docs (sd_db s))"
  using sq_step_query[OF assms, of now] sq_step_sends[OF assms(5)] by metis

lemma creates_new:
  "creates_row db table docs de \<Longrightarrow> names_row b table rid \<Longrightarrow> json_get ''data'' b = Some data \<Longrightarrow> de data = Ok doc \<Longrightarrow>
   docs d rid = None \<Longrightarrow>
   \<exists>d' v. db_answers db CREATE_RECORD b d d' v \<and> row_answer de (Some doc) v \<and> docs d' = (docs d)(rid \<mapsto> doc)"
  unfolding creates_row_def by (drule spec[of _ b], drule spec[of _ d], drule spec[of _ rid]) simp

lemma creates_taken:
  "creates_row db table docs de \<Longrightarrow> names_row b table rid \<Longrightarrow> json_get ''data'' b = Some data \<Longrightarrow> de data = Ok doc \<Longrightarrow>
   docs d rid = Some old \<Longrightarrow> \<exists>d' e. db_refuses db CREATE_RECORD b d d' e \<and> docs d' = docs d"
  unfolding creates_row_def by (drule spec[of _ b], drule spec[of _ d], drule spec[of _ rid]) simp

lemma sq_enqueue_state:
  assumes stmts: "outbox_statements x docs" and ok: "outbox_docs_ok K n (docs (sd_db s))"
    and k: "(no_tenant msg, no_id msg) \<in> K"
    and m_def: "m = build_outbox_message now1 now2 msg"
  shows "docs (sd_db (fst (sq_enqueue x now1 now2 msg s))) =
    (case outbox_view (docs (sd_db s)) (no_tenant msg, no_id msg) of
       None \<Rightarrow> (docs (sd_db s))(outbox_rid (no_tenant msg) (no_id msg) \<mapsto> outbox_doc_from_message m)
     | Some _ \<Rightarrow> docs (sd_db s))"
proof -
  let ?rid = "outbox_rid (no_tenant msg) (no_id msg)" and ?doc = "outbox_doc_from_message m"
  obtain j where j: "ser_outbox_doc (xd_serde x) ?doc = Ok j" "de_outbox_doc (xd_serde x) j = Ok ?doc"
    using stmts unfolding outbox_statements_def Let_def by blast
  define params where "params = jinsert ''data'' j (jinsert ''id'' (JStr ?rid) (base_args OUTBOX_TABLE (no_tenant msg) ''write''))"
  have scoped: "scoped (no_tenant msg) params"
    by (simp add: params_def del: jinsert.simps)
  have names: "names_row (bound params) OUTBOX_TABLE ?rid"
    by (rule names_outbox[OF scoped]) (simp_all add: params_def base_args_def del: jinsert.simps)
  have data: "json_get ''data'' (bound params) = Some j"
    by (simp add: bound_get[OF scoped] starts_with_def) (simp add: params_def del: jinsert.simps)
  have m: "om_tenant m = no_tenant msg" "om_id m = no_id msg" "od_id ?doc = ?rid"
    by (simp_all add: m_def build_outbox_message_def outbox_doc_from_message_def)
  have creates: "creates_row (xd_ops x) OUTBOX_TABLE docs (de_outbox_doc (xd_serde x))"
    using stmts by (simp add: outbox_statements_def Let_def)
  have run: "fst (sq_enqueue x now1 now2 msg s) = fst (xquery x CREATE_RECORD params s)"
    using j m by (simp add: sq_enqueue_def and_do_def Let_def m_def[symmetric] params_def[symmetric] split: sum.splits)
  show ?thesis
  proof (cases "outbox_view (docs (sd_db s)) (no_tenant msg, no_id msg)")
    case None
    then have "docs (sd_db s) ?rid = None" using outbox_view_absent[OF ok k] by simp
    then obtain d' v where "db_answers (xd_ops x) CREATE_RECORD (bound params) (sd_db s) d' v"
      "docs d' = (docs (sd_db s))(?rid \<mapsto> ?doc)"
      using creates_new[OF creates names data j(2)] by blast
    then obtain s' where "xquery x CREATE_RECORD params s = (s', Ok v)" "docs (sd_db s') = (docs (sd_db s))(?rid \<mapsto> ?doc)"
      using tx_query_json_ok[OF scoped] by metis
    then show ?thesis
      using None run by simp
  next
    case (Some m')
    then have "docs (sd_db s) ?rid = Some (outbox_doc_from_message m')"
      using outbox_view_present(1)[OF ok k] by simp
    then obtain d' e where "db_refuses (xd_ops x) CREATE_RECORD (bound params) (sd_db s) d' e"
      "docs d' = docs (sd_db s)"
      using creates_taken[OF creates names data j(2)] by blast
    then obtain s' where "xquery x CREATE_RECORD params s = (s', Err (map_storage_error e))" "docs (sd_db s') = docs (sd_db s)"
      using tx_query_json_err[OF scoped] by metis
    then show ?thesis
      using Some run by simp
  qed
qed

lemma sq_change_key:
  "sq_change op m = Some m' \<Longrightarrow> om_tenant m' = om_tenant m \<and> om_id m' = om_id m"
  by (cases op) (auto simp: mark_done_def mark_backoff_def mark_dead_def mark_revived_def split: if_splits)

lemma sq_change_ok:
  assumes "sq_change op m = Some m'" "message_ok m" "unat (om_attempts m) + Suc n < 2 ^ 32"
  shows "message_ok m' \<and> unat (om_attempts m') + n < 2 ^ 32"
  using assms attempts_step[OF assms(3)]
  by (cases op) (auto simp: mark_defs message_ok_def split: if_splits)

text \<open>One operation keeps the shape of the table and does to the messages what the in-memory store does.\<close>

lemma outbox_step_simulates:
  assumes stmts: "outbox_statements x docs" and ok: "outbox_docs_ok K (Suc n) (docs (sd_db s))" "sq_key op \<in> K"
    and ints: "sq_ints_ok op"
  shows "outbox_docs_ok K n (docs (sd_db (sq_step x now op s))) \<and>
    outbox_view (docs (sd_db (sq_step x now op s))) = mem_outbox_step now op (outbox_view (docs (sd_db s)))"
proof -
  let ?rows = "docs (sd_db s)"
  note ok' = outbox_docs_ok_less[OF ok(1)]
  have put: "outbox_docs_ok K n (?rows(outbox_rid (om_tenant m) (om_id m) \<mapsto> outbox_doc_from_message m)) \<and>
      outbox_view (?rows(outbox_rid (om_tenant m) (om_id m) \<mapsto> outbox_doc_from_message m)) =
        (outbox_view ?rows)((om_tenant m, om_id m) \<mapsto> m)"
    if "(om_tenant m, om_id m) \<in> K" "message_ok m" "unat (om_attempts m) + n < 2 ^ 32" for m
    using that outbox_docs_ok_put[OF ok'] outbox_view_put[OF ok'] by simp
  show ?thesis
  proof (cases "enqueues op")
    case True
    then obtain n1 n2 msg where op: "op = SqEnqueue n1 n2 msg" by (cases op) auto
    let ?m = "build_outbox_message n1 n2 msg"
    have m: "om_tenant ?m = no_tenant msg" "om_id ?m = no_id msg" "om_attempts ?m = 0"
      by (simp_all add: build_outbox_message_def)
    have "n < 2 ^ 32"
      using ok' by (simp add: outbox_docs_ok_def)
    then show ?thesis
      using sq_enqueue_state[OF stmts ok(1), of msg ?m n1 n2] put[of ?m] m op ok(2) ok'
      by (auto simp: outbox_enqueue_def Let_def split: option.splits)
  next
    case False
    obtain t i where k: "sq_key op = (t, i)" by fastforce
    show ?thesis
    proof (cases "Option.bind (outbox_view ?rows (t, i)) (sq_change op)")
      case None
      then show ?thesis
        using sq_step_update[OF stmts ok ints False] ok' mem_outbox_step_change[OF False] k by simp
    next
      case (Some m')
      then obtain m where m: "outbox_view ?rows (t, i) = Some m" "sq_change op m = Some m'"
        by (auto simp: bind_eq_Some_conv)
      have key: "om_tenant m' = t" "om_id m' = i"
        using outbox_view_present(2,3)[OF ok(1) ok(2)[unfolded k] m(1)] sq_change_key[OF m(2)] by auto
      have "message_ok m' \<and> unat (om_attempts m') + n < 2 ^ 32"
        by (rule sq_change_ok[OF m(2)]) (rule outbox_view_present(4,5)[OF ok(1) ok(2)[unfolded k] m(1)])+
      then show ?thesis
        using sq_step_update[OF stmts ok ints False] put[of m'] key Some ok(2) mem_outbox_step_change[OF False] k
        by simp
    qed
  qed
qed

text \<open>A run of operations, each at its clock reading.\<close>

definition sq_run :: "('d, 'r) tx_db \<Rightarrow> (int \<times> sq_op) list \<Rightarrow> 'd surreal_state \<Rightarrow> 'd surreal_state" where
  "sq_run x ops s = fold (\<lambda>(now, op). sq_step x now op) ops s"

definition mem_outbox_run :: "(int \<times> sq_op) list \<Rightarrow> outbox \<Rightarrow> outbox" where
  "mem_outbox_run ops o' = fold (\<lambda>(now, op). mem_outbox_step now op) ops o'"

lemma sq_run_simulates:
  assumes "outbox_statements x docs" "list_all (\<lambda>(now, op). sq_key op \<in> K \<and> sq_ints_ok op) ops"
    "outbox_docs_ok K (length ops + n) (docs (sd_db s))"
  shows "outbox_docs_ok K n (docs (sd_db (sq_run x ops s))) \<and>
    outbox_view (docs (sd_db (sq_run x ops s))) = mem_outbox_run ops (outbox_view (docs (sd_db s)))"
  using assms(2,3)
proof (induction ops arbitrary: s)
  case (Cons p ops)
  obtain now op where p: "p = (now, op)" by (cases p)
  have "outbox_docs_ok K (length ops + n) (docs (sd_db (sq_step x now op s))) \<and>
      outbox_view (docs (sd_db (sq_step x now op s))) = mem_outbox_step now op (outbox_view (docs (sd_db s)))"
    using Cons.prems p by (intro outbox_step_simulates[OF assms(1)]) auto
  with Cons.IH[of "sq_step x now op s"] Cons.prems(1) show ?case
    by (simp add: p sq_run_def mem_outbox_run_def)
qed (simp add: sq_run_def mem_outbox_run_def)

lemma sq_get_view:
  assumes stmts: "outbox_statements x docs" and ok: "outbox_docs_ok K n (docs (sd_db s))" "(t, i) \<in> K"
  shows "snd (sq_outbox_get x t i s) = Ok (outbox_view (docs (sd_db s)) (t, i)) \<and>
    docs (sd_db (fst (sq_outbox_get x t i s))) = docs (sd_db s)"
proof -
  let ?rows = "docs (sd_db s)" and ?p = "outbox_args t i ''read''"
  let ?found = "map_option outbox_doc_from_message (outbox_view ?rows (t, i))"
  have names: "names_row (bound ?p) OUTBOX_TABLE (outbox_rid t i)"
    by (rule names_outbox[where t = t]) (simp_all add: outbox_args_def base_args_def del: jinsert.simps)
  have ten: "b_str ''tenant'' (bound ?p) = Some t"
    using scoped_outbox_args[of t i "''read''"] by (simp add: bound_str[where t = t] starts_with_def scoped_def)
  have found: "Option.bind (?rows (outbox_rid t i))
      (\<lambda>doc. if b_str ''tenant'' (bound ?p) = Some (od_tenant doc) then Some doc else None) = ?found"
    using outbox_view_absent[OF ok] outbox_view_present(1,2)[OF ok]
    by (cases "outbox_view ?rows (t, i)") (auto simp: ten outbox_doc_from_message_def)
  have "reads_row (xd_ops x) OUTBOX_TABLE docs (de_outbox_doc (xd_serde x)) od_tenant"
    using stmts by (simp add: outbox_statements_def Let_def)
  then obtain d' v where "db_answers (xd_ops x) SELECT_SINGLE (bound ?p) (sd_db s) d' v" "docs d' = ?rows"
      "row_answer (de_outbox_doc (xd_serde x)) ?found v"
    using names unfolding reads_row_def found[symmetric] by blast
  then obtain s' where "xquery x SELECT_SINGLE ?p s = (s', Ok v)" "docs (sd_db s') = ?rows"
    using tx_query_json_ok[OF scoped_outbox_args] by metis
  then show ?thesis
    using \<open>row_answer _ _ _\<close>
    by (cases "outbox_view ?rows (t, i)")
      (simp_all add: sq_outbox_get_def sq_outbox_fetch_def and_do_def decode_optional_answer)
qed

section \<open>Leases\<close>

text \<open>
  Workers lease from candidates they read earlier, so a lease is an attempt on a document that may be
  stale, and the attempts of several workers come in any order.
\<close>

record lease_attempt =
  la_tenant :: tenant_id
  la_id :: id
  la_doc :: outbox_doc
  la_now :: int
  la_until :: int
  la_worker :: string

abbreviation la_key :: "lease_attempt \<Rightarrow> tenant_id \<times> id" where
  "la_key a \<equiv> (la_tenant a, la_id a)"

definition attempt_ok :: "(tenant_id \<times> id) set \<Rightarrow> lease_attempt \<Rightarrow> bool" where
  "attempt_ok K a \<longleftrightarrow> la_key a \<in> K \<and> od_id (la_doc a) = outbox_rid (la_tenant a) (la_id a) \<and>
     in_i64 (la_now a) \<and> in_i64 (la_until a)"

definition lease_granted :: "outbox_doc option tx_result \<Rightarrow> bool" where
  "lease_granted r \<longleftrightarrow> (case r of Inr (Some _) \<Rightarrow> True | _ \<Rightarrow> False)"

fun lease_attempts ::
  "('d, 'r) tx_db \<Rightarrow> lease_attempt list \<Rightarrow> 'd surreal_state \<Rightarrow> 'd surreal_state \<times> bool list" where
  "lease_attempts x [] s = (s, [])"
| "lease_attempts x (a # as) s =
     (let (s, r) = try_lease x (la_tenant a) (la_doc a) (la_now a) (la_until a) (la_worker a) s;
          (s, gs) = lease_attempts x as s
      in (s, lease_granted r # gs))"

text \<open>What an attempt makes of the messages.\<close>

definition attempt_grants :: "lease_attempt \<Rightarrow> outbox \<Rightarrow> bool" where
  "attempt_grants a o' \<longleftrightarrow> 
     (case o' (la_key a) of Some m \<Rightarrow> eligible (la_tenant a) (la_now a) (la_worker a) m | None \<Rightarrow> False)"

definition attempt_step :: "lease_attempt \<Rightarrow> outbox \<Rightarrow> outbox" where
  "attempt_step a o' =
     (if attempt_grants a o' then o'(la_key a := map_option (mark_leased (la_until a) (la_worker a)) (o' (la_key a)))
      else o')"

fun outbox_attempts :: "lease_attempt list \<Rightarrow> outbox \<Rightarrow> bool list" where
  "outbox_attempts [] o' = []"
| "outbox_attempts (a # as) o' = attempt_grants a o' # outbox_attempts as (attempt_step a o')"

definition lease_params :: "lease_attempt \<Rightarrow> named_args" where
  "lease_params a =
     jinsert ''now'' (json_i64 (la_now a)) (jinsert ''worker'' (JStr (la_worker a))
       (jinsert ''lease_until'' (json_i64 (la_until a)) (jinsert ''id'' (JStr (od_id (la_doc a)))
         (base_args OUTBOX_TABLE (la_tenant a) ''write''))))"

lemma scoped_lease [simp]: "scoped (la_tenant a) (lease_params a)"
  by (simp add: lease_params_def del: jinsert.simps)

lemma lease_bindings:
  "attempt_ok K a \<Longrightarrow> b_int ''now'' (bound (lease_params a)) = Some (la_now a)"
  "attempt_ok K a \<Longrightarrow> b_int ''lease_until'' (bound (lease_params a)) = Some (la_until a)"
  "b_str ''worker'' (bound (lease_params a)) = Some (la_worker a)"
  "b_str ''tenant'' (bound (lease_params a)) = Some (la_tenant a)"
  by (subst bound_int[OF scoped_lease] bound_str[OF scoped_lease], simp add: starts_with_def,
      simp add: lease_params_def base_args_def attempt_ok_def del: jinsert.simps)+

lemma lease_effect_message:
  assumes "attempt_ok K a" "message_ok m" "om_tenant m = la_tenant a"
  shows "lease_effect (bound (lease_params a)) (outbox_doc_from_message m) =
    (if eligible (la_tenant a) (la_now a) (la_worker a) m
     then Some (outbox_doc_from_message (mark_leased (la_until a) (la_worker a) m)) else None)"
  using assms(2,3)
  by (cases "om_status m"; cases "om_lease_until m")
    (simp_all add: lease_effect_def where_leasable_def lease_bindings(1,2)[OF assms(1)] lease_bindings(3,4) eligible_def
      outbox_doc_from_message_def mark_leased_def message_ok_def)

lemma try_lease_run:
  assumes stmts: "outbox_statements x docs" and ok: "outbox_docs_ok K n (docs (sd_db s))" and a: "attempt_ok K a"
  shows "\<exists>s' r. try_lease x (la_tenant a) (la_doc a) (la_now a) (la_until a) (la_worker a) s = (s', r) \<and>
     r = Ok (if attempt_grants a (outbox_view (docs (sd_db s)))
             then map_option outbox_doc_from_message (outbox_view (docs (sd_db s')) (la_key a)) else None) \<and>
     lease_granted r = attempt_grants a (outbox_view (docs (sd_db s))) \<and>
     outbox_docs_ok K n (docs (sd_db s')) \<and>
     outbox_view (docs (sd_db s')) = attempt_step a (outbox_view (docs (sd_db s)))"
proof -
  let ?rows = "docs (sd_db s)" and ?t = "la_tenant a" and ?i = "la_id a"
  let ?change = "\<lambda>m. if eligible ?t (la_now a) (la_worker a) m then Some (mark_leased (la_until a) (la_worker a) m) else None"
  have k: "(?t, ?i) \<in> K" using a by (simp add: attempt_ok_def)
  note present = outbox_view_present[OF ok k]
  have stmt: "updates_row (xd_ops x) OUTBOX_TABLE docs (de_outbox_doc (xd_serde x)) (\<lambda>_. True) LEASE_UPDATE lease_effect"
    using stmts by (simp add: outbox_statements_def Let_def)
  have "\<exists>s' v. tx_query_json (xd_ops x) (xd_strict x) map_storage_error LEASE_UPDATE (lease_params a) s = (s', Ok v) \<and>
     row_answer (de_outbox_doc (xd_serde x))
       (map_option outbox_doc_from_message (Option.bind (outbox_view ?rows (?t, ?i)) ?change)) v \<and>
     docs (sd_db s') = (case Option.bind (outbox_view ?rows (?t, ?i)) ?change of
        Some m' \<Rightarrow> ?rows(outbox_rid ?t ?i \<mapsto> outbox_doc_from_message m') | None \<Rightarrow> ?rows)"
  proof (rule update_run[OF stmt ok k scoped_lease])
    show "map_of (lease_params a) ''table'' = Some (JStr OUTBOX_TABLE)"
      and "map_of (lease_params a) ''id'' = Some (JStr (outbox_rid ?t ?i))"
      using a by (simp_all add: lease_params_def base_args_def attempt_ok_def del: jinsert.simps)
    show "lease_effect (bound (lease_params a)) (outbox_doc_from_message m) = map_option outbox_doc_from_message (?change m)"
      if "outbox_view ?rows (?t, ?i) = Some m" for m
      using lease_effect_message[OF a present(4,2)[OF that]] by simp
  qed simp
  then obtain s' v where run: "xquery x LEASE_UPDATE (lease_params a) s = (s', Ok v)"
    and v: "row_answer (de_outbox_doc (xd_serde x))
       (map_option outbox_doc_from_message (Option.bind (outbox_view ?rows (?t, ?i)) ?change)) v"
    and rows: "docs (sd_db s') = (case Option.bind (outbox_view ?rows (?t, ?i)) ?change of
        Some m' \<Rightarrow> ?rows(outbox_rid ?t ?i \<mapsto> outbox_doc_from_message m') | None \<Rightarrow> ?rows)"
    by blast
  have "(case v of Some val \<Rightarrow> decode_optional_row (de_outbox_doc (xd_serde x)) (Some val) ''outbox lease''
      | None \<Rightarrow> Ok None) = Ok (map_option outbox_doc_from_message (Option.bind (outbox_view ?rows (?t, ?i)) ?change))"
    using decode_optional_answer[OF v, of "''outbox lease''"]
    by (cases v) (auto simp: decode_optional_row_def)
  then have result: "try_lease x ?t (la_doc a) (la_now a) (la_until a) (la_worker a) s =
      (s', Ok (map_option outbox_doc_from_message (Option.bind (outbox_view ?rows (?t, ?i)) ?change)))"
    using run by (simp add: try_lease_def lease_params_def[symmetric] and_do_def Let_def)
  show ?thesis
  proof (cases "Option.bind (outbox_view ?rows (?t, ?i)) ?change")
    case None
    then have "\<not> attempt_grants a (outbox_view ?rows)"
      by (cases "outbox_view ?rows (?t, ?i)") (auto simp: attempt_grants_def)
    with None result rows ok show ?thesis
      by (simp add: lease_granted_def attempt_step_def)
  next
    case (Some m')
    then obtain m where m: "outbox_view ?rows (?t, ?i) = Some m" "eligible ?t (la_now a) (la_worker a) m"
      "m' = mark_leased (la_until a) (la_worker a) m"
      by (auto simp: bind_eq_Some_conv split: if_splits)
    then have key: "om_tenant m' = ?t" "om_id m' = ?i" "message_ok m'" "om_attempts m' = om_attempts m"
      using present(2,3)[OF m(1)] by (simp_all) (simp_all add: mark_leased_def)
    have "outbox_docs_ok K n (docs (sd_db s'))" "outbox_view (docs (sd_db s')) = (outbox_view ?rows)((?t, ?i) \<mapsto> m')"
      using rows Some outbox_docs_ok_put[OF ok, of m'] outbox_view_put[OF ok, of m'] key k present(5)[OF m(1)] by simp_all
    with result Some m show ?thesis
      by (simp add: lease_granted_def attempt_step_def attempt_grants_def)
  qed
qed

lemma lease_attempts_run:
  assumes "outbox_statements x docs" "list_all (attempt_ok K) as" "outbox_docs_ok K n (docs (sd_db s))"
  shows "snd (lease_attempts x as s) = outbox_attempts as (outbox_view (docs (sd_db s)))"
  using assms(2,3)
proof (induction as arbitrary: s)
  case (Cons a as)
  from try_lease_run[OF assms(1) Cons.prems(2), of a] Cons.prems(1) obtain s' r where
    "try_lease x (la_tenant a) (la_doc a) (la_now a) (la_until a) (la_worker a) s = (s', r)"
    "lease_granted r = attempt_grants a (outbox_view (docs (sd_db s)))" "outbox_docs_ok K n (docs (sd_db s'))"
    "outbox_view (docs (sd_db s')) = attempt_step a (outbox_view (docs (sd_db s)))"
    by auto
  with Cons.IH[of s'] Cons.prems(1) show ?case
    by (simp add: Let_def split_beta)
qed simp

text \<open>A message leased to a worker stays with it until another worker's attempt comes after the deadline.\<close>

definition held :: "tenant_id \<times> id \<Rightarrow> string \<Rightarrow> int \<Rightarrow> outbox \<Rightarrow> bool" where
  "held k w until o' \<longleftrightarrow> (\<exists>m. o' k = Some m \<and> om_worker m = Some w \<and> om_lease_until m = Some until)"

lemma held_attempts:
  assumes "held k w until o'" "p < length as" "outbox_attempts as o' ! p" "la_key (as ! p) = k" "la_worker (as ! p) \<noteq> w"
    "\<forall>q<p. la_key (as ! q) = k \<longrightarrow> \<not> outbox_attempts as o' ! q"
  shows "until \<le> la_now (as ! p)"
  using assms
proof (induction as arbitrary: o' p)
  case (Cons a as)
  show ?case
  proof (cases p)
    case 0
    with Cons.prems show ?thesis
      by (auto simp: held_def attempt_grants_def eligible_def)
  next
    case (Suc q)
    have "held k w until (attempt_step a o')"
      using Cons.prems(1) Cons.prems(6)[rule_format, of 0] Suc
      by (auto simp: held_def attempt_step_def)
    then show ?thesis
      using Cons.IH[of "attempt_step a o'" q] Cons.prems Suc by fastforce
  qed
qed simp

lemma outbox_attempts_exclusive:
  assumes "j < p" "p < length as" "la_key (as ! j) = la_key (as ! p)" "la_worker (as ! j) \<noteq> la_worker (as ! p)"
    "outbox_attempts as o' ! j" "outbox_attempts as o' ! p"
    "\<forall>q. j < q \<and> q < p \<and> la_key (as ! q) = la_key (as ! p) \<longrightarrow> \<not> outbox_attempts as o' ! q"
  shows "la_until (as ! j) \<le> la_now (as ! p)"
  using assms
proof (induction as arbitrary: o' j p)
  case (Cons a as)
  obtain q where p: "p = Suc q" using Cons.prems(1) by (cases p) auto
  show ?case
  proof (cases j)
    case 0
    have "held (la_key a) (la_worker a) (la_until a) (attempt_step a o')"
      using Cons.prems(5) 0 by (auto simp: held_def attempt_step_def attempt_grants_def mark_leased_def split: option.splits)
    moreover have "\<forall>l<q. la_key (as ! l) = la_key a \<longrightarrow> \<not> outbox_attempts as (attempt_step a o') ! l"
      using Cons.prems(3,7) 0 p by (metis Suc_less_eq nth_Cons_0 nth_Cons_Suc outbox_attempts.simps(2) zero_less_Suc)
    ultimately show ?thesis
      using held_attempts[of "la_key a" "la_worker a" "la_until a" "attempt_step a o'" q as] Cons.prems 0 p by simp
  next
    case (Suc i)
    have "\<forall>l. i < l \<and> l < q \<and> la_key (as ! l) = la_key (as ! q) \<longrightarrow> \<not> outbox_attempts as (attempt_step a o') ! l"
      using Cons.prems(7) Suc p by (metis Suc_less_eq nth_Cons_Suc outbox_attempts.simps(2))
    then show ?thesis
      using Cons.IH[of i q "attempt_step a o'"] Cons.prems Suc p by simp
  qed
qed simp

end
