(* ===== verification/TxSurrealProps.thy ===== *)
theory TxSurrealProps
  imports TxSurrealLaws
begin

text \<open>
  The properties of the SurrealDB stores: the outbox refines the in-memory one, leases are exclusive
  under any interleaving, and what two racing claims of an idempotency key get.  The witnesses run on a
  table database that does with each statement what \<open>TxSurrealLaws\<close> takes the database to do.
\<close>

section \<open>Claiming an idempotency key\<close>

abbreviation "idempo_rid t k \<equiv> make_record_id IDEMPO_TABLE t k"

lemma scoped_idempo_args [simp]: "scoped t (idempo_args t k kind)"
  by (simp add: idempo_args_def del: jinsert.simps)

lemma names_idempo:
  assumes "scoped t params" "map_of params ''table'' = Some (JStr IDEMPO_TABLE)" "map_of params ''id'' = Some (JStr rid)"
  shows "names_row (bound params) IDEMPO_TABLE rid"
  using assms by (simp add: names_row_def bound_str[OF assms(1)] starts_with_def)

lemma names_idempo_args [simp]: "names_row (bound (idempo_args t k kind)) IDEMPO_TABLE (idempo_rid t k)"
  by (rule names_idempo[where t = t]) (simp_all add: idempo_args_def base_args_def del: jinsert.simps)

lemma reads_rowD:
  "reads_row db table docs de ten \<Longrightarrow> names_row b table rid \<Longrightarrow>
   \<exists>d' v. db_answers db SELECT_SINGLE b d d' v \<and> docs d' = docs d \<and>
     row_answer de (Option.bind (docs d rid) (\<lambda>doc. if b_str ''tenant'' b = Some (ten doc) then Some doc else None)) v"
  unfolding reads_row_def by blast

lemma idempo_fetch_run:
  assumes stmts: "idempo_statements x docs"
    and ten: "\<And>doc. docs (sd_db s) (idempo_rid t k) = Some doc \<Longrightarrow> idd_tenant doc = t"
  shows "\<exists>s'. sq_idempo_fetch x t k s = (s', Ok (docs (sd_db s) (idempo_rid t k))) \<and> docs (sd_db s') = docs (sd_db s)"
proof -
  let ?rows = "docs (sd_db s)" and ?p = "idempo_args t k ''read''"
  have ten': "b_str ''tenant'' (bound ?p) = Some t"
    using scoped_idempo_args[of t k "''read''"] by (simp add: bound_str[where t = t] starts_with_def scoped_def)
  have found: "Option.bind (?rows (idempo_rid t k))
      (\<lambda>doc. if b_str ''tenant'' (bound ?p) = Some (idd_tenant doc) then Some doc else None) = ?rows (idempo_rid t k)"
    using ten by (cases "?rows (idempo_rid t k)") (auto simp: ten')
  have "reads_row (xd_ops x) IDEMPO_TABLE docs (de_idempo_doc (xd_serde x)) idd_tenant"
    using stmts by (simp add: idempo_statements_def Let_def)
  from reads_rowD[OF this, of "bound ?p" "idempo_rid t k" "sd_db s"] names_idempo_args found obtain d' v where "db_answers (xd_ops x) SELECT_SINGLE (bound ?p) (sd_db s) d' v" "docs d' = ?rows"
      "row_answer (de_idempo_doc (xd_serde x)) (?rows (idempo_rid t k)) v"
    by auto
  moreover from this obtain s' where "xquery x SELECT_SINGLE ?p s = (s', Ok v)" "docs (sd_db s') = ?rows"
    using tx_query_json_ok[OF scoped_idempo_args] by metis
  ultimately show ?thesis
    by (simp add: sq_idempo_fetch_def and_do_def decode_optional_answer)
qed

lemma idempo_delete_run:
  assumes "idempo_statements x docs"
  shows "\<exists>s'. sq_idempo_delete x t k s = (s', Ok ()) \<and> docs (sd_db s') = (docs (sd_db s))(idempo_rid t k := None)"
proof -
  have "deletes_row (xd_ops x) IDEMPO_TABLE docs"
    using assms by (simp add: idempo_statements_def Let_def)
  then obtain d' r where "db_query (xd_ops x) DELETE_RECORD (bound (idempo_args t k ''write'')) (sd_db s) = (d', Ok r)"
      "docs d' = (docs (sd_db s))(idempo_rid t k := None)"
    unfolding deletes_row_def using names_idempo_args by metis
  then show ?thesis
    unfolding sq_idempo_delete_def using tx_execute_query_ok[OF scoped_idempo_args] by metis
qed

lemma idempo_create_run:
  assumes "idempo_statements x docs" and rows_def: "rows = docs (sd_db s)" and rid_def: "rid = idempo_rid t k"
  shows "\<exists>s' r. sq_claim_create x now t k hash ttl s = (s', r) \<and>
    (case rows rid of
       None \<Rightarrow> r = Ok None \<and> docs (sd_db s') = rows(rid \<mapsto> idempo_doc_from_record (build_record now t k hash ttl))
     | Some _ \<Rightarrow> \<not> is_ok r \<and> docs (sd_db s') = rows)"
proof -
  let ?doc = "idempo_doc_from_record (build_record now t k hash ttl)"
  obtain j where j: "ser_idempo_doc (xd_serde x) ?doc = Ok j" "de_idempo_doc (xd_serde x) j = Ok ?doc"
    using assms(1) unfolding idempo_statements_def Let_def by blast
  define params where "params = jinsert ''data'' j (jinsert ''id'' (JStr rid) (base_args IDEMPO_TABLE t ''write''))"
  have scoped: "scoped t params"
    by (simp add: params_def del: jinsert.simps)
  have names: "names_row (bound params) IDEMPO_TABLE rid"
    by (rule names_idempo[OF scoped]) (simp_all add: params_def base_args_def del: jinsert.simps)
  have data: "json_get ''data'' (bound params) = Some j"
    by (simp add: bound_get[OF scoped] starts_with_def) (simp add: params_def del: jinsert.simps)
  have creates: "creates_row (xd_ops x) IDEMPO_TABLE docs (de_idempo_doc (xd_serde x))"
    using assms(1) by (simp add: idempo_statements_def Let_def)
  have "idd_id ?doc = rid"
    by (simp add: idempo_doc_from_record_def build_record_def rid_def)
  with j have run: "sq_claim_create x now t k hash ttl s =
      and_do (tx_query_json (xd_ops x) (xd_strict x) map_idempo_create_error CREATE_RECORD params s) (\<lambda>_ s. (s, Ok None))"
    unfolding sq_claim_create_def Let_def j(1) params_def by (subst and_do_def) simp
  show ?thesis
  proof (cases "rows rid")
    case None
    then obtain d' v where "db_answers (xd_ops x) CREATE_RECORD (bound params) (sd_db s) d' v" "docs d' = rows(rid \<mapsto> ?doc)"
      using creates_new[OF creates names data j(2)] unfolding rows_def by blast
    then obtain s' where "tx_query_json (xd_ops x) (xd_strict x) map_idempo_create_error CREATE_RECORD params s = (s', Ok v)"
        "docs (sd_db s') = rows(rid \<mapsto> ?doc)"
      using tx_query_json_ok[OF scoped] by metis
    then show ?thesis
      using None run by (simp add: and_do_def)
  next
    case (Some old)
    then obtain d' e where "db_refuses (xd_ops x) CREATE_RECORD (bound params) (sd_db s) d' e" "docs d' = rows"
      using creates_taken[OF creates names data j(2)] unfolding rows_def by blast
    then obtain s' where "tx_query_json (xd_ops x) (xd_strict x) map_idempo_create_error CREATE_RECORD params s =
        (s', Err (map_idempo_create_error e))" "docs (sd_db s') = rows"
      using tx_query_json_err[OF scoped] by metis
    then show ?thesis
      using Some run by (simp add: and_do_def)
  qed
qed

text \<open>Two callers that both read the record before either acts on what it read.\<close>

definition racing_claims ::
  "('d, 'r) tx_db \<Rightarrow> int \<Rightarrow> int \<Rightarrow> tenant_id \<Rightarrow> string \<Rightarrow> string \<Rightarrow> string \<Rightarrow> 64 word \<Rightarrow> 'd surreal_state
   \<Rightarrow> 'd surreal_state \<times> string option tx_result \<times> string option tx_result" where
  "racing_claims x nowA nowB t k hA hB ttl s =
     (let (s, ca) = sq_claim_read x nowA t k hA s;
          (s, cb) = sq_claim_read x nowB t k hB s;
          (s, ra) = and_do (s, ca) (\<lambda>c s. sq_claim_act x nowA t k hA ttl c s);
          (s, rb) = and_do (s, cb) (\<lambda>c s. sq_claim_act x nowB t k hB ttl c s)
      in (s, ra, rb))"

lemma idempo_read_run:
  assumes "idempo_statements x docs"
    and "\<And>doc. docs (sd_db s) (idempo_rid t k) = Some doc \<Longrightarrow> idd_tenant doc = t"
  shows "\<exists>s'. sq_claim_read x now t k hash s = (s', claim_of now hash (docs (sd_db s) (idempo_rid t k))) \<and>
     docs (sd_db s') = docs (sd_db s)"
  using idempo_fetch_run[of x docs s t k] assms by (fastforce simp: sq_claim_read_def and_do_def)

lemma idempo_act_fresh:
  assumes "idempo_statements x docs"
  shows "\<exists>s' r. sq_claim_act x now t k hash ttl ClaimFresh s = (s', r) \<and>
    (case docs (sd_db s) (idempo_rid t k) of
       None \<Rightarrow> r = Ok None \<and>
         docs (sd_db s') = (docs (sd_db s))(idempo_rid t k \<mapsto> idempo_doc_from_record (build_record now t k hash ttl))
     | Some _ \<Rightarrow> \<not> is_ok r \<and> docs (sd_db s') = docs (sd_db s))"
  using idempo_create_run[OF assms refl refl] by (simp add: sq_claim_act_def)

lemma idempo_act_expired:
  assumes "idempo_statements x docs"
  shows "\<exists>s'. sq_claim_act x now t k hash ttl ClaimExpired s = (s', Ok None) \<and>
    docs (sd_db s') = (docs (sd_db s))(idempo_rid t k \<mapsto> idempo_doc_from_record (build_record now t k hash ttl))"
proof -
  obtain s1 where s1: "sq_idempo_delete x t k s = (s1, Ok ())" "docs (sd_db s1) = (docs (sd_db s))(idempo_rid t k := None)"
    using idempo_delete_run[OF assms] by blast
  then show ?thesis
    using idempo_create_run[OF assms refl refl, where s = s1 and t = t and k = k and now = now and hash = hash and ttl = ttl]
    by (auto simp: sq_claim_act_def and_do_def)
qed

lemma claim_of_expired:
  "idempo_record_from_doc doc = Ok r \<Longrightarrow> doc_expired now doc \<Longrightarrow> claim_of now hash (Some doc) = Ok ClaimExpired"
  by (simp add: claim_of_def)

lemma claim_of_none: "claim_of now hash None = Ok ClaimFresh"
  by (simp add: claim_of_def)

section \<open>A table database\<close>

text \<open>
  A database of one table: records under the \<open>$id\<close> the statements name; \<open>ser\<close> and
  \<open>ds\<close> are its encoding of documents, \<open>ten\<close> their tenant, \<open>effs\<close> the effect
  of each update, \<open>sel\<close> the record ids a SELECT of several rows returns.  Its \<open>take\<close> reads at most one
  row, as that of the surrealdb crate does for an \<open>Option\<close>; other tables are not kept.
\<close>

definition rows_of :: "('a \<Rightarrow> json) \<Rightarrow> 'a option \<Rightarrow> json list" where
  "rows_of ser found = (case found of Some doc \<Rightarrow> [ser doc] | None \<Rightarrow> [])"

definition take_one :: "json list \<Rightarrow> json option storage_result" where
  "take_one rows =
     (case rows of [] \<Rightarrow> Ok None | [row] \<Rightarrow> Ok (Some row) | _ \<Rightarrow> Err (storage_unknown ''lossy take''))"

definition table_row ::
  "('a \<Rightarrow> json) \<Rightarrow> (json \<Rightarrow> string + 'a) \<Rightarrow> ('a \<Rightarrow> string) \<Rightarrow> (string \<times> (json \<Rightarrow> 'a \<Rightarrow> 'a option)) list
   \<Rightarrow> string \<Rightarrow> json \<Rightarrow> string \<Rightarrow> (string \<Rightarrow> 'a option) \<Rightarrow> (string \<Rightarrow> 'a option) \<times> json list storage_result" where
  "table_row ser ds ten effs stmt b rid rows =
     (if stmt = SELECT_SINGLE then
        (rows, Ok (rows_of ser (Option.bind (rows rid)
          (\<lambda>doc. if b_str ''tenant'' b = Some (ten doc) then Some doc else None))))
      else if stmt = DELETE_RECORD then (rows(rid := None), Ok [])
      else if stmt = CREATE_RECORD then
        (case Option.bind (json_get ''data'' b) (\<lambda>data. case ds data of Inr doc \<Rightarrow> Some doc | Inl _ \<Rightarrow> None) of
           Some doc \<Rightarrow>
             if rows rid = None then (rows(rid \<mapsto> doc), Ok (rows_of ser (Some doc)))
             else (rows, Err (storage_unknown ''record exists''))
         | None \<Rightarrow> (rows, Ok []))
      else
        (case Option.bind (map_of effs stmt) (\<lambda>eff. Option.bind (rows rid) (eff b)) of
           Some doc \<Rightarrow> (rows(rid \<mapsto> doc), Ok (rows_of ser (Some doc)))
         | None \<Rightarrow> (rows, Ok (rows_of ser None))))"

definition table_query ::
  "string \<Rightarrow> ('a \<Rightarrow> json) \<Rightarrow> (json \<Rightarrow> string + 'a) \<Rightarrow> ('a \<Rightarrow> string) \<Rightarrow> (string \<times> (json \<Rightarrow> 'a \<Rightarrow> 'a option)) list
   \<Rightarrow> (json \<Rightarrow> (string \<Rightarrow> 'a option) \<Rightarrow> string list)
   \<Rightarrow> string \<Rightarrow> json \<Rightarrow> (string \<Rightarrow> 'a option) \<Rightarrow> (string \<Rightarrow> 'a option) \<times> json list storage_result" where
  "table_query table ser ds ten effs sel stmt b rows =
     (if stmt = SELECT_CANDIDATES then (rows, Ok (map (\<lambda>rid. ser (the (rows rid))) (sel b rows)))
      else case b_str ''id'' b of
        Some rid \<Rightarrow>
          if b_str ''table'' b = Some table then table_row ser ds ten effs stmt b rid rows else (rows, Ok [])
      | None \<Rightarrow> (rows, Ok []))"

definition table_ops ::
  "string \<Rightarrow> ('a \<Rightarrow> json) \<Rightarrow> (json \<Rightarrow> string + 'a) \<Rightarrow> ('a \<Rightarrow> string) \<Rightarrow> (string \<times> (json \<Rightarrow> 'a \<Rightarrow> 'a option)) list
   \<Rightarrow> (json \<Rightarrow> (string \<Rightarrow> 'a option) \<Rightarrow> string list) \<Rightarrow> (string \<Rightarrow> 'a option, json list) db_ops" where
  "table_ops table ser ds ten effs sel =
     \<lparr>db_query = table_query table ser ds ten effs sel, db_take_value = take_one, db_take_rows = (\<lambda>_. Ok [])\<rparr>"

definition reserved_statements :: "string list" where
  "reserved_statements = [SELECT_SINGLE, DELETE_RECORD, CREATE_RECORD, SELECT_CANDIDATES]"

lemma statements_distinct:
  "SELECT_SINGLE \<noteq> DELETE_RECORD" "SELECT_SINGLE \<noteq> CREATE_RECORD" "DELETE_RECORD \<noteq> CREATE_RECORD"
  "SELECT_SINGLE \<noteq> SELECT_CANDIDATES" "DELETE_RECORD \<noteq> SELECT_CANDIDATES" "CREATE_RECORD \<noteq> SELECT_CANDIDATES"
  by (simp_all add: SELECT_SINGLE_def DELETE_RECORD_def CREATE_RECORD_def SELECT_CANDIDATES_def raw_lines_def)

text \<open>An encoding that reads back, and whose rows are not arrays.\<close>

definition rows_decode :: "('a \<Rightarrow> json) \<Rightarrow> (json \<Rightarrow> string + 'a) \<Rightarrow> bool" where
  "rows_decode ser ds \<longleftrightarrow> (\<forall>doc. ds (ser doc) = Ok doc \<and> (\<forall>xs. ser doc \<noteq> JArr xs))"

lemma table_row_answer:
  assumes "rows_decode ser ds"
  shows "\<exists>v. take_one (rows_of ser found) = Ok v \<and> row_answer ds found v"
  using assms by (cases found) (auto simp: row_answer_def rows_of_def take_one_def rows_decode_def)

text \<open>A statement on a row of the table, answered with the row found.\<close>

lemma table_answers:
  assumes "rows_decode ser ds" "names_row b table rid" "stmt \<noteq> SELECT_CANDIDATES"
    and "table_row ser ds ten effs stmt b rid d = (d', Ok (rows_of ser found))"
  shows "\<exists>v. db_answers (table_ops table ser ds ten effs sel) stmt b d d' v \<and> row_answer ds found v"
  using table_row_answer[OF assms(1), of found] assms(2-4)
  by (auto simp: db_answers_def table_ops_def table_query_def names_row_def)

lemma table_updates:
  assumes "rows_decode ser ds" "map_of effs stmt = Some eff" "stmt \<notin> set reserved_statements"
  shows "updates_row (table_ops table ser ds ten effs sel) table (\<lambda>d. d) ds fits stmt eff"
  unfolding updates_row_def
proof (intro allI impI)
  fix b d rid
  assume names: "names_row b table rid"
  let ?found = "Option.bind (d rid) (eff b)"
  have "table_row ser ds ten effs stmt b rid d =
      (case ?found of Some doc \<Rightarrow> d(rid \<mapsto> doc) | None \<Rightarrow> d, Ok (rows_of ser ?found))"
    using assms(2,3) by (auto simp: table_row_def reserved_statements_def split: option.splits)
  from table_answers[OF assms(1) names _ this, of sel] assms(3)
  show "\<exists>d' v. db_answers (table_ops table ser ds ten effs sel) stmt b d d' v \<and> row_answer ds ?found v \<and>
      d' = (case ?found of Some doc \<Rightarrow> d(rid \<mapsto> doc) | None \<Rightarrow> d)"
    by (fastforce simp: reserved_statements_def)
qed

lemma table_reads:
  assumes "rows_decode ser ds"
  shows "reads_row (table_ops table ser ds ten effs sel) table (\<lambda>d. d) ds ten"
  unfolding reads_row_def
proof (intro allI impI)
  fix b d rid
  assume names: "names_row b table rid"
  let ?found = "Option.bind (d rid) (\<lambda>doc. if b_str ''tenant'' b = Some (ten doc) then Some doc else None)"
  have "table_row ser ds ten effs SELECT_SINGLE b rid d = (d, Ok (rows_of ser ?found))"
    by (simp add: table_row_def)
  from table_answers[OF assms(1) names statements_distinct(4) this, of sel]
  show "\<exists>d' v. db_answers (table_ops table ser ds ten effs sel) SELECT_SINGLE b d d' v \<and> d' = d \<and> row_answer ds ?found v"
    by blast
qed

lemma table_creates:
  assumes "rows_decode ser ds"
  shows "creates_row (table_ops table ser ds ten effs sel) table (\<lambda>d. d) ds"
  unfolding creates_row_def
proof (intro allI impI)
  fix b d rid data doc
  assume names: "names_row b table rid" and data: "json_get ''data'' b = Some data" "ds data = Ok doc"
  then have run: "table_row ser ds ten effs CREATE_RECORD b rid d =
      (if d rid = None then (d(rid \<mapsto> doc), Ok (rows_of ser (Some doc))) else (d, Err (storage_unknown ''record exists'')))"
    using statements_distinct by (simp add: table_row_def)
  show "case d rid of
      None \<Rightarrow> \<exists>d' v. db_answers (table_ops table ser ds ten effs sel) CREATE_RECORD b d d' v \<and> row_answer ds (Some doc) v \<and>
        d' = d(rid \<mapsto> doc)
    | Some _ \<Rightarrow> \<exists>d' e. db_refuses (table_ops table ser ds ten effs sel) CREATE_RECORD b d d' e \<and> d' = d"
  proof (cases "d rid")
    case None
    then show ?thesis
      using run table_answers[OF assms names statements_distinct(6), of ten effs d _ "Some doc" sel] by fastforce
  next
    case (Some old)
    then show ?thesis
      using run names statements_distinct(6)
      by (simp add: db_refuses_def table_ops_def table_query_def names_row_def)
  qed
qed

lemma table_deletes: "deletes_row (table_ops table ser ds ten effs sel) table (\<lambda>d. d)"
  unfolding deletes_row_def using statements_distinct
  by (auto simp: table_ops_def table_query_def table_row_def names_row_def)

text \<open>The encoding of the documents: the values in the order of the record, in a field of an object.\<close>

fun jstr :: "json \<Rightarrow> string" where
  "jstr (JStr s) = s"
| "jstr _ = []"

fun jint :: "json \<Rightarrow> int" where
  "jint (JNum (NegInt i)) = i"
| "jint _ = 0"

fun jopt_int :: "json \<Rightarrow> int option" where
  "jopt_int (JNum (NegInt i)) = Some i"
| "jopt_int _ = None"

fun jword :: "json \<Rightarrow> 64 word" where
  "jword (JNum (PosInt w)) = w"
| "jword _ = 0"

definition json_opt_int :: "int option \<Rightarrow> json" where
  "json_opt_int v = (case v of Some i \<Rightarrow> JNum (NegInt i) | None \<Rightarrow> JNull)"

lemma jopt_int_inverse [simp]: "jopt_int (json_opt_int v) = v"
  by (cases v) (simp_all add: json_opt_int_def)

definition demo_ser_outbox :: "outbox_doc \<Rightarrow> json" where
  "demo_ser_outbox d = JObj [(''doc'', JArr
     [JStr (od_id d), JStr (od_tenant d), JStr (od_message_id d), JStr (od_envelope_id d), JStr (od_topic d),
      od_payload d, JNum (NegInt (od_created_at d)), JNum (NegInt (od_not_before d)),
      JNum (PosInt (ucast (od_attempts d))), JStr (od_status d), json_opt_str (od_last_error d),
      json_opt_str (od_dispatch_key d), json_opt_int (od_lease_until d), json_opt_str (od_worker d)])]"

definition demo_de_outbox :: "json \<Rightarrow> string + outbox_doc" where
  "demo_de_outbox j =
     (case j of
        JObj [(_, JArr xs)] \<Rightarrow> Ok
          \<lparr>od_id = jstr (xs ! 0), od_tenant = jstr (xs ! 1), od_message_id = jstr (xs ! 2),
           od_envelope_id = jstr (xs ! 3), od_topic = jstr (xs ! 4), od_payload = xs ! 5,
           od_created_at = jint (xs ! 6), od_not_before = jint (xs ! 7), od_attempts = ucast (jword (xs ! 8)),
           od_status = jstr (xs ! 9), od_last_error = as_str (xs ! 10), od_dispatch_key = as_str (xs ! 11),
           od_lease_until = jopt_int (xs ! 12), od_worker = as_str (xs ! 13)\<rparr>
      | _ \<Rightarrow> Err ''not a document'')"

definition demo_ser_idempo :: "idempo_doc \<Rightarrow> json" where
  "demo_ser_idempo d = JObj [(''doc'', JArr
     [JStr (idd_id d), JStr (idd_tenant d), JStr (idd_key d), JStr (idd_hash d), JStr (idd_status d),
      json_opt_str (idd_result_digest d), json_opt_str (idd_last_error d), JNum (PosInt (idd_ttl_ms d)),
      JNum (NegInt (idd_created_at d)), JNum (NegInt (idd_updated_at d))])]"

definition demo_de_idempo :: "json \<Rightarrow> string + idempo_doc" where
  "demo_de_idempo j =
     (case j of
        JObj [(_, JArr xs)] \<Rightarrow> Ok
          \<lparr>idd_id = jstr (xs ! 0), idd_tenant = jstr (xs ! 1), idd_key = jstr (xs ! 2), idd_hash = jstr (xs ! 3),
           idd_status = jstr (xs ! 4), idd_result_digest = as_str (xs ! 5), idd_last_error = as_str (xs ! 6),
           idd_ttl_ms = jword (xs ! 7), idd_created_at = jint (xs ! 8), idd_updated_at = jint (xs ! 9)\<rparr>
      | _ \<Rightarrow> Err ''not a document'')"

lemma ucast_u32_u64 [simp]: "ucast (ucast a :: 64 word) = (a :: 32 word)"
  by (simp add: ucast_up_ucast_id is_up)

lemma demo_roundtrip:
  "demo_de_outbox (demo_ser_outbox d) = Ok d" "demo_de_idempo (demo_ser_idempo e) = Ok e"
  "rows_decode demo_ser_outbox demo_de_outbox" "rows_decode demo_ser_idempo demo_de_idempo"
  by (simp_all add: rows_decode_def demo_de_outbox_def demo_ser_outbox_def demo_de_idempo_def demo_ser_idempo_def)

definition demo_serde :: tx_serde where
  "demo_serde =
     \<lparr>ser_outbox_doc = Ok \<circ> demo_ser_outbox, de_outbox_doc = demo_de_outbox,
      ser_idempo_doc = Ok \<circ> demo_ser_idempo, de_idempo_doc = demo_de_idempo,
      ser_saga_doc = (\<lambda>_. Err ''unused''), de_saga_doc = (\<lambda>_. Err ''unused''),
      ser_dead_doc = (\<lambda>_. Err ''unused''), de_dead_doc = (\<lambda>_. Err ''unused''),
      ser_payload = (\<lambda>_. Err ''unused''), de_payload = (\<lambda>_. Err ''unused'')\<rparr>"

definition outbox_effects :: "(string \<times> (json \<Rightarrow> outbox_doc \<Rightarrow> outbox_doc option)) list" where
  "outbox_effects =
     [(LEASE_UPDATE, lease_effect), (ACK_UPDATE, ack_effect), (NACK_UPDATE, nack_effect),
      (DEAD_UPDATE, dead_effect), (HEARTBEAT_UPDATE, heartbeat_effect), (REVIVE_UPDATE, revive_effect)]"

definition idempo_effects :: "(string \<times> (json \<Rightarrow> idempo_doc \<Rightarrow> idempo_doc option)) list" where
  "idempo_effects = [(IDEMPO_FINISH, finish_effect), (IDEMPO_FAIL, fail_effect)]"

text \<open>The candidates in the order of their ids, up to the limit.\<close>

definition candidate_list :: "json \<Rightarrow> (string \<Rightarrow> outbox_doc option) \<Rightarrow> string list" where
  "candidate_list b rows =
     (let limit = (case json_get ''limit'' b of Some (JNum (PosInt n)) \<Rightarrow> unat n | _ \<Rightarrow> 0)
      in take limit (sorted_list_of_set (candidate_rows b rows)))"

definition demo_outbox_db :: "(string \<Rightarrow> outbox_doc option, json list) tx_db" where
  "demo_outbox_db =
     \<lparr>xd_ops = table_ops OUTBOX_TABLE demo_ser_outbox demo_de_outbox od_tenant outbox_effects candidate_list, xd_strict = True,
      xd_serde = demo_serde\<rparr>"

definition demo_idempo_db :: "(string \<Rightarrow> idempo_doc option, json list) tx_db" where
  "demo_idempo_db =
     \<lparr>xd_ops = table_ops IDEMPO_TABLE demo_ser_idempo demo_de_idempo idd_tenant idempo_effects (\<lambda>_ _. []), xd_strict = True,
      xd_serde = demo_serde\<rparr>"

lemmas statement_defs =
  raw_lines_def SELECT_SINGLE_def DELETE_RECORD_def CREATE_RECORD_def LEASE_UPDATE_def ACK_UPDATE_def NACK_UPDATE_def
  DEAD_UPDATE_def HEARTBEAT_UPDATE_def REVIVE_UPDATE_def IDEMPO_FINISH_def IDEMPO_FAIL_def
  SELECT_CANDIDATES_def

lemma outbox_statement_effects:
  "distinct (map fst outbox_effects)" "set (map fst outbox_effects) \<inter> set reserved_statements = {}"
  by (simp_all add: outbox_effects_def reserved_statements_def statement_defs)

lemma idempo_statement_effects:
  "distinct (map fst idempo_effects)" "set (map fst idempo_effects) \<inter> set reserved_statements = {}"
  by (simp_all add: idempo_effects_def reserved_statements_def statement_defs)

lemma table_updates_all:
  assumes "rows_decode ser ds" "distinct (map fst effs)"
    "set (map fst effs) \<inter> set reserved_statements = {}" "(stmt, eff) \<in> set effs"
  shows "updates_row (table_ops table ser ds ten effs sel) table (\<lambda>d. d) ds fits stmt eff"
  using assms(2-4) by (intro table_updates assms(1)) force+

lemma demo_outbox_statements: "outbox_statements demo_outbox_db (\<lambda>d. d)"
  unfolding outbox_statements_def Let_def demo_outbox_db_def demo_serde_def tx_db.simps tx_serde.simps
  by (intro conjI table_reads table_creates table_updates_all demo_roundtrip outbox_statement_effects)
    (simp_all add: demo_roundtrip outbox_effects_def)

lemma demo_idempo_statements: "idempo_statements demo_idempo_db (\<lambda>d. d)"
  unfolding idempo_statements_def Let_def demo_idempo_db_def demo_serde_def tx_db.simps tx_serde.simps
  by (intro conjI table_reads table_creates table_deletes table_updates_all demo_roundtrip idempo_statement_effects)
    (simp_all add: demo_roundtrip idempo_effects_def)

section \<open>Properties\<close>


definition demo_new :: new_outbox_message where
  "demo_new =
     \<lparr>no_id = ''m1'', no_tenant = ''acme'', no_envelope_id = ''e1'', no_topic = ''http:hook'', no_payload = JNull,
      no_not_before = None, no_dispatch_key = None\<rparr>"

definition demo_state :: "(string \<Rightarrow> outbox_doc option) surreal_state" where
  "demo_state = \<lparr>sd_db = Map.empty, sd_metrics = [], sd_rollbacks = []\<rparr>"

definition demo_run :: "(int \<times> sq_op) list" where
  "demo_run = [(5, SqEnqueue 5 5 demo_new), (9, SqNack ''acme'' ''m1'' 20 (Some ''down'')), (30, SqAck ''acme'' ''m1'')]"


text \<open>
  C4: Leases in the database are exclusive.  However the lease statements of any number of workers
  are interleaved, and however old the candidates they were sent for, a message that was leased to one
  worker is next granted to another only at a time at or after the deadline of that lease.
\<close>

theorem surreal_leases_exclusive:
  assumes "outbox_statements x docs" and "outbox_docs_ok K 0 (docs (sd_db s))" and "list_all (attempt_ok K) as"
  defines "gs \<equiv> snd (lease_attempts x as s)"
  assumes "j < p" and "p < length as" and "la_key (as ! j) = la_key (as ! p)"
    and "la_worker (as ! j) \<noteq> la_worker (as ! p)" and "gs ! j" and "gs ! p"
    and "\<forall>q. j < q \<and> q < p \<and> la_key (as ! q) = la_key (as ! p) \<longrightarrow> \<not> gs ! q"
  shows "la_until (as ! j) \<le> la_now (as ! p)"
  using outbox_attempts_exclusive[OF assms(5-8)] assms(9-11) lease_attempts_run[OF assms(1,3,2)]
  unfolding gs_def by simp

definition demo_attempt :: "string \<Rightarrow> int \<Rightarrow> lease_attempt" where
  "demo_attempt w now =
     \<lparr>la_tenant = ''acme'', la_id = ''m1'',
      la_doc = outbox_doc_from_message (build_outbox_message 0 0 demo_new),
      la_now = now, la_until = now + 100, la_worker = w\<rparr>"

definition demo_attempts :: "lease_attempt list" where
  "demo_attempts = [demo_attempt ''w1'' 5, demo_attempt ''w2'' 50, demo_attempt ''w2'' 105]"

definition leased_state :: "(string \<Rightarrow> outbox_doc option) surreal_state" where
  "leased_state = demo_state\<lparr>sd_db := [outbox_rid ''acme'' ''m1'' \<mapsto>
     outbox_doc_from_message (build_outbox_message 0 0 demo_new)]\<rparr>"

theorem surreal_leases_exclusive_witness:
  "snd (lease_attempts demo_outbox_db demo_attempts leased_state) = [True, False, True] \<and>
   la_until (demo_attempts ! 0) \<le> la_now (demo_attempts ! 2)"
proof -
  have ok: "outbox_docs_ok {(''acme'', ''m1'')} 0 (sd_db leased_state)"
    by (auto simp: outbox_docs_ok_def message_row_def leased_state_def demo_new_def build_outbox_message_def message_ok_def
        intro!: exI[of _ "build_outbox_message 0 0 demo_new"])
  have attempts: "list_all (attempt_ok {(''acme'', ''m1'')}) demo_attempts"
    by (simp add: demo_attempts_def demo_attempt_def attempt_ok_def outbox_doc_from_message_def demo_new_def
        build_outbox_message_def in_i64_def)
  have view: "outbox_view (sd_db leased_state) (''acme'', ''m1'') = Some (build_outbox_message 0 0 demo_new)"
    by (simp add: outbox_view_def leased_state_def build_outbox_message_def demo_new_def)
  have grants: "snd (lease_attempts demo_outbox_db demo_attempts leased_state) = [True, False, True]"
    unfolding lease_attempts_run[where docs = "\<lambda>d. d", OF demo_outbox_statements attempts ok]
    by (simp add: demo_attempts_def demo_attempt_def attempt_grants_def attempt_step_def view eligible_def mark_leased_def)
      (simp add: build_outbox_message_def demo_new_def)
  have "la_until (demo_attempts ! 0) \<le> la_now (demo_attempts ! 2)"
  proof (rule surreal_leases_exclusive[where docs = "\<lambda>d. d", OF demo_outbox_statements ok attempts])
    show "\<forall>q. 0 < q \<and> q < 2 \<and> la_key (demo_attempts ! q) = la_key (demo_attempts ! 2) \<longrightarrow>
        \<not> snd (lease_attempts demo_outbox_db demo_attempts leased_state) ! q"
      by (auto simp: grants less_Suc_eq numeral_2_eq_2)
  qed (simp_all add: grants, simp_all add: demo_attempts_def demo_attempt_def)
  with grants show ?thesis by simp
qed

text \<open>
  C14: Two racing claims of one idempotency key.  When both callers find no record, the database's
  unique record id lets exactly the first one through and the second gets an error.  When both find
  the same expired record, both are told to go ahead: the second deletes the record the first has just
  created, and the operation the key guards runs twice.
\<close>

theorem surreal_claim_race:
  assumes "idempo_statements x docs" and "racing_claims x nowA nowB t k hA hB ttl s = (s', ra, rb)"
  defines "rows \<equiv> docs (sd_db s)"
  shows "(rows (idempo_rid t k) = None \<longrightarrow> ra = Ok None \<and> \<not> is_ok rb \<and>
      docs (sd_db s') = rows(idempo_rid t k \<mapsto> idempo_doc_from_record (build_record nowA t k hA ttl))) \<and>
    (\<forall>doc r. rows (idempo_rid t k) = Some doc \<and> idd_tenant doc = t \<and> idempo_record_from_doc doc = Ok r \<and>
        doc_expired nowA doc \<and> doc_expired nowB doc \<longrightarrow>
      ra = Ok None \<and> rb = Ok None \<and>
      docs (sd_db s') = rows(idempo_rid t k \<mapsto> idempo_doc_from_record (build_record nowB t k hB ttl)))"
proof (intro conjI allI impI)
  assume none: "rows (idempo_rid t k) = None"
  obtain s1 where s1: "sq_claim_read x nowA t k hA s = (s1, Ok ClaimFresh)" "docs (sd_db s1) = rows"
    using idempo_read_run[OF assms(1), of s t k nowA hA] none unfolding rows_def claim_of_def by auto
  obtain s2 where s2: "sq_claim_read x nowB t k hB s1 = (s2, Ok ClaimFresh)" "docs (sd_db s2) = rows"
    using idempo_read_run[OF assms(1), of s1 t k nowB hB] none s1(2) unfolding claim_of_def by auto
  obtain s3 where s3: "sq_claim_act x nowA t k hA ttl ClaimFresh s2 = (s3, Ok None)"
      "docs (sd_db s3) = rows(idempo_rid t k \<mapsto> idempo_doc_from_record (build_record nowA t k hA ttl))"
    using idempo_act_fresh[OF assms(1), of nowA t k hA ttl s2] none s2(2) by auto
  obtain s4 r where s4: "sq_claim_act x nowB t k hB ttl ClaimFresh s3 = (s4, r)" "\<not> is_ok r" "docs (sd_db s4) = docs (sd_db s3)"
    using idempo_act_fresh[OF assms(1), of nowB t k hB ttl s3] s3(2) by auto
  show "ra = Ok None" "\<not> is_ok rb"
    "docs (sd_db s') = rows(idempo_rid t k \<mapsto> idempo_doc_from_record (build_record nowA t k hA ttl))"
    using assms(2) s1 s2 s3 s4 by (auto simp: racing_claims_def)
next
  fix doc r
  assume doc: "rows (idempo_rid t k) = Some doc \<and> idd_tenant doc = t \<and> idempo_record_from_doc doc = Ok r \<and>
    doc_expired nowA doc \<and> doc_expired nowB doc"
  note expired = claim_of_expired[of doc r]
  obtain s1 where s1: "sq_claim_read x nowA t k hA s = (s1, Ok ClaimExpired)" "docs (sd_db s1) = rows"
    using idempo_read_run[OF assms(1), of s t k nowA hA] doc expired unfolding rows_def by auto
  obtain s2 where s2: "sq_claim_read x nowB t k hB s1 = (s2, Ok ClaimExpired)" "docs (sd_db s2) = rows"
    using idempo_read_run[OF assms(1), of s1 t k nowB hB] doc s1(2) expired by auto
  obtain s3 where s3: "sq_claim_act x nowA t k hA ttl ClaimExpired s2 = (s3, Ok None)"
      "docs (sd_db s3) = rows(idempo_rid t k \<mapsto> idempo_doc_from_record (build_record nowA t k hA ttl))"
    using idempo_act_expired[OF assms(1), of nowA t k hA ttl s2] s2(2) by auto
  obtain s4 where s4: "sq_claim_act x nowB t k hB ttl ClaimExpired s3 = (s4, Ok None)"
      "docs (sd_db s4) = rows(idempo_rid t k \<mapsto> idempo_doc_from_record (build_record nowB t k hB ttl))"
    using idempo_act_expired[OF assms(1), of nowB t k hB ttl s3] s3(2) by auto
  show "ra = Ok None" "rb = Ok None"
    "docs (sd_db s') = rows(idempo_rid t k \<mapsto> idempo_doc_from_record (build_record nowB t k hB ttl))"
    using assms(2) s1 s2 s3 s4 by (auto simp: racing_claims_def)
qed

definition expired_doc :: idempo_doc where
  "expired_doc = idempo_doc_from_record (build_record 0 ''acme'' ''order-7'' ''h'' 50)"

definition expired_state :: "(string \<Rightarrow> idempo_doc option) surreal_state" where
  "expired_state =
     \<lparr>sd_db = [idempo_rid ''acme'' ''order-7'' \<mapsto> expired_doc], sd_metrics = [], sd_rollbacks = []\<rparr>"

theorem surreal_claim_race_witness:
  "fst (snd (racing_claims demo_idempo_db 100 101 ''acme'' ''order-7'' ''h'' ''h'' 50 expired_state)) = Ok None \<and>
   snd (snd (racing_claims demo_idempo_db 100 101 ''acme'' ''order-7'' ''h'' ''h'' 50 expired_state)) = Ok None"
proof -
  obtain s' ra rb where run:
    "racing_claims demo_idempo_db 100 101 ''acme'' ''order-7'' ''h'' ''h'' 50 expired_state = (s', ra, rb)"
    by (cases "racing_claims demo_idempo_db 100 101 ''acme'' ''order-7'' ''h'' ''h'' 50 expired_state")
  have "sd_db expired_state (idempo_rid ''acme'' ''order-7'') = Some expired_doc" "idd_tenant expired_doc = ''acme''"
    "idempo_record_from_doc expired_doc = Ok (build_record 0 ''acme'' ''order-7'' ''h'' 50)"
    "doc_expired 100 expired_doc" "doc_expired 101 expired_doc"
    by (simp_all add: expired_state_def expired_doc_def idempo_doc_from_record_def idempo_record_from_doc_def
        build_record_def idempo_status_from_str_def doc_expired_def i64_sat_sub_def)
  then have "ra = Ok None \<and> rb = Ok None"
    using surreal_claim_race[OF demo_idempo_statements run] by blast
  with run show ?thesis by simp
qed

end
