(* ===== verification/TxSurrealDispatch.thy ===== *)
theory TxSurrealDispatch
  imports TxSurrealProps
begin

text \<open>
  The dispatcher over the SurrealDB outbox.  A lease of a batch is a SELECT of candidates and one
  conditional UPDATE per candidate; where the database runs them as SurrealQL says, the batch obeys
  the same lease contract as the in-memory store, and the dispatcher's lemmas hold for it through
  the interpretation \<open>sq\<close>.
\<close>

section \<open>The candidates\<close>

text \<open>
  A response with several rows: an array of them, or for one row the row itself, or nothing for none.
\<close>

definition answers_rows :: "(json \<Rightarrow> string + 'a) \<Rightarrow> 'a list \<Rightarrow> json option \<Rightarrow> bool" where
  "answers_rows de found v \<longleftrightarrow>
     (\<exists>rows. list_all2 (\<lambda>row doc. de row = Ok doc \<and> (\<forall>xs. row \<noteq> JArr xs)) rows found \<and>
        (v = Some (JArr rows) \<or> (\<exists>row. rows = [row] \<and> v = Some row) \<or> rows = [] \<and> v = None))"

text \<open>
  The SELECT changes nothing.  It is refused (also because \<open>take::<Option<Value>>\<close> reads a
  response of several rows as an error), or it answers up to \<open>limit\<close> candidates, all of them
  when they are fewer.
\<close>

definition selects_candidates :: "('d, 'r) tx_db \<Rightarrow> ('d, outbox_doc) docs \<Rightarrow> bool" where
  "selects_candidates x docs \<longleftrightarrow>
     (\<forall>b d limit. finite (dom (docs d)) \<longrightarrow> json_get ''limit'' b = Some (JNum (PosInt limit)) \<longrightarrow>
        (\<exists>d'. docs d' = docs d \<and>
          ((\<exists>e. db_refuses (xd_ops x) SELECT_CANDIDATES b d d' e) \<or>
           (\<exists>rids v. db_answers (xd_ops x) SELECT_CANDIDATES b d d' v \<and> distinct rids \<and>
              set rids \<subseteq> candidate_rows b (docs d) \<and> length rids \<le> unat limit \<and>
              (length rids < unat limit \<longrightarrow> set rids = candidate_rows b (docs d)) \<and>
              answers_rows (de_outbox_doc (xd_serde x)) (map (\<lambda>rid. the (docs d rid)) rids) v))))"

text \<open>Writing a dead letter leaves the outbox alone.\<close>

definition spares_outbox :: "('d, 'r) tx_db \<Rightarrow> ('d, outbox_doc) docs \<Rightarrow> bool" where
  "spares_outbox x docs \<longleftrightarrow>
     (\<forall>b d. b_str ''table'' b = Some DEAD_TABLE \<longrightarrow> docs (fst (db_query (xd_ops x) UPSERT_RECORD b d)) = docs d)"

lemma decode_vec_answer:
  assumes "answers_rows de found v"
  shows "decode_vec de v ctx = Ok found"
proof -
  obtain rows where rows: "list_all2 (\<lambda>row doc. de row = Ok doc \<and> (\<forall>xs. row \<noteq> JArr xs)) rows found"
    and v: "v = Some (JArr rows) \<or> (\<exists>row. rows = [row] \<and> v = Some row) \<or> rows = [] \<and> v = None"
    using assms unfolding answers_rows_def by blast
  have one: "decode_row de row ctx = Ok doc" if "de row = Ok doc" "\<forall>xs. row \<noteq> JArr xs" for row doc
    using that by (cases row) auto
  have all: "try_map (\<lambda>item. decode_row de item ctx) rows = Ok found"
    using rows by (induction rows found rule: list_all2_induct) (simp_all add: one)
  from v show ?thesis
  proof (elim disjE exE conjE)
    fix row assume row: "rows = [row]" "v = Some row"
    with rows obtain doc where doc: "found = [doc]" "de row = Ok doc" "\<forall>xs. row \<noteq> JArr xs"
      by (auto simp: list_all2_Cons1)
    then show ?thesis
      using one[OF doc(2,3)] row by (cases row) (simp_all add: decode_vec_def)
  qed (use all in \<open>auto simp: decode_vec_def\<close>)
qed

section \<open>Leasing a batch\<close>

abbreviation select_params :: "tenant_id \<Rightarrow> int \<Rightarrow> string \<Rightarrow> nat \<Rightarrow> named_args" where
  "select_params t now worker limit \<equiv>
     jinsert ''limit'' (JNum (PosInt (of_nat limit))) (jinsert ''worker'' (JStr worker)
       (jinsert ''now'' (json_i64 now) (base_args OUTBOX_TABLE t ''read'')))"

lemma select_bindings:
  "scoped t (select_params t now worker limit)"
  "json_get ''limit'' (bound (select_params t now worker limit)) = Some (JNum (PosInt (of_nat limit)))"
  "in_i64 now \<Longrightarrow> b_int ''now'' (bound (select_params t now worker limit)) = Some now"
  "b_str ''worker'' (bound (select_params t now worker limit)) = Some worker"
  "b_str ''tenant'' (bound (select_params t now worker limit)) = Some t"
proof -
  show s: "scoped t (select_params t now worker limit)"
    by (simp del: jinsert.simps)
  show "json_get ''limit'' (bound (select_params t now worker limit)) = Some (JNum (PosInt (of_nat limit)))"
    by (subst bound_get[OF s]) (simp add: starts_with_def del: jinsert.simps)
  show "in_i64 now \<Longrightarrow> b_int ''now'' (bound (select_params t now worker limit)) = Some now"
    by (subst bound_int[OF s], simp add: starts_with_def, simp del: jinsert.simps)
  show "b_str ''worker'' (bound (select_params t now worker limit)) = Some worker"
    "b_str ''tenant'' (bound (select_params t now worker limit)) = Some t"
    by (subst bound_str[OF s], simp add: starts_with_def, simp add: base_args_def del: jinsert.simps)+
qed

lemma where_leasable_message:
  assumes "b_int ''now'' b = Some now" "b_str ''worker'' b = Some worker" "b_str ''tenant'' b = Some t" "message_ok m"
  shows "where_leasable b (outbox_doc_from_message m) \<longleftrightarrow> eligible t now worker m"
  using assms
  by (cases "om_status m"; cases "om_lease_until m")
    (simp_all add: where_leasable_def eligible_def outbox_doc_from_message_def message_ok_def eq_commute[of t])

text \<open>The rows of a well-formed table, as messages.\<close>

lemma docs_ok_row:
  assumes "outbox_docs_ok K n rows" "rows rid = Some doc"
  shows "\<exists>m. doc = outbox_doc_from_message m \<and> rid = outbox_rid (om_tenant m) (om_id m) \<and>
    (om_tenant m, om_id m) \<in> K \<and> message_ok m \<and> outbox_view rows (om_tenant m, om_id m) = Some m"
proof -
  obtain m where m: "doc = outbox_doc_from_message m" "rid = outbox_rid (om_tenant m) (om_id m)"
    "(om_tenant m, om_id m) \<in> K" "message_ok m"
    using assms unfolding outbox_docs_ok_def message_row_def by blast
  then have "outbox_view rows (om_tenant m, om_id m) = Some m"
    using assms(2) by (simp add: outbox_view_def)
  with m show ?thesis by blast
qed

lemma docs_ok_view:
  assumes "outbox_docs_ok K n rows" "outbox_view rows (t, i) = Some m"
  shows "(t, i) \<in> K"
proof -
  obtain doc where doc: "rows (outbox_rid t i) = Some doc"
    using assms(2) by (auto simp: outbox_view_def split: option.splits)
  then obtain m' where m': "doc = outbox_doc_from_message m'" "(om_tenant m', om_id m') \<in> K"
    using docs_ok_row[OF assms(1)] by blast
  then have "outbox_view rows (t, i) = (if (om_tenant m', om_id m') = (t, i) then Some m' else None)"
    using doc by (simp add: outbox_view_def)
  with assms(2) m'(2) show ?thesis
    by (simp split: if_splits)
qed

lemma docs_ok_finite:
  assumes "outbox_docs_ok K n rows" "finite K"
  shows "finite (dom rows)"
proof (rule finite_subset)
  show "dom rows \<subseteq> (\<lambda>(t, i). outbox_rid t i) ` K"
    using docs_ok_row[OF assms(1)] by force
qed (simp add: assms(2))

text \<open>
  What the SELECT hands to the loop: distinct messages of the table, all of them eligible, and none
  only where no message is.
\<close>

definition lease_candidates_ok ::
  "tenant_id \<Rightarrow> int \<Rightarrow> string \<Rightarrow> outbox \<Rightarrow> outbox_message list \<Rightarrow> bool" where
  "lease_candidates_ok t now worker o' cands \<longleftrightarrow>
     distinct (map om_id cands) \<and>
     (\<forall>m\<in>set cands. o' (t, om_id m) = Some m \<and> eligible t now worker m)"

lemma candidate_message:
  assumes "outbox_docs_ok K n rows" "rid \<in> candidate_rows b rows"
    and "b_int ''now'' b = Some now" "b_str ''worker'' b = Some worker" "b_str ''tenant'' b = Some t"
  shows "\<exists>m. rows rid = Some (outbox_doc_from_message m) \<and> rid = outbox_rid t (om_id m) \<and>
    outbox_view rows (t, om_id m) = Some m \<and> eligible t now worker m"
proof -
  obtain doc where doc: "rows rid = Some doc" "where_leasable b doc"
    using assms(2) by (auto simp: candidate_rows_def)
  from docs_ok_row[OF assms(1) doc(1)] obtain m where m: "doc = outbox_doc_from_message m"
    "rid = outbox_rid (om_tenant m) (om_id m)" "message_ok m" "outbox_view rows (om_tenant m, om_id m) = Some m"
    by blast
  then have el: "eligible t now worker m"
    using doc(2) where_leasable_message[OF assms(3-5)] by simp
  then have "om_tenant m = t"
    by (simp add: eligible_def)
  with m doc(1) el show ?thesis by blast
qed

lemma eligible_candidate:
  assumes "outbox_docs_ok K n rows" "outbox_view rows (t, i) = Some m" "eligible t now worker m"
    and "b_int ''now'' b = Some now" "b_str ''worker'' b = Some worker" "b_str ''tenant'' b = Some t"
  shows "outbox_rid t i \<in> candidate_rows b rows"
proof -
  note present = outbox_view_present[OF assms(1) docs_ok_view[OF assms(1,2)] assms(2)]
  then have "where_leasable b (outbox_doc_from_message m)"
    using where_leasable_message[OF assms(4-6)] assms(3) by blast
  with present(1) show ?thesis
    by (simp add: candidate_rows_def)
qed

lemma select_candidates_run:
  assumes sel: "selects_candidates x docs" and ok: "outbox_docs_ok K n (docs (sd_db s))" "finite K"
    and now: "in_i64 now" and limit: "0 < limit" "limit < 2 ^ 64"
  defines "o' \<equiv> outbox_view (docs (sd_db s))"
  shows "\<exists>s' r. select_candidates x t now worker limit s = (s', r) \<and> docs (sd_db s') = docs (sd_db s) \<and>
    (case r of Inl e \<Rightarrow> True
     | Inr ds \<Rightarrow> \<exists>cands. ds = map outbox_doc_from_message cands \<and> lease_candidates_ok t now worker o' cands \<and>
         (cands = [] \<longrightarrow> (\<forall>i m. o' (t, i) = Some m \<longrightarrow> \<not> eligible t now worker m)))"
proof -
  let ?p = "select_params t now worker limit" and ?rows = "docs (sd_db s)"
  note b = select_bindings(3)[OF now, where t = t and worker = worker and limit = limit]
    select_bindings(4,5)[where t = t and now = now and worker = worker and limit = limit]
  note scoped = select_bindings(1)[where t = t and now = now and worker = worker and limit = limit]
  have size: "unat (of_nat limit :: 64 word) = limit"
    using limit(2) by (simp add: unat_of_nat take_bit_nat_eq_self)
  note answer = sel[unfolded selects_candidates_def, rule_format, OF docs_ok_finite[OF ok]
    select_bindings(2)[where t = t and now = now and worker = worker and limit = limit], unfolded size]
  obtain d' where d': "docs d' = ?rows"
    and cases: "(\<exists>e. db_refuses (xd_ops x) SELECT_CANDIDATES (bound ?p) (sd_db s) d' e) \<or>
      (\<exists>rids v. db_answers (xd_ops x) SELECT_CANDIDATES (bound ?p) (sd_db s) d' v \<and> distinct rids \<and>
         set rids \<subseteq> candidate_rows (bound ?p) ?rows \<and>
         (length rids < limit \<longrightarrow> set rids = candidate_rows (bound ?p) ?rows) \<and>
         answers_rows (de_outbox_doc (xd_serde x)) (map (\<lambda>rid. the (?rows rid)) rids) v)"
    using answer by blast
  show ?thesis
  proof (cases "\<exists>e. db_refuses (xd_ops x) SELECT_CANDIDATES (bound ?p) (sd_db s) d' e")
    case True
    then obtain e where "db_refuses (xd_ops x) SELECT_CANDIDATES (bound ?p) (sd_db s) d' e" ..
    then obtain s' where "xquery x SELECT_CANDIDATES ?p s = (s', Err (map_storage_error e))" "sd_db s' = d'"
      using tx_query_json_err[OF scoped] by metis
    then show ?thesis
      using d' by (simp add: select_candidates_def Let_def and_do_def del: jinsert.simps)
  next
    case False
    with cases obtain rids v where rids: "distinct rids" "set rids \<subseteq> candidate_rows (bound ?p) ?rows"
        "length rids < limit \<longrightarrow> set rids = candidate_rows (bound ?p) ?rows"
      and ans: "db_answers (xd_ops x) SELECT_CANDIDATES (bound ?p) (sd_db s) d' v"
        "answers_rows (de_outbox_doc (xd_serde x)) (map (\<lambda>rid. the (?rows rid)) rids) v"
      by blast
    obtain s' where run: "xquery x SELECT_CANDIDATES ?p s = (s', Ok v)" "sd_db s' = d'"
      using tx_query_json_ok[OF scoped ans(1)] by metis
    define msg where "msg rid = (case outbox_message_from_doc (the (?rows rid)) of Inr m \<Rightarrow> m)" for rid
    have msg: "?rows rid = Some (outbox_doc_from_message (msg rid))" "rid = outbox_rid t (om_id (msg rid))"
        "o' (t, om_id (msg rid)) = Some (msg rid)" "eligible t now worker (msg rid)" if "rid \<in> set rids" for rid
    proof -
      have "rid \<in> candidate_rows (bound ?p) ?rows"
        using that rids(2) by blast
      from candidate_message[OF ok(1) this b] obtain m where m: "?rows rid = Some (outbox_doc_from_message m)"
        "rid = outbox_rid t (om_id m)" "outbox_view ?rows (t, om_id m) = Some m" "eligible t now worker m"
        by blast
      then have "msg rid = m"
        by (simp add: msg_def)
      with m show "?rows rid = Some (outbox_doc_from_message (msg rid))" "rid = outbox_rid t (om_id (msg rid))"
        "o' (t, om_id (msg rid)) = Some (msg rid)" "eligible t now worker (msg rid)"
        unfolding o'_def by simp_all
    qed
    define ms where "ms = map msg rids"
    have "map (outbox_rid t) (map om_id (map msg rids)) = rids"
      using msg(2) by (simp add: map_idI comp_def)
    then have distinct: "distinct (map om_id (map msg rids))"
      using rids(1) distinct_map unfolding ms_def by metis
    have docs: "map (\<lambda>rid. the (?rows rid)) rids = map outbox_doc_from_message ms"
      using msg(1) by (simp add: ms_def)
    have result: "select_candidates x t now worker limit s = (s', Ok (map outbox_doc_from_message ms))"
      using run(1) decode_vec_answer[OF ans(2), of "''outbox select''"]
      by (simp add: select_candidates_def Let_def and_do_def docs del: jinsert.simps map_map)
    have "lease_candidates_ok t now worker o' ms"
      using msg distinct by (auto simp: lease_candidates_ok_def ms_def)
    moreover have "\<not> eligible t now worker m" if "ms = []" "o' (t, i) = Some m" for i m
      using eligible_candidate[OF ok(1) that(2)[unfolded o'_def] _ b] rids(3) limit(1) that(1) by (auto simp: ms_def)
    ultimately show ?thesis
      using run(2) d' result by (intro exI[of _ s'] exI[of _ "Ok (map outbox_doc_from_message ms)"]) auto
  qed
qed

text \<open>
  The loop leases the first candidate and goes on until the batch is full; with grouping it
  takes one candidate of a dispatch key, whether its lease is granted or not.
\<close>

lemma lease_all_Cons:
  assumes "o' (t, om_id c) = Some c" "om_id c \<notin> om_id ` set sel"
  shows "lease_all t u w sel (o'((t, om_id c) \<mapsto> mark_leased u w c)) = lease_all t u w (c # sel) o'"
  using assms by (auto simp: lease_all_def fun_eq_iff)

lemma lease_candidates_ok_Cons:
  assumes "lease_candidates_ok t now w o' (c # cands)"
  shows "lease_candidates_ok t now w (o'((t, om_id c) \<mapsto> m)) cands" "lease_candidates_ok t now w o' cands"
    "o' (t, om_id c) = Some c" "eligible t now w c"
proof -
  have dist: "distinct (om_id c # map om_id cands)" and all: "\<And>m'. m' \<in> set (c # cands) \<Longrightarrow> o' (t, om_id m') = Some m'"
    "\<And>m'. m' \<in> set (c # cands) \<Longrightarrow> eligible t now w m'"
    using assms unfolding lease_candidates_ok_def list.map by blast+
  have other: "om_id m' \<noteq> om_id c" if "m' \<in> set cands" for m'
    using dist imageI[OF that, of om_id] unfolding distinct.simps set_map by metis
  show "lease_candidates_ok t now w (o'((t, om_id c) \<mapsto> m)) cands"
    using dist all other by (simp add: lease_candidates_ok_def)
  show "lease_candidates_ok t now w o' cands" "o' (t, om_id c) = Some c" "eligible t now w c"
    using dist all by (simp_all add: lease_candidates_ok_def)
qed

definition lease_result ::
  "tenant_id \<Rightarrow> nat \<Rightarrow> bool \<Rightarrow> string set \<Rightarrow> nat \<Rightarrow> outbox_message list \<Rightarrow> outbox_message list \<Rightarrow> bool" where
  "lease_result t batch grp seen taken cands sel \<longleftrightarrow>
     subseq sel cands \<and> length sel \<le> max 1 (batch - taken) \<and>
     (grp \<longrightarrow> distinct (List.map_filter om_dispatch_key sel) \<and> set (List.map_filter om_dispatch_key sel) \<inter> seen = {})"

lemma lease_result_skip:
  "lease_result t batch grp seen taken cands sel \<Longrightarrow> lease_result t batch grp seen taken (c # cands) sel"
  unfolding lease_result_def by auto

lemma lease_result_take:
  assumes "lease_result t batch grp
      (if grp then (case om_dispatch_key c of Some k \<Rightarrow> insert k seen | None \<Rightarrow> seen) else seen) (Suc taken) cands sel"
    and "grp \<longrightarrow> (\<forall>k. om_dispatch_key c = Some k \<longrightarrow> k \<notin> seen)" "Suc taken < batch"
  shows "lease_result t batch grp seen taken (c # cands) (c # sel)"
  using assms unfolding lease_result_def by (cases grp) (auto simp: List.map_filter_simps split: option.splits)

lemma lease_candidates_run:
  fixes lease_ms :: int
  assumes stmts: "outbox_statements x docs" and now: "in_i64 now"
    and ok: "outbox_docs_ok K n (docs (sd_db s))"
    and cands: "lease_candidates_ok t now worker (outbox_view (docs (sd_db s))) cands"
  defines "u \<equiv> lease_deadline now lease_ms"
  shows "\<exists>s' sel. lease_candidates x t now lease_ms batch worker grp (map outbox_doc_from_message cands) selected seen s =
      (s', Ok (selected @ map (mark_leased u worker) sel)) \<and>
    lease_result t batch grp seen (length selected) cands sel \<and>
    (cands \<noteq> [] \<and> seen = {} \<longrightarrow> sel \<noteq> []) \<and> outbox_docs_ok K n (docs (sd_db s')) \<and>
    outbox_view (docs (sd_db s')) = lease_all t u worker sel (outbox_view (docs (sd_db s)))"
  using ok cands
proof (induction cands arbitrary: s selected seen)
  case Nil
  then show ?case
    by (auto simp: lease_result_def lease_all_def fun_eq_iff List.map_filter_simps)
next
  case (Cons c cands)
  let ?o = "outbox_view (docs (sd_db s))" and ?doc = "outbox_doc_from_message c"
  note c = lease_candidates_ok_Cons[OF Cons.prems(2)]
  have key [simp]: "od_dispatch_key ?doc = om_dispatch_key c"
    by (simp add: outbox_doc_from_message_def)
  show ?case
  proof (cases "grp \<and> (\<exists>k\<in>seen. om_dispatch_key c = Some k)")
    case True
    then obtain s' sel where rest: "lease_candidates x t now lease_ms batch worker grp
          (map outbox_doc_from_message cands) selected seen s = (s', Ok (selected @ map (mark_leased u worker) sel))"
        "lease_result t batch grp seen (length selected) cands sel" "outbox_docs_ok K n (docs (sd_db s'))"
        "outbox_view (docs (sd_db s')) = lease_all t u worker sel ?o"
      using Cons.IH[OF Cons.prems(1) c(2), of selected seen] by blast
    with True lease_result_skip[OF rest(2)] show ?thesis
      by (intro exI[of _ s'] exI[of _ sel]) auto
  next
    case False
    define seen' where "seen' = (if grp then (case om_dispatch_key c of Some k \<Rightarrow> insert k seen | None \<Rightarrow> seen) else seen)"
    let ?a = "\<lparr>la_tenant = t, la_id = om_id c, la_doc = ?doc, la_now = now, la_until = u, la_worker = worker\<rparr>"
    have K: "(t, om_id c) \<in> K"
      by (rule docs_ok_view[OF Cons.prems(1) c(3)])
    have ten: "om_tenant c = t"
      using c(4) by (simp add: eligible_def)
    have a: "attempt_ok K ?a"
      using K now ten by (simp add: attempt_ok_def outbox_doc_from_message_def u_def lease_deadline_def i64_add_def)
    have grants: "attempt_grants ?a ?o" and step: "attempt_step ?a ?o = ?o((t, om_id c) \<mapsto> mark_leased u worker c)"
      using c(3,4) by (simp_all add: attempt_grants_def attempt_step_def)
    obtain s1 where s1: "try_lease x t ?doc now u worker s = (s1, Ok (Some (outbox_doc_from_message (mark_leased u worker c))))"
        "outbox_docs_ok K n (docs (sd_db s1))" "outbox_view (docs (sd_db s1)) = ?o((t, om_id c) \<mapsto> mark_leased u worker c)"
      using try_lease_run[OF stmts Cons.prems(1) a] grants step by auto
    have run: "lease_candidates x t now lease_ms batch worker grp (map outbox_doc_from_message (c # cands)) selected seen s =
        (if length selected + 1 \<ge> batch then (s1, Ok (selected @ [mark_leased u worker c]))
         else lease_candidates x t now lease_ms batch worker grp (map outbox_doc_from_message cands)
           (selected @ [mark_leased u worker c]) seen' s1)"
    proof -
      have open_key: "\<not> (grp \<and> (case om_dispatch_key c of Some k \<Rightarrow> k \<in> seen | None \<Rightarrow> False))"
        using False by (cases "om_dispatch_key c") simp_all
      show ?thesis
        by (simp only: list.map lease_candidates.simps(2) key open_key if_False seen'_def[symmetric] Let_def
            u_def[unfolded lease_deadline_def, symmetric] s1(1) and_do_simps option.case outbox_doc_message and_then_simps
            length_append list.size add_0 Suc_eq_plus1)
    qed
    have fresh: "om_id c \<notin> om_id ` set sel" if "subseq sel cands" for sel
      proof -
      show ?thesis
        using Cons.prems(2) image_mono[OF subseq_set[OF that], of om_id]
        unfolding lease_candidates_ok_def list.map distinct.simps set_map by blast
    qed
    show ?thesis
    proof (cases "length selected + 1 \<ge> batch")
      case True
      have "lease_result t batch grp seen (length selected) (c # cands) [c]"
        using False True by (auto simp: lease_result_def List.map_filter_simps split: option.splits)
      with True run s1 lease_all_Cons[where sel = "[]" and o' = ?o, OF c(3)] show ?thesis
        by (intro exI[of _ s1] exI[of _ "[c]"]) (simp add: lease_all_def)
    next
      case more: False
      have "lease_candidates_ok t now worker (outbox_view (docs (sd_db s1))) cands"
        using c(1) s1(3) by simp
      from Cons.IH[OF s1(2) this, of "selected @ [mark_leased u worker c]" seen'] obtain s' sel where rest:
          "lease_candidates x t now lease_ms batch worker grp (map outbox_doc_from_message cands)
             (selected @ [mark_leased u worker c]) seen' s1 =
           (s', Ok ((selected @ [mark_leased u worker c]) @ map (mark_leased u worker) sel))"
          "lease_result t batch grp seen' (Suc (length selected)) cands sel" "outbox_docs_ok K n (docs (sd_db s'))"
          "outbox_view (docs (sd_db s')) = lease_all t u worker sel (outbox_view (docs (sd_db s1)))"
        by auto
      have "lease_result t batch grp seen (length selected) (c # cands) (c # sel)"
        by (rule lease_result_take[OF rest(2)[unfolded seen'_def]]) (use False more in auto)
      moreover have "subseq sel cands"
        using rest(2) by (simp add: lease_result_def)
      ultimately show ?thesis
        using more run rest lease_all_Cons[where o' = ?o, OF c(3) fresh] s1(3)
        by (intro exI[of _ s'] exI[of _ "c # sel"]) simp
    qed
  qed
qed

text \<open>The whole batch obeys the lease contract of the outbox, or fails and leaves the messages alone.\<close>

lemma sq_lease_batch_run:
  assumes stmts: "outbox_statements x docs" "selects_candidates x docs"
    and ok: "outbox_docs_ok K n (docs (sd_db s))" "finite K"
    and now: "in_i64 now" and batch: "0 < batch" "batch < 2 ^ 64"
    and run: "sq_lease_batch x t now lease_ms batch worker grp s = (s', r)"
  defines "u \<equiv> lease_deadline now lease_ms" and "o' \<equiv> outbox_view (docs (sd_db s))"
  shows "outbox_docs_ok K n (docs (sd_db s')) \<and>
    is_ok r = is_ok (snd (select_candidates x t now worker (max (batch * 4 mod 2 ^ 64) batch) s)) \<and>
    (case r of
       Inl e \<Rightarrow> outbox_view (docs (sd_db s')) = o'
     | Inr ms \<Rightarrow> \<exists>sel. ms = map (mark_leased u worker) sel \<and> lease_choice t now batch worker grp o' sel \<and>
         outbox_view (docs (sd_db s')) = lease_all t u worker sel o')"
proof -
  let ?limit = "max (batch * 4 mod 2 ^ 64) batch"
  have limit: "0 < ?limit" "?limit < 2 ^ 64"
    using batch by simp_all
  obtain s1 r1 where sel: "select_candidates x t now worker ?limit s = (s1, r1)" "docs (sd_db s1) = docs (sd_db s)"
    and cands: "case r1 of Inl e \<Rightarrow> True
     | Inr ds \<Rightarrow> \<exists>cands. ds = map outbox_doc_from_message cands \<and> lease_candidates_ok t now worker o' cands \<and>
         (cands = [] \<longrightarrow> (\<forall>i m. o' (t, i) = Some m \<longrightarrow> \<not> eligible t now worker m))"
    using select_candidates_run[OF stmts(2) ok now limit] unfolding o'_def by blast
  show ?thesis
  proof (cases r1)
    case (Inl e)
    then have "s' = s1" "r = Err e"
      using run sel(1) by (simp_all add: sq_lease_batch_def)
    then show ?thesis
      using ok(1) sel Inl by (simp add: o'_def)
  next
    case (Inr ds)
    then obtain ms where ms: "ds = map outbox_doc_from_message ms" "lease_candidates_ok t now worker o' ms"
        "ms = [] \<longrightarrow> (\<forall>i m. o' (t, i) = Some m \<longrightarrow> \<not> eligible t now worker m)"
      using cands by auto
    have ok1: "outbox_docs_ok K n (docs (sd_db s1))" and ms1: "lease_candidates_ok t now worker (outbox_view (docs (sd_db s1))) ms"
      using ok(1) ms(2) sel(2) by (simp_all add: o'_def)
    from lease_candidates_run[OF stmts(1) now ok1 ms1, of lease_ms batch grp "[]" "{}"]
    obtain s2 sel' where loop: "lease_candidates x t now lease_ms batch worker grp ds [] {} s1 = (s2, Ok (map (mark_leased u worker) sel'))"
        "lease_result t batch grp {} 0 ms sel'" "ms \<noteq> [] \<longrightarrow> sel' \<noteq> []" "outbox_docs_ok K n (docs (sd_db s2))"
        "outbox_view (docs (sd_db s2)) = lease_all t u worker sel' o'"
      by (auto simp: ms(1) u_def o'_def sel(2))
    have done': "s' = s2" "r = Ok (map (mark_leased u worker) sel')"
      using run sel(1) loop(1) by (simp_all add: sq_lease_batch_def Inr)
    have sub: "subseq sel' ms"
      using loop(2) by (simp add: lease_result_def)
    have "lease_choice t now batch worker grp o' sel'"
      unfolding lease_choice_def
    proof (intro conjI)
      show "\<forall>m\<in>set sel'. o' (t, om_id m) = Some m \<and> eligible t now worker m"
        using subseq_set[OF sub] ms(2) unfolding lease_candidates_ok_def by blast
      show "distinct (map om_id sel')"
        using subseq_distinct[OF subseq_map[OF sub]] ms(2) unfolding lease_candidates_ok_def by blast
      show "sel' = [] \<longrightarrow> (\<forall>i m. o' (t, i) = Some m \<longrightarrow> \<not> eligible t now worker m)"
        using loop(3) ms(3) by blast
    qed (use loop(2) in \<open>simp_all add: lease_result_def\<close>)
    then show ?thesis
      using done' loop(4,5) sel(1) Inr by auto
  qed
qed

section \<open>The dispatcher over the database\<close>

text \<open>
  The world of a dispatcher over \<open>SurrealTxStore\<close>: the store with its metrics, the budgets of the guard and
  the messages handed to the transport.  The parts of \<open>dispatch_env\<close> are those of the in-memory
  dispatcher, less the order of the hash map.
\<close>

record 'd sd_world =
  sw_tx :: "'d stx_world"
  sw_budgets :: budgets
  sw_sent :: "outbox_message list"

definition on_stx :: "('d stx_world \<Rightarrow> 'd stx_world \<times> 'a) \<Rightarrow> 'd sd_world \<Rightarrow> 'd sd_world \<times> 'a" where
  "on_stx f w = (let (s, r) = f (sw_tx w) in (w\<lparr>sw_tx := s\<rparr>, r))"

definition on_sw_budgets :: "(budgets \<Rightarrow> budgets \<times> 'a) \<Rightarrow> 'd sd_world \<Rightarrow> 'd sd_world \<times> 'a" where
  "on_sw_budgets f w = (let (s, r) = f (sw_budgets w) in (w\<lparr>sw_budgets := s\<rparr>, r))"

definition surreal_dispatcher :: "('d, 'r) surreal_tx_store \<Rightarrow> dispatch_env \<Rightarrow> 'd sd_world dispatcher" where
  "surreal_dispatcher st e =
     \<lparr>d_send = (\<lambda>m w. (w\<lparr>sw_sent := sw_sent w @ [m]\<rparr>, de_answer e m)),
      d_lease_batch = (\<lambda>t now lms b worker grp. on_stx (stx_lease_batch st t now lms b worker grp)),
      d_ack_done = (\<lambda>t i. on_stx (stx_ack_done st (de_clock e) t i)),
      d_nack_backoff = (\<lambda>t i nb err. on_stx (stx_nack_backoff st (de_clock e) t i nb err)),
      d_dead_letter = (\<lambda>t i err. on_stx (stx_dead_letter st (de_clock e) (de_clock e) t i err)),
      d_dead_push = (if de_use_dead_store e then Some (\<lambda>l. on_stx (stx_dead_push st l)) else None),
      d_metric = (\<lambda>ev w. w\<lparr>sw_tx := stx_emit ev (sw_tx w)\<rparr>),
      d_qos_attempt = (\<lambda>t m. on_sw_budgets (on_dispatch_attempt (de_guard e) (de_clock e) t m)),
      d_qos_result = (\<lambda>t m ok. on_sw_budgets (on_dispatch_result (de_guard e) t m ok)),
      d_worker_id = de_worker_id e,
      d_max_attempts = oc_max_attempts (tc_outbox (xt_config st)),
      d_lease_ms = oc_lease_ms (tc_outbox (xt_config st)),
      d_batch = oc_batch (tc_outbox (xt_config st)),
      d_next_after = de_next_after e,
      d_group_by_dispatch_key = oc_group_by_dispatch_key (tc_outbox (xt_config st))\<rparr>"

text \<open>
  The outbox in the database, and what the dispatcher needs of it: the database runs the statements
  as SurrealQL says, the table is well formed with room for \<open>n\<close> more attempts, the backoff's dates are
  \<open>i64\<close> and the batch is a positive \<open>usize\<close>.
\<close>

definition sw_outbox :: "('d, outbox_doc) docs \<Rightarrow> 'd sd_world \<Rightarrow> outbox" where
  "sw_outbox docs w = outbox_view (docs (sd_db (xw_store (sw_tx w))))"

definition surreal_inv ::
  "('d, 'r) surreal_tx_store \<Rightarrow> dispatch_env \<Rightarrow> ('d, outbox_doc) docs \<Rightarrow> (tenant_id \<times> id) set \<Rightarrow> nat \<Rightarrow> 'd sd_world \<Rightarrow> bool" where
  "surreal_inv st e docs K n w \<longleftrightarrow>
     outbox_statements (xt_db st) docs \<and> selects_candidates (xt_db st) docs \<and> spares_outbox (xt_db st) docs \<and>
     finite K \<and> (\<forall>now a. in_i64 (de_next_after e now a)) \<and>
     0 < oc_batch (tc_outbox (xt_config st)) \<and> oc_batch (tc_outbox (xt_config st)) < 2 ^ 64 \<and>
     outbox_docs_ok K n (docs (sd_db (xw_store (sw_tx w))))"

lemma surreal_inv_key:
  assumes "surreal_inv st e docs K n w" "sw_outbox docs w k = Some m"
  shows "k \<in> K"
proof -
  have "outbox_docs_ok K n (docs (sd_db (xw_store (sw_tx w))))"
    using assms(1) by (simp add: surreal_inv_def)
  from docs_ok_view[OF this, of "fst k" "snd k" m] assms(2) show ?thesis
    by (simp add: sw_outbox_def)
qed

lemma sq_step_world:
  assumes inv: "surreal_inv st e docs K (Suc n) w" and found: "sw_outbox docs w (sq_key op) = Some m"
    and ints: "sq_ints_ok op"
    and next_def: "xw_store (sw_tx w') = sq_step (xt_db st) now op (xw_store (sw_tx w))"
  shows "surreal_inv st e docs K n w' \<and> sw_outbox docs w' = mem_outbox_step now op (sw_outbox docs w)"
  using inv outbox_step_simulates[where x = "xt_db st" and op = op and now = now and s = "xw_store (sw_tx w)" and docs = docs,
      OF _ _ surreal_inv_key[OF inv found] ints, of n]
  by (simp add: surreal_inv_def sw_outbox_def next_def)

lemma sq_step_query_ok:
  assumes inv: "surreal_inv st e docs K (Suc n) w" and found: "sw_outbox docs w (sq_key op) = Some m"
    and ints: "sq_ints_ok op" and upd: "\<not> enqueues op"
  shows "is_ok (snd (xquery (xt_db st) (sq_stmt op) (sq_bound now op) (xw_store (sw_tx w))))"
  using inv sq_step_query[where x = "xt_db st" and docs = docs, OF _ _ surreal_inv_key[OF inv found] ints upd,
      of n "xw_store (sw_tx w)" now]
  by (fastforce simp: surreal_inv_def)

lemma sq_dead_push_docs:
  assumes "spares_outbox x docs"
  shows "docs (sd_db (fst (sq_dead_push x l s))) = docs (sd_db s)"
proof -
  have frame: "docs (sd_db (fst (xquery x UPSERT_RECORD params s))) = docs (sd_db s)"
    if "scoped t params" "map_of params ''table'' = Some (JStr DEAD_TABLE)" for t params
  proof -
    note scoped = that(1) and table = that(2)
    obtain table kind where "extract_meta params (xd_strict x) = Ok (t, table, kind)" "bind_tenant params t = Ok params"
      using session_meta[OF scoped] by blast
    moreover have "docs (fst (db_query (xd_ops x) UPSERT_RECORD (bound params) (sd_db s))) = docs (sd_db s)"
      using assms table by (simp add: spares_outbox_def bound_str[OF scoped] starts_with_def)
    ultimately show ?thesis
      by (simp add: tx_query_json_def session_query_json_def run_raw_def record_request_def bound_def Let_def
          and_do_def split_beta split: sum.splits)
  qed
  have args: "docs (sd_db (fst (xquery x UPSERT_RECORD (jinsert ''data'' data (jinsert ''id'' (JStr rid)
      (base_args DEAD_TABLE (dl_tenant l) ''write''))) s))) = docs (sd_db s)" for data rid
    by (rule frame[of "dl_tenant l"]) (simp_all add: base_args_def del: jinsert.simps)
  show ?thesis
    using args by (simp add: sq_dead_push_def and_do_def split_beta del: jinsert.simps split: sum.splits)
qed

lemma stx_lease_run:
  assumes inv: "surreal_inv st e docs K n w" and now: "in_i64 now"
    and run: "p = d_lease_batch (surreal_dispatcher st e) t now lms (oc_batch (tc_outbox (xt_config st))) worker grp w"
  shows "surreal_inv st e docs K n (fst p) \<and>
    (case snd p of
       Inl err \<Rightarrow> sw_outbox docs (fst p) = sw_outbox docs w
     | Inr ms \<Rightarrow> \<exists>sel. ms = map (mark_leased (lease_deadline now lms) worker) sel \<and>
         lease_choice t now (oc_batch (tc_outbox (xt_config st))) worker
           (oc_group_by_dispatch_key (tc_outbox (xt_config st)) \<and> grp) (sw_outbox docs w) sel \<and>
         sw_outbox docs (fst p) = lease_all t (lease_deadline now lms) worker sel (sw_outbox docs w))"
proof -
  let ?G = "oc_group_by_dispatch_key (tc_outbox (xt_config st)) \<and> grp" and ?b = "oc_batch (tc_outbox (xt_config st))"
  obtain s' r where sq: "sq_lease_batch (xt_db st) t now lms ?b worker ?G (xw_store (sw_tx w)) = (s', r)"
    by fastforce
  have G: "(if oc_group_by_dispatch_key (tc_outbox (xt_config st)) then grp else False) = ?G"
    by simp
  have p: "p = (w\<lparr>sw_tx := (sw_tx w)\<lparr>xw_store := s'\<rparr>\<rparr>, r)"
    unfolding run by (simp only: surreal_dispatcher_def dispatcher.simps on_stx_def stx_lease_batch_def Let_def G
        on_surreal_def sq prod.case)
  show ?thesis
    using inv sq_lease_batch_run[where x = "xt_db st" and docs = docs, OF _ _ _ _ now _ _ sq, of K n]
    unfolding surreal_inv_def sw_outbox_def p by (cases r) simp_all
qed

text \<open>The database's outbox keeps the contract of the dispatcher's backend.\<close>

interpretation sq: leasing_backend "surreal_dispatcher st e" "sw_outbox docs" "de_answer e"
    "surreal_inv st e docs K" "\<lambda>now _. in_i64 now" "oc_group_by_dispatch_key (tc_outbox (xt_config st))"
  for st e docs K
proof (unfold_locales, goal_cases)
  case (1 n w)
  then show ?case
    using outbox_docs_ok_less by (auto simp: surreal_inv_def)
next
  case (5 n w t i m)
  let ?op = "SqAck t i" and ?w' = "fst (d_ack_done (surreal_dispatcher st e) t i w)"
  have "xw_store (sw_tx ?w') = sq_step (xt_db st) (de_clock e) ?op (xw_store (sw_tx w))"
    by (simp add: surreal_dispatcher_def on_stx_def stx_ack_done_def on_surreal_def split_beta)
  from sq_step_world[OF 5(1) _ _ this] sq_step_query_ok[OF 5(1), of ?op m "de_clock e"] 5(2) show ?case
    by (auto simp: surreal_dispatcher_def on_stx_def stx_ack_done_def on_surreal_def sq_ack_done_def and_do_def Let_def
        split_beta outbox_op_defs simp del: jinsert.simps split: sum.splits)
next
  case (6 n w t i m nb now a err)
  let ?op = "SqNack t i nb err" and ?w' = "fst (d_nack_backoff (surreal_dispatcher st e) t i nb err w)"
  have ints: "in_i64 nb"
    using 6(1,3) by (simp add: surreal_inv_def surreal_dispatcher_def)
  have "xw_store (sw_tx ?w') = sq_step (xt_db st) (de_clock e) ?op (xw_store (sw_tx w))"
    by (simp add: surreal_dispatcher_def on_stx_def stx_nack_backoff_def on_surreal_def split_beta)
  from sq_step_world[OF 6(1) _ _ this] sq_step_query_ok[OF 6(1), of ?op m "de_clock e"] 6(2) ints show ?case
    by (auto simp: surreal_dispatcher_def on_stx_def stx_nack_backoff_def on_surreal_def sq_nack_backoff_def and_do_def Let_def
        split_beta outbox_op_defs simp del: jinsert.simps split: sum.splits)
next
  case (7 n w t i m err)
  let ?op = "SqDead t i err" and ?w' = "fst (d_dead_letter (surreal_dispatcher st e) t i err w)"
  have "xw_store (sw_tx ?w') = sq_step (xt_db st) (de_clock e) ?op (xw_store (sw_tx w))"
    by (auto simp: surreal_dispatcher_def on_stx_def stx_dead_letter_def on_surreal_def and_do_def Let_def stx_emit_def
        split_beta split: sum.splits dead_letter_payload.splits)
  from sq_step_world[OF 7(1) _ _ this] 7(2) show ?case
    by (auto simp: outbox_op_defs)
next
  case (8 n w push l)
  then show ?case
    by (auto simp: surreal_inv_def sw_outbox_def surreal_dispatcher_def on_stx_def stx_dead_push_def on_surreal_def
        and_do_def Let_def stx_emit_def sq_dead_push_docs split_beta split: if_splits sum.splits dead_letter_payload.splits)
next
  case (15 n w now p t)
  have "p = d_lease_batch (surreal_dispatcher st e) t now (d_lease_ms (surreal_dispatcher st e))
      (oc_batch (tc_outbox (xt_config st))) (d_worker_id (surreal_dispatcher st e))
      (d_group_by_dispatch_key (surreal_dispatcher st e)) w"
    unfolding 15(3) by (simp add: surreal_dispatcher_def)
  from stx_lease_run[OF 15(1,2) this] show ?case
    by (cases "snd p") (simp_all add: surreal_dispatcher_def)
qed (auto simp: surreal_dispatcher_def surreal_inv_def sw_outbox_def on_sw_budgets_def stx_emit_def split_beta)

section \<open>The table database selects\<close>

lemma candidate_list_limit:
  assumes "finite (dom rows)" "json_get ''limit'' b = Some (JNum (PosInt limit))"
  shows "distinct (candidate_list b rows)" "set (candidate_list b rows) \<subseteq> candidate_rows b rows"
    "length (candidate_list b rows) \<le> unat limit"
    "length (candidate_list b rows) < unat limit \<Longrightarrow> set (candidate_list b rows) = candidate_rows b rows"
proof -
  have fin: "finite (candidate_rows b rows)"
    by (rule finite_subset[OF _ assms(1)]) (auto simp: candidate_rows_def)
  then show "distinct (candidate_list b rows)" "set (candidate_list b rows) \<subseteq> candidate_rows b rows"
    "length (candidate_list b rows) \<le> unat limit"
    "length (candidate_list b rows) < unat limit \<Longrightarrow> set (candidate_list b rows) = candidate_rows b rows"
    using set_take_subset[of "unat limit" "sorted_list_of_set (candidate_rows b rows)"]
    by (auto simp: candidate_list_def assms(2) min_def split: if_splits)
qed

lemma demo_selects: "selects_candidates demo_outbox_db (\<lambda>d. d)"
  unfolding selects_candidates_def
proof (intro allI impI)
  fix b and d :: "string \<Rightarrow> outbox_doc option" and limit
  assume hyps: "finite (dom d)" "json_get ''limit'' b = Some (JNum (PosInt limit))"
  let ?rids = "candidate_list b d" and ?x = demo_outbox_db
  let ?docs = "map (\<lambda>rid. the (d rid)) ?rids"
  have query: "db_query (xd_ops ?x) SELECT_CANDIDATES b d = (d, Ok (map demo_ser_outbox ?docs))"
    by (simp add: demo_outbox_db_def table_ops_def table_query_def comp_def)
  have take: "db_take_value (xd_ops ?x) = take_one"
    by (simp add: demo_outbox_db_def table_ops_def)
  have serde: "de_outbox_doc (xd_serde ?x) = demo_de_outbox"
    by (simp add: demo_outbox_db_def demo_serde_def)
  have rows: "list_all2 (\<lambda>row doc. demo_de_outbox row = Ok doc \<and> (\<forall>xs. row \<noteq> JArr xs)) (map demo_ser_outbox docs) docs" for docs
    using demo_roundtrip(3) by (simp add: list_all2_conv_all_nth rows_decode_def)
  have "(\<exists>e. db_refuses (xd_ops ?x) SELECT_CANDIDATES b d d e) \<or>
      (\<exists>v. db_answers (xd_ops ?x) SELECT_CANDIDATES b d d v \<and> answers_rows demo_de_outbox ?docs v)"
  proof (cases "map demo_ser_outbox ?docs")
    case Nil
    then show ?thesis
      using query take rows[of ?docs] by (auto simp: db_answers_def take_one_def answers_rows_def)
  next
    case (Cons row rest)
    then show ?thesis
      using query take rows[of ?docs]
      by (cases rest) (auto simp: db_answers_def db_refuses_def take_one_def answers_rows_def)
  qed
  then show "\<exists>d'. d' = d \<and>
      ((\<exists>e. db_refuses (xd_ops ?x) SELECT_CANDIDATES b d d' e) \<or>
       (\<exists>rids v. db_answers (xd_ops ?x) SELECT_CANDIDATES b d d' v \<and> distinct rids \<and>
          set rids \<subseteq> candidate_rows b d \<and> length rids \<le> unat limit \<and>
          (length rids < unat limit \<longrightarrow> set rids = candidate_rows b d) \<and>
          answers_rows (de_outbox_doc (xd_serde ?x)) (map (\<lambda>rid. the (d rid)) rids) v))"
    unfolding serde using candidate_list_limit[OF hyps] by blast
qed

lemma demo_spares: "spares_outbox demo_outbox_db (\<lambda>d. d)"
  by (simp add: spares_outbox_def demo_outbox_db_def table_ops_def table_query_def statement_defs UPSERT_RECORD_def
      OUTBOX_TABLE_def DEAD_TABLE_def split: option.splits)

section \<open>Properties\<close>

text \<open>
  C5: A dispatcher tick over the SurrealDB outbox.  Where the database runs the statements as SurrealQL
  says, a tick whose lease fails returns that error and leaves every message as it was.  Otherwise it does what
  the in-memory dispatcher does: it has leased a choice of eligible messages, none twice and with grouping none of the
  same dispatch key, it works through them in order, and leaves each message it finished done, dead
  or pending with one more attempt, those behind an error leased to this worker and all others untouched;
  a tick without an error finished its whole batch.  With no budget guard and a transport that takes every
  message it returns without an error.
\<close>

theorem surreal_tick_outcome:
  assumes "surreal_inv st e docs K (max 1 (oc_batch (tc_outbox (xt_config st)))) w" and "in_i64 now"
    and "dispatcher_tick (surreal_dispatcher st e) t now w = (w', r)"
  defines "cfg \<equiv> tc_outbox (xt_config st)"
  defines "leased \<equiv> mark_leased (i64_add now (oc_lease_ms cfg)) (de_worker_id e)"
  shows "case snd (stx_lease_batch st t now (oc_lease_ms cfg) (oc_batch cfg) (de_worker_id e)
      (oc_group_by_dispatch_key cfg) (sw_tx w)) of
    Inl err \<Rightarrow> r = Err err \<and> sw_outbox docs w' = sw_outbox docs w
  | Inr ms \<Rightarrow>
    (\<exists>sel n. lease_choice t now (oc_batch cfg) (de_worker_id e) (oc_group_by_dispatch_key cfg)
        (sw_outbox docs w) sel \<and> n \<le> length sel \<and>
      (\<forall>m\<in>set (take n sel). sw_outbox docs w' (t, om_id m) =
         Some (outcome (oc_max_attempts cfg) (de_next_after e) now (de_answer e (leased m)) (leased m))) \<and>
      (\<forall>m\<in>set (drop n sel). sw_outbox docs w' (t, om_id m) = Some (leased m)) \<and>
      (\<forall>k. k \<notin> (\<lambda>m. (t, om_id m)) ` set sel \<longrightarrow> sw_outbox docs w' k = sw_outbox docs w k) \<and>
      (is_ok r \<longrightarrow> n = length sel) \<and>
      (de_guard e = NoopGuard \<and> (\<forall>m. de_answer e m = Ok ()) \<longrightarrow> is_ok r))"
proof -
  have fields: "d_batch (surreal_dispatcher st e) = oc_batch cfg"
    "d_worker_id (surreal_dispatcher st e) = de_worker_id e"
    "d_lease_ms (surreal_dispatcher st e) = oc_lease_ms cfg"
    "d_max_attempts (surreal_dispatcher st e) = oc_max_attempts cfg"
    "d_next_after (surreal_dispatcher st e) = de_next_after e"
    "d_group_by_dispatch_key (surreal_dispatcher st e) = oc_group_by_dispatch_key cfg"
    by (simp_all add: surreal_dispatcher_def cfg_def)
  have lease: "snd (stx_lease_batch st t now (oc_lease_ms cfg) (oc_batch cfg) (de_worker_id e)
      (oc_group_by_dispatch_key cfg) (sw_tx w)) =
    snd (d_lease_batch (surreal_dispatcher st e) t now (oc_lease_ms cfg) (oc_batch cfg) (de_worker_id e)
      (oc_group_by_dispatch_key cfg) w)"
    by (simp add: surreal_dispatcher_def on_stx_def split_beta)
  note inv = assms(1)[folded cfg_def, folded fields(1)]
  show ?thesis
  proof (cases "snd (stx_lease_batch st t now (oc_lease_ms cfg) (oc_batch cfg) (de_worker_id e)
      (oc_group_by_dispatch_key cfg) (sw_tx w))")
    case (Inl err)
    with sq.tick_lease_fails[OF inv assms(2), of t err] assms(3) show ?thesis
      unfolding fields lease by simp
  next
    case (Inr ms)
    then have ok: "is_ok (snd (d_lease_batch (surreal_dispatcher st e) t now (oc_lease_ms cfg) (oc_batch cfg)
        (de_worker_id e) (oc_group_by_dispatch_key cfg) w))"
      unfolding lease by simp
    have "is_ok r" if "de_guard e = NoopGuard" "\<forall>m. de_answer e m = Ok ()"
      using sq.tick_delivers[OF inv assms(2), of t] ok that assms(3) unfolding fields
      by (simp add: surreal_dispatcher_def on_sw_budgets_def)
    with sq.tick_msgs[OF inv assms(2), of t] ok assms(3) Inr show ?thesis
      unfolding fields lease_deadline_def leased_def[symmetric] by (simp add: cfg_def)
  qed
qed

definition demo_tx_store :: "(string \<Rightarrow> outbox_doc option, json list) surreal_tx_store" where
  "demo_tx_store =
     \<lparr>xt_db = demo_outbox_db, xt_config = tx_config_default, xt_a2a_dead_letter = (\<lambda>_ _ _. Ok ()),
      xt_a2a_replay = (\<lambda>_ _. Ok ())\<rparr>"

definition demo_sd_world :: "(string \<Rightarrow> outbox_doc option) \<Rightarrow> (string \<Rightarrow> outbox_doc option) sd_world" where
  "demo_sd_world rows =
     \<lparr>sw_tx = \<lparr>xw_store = demo_state\<lparr>sd_db := rows\<rparr>, xw_metrics = []\<rparr>, sw_budgets = Map.empty, sw_sent = []\<rparr>"

definition demo_row_message :: "string \<Rightarrow> outbox_message" where
  "demo_row_message i = build_outbox_message 5 5 (demo_new\<lparr>no_id := i\<rparr>)"

lemma demo_row_message [simp]:
  "om_tenant (demo_row_message i) = ''acme''" "om_id (demo_row_message i) = i" "om_attempts (demo_row_message i) = 0"
  "om_status (demo_row_message i) = Pending" "om_not_before (demo_row_message i) = 5"
  "om_worker (demo_row_message i) = None" "om_lease_until (demo_row_message i) = None"
  "message_ok (demo_row_message i)"
  by (simp_all add: demo_row_message_def build_outbox_message_def demo_new_def message_ok_def)

definition demo_rows :: "string list \<Rightarrow> string \<Rightarrow> outbox_doc option" where
  "demo_rows ids = map_of (map (\<lambda>i. (outbox_rid ''acme'' i, outbox_doc_from_message (demo_row_message i))) ids)"

definition demo_keys :: "(tenant_id \<times> id) set" where
  "demo_keys = {''acme''} \<times> {''m1'', ''m2''}"

lemma demo_rows_ok:
  assumes "set ids \<subseteq> {''m1'', ''m2''}" "n < 2 ^ 32"
  shows "outbox_docs_ok demo_keys n (demo_rows ids)"
  unfolding outbox_docs_ok_def
proof (intro conjI allI impI)
  show "inj_on (\<lambda>(t, i). outbox_rid t i) demo_keys"
    by (rule inj_onI) (auto simp: demo_keys_def make_record_id_def)
  fix rid doc assume "demo_rows ids rid = Some doc"
  then obtain i where i: "i \<in> set ids" "rid = outbox_rid ''acme'' i" "doc = outbox_doc_from_message (demo_row_message i)"
    using map_of_SomeD unfolding demo_rows_def by fastforce
  then have "(''acme'', i) \<in> demo_keys"
    using assms(1) by (simp add: demo_keys_def subset_iff)
  then show "message_row demo_keys n rid doc"
    unfolding message_row_def using i assms(2) by (intro exI[of _ "demo_row_message i"]) simp
qed (rule assms(2))

lemma demo_surreal_inv:
  assumes "set ids \<subseteq> {''m1'', ''m2''}" "n < 2 ^ 32"
  shows "surreal_inv demo_tx_store ((demo_env ans)\<lparr>de_next_after := \<lambda>_ _. 0\<rparr>) (\<lambda>d. d) demo_keys n (demo_sd_world (demo_rows ids))"
  using demo_outbox_statements demo_selects demo_spares demo_rows_ok[OF assms]
  by (simp add: surreal_inv_def demo_tx_store_def demo_sd_world_def tx_config_default_def outbox_config_default_def
      in_i64_def demo_keys_def)

text \<open>Its lease succeeds where at most one message is ready, and fails where two are.\<close>

lemma demo_select_ok:
  fixes t worker :: string and limit :: nat
  assumes "in_i64 now" "outbox_docs_ok K n (sd_db s)"
  defines "cands \<equiv> candidate_list (bound (select_params t now worker limit)) (sd_db s)"
  shows "is_ok (snd (select_candidates demo_outbox_db t now worker limit s)) \<longleftrightarrow> length cands \<le> 1"
proof -
  let ?p = "select_params t now worker limit" and ?x = demo_outbox_db
  let ?docs = "map (\<lambda>rid. the (sd_db s rid)) cands"
  have query: "db_query (xd_ops ?x) SELECT_CANDIDATES (bound ?p) (sd_db s) = (sd_db s, Ok (map demo_ser_outbox ?docs))"
    and take: "db_take_value (xd_ops ?x) = take_one" and serde: "de_outbox_doc (xd_serde ?x) = demo_de_outbox"
    by (simp_all add: demo_outbox_db_def demo_serde_def table_ops_def table_query_def comp_def cands_def del: jinsert.simps)
  note run = tx_query_json_ok[OF select_bindings(1)] tx_query_json_err[OF select_bindings(1)]
  show ?thesis
  proof (cases "length cands \<le> 1")
    case True
    then obtain v where v: "take_one (map demo_ser_outbox ?docs) = Ok v" "answers_rows demo_de_outbox ?docs v"
      using demo_roundtrip(3)
      by (cases cands) (auto simp: take_one_def answers_rows_def rows_decode_def)
    then have "db_answers (xd_ops ?x) SELECT_CANDIDATES (bound ?p) (sd_db s) (sd_db s) v"
      using query take by (simp add: db_answers_def)
    then obtain s' where "xquery ?x SELECT_CANDIDATES ?p s = (s', Ok v)"
      using run(1) by metis
    then show ?thesis
      using True decode_vec_answer[OF v(2), of "''outbox select''"]
      by (simp add: select_candidates_def Let_def serde del: jinsert.simps map_map)
  next
    case False
    then obtain e where "take_one (map demo_ser_outbox ?docs) = Err e"
      by (cases cands; cases "tl cands") (auto simp: take_one_def)
    then have "db_refuses (xd_ops ?x) SELECT_CANDIDATES (bound ?p) (sd_db s) (sd_db s) e"
      using query take by (simp add: db_refuses_def)
    then obtain s' where "xquery ?x SELECT_CANDIDATES ?p s = (s', Err (map_storage_error e))"
      using run(2) by metis
    then show ?thesis
      using False by (simp add: select_candidates_def Let_def del: jinsert.simps)
  qed
qed

lemma demo_candidates:
  assumes "in_i64 now" "5 \<le> now" "ids = [''m1''] \<or> ids = [''m1'', ''m2'']" "length ids \<le> limit" "limit < 2 ^ 64"
  shows "length (candidate_list (bound (select_params ''acme'' now worker limit)) (demo_rows ids)) = length ids"
proof -
  let ?b = "bound (select_params ''acme'' now worker limit)"
  note b = select_bindings(3)[OF assms(1), where t = "''acme''" and worker = worker and limit = limit]
    select_bindings(4,5)[where t = "''acme''" and now = now and worker = worker and limit = limit]
  have "where_leasable ?b (outbox_doc_from_message (demo_row_message i))" for i
    unfolding where_leasable_message[OF b demo_row_message(8)] using assms(2) by (simp add: eligible_def)
  then have "candidate_rows ?b (demo_rows ids) = dom (demo_rows ids)"
    unfolding candidate_rows_def demo_rows_def by (fastforce dest: map_of_SomeD)
  also have "\<dots> = outbox_rid ''acme'' ` set ids"
    by (simp add: demo_rows_def dom_map_of_conv_image_fst image_image)
  also have "card (outbox_rid ''acme'' ` set ids) = length ids"
    using assms(3) by (auto simp: make_record_id_def)
  finally have "length (sorted_list_of_set (candidate_rows ?b (demo_rows ids))) = length ids"
    by simp
  moreover have "unat (of_nat limit :: 64 word) = limit"
    using assms(5) by (simp add: unat_of_nat take_bit_nat_eq_self)
  ultimately show ?thesis
    using assms(4) by (simp add: candidate_list_def select_bindings(2) del: jinsert.simps)
qed

definition demo_surreal_env :: dispatch_env where
  "demo_surreal_env = (demo_env (Ok ()))\<lparr>de_next_after := \<lambda>_ _. 0\<rparr>"

definition demo_tick :: "string list \<Rightarrow> (string \<Rightarrow> outbox_doc option) sd_world \<times> unit tx_result" where
  "demo_tick ids = dispatcher_tick (surreal_dispatcher demo_tx_store demo_surreal_env) ''acme'' 5 (demo_sd_world (demo_rows ids))"

lemma demo_settings:
  "oc_batch (tc_outbox (xt_config demo_tx_store)) = 64" "oc_lease_ms (tc_outbox (xt_config demo_tx_store)) = 15000"
  "oc_group_by_dispatch_key (tc_outbox (xt_config demo_tx_store))" "de_worker_id demo_surreal_env = ''w1''"
  "de_guard demo_surreal_env = NoopGuard" "de_answer demo_surreal_env m = Ok ()"
  by (simp_all add: demo_tx_store_def tx_config_default_def outbox_config_default_def demo_surreal_env_def demo_env_def)

lemma demo_inv:
  assumes "ids = [''m1''] \<or> ids = [''m1'', ''m2'']"
  shows "surreal_inv demo_tx_store demo_surreal_env (\<lambda>d. d) demo_keys 64 (demo_sd_world (demo_rows ids))"
  unfolding demo_surreal_env_def by (rule demo_surreal_inv) (use assms in auto)

lemma demo_lease_ok:
  assumes ids: "ids = [''m1''] \<or> ids = [''m1'', ''m2'']"
  shows "is_ok (snd (stx_lease_batch demo_tx_store ''acme'' 5 15000 64 ''w1'' True (sw_tx (demo_sd_world (demo_rows ids)))))
    \<longleftrightarrow> length ids = 1"
proof -
  let ?s = "xw_store (sw_tx (demo_sd_world (demo_rows ids)))"
  have now: "in_i64 5"
    by (simp add: in_i64_def)
  have rows: "sd_db ?s = demo_rows ids"
    by (simp add: demo_sd_world_def)
  have ok: "outbox_docs_ok demo_keys 0 (sd_db ?s)"
    unfolding rows by (rule demo_rows_ok) (use ids in auto)
  obtain s' r where lease: "sq_lease_batch demo_outbox_db ''acme'' 5 15000 64 ''w1'' True ?s = (s', r)"
    by fastforce
  have "finite demo_keys"
    by (simp add: demo_keys_def)
  from sq_lease_batch_run[OF demo_outbox_statements demo_selects ok this now _ _ lease]
  have "is_ok r = is_ok (snd (select_candidates demo_outbox_db ''acme'' 5 ''w1'' 256 ?s))"
    by simp
  also have "\<dots> \<longleftrightarrow> length ids \<le> 1"
    using demo_select_ok[OF now ok] demo_candidates[OF now _ ids, of 256] ids by (auto simp: rows)
  finally show ?thesis
    using lease ids
    by (auto simp: stx_lease_batch_def on_surreal_def demo_tx_store_def tx_config_default_def outbox_config_default_def)
qed

theorem surreal_tick_outcome_witness:
  "snd (demo_tick [''m1'']) = Ok () \<and>
   sw_outbox (\<lambda>d. d) (fst (demo_tick [''m1''])) (''acme'', ''m1'') =
     Some (mark_done (mark_leased 15005 ''w1'' (demo_row_message ''m1''))) \<and>
   \<not> is_ok (snd (demo_tick [''m1'', ''m2''])) \<and>
   sw_outbox (\<lambda>d. d) (fst (demo_tick [''m1'', ''m2''])) = sw_outbox (\<lambda>d. d) (demo_sd_world (demo_rows [''m1'', ''m2'']))"
proof -
  have now: "in_i64 5" by (simp add: in_i64_def)
  have add: "i64_add 5 15000 = 15005"
    by (simp add: i64_add_exact in_i64_def)
  let ?lease = "\<lambda>ids. snd (stx_lease_batch demo_tx_store ''acme'' 5 15000 64 ''w1'' True (sw_tx (demo_sd_world (demo_rows ids))))"
  have inv: "surreal_inv demo_tx_store demo_surreal_env (\<lambda>d. d) demo_keys
      (max 1 (oc_batch (tc_outbox (xt_config demo_tx_store)))) (demo_sd_world (demo_rows ids))"
    if "ids = [''m1''] \<or> ids = [''m1'', ''m2'']" for ids
    using demo_inv[OF that] by (simp add: demo_settings(1))
  have view: "sw_outbox (\<lambda>d. d) (demo_sd_world (demo_rows [''m1''])) =
      (\<lambda>k. if k = (''acme'', ''m1'') then Some (demo_row_message ''m1'') else None)"
    by (auto simp: sw_outbox_def outbox_view_def demo_sd_world_def demo_rows_def fun_eq_iff split: option.splits)
  obtain w1 r1 where t1: "demo_tick [''m1''] = (w1, r1)" by fastforce
  obtain ms where ms: "?lease [''m1''] = Ok ms"
    using demo_lease_ok[of "[''m1'']"] by (cases "?lease [''m1'']") auto
  obtain sel n where one: "lease_choice ''acme'' 5 64 ''w1'' True (sw_outbox (\<lambda>d. d) (demo_sd_world (demo_rows [''m1'']))) sel"
      "\<forall>m\<in>set (take n sel). sw_outbox (\<lambda>d. d) w1 (''acme'', om_id m) = Some (mark_done (mark_leased 15005 ''w1'' m))"
      "n = length sel" "is_ok r1"
    using surreal_tick_outcome[OF inv now t1[unfolded demo_tick_def]] ms
    by (auto simp: demo_settings add outcome_def)
  have "eligible ''acme'' 5 ''w1'' (demo_row_message ''m1'')"
    by (simp add: eligible_def)
  with one(1) have "sel \<noteq> []" "\<forall>m\<in>set sel. m = demo_row_message ''m1''"
    unfolding lease_choice_def view by (force split: if_splits)+
  then have "demo_row_message ''m1'' \<in> set (take n sel)"
    by (cases sel) (auto simp: one(3))
  with one(2,4) have "r1 = Ok ()" "sw_outbox (\<lambda>d. d) w1 (''acme'', ''m1'') = Some (mark_done (mark_leased 15005 ''w1'' (demo_row_message ''m1'')))"
    by (cases r1; force)+
  moreover obtain w2 r2 where t2: "demo_tick [''m1'', ''m2''] = (w2, r2)" by fastforce
  moreover obtain err where "?lease [''m1'', ''m2''] = Err err"
    using demo_lease_ok[of "[''m1'', ''m2'']"] by (cases "?lease [''m1'', ''m2'']") auto
  then have "r2 = Err err" "sw_outbox (\<lambda>d. d) w2 = sw_outbox (\<lambda>d. d) (demo_sd_world (demo_rows [''m1'', ''m2'']))"
    using surreal_tick_outcome[OF inv now t2[unfolded demo_tick_def]] by (simp_all add: demo_settings)
  ultimately show ?thesis
    using t1 by simp
qed

end
