(* ===== verification/TxSurrealIdempo.thy ===== *)
theory TxSurrealIdempo
  imports TxSurrealProps
begin

text \<open>
  The SurrealDB idempotency store, one operation at a time: a run of claims, finishes and failures
  does what the in-memory store does, except for the two differences of the code, which are stated.  A
  table whose rows are documents of records with a tenant and a key is the locale \<open>document_table\<close>.
\<close>

section \<open>Tables of documents\<close>

text \<open>
  \<open>doc_view\<close> reads a table as a store, \<open>doc_table_ok\<close> says that every row is the document of a record
  of a key in \<open>K\<close> under its record id, and that these ids are distinct.
\<close>

definition doc_view ::
  "('d \<Rightarrow> 'r tx_result) \<Rightarrow> ('r \<Rightarrow> tenant_id \<times> string) \<Rightarrow> string \<Rightarrow> (string \<Rightarrow> 'd option) \<Rightarrow> tenant_id \<times> string \<Rightarrow> 'r option" where
  "doc_view from_doc key_of table rows k =
     (case rows (make_record_id table (fst k) (snd k)) of
        Some doc \<Rightarrow> (case from_doc doc of Inr r \<Rightarrow> if key_of r = k then Some r else None | Inl _ \<Rightarrow> None)
      | None \<Rightarrow> None)"

definition doc_table_ok ::
  "('r \<Rightarrow> 'd) \<Rightarrow> ('r \<Rightarrow> tenant_id \<times> string) \<Rightarrow> string \<Rightarrow> (tenant_id \<times> string) set \<Rightarrow> (string \<Rightarrow> 'd option) \<Rightarrow> bool" where
  "doc_table_ok to_doc key_of table K rows \<longleftrightarrow>
     inj_on (\<lambda>(t, i). make_record_id table t i) K \<and>
     (\<forall>rid doc. rows rid = Some doc \<longrightarrow>
        (\<exists>r. doc = to_doc r \<and> rid = make_record_id table (fst (key_of r)) (snd (key_of r)) \<and> key_of r \<in> K))"

locale document_table =
  fixes to_doc :: "'r \<Rightarrow> 'd" and from_doc :: "'d \<Rightarrow> 'r tx_result" and key_of :: "'r \<Rightarrow> tenant_id \<times> string"
    and table :: string
  assumes reads_back: "from_doc (to_doc r) = Ok r"
begin

abbreviation view :: "(string \<Rightarrow> 'd option) \<Rightarrow> tenant_id \<times> string \<Rightarrow> 'r option" where
  "view \<equiv> doc_view from_doc key_of table"

abbreviation rid :: "tenant_id \<times> string \<Rightarrow> string" where
  "rid k \<equiv> make_record_id table (fst k) (snd k)"

lemma row_of_key:
  assumes "doc_table_ok to_doc key_of table K rows" "k \<in> K" "rows (rid k) = Some doc"
  shows "\<exists>r. doc = to_doc r \<and> key_of r = k"
proof -
  obtain r where r: "doc = to_doc r" "rid k = rid (key_of r)" "key_of r \<in> K"
    using assms(1,3) unfolding doc_table_ok_def by blast
  moreover have "inj_on (\<lambda>(t, i). make_record_id table t i) K"
    using assms(1) by (simp add: doc_table_ok_def)
  then have "k = key_of r"
    by (rule inj_onD) (use r assms(2) in \<open>auto simp: split_beta\<close>)
  ultimately show ?thesis by blast
qed

lemma row_of_view:
  assumes "doc_table_ok to_doc key_of table K rows" "k \<in> K"
  shows "rows (rid k) = map_option to_doc (view rows k)"
  using row_of_key[OF assms] by (cases "rows (rid k)") (auto simp: doc_view_def reads_back)

lemma view_key: "view rows k = Some r \<Longrightarrow> key_of r = k"
  by (auto simp: doc_view_def split: option.splits sum.splits if_splits)

lemma put_row:
  assumes ok: "doc_table_ok to_doc key_of table K rows" and k: "key_of r \<in> K"
  shows "doc_table_ok to_doc key_of table K (rows(rid (key_of r) \<mapsto> to_doc r))"
    and "view (rows(rid (key_of r) \<mapsto> to_doc r)) = (view rows)(key_of r \<mapsto> r)"
proof -
  show "doc_table_ok to_doc key_of table K (rows(rid (key_of r) \<mapsto> to_doc r))"
    using ok k unfolding doc_table_ok_def by auto
  show "view (rows(rid (key_of r) \<mapsto> to_doc r)) = (view rows)(key_of r \<mapsto> r)"
  proof
    fix k'
    have "view rows k' = None" if "rid k' = rid (key_of r)" "k' \<noteq> key_of r"
    proof (cases "rows (rid k')")
      case (Some doc)
      with row_of_key[OF ok k, of doc] that show ?thesis
        by (auto simp: doc_view_def reads_back)
    qed (simp add: doc_view_def)
    then show "view (rows(rid (key_of r) \<mapsto> to_doc r)) k' = ((view rows)(key_of r \<mapsto> r)) k'"
      by (auto simp: doc_view_def reads_back)
  qed
qed

end

abbreviation idempo_key :: "idempo_record \<Rightarrow> tenant_id \<times> string" where
  "idempo_key r \<equiv> (ir_tenant r, ir_key r)"

interpretation idempo_table: document_table idempo_doc_from_record idempo_record_from_doc idempo_key IDEMPO_TABLE
proof (unfold_locales, goal_cases)
  case (1 r)
  then show ?case
    by (cases "ir_status r")
      (simp_all add: idempo_doc_from_record_def idempo_record_from_doc_def idempo_status_from_str_def)
qed

abbreviation "idempo_view \<equiv> doc_view idempo_record_from_doc idempo_key IDEMPO_TABLE"
abbreviation "idempo_docs_ok \<equiv> doc_table_ok idempo_doc_from_record idempo_key IDEMPO_TABLE"

section \<open>The operations\<close>

text \<open>The store's own clock reading is used for both parts of a claim.\<close>

fun sq_idempo_step :: "('d, 'r) tx_db \<Rightarrow> idempo_op \<Rightarrow> 'd surreal_state \<Rightarrow> 'd surreal_state" where
  "sq_idempo_step x (OpCheck now t k h ttl) s = fst (sq_check_and_put x now now t k h ttl s)"
| "sq_idempo_step x (OpFinish now t k d) s = fst (sq_finish x now t k d s)"
| "sq_idempo_step x (OpFail now t k e) s = fst (sq_fail x now t k e s)"

text \<open>
  The database store drops a record at the age of its \<open>ttl\<close>, the in-memory one only after it.
\<close>

definition off_deadline :: "idempo_op \<Rightarrow> idempo_store \<Rightarrow> bool" where
  "off_deadline op st \<longleftrightarrow>
     (case op of
        OpCheck now t k h ttl \<Rightarrow>
          (case st (t, k) of
             Some r \<Rightarrow> (word_of_int (i64_sat_sub now (ir_updated_at r)) :: 64 word) \<noteq> ir_ttl_ms r
           | None \<Rightarrow> True)
      | _ \<Rightarrow> True)"

lemma doc_expired_record:
  "doc_expired now (idempo_doc_from_record r) \<longleftrightarrow>
     idempo_expired now r \<or> (word_of_int (i64_sat_sub now (ir_updated_at r)) :: 64 word) = ir_ttl_ms r"
  by (auto simp: doc_expired_def idempo_expired_def idempo_doc_from_record_def)

definition same_answer :: "string option tx_result \<Rightarrow> string option tx_result \<Rightarrow> bool" where
  "same_answer a b \<longleftrightarrow> map_sum tx_code id a = map_sum tx_code id b"

lemma idempo_row:
  assumes "idempo_docs_ok K rows" "(t, k) \<in> K"
  shows "rows (idempo_rid t k) = map_option idempo_doc_from_record (idempo_view rows (t, k))"
  using idempo_table.row_of_view[OF assms] by simp

lemma idempo_doc_fields [simp]:
  "idd_tenant (idempo_doc_from_record r) = ir_tenant r" "idd_hash (idempo_doc_from_record r) = ir_hash r"
  by (simp_all add: idempo_doc_from_record_def)

lemma same_answer_Ok [simp]: "same_answer a (Ok v) \<longleftrightarrow> a = Ok v"
  by (cases a) (simp_all add: same_answer_def)

lemma claim_simulates:
  assumes stmts: "idempo_statements x docs" and ok: "idempo_docs_ok K (docs (sd_db s))" "(t, k) \<in> K"
    and off: "off_deadline (OpCheck now t k h ttl) (idempo_view (docs (sd_db s)))"
    and mem: "check_and_put now t k h ttl (idempo_view (docs (sd_db s))) = (o', ro)"
  shows "\<exists>s' r. sq_check_and_put x now now t k h ttl s = (s', r) \<and> idempo_docs_ok K (docs (sd_db s')) \<and>
    idempo_view (docs (sd_db s')) = o' \<and> same_answer r ro"
proof -
  let ?rows = "docs (sd_db s)" and ?new = "build_record now t k h ttl"
  note row = idempo_row[OF ok]
  have new_key: "idempo_key ?new = (t, k)"
    by (simp add: build_record_def)
  have put: "idempo_docs_ok K (rows(idempo_rid t k \<mapsto> idempo_doc_from_record ?new)) \<and>
      idempo_view (rows(idempo_rid t k \<mapsto> idempo_doc_from_record ?new)) = (idempo_view rows)((t, k) \<mapsto> ?new)"
    if "idempo_docs_ok K rows" for rows
    using idempo_table.put_row[OF that, of ?new] ok(2) new_key by (simp add: build_record_def)
  have ten: "idd_tenant doc = t" if found: "?rows (idempo_rid t k) = Some doc" for doc
  proof -
    obtain r where r: "idempo_view ?rows (t, k) = Some r" "doc = idempo_doc_from_record r"
      using found row by (cases "idempo_view ?rows (t, k)") simp_all
    with idempo_table.view_key[OF r(1)] show ?thesis by simp
  qed
  obtain s1 where s1: "sq_claim_read x now t k h s = (s1, claim_of now h (?rows (idempo_rid t k)))" "docs (sd_db s1) = ?rows"
    using idempo_read_run[OF stmts, of s t k now h] ten by blast
  have run: "sq_check_and_put x now now t k h ttl s =
      and_do (s1, claim_of now h (?rows (idempo_rid t k))) (\<lambda>claim s. sq_claim_act x now t k h ttl claim s)"
    by (simp add: sq_check_and_put_def s1(1))
  show ?thesis
  proof (cases "idempo_view ?rows (t, k)")
    case None
    then obtain s2 where s2: "sq_claim_act x now t k h ttl ClaimFresh s1 = (s2, Ok None)"
        "docs (sd_db s2) = ?rows(idempo_rid t k \<mapsto> idempo_doc_from_record ?new)"
      using idempo_act_fresh[OF stmts, of now t k h ttl s1] s1(2) row by auto
    have "o' = (idempo_view ?rows)((t, k) \<mapsto> ?new)" "ro = Ok None"
      using mem None by (auto simp: check_and_put_def drop_expired_def)
    then show ?thesis
      using run s2 put[OF ok(1)] None row by (simp add: claim_of_none same_answer_def)
  next
    case (Some r)
    then have doc: "?rows (idempo_rid t k) = Some (idempo_doc_from_record r)"
      using row by simp
    have expired: "doc_expired now (idempo_doc_from_record r) = idempo_expired now r"
      using off Some by (simp add: doc_expired_record off_deadline_def)
    show ?thesis
    proof (cases "idempo_expired now r")
      case True
      obtain s2 where s2: "sq_claim_act x now t k h ttl ClaimExpired s1 = (s2, Ok None)"
          "docs (sd_db s2) = ?rows(idempo_rid t k \<mapsto> idempo_doc_from_record ?new)"
        using idempo_act_expired[OF stmts, of now t k h ttl s1] s1(2) by auto
      have "o' = (idempo_view ?rows)((t, k) \<mapsto> ?new)" "ro = Ok None"
        using mem Some True by (auto simp: check_and_put_def drop_expired_def)
      moreover have "claim_of now h (?rows (idempo_rid t k)) = Ok ClaimExpired"
        unfolding doc by (rule claim_of_expired[OF idempo_table.reads_back]) (simp add: expired True)
      ultimately show ?thesis
        using run s2 put[OF ok(1)] by (simp add: same_answer_def)
    next
      case False
      have "o' = idempo_view ?rows"
        using mem Some False by (auto simp: check_and_put_def drop_expired_def Let_def split: if_splits)
      moreover have "\<exists>r'. sq_check_and_put x now now t k h ttl s = (s1, r') \<and> same_answer r' ro"
        using mem Some False
        by (auto simp: run doc claim_of_def idempo_table.reads_back expired check_and_put_def drop_expired_def Let_def
            same_answer_def sq_claim_act_def split: if_splits idempo_status.splits)
      ultimately show ?thesis
        using s1(2) ok(1) by auto
    qed
  qed
qed

text \<open>A finish or a failure of a record that exists; where none does, the statement finds no row.\<close>

lemma idempo_update_run:
  assumes upd: "updates_row (xd_ops x) IDEMPO_TABLE docs de fits stmt eff" and ok: "idempo_docs_ok K (docs (sd_db s))" "(t, k) \<in> K"
    and fits: "\<And>doc. fits doc"
    and params: "scoped t params" "map_of params ''table'' = Some (JStr IDEMPO_TABLE)"
      "map_of params ''id'' = Some (JStr (idempo_rid t k))"
    and eff: "\<And>r. idempo_key r = (t, k) \<Longrightarrow>
      eff (bound params) (idempo_doc_from_record r) = Some (idempo_doc_from_record (change r))"
    and keeps: "\<And>r. idempo_key (change r) = idempo_key r"
  shows "\<exists>s' v. xquery x stmt params s = (s', Ok v) \<and> idempo_docs_ok K (docs (sd_db s')) \<and>
    idempo_view (docs (sd_db s')) = (case idempo_view (docs (sd_db s)) (t, k) of
       Some r \<Rightarrow> (idempo_view (docs (sd_db s)))((t, k) \<mapsto> change r) | None \<Rightarrow> idempo_view (docs (sd_db s)))"
proof -
  let ?rows = "docs (sd_db s)" and ?rid = "idempo_rid t k"
  have "pred_option fits (?rows ?rid)"
    using fits by (cases "?rows ?rid") simp_all
  then obtain d' v where ans: "db_answers (xd_ops x) stmt (bound params) (sd_db s) d' v"
    and rows: "docs d' = (case Option.bind (?rows ?rid) (eff (bound params)) of Some doc \<Rightarrow> ?rows(?rid \<mapsto> doc) | None \<Rightarrow> ?rows)"
    using upd names_idempo[OF params] unfolding updates_row_def by blast
  obtain s' where run: "xquery x stmt params s = (s', Ok v)" "sd_db s' = d'"
    using tx_query_json_ok[OF params(1) ans] by blast
  show ?thesis
  proof (cases "idempo_view ?rows (t, k)")
    case None
    then show ?thesis
      using run rows ok(1) idempo_row[OF ok] by simp
  next
    case (Some r)
    have key: "idempo_key r = (t, k)"
      by (rule idempo_table.view_key[OF Some])
    then have "docs d' = ?rows(?rid \<mapsto> idempo_doc_from_record (change r))"
      using rows idempo_row[OF ok] Some eff by simp
    then show ?thesis
      using run Some key keeps[of r] ok idempo_table.put_row[OF ok(1), of "change r"] by simp
  qed
qed

lemma idempo_write_params:
  "scoped t (idempo_args t k kind)" "map_of (idempo_args t k kind) ''table'' = Some (JStr IDEMPO_TABLE)"
  "map_of (idempo_args t k kind) ''id'' = Some (JStr (idempo_rid t k))"
  by (simp_all add: idempo_args_def base_args_def del: jinsert.simps)

abbreviation finish_params :: "int \<Rightarrow> tenant_id \<Rightarrow> string \<Rightarrow> string \<Rightarrow> named_args" where
  "finish_params now t k digest \<equiv>
     jinsert ''now'' (json_i64 now) (jinsert ''result'' (JStr digest)
       (jinsert ''status'' (JStr ''Succeeded'') (idempo_args t k ''write'')))"

abbreviation fail_params :: "int \<Rightarrow> tenant_id \<Rightarrow> string \<Rightarrow> string option \<Rightarrow> named_args" where
  "fail_params now t k error \<equiv>
     jinsert ''now'' (json_i64 now) (jinsert ''error'' (json_opt_str error)
       (jinsert ''status'' (JStr ''Failed'') (idempo_args t k ''write'')))"

lemma finish_change:
  assumes "in_i64 now" "idempo_key r = (t, k)"
  shows "finish_effect (bound (finish_params now t k digest)) (idempo_doc_from_record r) =
    Some (idempo_doc_from_record (r\<lparr>ir_status := IdSucceeded, ir_result_digest := Some digest, ir_last_error := None,
      ir_updated_at := now\<rparr>))"
proof -
  have s: "scoped t (finish_params now t k digest)" by (simp del: jinsert.simps)
  note look = bound_str[OF s] bound_int[OF s]
  have "b_str ''tenant'' (bound (finish_params now t k digest)) = Some t"
    "b_str ''status'' (bound (finish_params now t k digest)) = Some ''Succeeded''"
    "b_str ''result'' (bound (finish_params now t k digest)) = Some digest"
    "b_int ''now'' (bound (finish_params now t k digest)) = Some now"
    by (subst look, simp add: starts_with_def, simp add: assms idempo_args_def base_args_def del: jinsert.simps)+
  with assms(2) show ?thesis
    by (simp add: finish_effect_def idempo_when_tenant_def idempo_doc_from_record_def)
qed

lemma fail_change:
  assumes "in_i64 now" "idempo_key r = (t, k)"
  shows "fail_effect (bound (fail_params now t k error)) (idempo_doc_from_record r) =
    Some (idempo_doc_from_record (r\<lparr>ir_status := IdFailed, ir_last_error := error, ir_updated_at := now\<rparr>))"
proof -
  have s: "scoped t (fail_params now t k error)" by (simp del: jinsert.simps)
  note look = bound_str[OF s] bound_int[OF s]
  have "b_str ''tenant'' (bound (fail_params now t k error)) = Some t"
    "b_str ''status'' (bound (fail_params now t k error)) = Some ''Failed''"
    "b_str ''error'' (bound (fail_params now t k error)) = error"
    "b_int ''now'' (bound (fail_params now t k error)) = Some now"
    by (subst look, simp add: starts_with_def, simp add: assms idempo_args_def base_args_def del: jinsert.simps)+
  with assms(2) show ?thesis
    by (simp add: fail_effect_def idempo_when_tenant_def idempo_doc_from_record_def)
qed

definition idempo_op_ok :: "(tenant_id \<times> string) set \<Rightarrow> idempo_op \<Rightarrow> bool" where
  "idempo_op_ok K op \<longleftrightarrow> idempo_op_key op \<in> K \<and> in_i64 (idempo_op_time op)"

lemma idempo_step_simulates:
  assumes stmts: "idempo_statements x docs" and ok: "idempo_docs_ok K (docs (sd_db s))"
    and op: "idempo_op_ok K op" "off_deadline op (idempo_view (docs (sd_db s)))"
  shows "idempo_docs_ok K (docs (sd_db (sq_idempo_step x op s))) \<and>
    idempo_view (docs (sd_db (sq_idempo_step x op s))) = idempo_step op (idempo_view (docs (sd_db s)))"
proof (cases op)
  case (OpCheck now t k h ttl)
  obtain o' ro where "check_and_put now t k h ttl (idempo_view (docs (sd_db s))) = (o', ro)" by fastforce
  with claim_simulates[OF stmts ok _ _ this] op OpCheck show ?thesis
    by (fastforce simp: idempo_op_ok_def)
next
  case (OpFinish now t k digest)
  have upd: "updates_row (xd_ops x) IDEMPO_TABLE docs (de_idempo_doc (xd_serde x)) (\<lambda>_. True) IDEMPO_FINISH finish_effect"
    using stmts by (simp add: idempo_statements_def Let_def)
  have k: "(t, k) \<in> K" "in_i64 now"
    using op(1) OpFinish by (simp_all add: idempo_op_ok_def)
  have "\<exists>s' v. xquery x IDEMPO_FINISH (finish_params now t k digest) s = (s', Ok v) \<and> idempo_docs_ok K (docs (sd_db s')) \<and>
    idempo_view (docs (sd_db s')) = (case idempo_view (docs (sd_db s)) (t, k) of
       Some r \<Rightarrow> (idempo_view (docs (sd_db s)))((t, k) \<mapsto> r\<lparr>ir_status := IdSucceeded, ir_result_digest := Some digest, ir_last_error := None, ir_updated_at := now\<rparr>) | None \<Rightarrow> idempo_view (docs (sd_db s)))"
  proof (rule idempo_update_run[where docs = docs, OF upd ok k(1)])
    show "finish_effect (bound (finish_params now t k digest)) (idempo_doc_from_record r) =
        Some (idempo_doc_from_record (r\<lparr>ir_status := IdSucceeded, ir_result_digest := Some digest, ir_last_error := None, ir_updated_at := now\<rparr>))" if "idempo_key r = (t, k)" for r
      by (rule finish_change[OF k(2) that])
  qed (simp_all add: idempo_write_params del: jinsert.simps)
  then show ?thesis
    using OpFinish by (auto simp: sq_finish_def and_do_def idempo_finish_def simp del: jinsert.simps split: option.splits)
next
  case (OpFail now t k error)
  have upd: "updates_row (xd_ops x) IDEMPO_TABLE docs (de_idempo_doc (xd_serde x)) (\<lambda>_. True) IDEMPO_FAIL fail_effect"
    using stmts by (simp add: idempo_statements_def Let_def)
  have k: "(t, k) \<in> K" "in_i64 now"
    using op(1) OpFail by (simp_all add: idempo_op_ok_def)
  have "\<exists>s' v. xquery x IDEMPO_FAIL (fail_params now t k error) s = (s', Ok v) \<and> idempo_docs_ok K (docs (sd_db s')) \<and>
    idempo_view (docs (sd_db s')) = (case idempo_view (docs (sd_db s)) (t, k) of
       Some r \<Rightarrow> (idempo_view (docs (sd_db s)))((t, k) \<mapsto> r\<lparr>ir_status := IdFailed, ir_last_error := error, ir_updated_at := now\<rparr>) | None \<Rightarrow> idempo_view (docs (sd_db s)))"
  proof (rule idempo_update_run[where docs = docs, OF upd ok k(1)])
    show "fail_effect (bound (fail_params now t k error)) (idempo_doc_from_record r) =
        Some (idempo_doc_from_record (r\<lparr>ir_status := IdFailed, ir_last_error := error, ir_updated_at := now\<rparr>))" if "idempo_key r = (t, k)" for r
      by (rule fail_change[OF k(2) that])
  qed (simp_all add: idempo_write_params del: jinsert.simps)
  then show ?thesis
    using OpFail by (auto simp: sq_fail_def and_do_def idempo_fail_def simp del: jinsert.simps split: option.splits)
qed

section \<open>Runs\<close>

definition sq_idempo_run :: "('d, 'r) tx_db \<Rightarrow> idempo_op list \<Rightarrow> 'd surreal_state \<Rightarrow> 'd surreal_state" where
  "sq_idempo_run x ops s = fold (sq_idempo_step x) ops s"

definition idempo_run :: "idempo_op list \<Rightarrow> idempo_store \<Rightarrow> idempo_store" where
  "idempo_run ops st = fold idempo_step ops st"

text \<open>No claim of the run meets a record at exactly its deadline.\<close>

fun run_off_deadline :: "idempo_op list \<Rightarrow> idempo_store \<Rightarrow> bool" where
  "run_off_deadline [] st \<longleftrightarrow> True"
| "run_off_deadline (op # ops) st \<longleftrightarrow> off_deadline op st \<and> run_off_deadline ops (idempo_step op st)"

lemma run_off_deadline_append:
  "run_off_deadline (ops @ ops') st \<longleftrightarrow> run_off_deadline ops st \<and> run_off_deadline ops' (idempo_run ops st)"
  by (induction ops arbitrary: st) (simp_all add: idempo_run_def)

lemma idempo_run_simulates:
  assumes "idempo_statements x docs" "idempo_docs_ok K (docs (sd_db s))" "list_all (idempo_op_ok K) ops"
    "run_off_deadline ops (idempo_view (docs (sd_db s)))"
  shows "idempo_docs_ok K (docs (sd_db (sq_idempo_run x ops s))) \<and>
    idempo_view (docs (sd_db (sq_idempo_run x ops s))) = idempo_run ops (idempo_view (docs (sd_db s)))"
  using assms(2-4)
proof (induction ops arbitrary: s)
  case (Cons op ops)
  have "idempo_docs_ok K (docs (sd_db (sq_idempo_step x op s))) \<and>
      idempo_view (docs (sd_db (sq_idempo_step x op s))) = idempo_step op (idempo_view (docs (sd_db s)))"
    using Cons.prems by (intro idempo_step_simulates[OF assms(1)]) simp_all
  with Cons.IH[of "sq_idempo_step x op s"] Cons.prems show ?case
    by (simp add: sq_idempo_run_def idempo_run_def)
qed (simp add: sq_idempo_run_def idempo_run_def)

section \<open>Properties\<close>

text \<open>
  C13: One operation at a time, the SurrealDB idempotency store does what the in-memory store does:
  after any run of claims, finishes and failures the table reads as the in-memory store does after the
  same run, and a further claim gets the same answer.  The operations' keys have distinct record ids, the
  clock readings are 64-bit, and no claim meets a record at exactly its deadline, where the database drops
  the record and the in-memory store still holds it.  Finishing or failing an absent record leaves both
  unchanged.
\<close>

theorem surreal_idempo_refines_memory:
  assumes stmts: "idempo_statements x docs" and ok: "idempo_docs_ok K (docs (sd_db s))"
    and ops: "list_all (idempo_op_ok K) (ops @ [OpCheck now t k h ttl])"
    and off: "run_off_deadline (ops @ [OpCheck now t k h ttl]) (idempo_view (docs (sd_db s)))"
  defines "s1 \<equiv> sq_idempo_run x ops s" and "st \<equiv> idempo_run ops (idempo_view (docs (sd_db s)))"
  shows "idempo_view (docs (sd_db s1)) = st \<and>
    same_answer (snd (sq_check_and_put x now now t k h ttl s1)) (snd (check_and_put now t k h ttl st)) \<and>
    idempo_view (docs (sd_db (fst (sq_check_and_put x now now t k h ttl s1)))) = fst (check_and_put now t k h ttl st)"
proof -
  have run: "idempo_docs_ok K (docs (sd_db s1)) \<and> idempo_view (docs (sd_db s1)) = st"
    unfolding s1_def st_def
    by (rule idempo_run_simulates[OF stmts ok]) (use ops off in \<open>simp_all add: run_off_deadline_append\<close>)
  have last: "(t, k) \<in> K" "off_deadline (OpCheck now t k h ttl) st"
    using ops off by (simp_all add: run_off_deadline_append idempo_op_ok_def st_def)
  obtain o' ro where mem: "check_and_put now t k h ttl st = (o', ro)" by fastforce
  then have "\<exists>s' r. sq_check_and_put x now now t k h ttl s1 = (s', r) \<and> idempo_docs_ok K (docs (sd_db s')) \<and>
      idempo_view (docs (sd_db s')) = o' \<and> same_answer r ro"
    using run last by (intro claim_simulates[OF stmts]) simp_all
  with run mem show ?thesis by auto
qed

text \<open>A key is claimed, a second caller is refused, the first finishes, and a third caller gets its digest.\<close>

definition replayed_order :: "idempo_op list" where
  "replayed_order =
     [OpCheck 100 ''acme'' ''order-7'' ''h'' 50, OpCheck 110 ''acme'' ''order-7'' ''h'' 50,
      OpFinish 120 ''acme'' ''order-7'' ''digest'']"

definition no_records :: "(string \<Rightarrow> idempo_doc option) surreal_state" where
  "no_records = \<lparr>sd_db = Map.empty, sd_metrics = [], sd_rollbacks = []\<rparr>"

lemma surreal_idempo_refines_memory_witness:
  "snd (sq_check_and_put demo_idempo_db 130 130 ''acme'' ''order-7'' ''h'' 50
     (sq_idempo_run demo_idempo_db replayed_order no_records)) = Ok (Some ''digest'')"
proof -
  let ?K = "{(''acme'', ''order-7'')}" and ?last = "OpCheck 130 ''acme'' ''order-7'' ''h'' 50"
  note evaluated = off_deadline_def check_and_put_def drop_expired_def idempo_expired_def build_record_def i64_sat_sub_def
    idempo_finish_def
  have none: "sd_db no_records = Map.empty"
    by (simp add: no_records_def)
  have empty: "idempo_view (sd_db no_records) = Map.empty"
    by (simp add: none doc_view_def fun_eq_iff)
  have ok: "idempo_docs_ok ?K (sd_db no_records)"
    by (simp add: none doc_table_ok_def)
  have ops: "list_all (idempo_op_ok ?K) (replayed_order @ [?last])"
    by (simp add: replayed_order_def idempo_op_ok_def in_i64_def)
  have off: "run_off_deadline (replayed_order @ [?last]) (idempo_view (sd_db no_records))"
    unfolding empty replayed_order_def by (simp add: evaluated)
  have mem: "snd (check_and_put 130 ''acme'' ''order-7'' ''h'' 50
      (idempo_run replayed_order (idempo_view (sd_db no_records)))) = Ok (Some ''digest'')"
    unfolding empty replayed_order_def by (simp add: evaluated idempo_run_def)
  show ?thesis
    using surreal_idempo_refines_memory[OF demo_idempo_statements, OF ok ops off]
    unfolding mem same_answer_Ok by (elim conjE)
qed

end
