(* ===== verification/ConfigTree.thy ===== *)
theory ConfigTree
  imports SbTypes SbErrors
begin

text \<open>
  Configuration values (crate \<open>sb-config\<close>): the data model (\<open>model.rs\<close>), errors
  (\<open>errors.rs\<close>), the merging of nested maps (\<open>source/mod.rs\<close>), the sources
  (\<open>source/env.rs\<close>, \<open>source/cli.rs\<close>, \<open>source/file.rs\<close>), snapshots
  (\<open>snapshot.rs\<close>), their accessors (\<open>access.rs\<close>) and the switch
  (\<open>switch.rs\<close>).

  The specification of a nested map is a file tree (\<open>view\<close>): every path is absent, a
  directory or a leaf.  Merging two maps is overlaying their trees and inserting at a path is
  mounting, and the lemmas of the loader speak of trees only.  The process environment and the files are
  the record \<open>config_world\<close>; reading and parsing a file is one of
  \<open>file_content\<close>.
\<close>

section \<open>Model and errors\<close>

type_synonym namespace_id = string
type_synonym key_path = string
type_synonym config_value = json
type_synonym config_map = jmap

datatype reload_class = BootOnly | HotReloadSafe | HotReloadRisky

fun reload_class_str :: "reload_class \<Rightarrow> string" where
  "reload_class_str BootOnly = ''boot_only''"
| "reload_class_str HotReloadSafe = ''hot_reload_safe''"
| "reload_class_str HotReloadRisky = ''hot_reload_risky''"

record provenance_entry =
  pe_source :: string
  pe_version :: "string option"
  pe_layer :: "string option"

type_synonym provenance = "provenance_entry list"
type_synonym snapshot_version = string
type_synonym checksum = string

record snapshot_metadata =
  sm_version :: snapshot_version
  sm_checksum :: checksum
  sm_issued_at :: int
  sm_reload_summary :: "key_path \<Rightarrow> reload_class option"

datatype config_error = ConfigError (config_inner: error_obj)

definition config_error_display :: "config_error \<Rightarrow> string" where
  "config_error_display e =
     (let v = to_public (config_inner e) in pv_code v @ '': '' @ pv_message v)"

definition schema_invalid :: "string \<Rightarrow> string \<Rightarrow> config_error" where
  "schema_invalid phase detail = ConfigError (dev_msg (phase @ '': '' @ detail)
     (user_msg ''Configuration is invalid.'' (builder_new SCHEMA_VALIDATION_FAILED)))"

definition io_provider_unavailable :: "string \<Rightarrow> string \<Rightarrow> config_error" where
  "io_provider_unavailable phase detail = ConfigError (dev_msg (phase @ '': '' @ detail)
     (user_msg ''Configuration source is unavailable.'' (builder_new PROVIDER_UNAVAILABLE)))"

definition config_auth_forbidden :: "string \<Rightarrow> config_error" where
  "config_auth_forbidden detail = ConfigError (dev_msg detail
     (user_msg ''Forbidden to access configuration source.'' (builder_new AUTH_FORBIDDEN)))"

type_synonym 'a config_result = "config_error + 'a"

section \<open>Nested maps\<close>

definition segments :: "string \<Rightarrow> string list" where
  "segments key = filter (\<lambda>s. s \<noteq> []) (split_on CHR ''.'' key)"

text \<open>\<open>merge_value\<close> returns before \<open>insert_segments\<close> when there is no segment.\<close>

fun insert_segments :: "config_map \<Rightarrow> string list \<Rightarrow> json \<Rightarrow> config_map" where
  "insert_segments root [] v = root"
| "insert_segments root [s] v = jinsert s v root"
| "insert_segments root (s # t # ss) v =
     (case map_of root s of
        Some (JObj child) \<Rightarrow> jinsert s (JObj (insert_segments child (t # ss) v)) root
      | _ \<Rightarrow> jinsert s (JObj (insert_segments [] (t # ss) v)) root)"

definition merge_value :: "config_map \<Rightarrow> string \<Rightarrow> json \<Rightarrow> config_map" where
  "merge_value target key v =
     (if segments key = [] then target else insert_segments target (segments key) v)"

function merge_maps :: "config_map \<Rightarrow> config_map \<Rightarrow> config_map" where
  "merge_maps base [] = base"
| "merge_maps base ((key, v) # overlay) =
     merge_maps
       (case map_of base key of
          Some (JObj base_obj) \<Rightarrow>
            (case v of
               JObj overlay_obj \<Rightarrow> jinsert key (JObj (merge_maps base_obj overlay_obj)) base
             | _ \<Rightarrow> jinsert key v base)
        | _ \<Rightarrow> jinsert key v base) overlay"
  by pat_completeness auto
termination
  by (relation "measure (\<lambda>(_, overlay). size (JObj overlay))") auto

fun json_at :: "json \<Rightarrow> string list \<Rightarrow> json option" where
  "json_at cursor [] = Some cursor"
| "json_at (JObj m) (s # ss) = (case map_of m s of None \<Rightarrow> None | Some j \<Rightarrow> json_at j ss)"
| "json_at _ (s # ss) = None"

fun path_in :: "config_map \<Rightarrow> string list \<Rightarrow> bool" where
  "path_in cursor [] = False"
| "path_in cursor [s] = (map_of cursor s \<noteq> None)"
| "path_in cursor (s # t # ss) =
     (case map_of cursor s of Some (JObj child) \<Rightarrow> path_in child (t # ss) | _ \<Rightarrow> False)"

definition path_exists :: "config_map \<Rightarrow> string \<Rightarrow> bool" where
  "path_exists m path = path_in m (segments path)"

lemma json_at_leaf: "(\<And>m. j \<noteq> JObj m) \<Longrightarrow> json_at j (s # ss) = None"
  by (cases j) auto

lemma json_at_append:
  "json_at j (p @ q) = (case json_at j p of None \<Rightarrow> None | Some k \<Rightarrow> json_at k q)"
  by (induction j p rule: json_at.induct) (auto split: option.splits)

lemma path_in_iff: "path_in m p \<longleftrightarrow> p \<noteq> [] \<and> json_at (JObj m) p \<noteq> None"
proof (induction m p rule: path_in.induct)
  case (3 m s t ss)
  then show ?case
    by (auto split: option.splits json.splits)
qed (auto split: option.splits)

lemma json_wf_empty [simp]: "json_wf (JObj [])"
  by simp

lemma json_wf_jinsert [wf_intros]:
  "json_wf (JObj m) \<Longrightarrow> json_wf v \<Longrightarrow> json_wf (JObj (jinsert k v m))"
proof -
  assume m: "json_wf (JObj m)" and v: "json_wf v"
  have "list_all (\<lambda>p. json_wf (snd p)) m \<Longrightarrow> list_all (\<lambda>p. json_wf (snd p)) (jinsert k v m)"
    using v by (induction k v m rule: jinsert.induct) auto
  with m show ?thesis by simp
qed

lemma json_wf_map_of: "json_wf (JObj m) \<Longrightarrow> map_of m k = Some v \<Longrightarrow> json_wf v"
  by (auto simp: list_all_iff dest!: map_of_SomeD)

lemma json_wf_at: "json_wf j \<Longrightarrow> json_at j p = Some v \<Longrightarrow> json_wf v"
  by (induction j p rule: json_at.induct)
    (auto split: option.splits simp del: json_wf.simps dest: json_wf_map_of)

lemma json_wf_insert_segments [wf_intros]:
  "json_wf (JObj m) \<Longrightarrow> json_wf v \<Longrightarrow> json_wf (JObj (insert_segments m p v))"
proof (induction m p v rule: insert_segments.induct)
  case (3 m s t ss v)
  have empty: "json_wf (JObj [])" by simp
  show ?case
  proof (cases "\<exists>c. map_of m s = Some (JObj c)")
    case True
    then obtain c where c: "map_of m s = Some (JObj c)" by blast
    with 3 show ?thesis
      using json_wf_map_of[OF "3.prems"(1) c] by (simp del: json_wf.simps add: json_wf_jinsert)
  next
    case False
    with 3 empty show ?thesis
      by (auto simp del: json_wf.simps simp: json_wf_jinsert split: option.splits json.splits)
  qed
qed (simp_all del: json_wf.simps add: json_wf_jinsert)

lemma json_wf_merge_maps [wf_intros]:
  "json_wf (JObj b) \<Longrightarrow> json_wf (JObj m) \<Longrightarrow> json_wf (JObj (merge_maps b m))"
proof (induction b m rule: merge_maps.induct)
  case (2 base key v overlay)
  have v: "json_wf v" and rest: "json_wf (JObj overlay)"
    using "2.prems"(2) by (auto simp: jsorted_def)
  have "json_wf (JObj (case map_of base key of
          Some (JObj base_obj) \<Rightarrow>
            (case v of
               JObj overlay_obj \<Rightarrow> jinsert key (JObj (merge_maps base_obj overlay_obj)) base
             | _ \<Rightarrow> jinsert key v base)
        | _ \<Rightarrow> jinsert key v base))"
    using "2.IH"(1) "2.prems"(1) v json_wf_map_of[OF "2.prems"(1), of key]
    by (auto simp del: json_wf.simps simp: json_wf_jinsert split: option.split json.split)
  with "2.IH"(2) rest show ?case by (simp del: json_wf.simps)
qed simp

section \<open>The tree a map stands for\<close>

datatype tree_node = Leaf json | Dir

definition node_of :: "json \<Rightarrow> tree_node" where
  "node_of j = (case j of JObj _ \<Rightarrow> Dir | _ \<Rightarrow> Leaf j)"

type_synonym tree = "string list \<Rightarrow> tree_node option"

definition view :: "json \<Rightarrow> tree" where
  "view j p = map_option node_of (json_at j p)"

text \<open>
  Overlaying \<open>b\<close> on \<open>a\<close>: what \<open>b\<close> holds at a path wins, and below a leaf
  of \<open>b\<close> nothing of \<open>a\<close> is left.
\<close>

definition is_leaf :: "tree_node option \<Rightarrow> bool" where
  "is_leaf n = (case n of Some (Leaf _) \<Rightarrow> True | _ \<Rightarrow> False)"

definition overlay :: "tree \<Rightarrow> tree \<Rightarrow> tree" where
  "overlay a b p =
     (case b p of
        Some n \<Rightarrow> Some n
      | None \<Rightarrow> if list_ex (\<lambda>q. is_leaf (b q)) (prefixes p) then None else a p)"

text \<open>Mounting \<open>b\<close> at the path \<open>p\<close> of \<open>a\<close>.\<close>

definition mount :: "tree \<Rightarrow> string list \<Rightarrow> tree \<Rightarrow> tree" where
  "mount a p b q =
     (if prefix p q then b (drop (length p) q) else if prefix q p then Some Dir else a q)"

lemma node_of_simps [simp]:
  "node_of (JObj m) = Dir" "node_of JNull = Leaf JNull" "node_of (JBool x) = Leaf (JBool x)"
  "node_of (JNum n) = Leaf (JNum n)" "node_of (JStr s) = Leaf (JStr s)"
  "node_of (JArr xs) = Leaf (JArr xs)"
  by (simp_all add: node_of_def)

lemma node_of_Dir: "node_of j = Dir \<longleftrightarrow> (\<exists>m. j = JObj m)"
  by (cases j) simp_all

lemma node_of_Leaf: "node_of j = Leaf v \<longleftrightarrow> j = v \<and> (\<forall>m. j \<noteq> JObj m)"
  by (cases j) auto

lemma is_leaf_simps [simp]: "is_leaf (Some (Leaf v))" "\<not> is_leaf (Some Dir)" "\<not> is_leaf None"
  by (simp_all add: is_leaf_def)

lemma view_root [simp]: "view j [] = Some (node_of j)"
  by (simp add: view_def)

lemma view_step [simp]:
  "view (JObj m) (s # p) = (case map_of m s of None \<Rightarrow> None | Some j \<Rightarrow> view j p)"
  by (simp add: view_def split: option.splits)

lemma view_below_leaf: "node_of j = Leaf v \<Longrightarrow> view j (s # p) = None"
  by (cases j) (auto simp: view_def)

lemma view_leaf_at: "view j p = Some (Leaf v) \<longleftrightarrow> json_at j p = Some v \<and> (\<forall>m. v \<noteq> JObj m)"
  by (auto simp: view_def node_of_Leaf)

lemma overlay_root [simp]: "overlay (view j) (view k) [] = view k []"
  by (simp add: overlay_def)

lemma overlay_step:
  "overlay (view (JObj b)) (view (JObj m)) (s # p) =
     (case map_of m s of
        None \<Rightarrow> view (JObj b) (s # p)
      | Some j \<Rightarrow> overlay (\<lambda>q. view (JObj b) (s # q)) (view j) p)"
  by (auto simp: overlay_def list_ex_iff split: option.splits)

lemma overlay_leaf: "node_of j = Leaf v \<Longrightarrow> overlay a (view j) p = view j p"
  by (cases p) (auto simp: overlay_def view_below_leaf list_ex_iff split: option.splits)

lemma overlay_missing: "(\<And>q. a q = None) \<Longrightarrow> overlay a b p = b p"
  by (simp add: overlay_def split: option.splits)

lemma overlay_below_leaf:
  "node_of k = Leaf v \<Longrightarrow> overlay (view k) (view j) p = view j p"
  by (cases p) (auto simp: overlay_def view_below_leaf split: option.splits)

text \<open>What a single key of the base becomes.\<close>

definition merge_entry :: "json option \<Rightarrow> json \<Rightarrow> json" where
  "merge_entry old v =
     (case (old, v) of
        (Some (JObj b), JObj m) \<Rightarrow> JObj (merge_maps b m)
      | _ \<Rightarrow> v)"

lemma merge_maps_Cons:
  "merge_maps base ((key, v) # m) = merge_maps (jinsert key (merge_entry (map_of base key) v) base) m"
  by (auto simp: merge_entry_def split: option.splits json.splits)

lemma map_of_merge_maps:
  "distinct (map fst m) \<Longrightarrow>
   map_of (merge_maps b m) k =
     (case map_of m k of None \<Rightarrow> map_of b k | Some v \<Rightarrow> Some (merge_entry (map_of b k) v))"
proof (induction m arbitrary: b)
  case (Cons x m)
  obtain key v where x: "x = (key, v)" by (cases x)
  have "map_of m key = None"
    using Cons.prems x by (auto simp: map_of_eq_None_iff)
  with Cons x show ?case
    by (auto simp: merge_maps_Cons simp del: merge_maps.simps(2) split: option.splits)
qed simp

lemma view_merge_maps:
  "json_wf (JObj m) \<Longrightarrow>
   view (JObj (merge_maps b m)) p = overlay (view (JObj b)) (view (JObj m)) p"
proof (induction p arbitrary: b m)
  case (Cons s p)
  have d: "distinct (map fst m)"
    using Cons.prems by (simp add: jsorted_distinct)
  show ?case
  proof (cases "map_of m s")
    case None
    then show ?thesis
      by (simp add: overlay_step map_of_merge_maps[OF d])
  next
    case (Some j)
    have wf: "json_wf j"
      using Cons.prems Some by (rule json_wf_map_of)
    show ?thesis
    proof (cases "\<exists>c c'. map_of b s = Some (JObj c) \<and> j = JObj c'")
      case True
      then obtain c c' where c: "map_of b s = Some (JObj c)" "j = JObj c'" by blast
      with Cons.IH[of c' c] wf Some show ?thesis
        by (simp add: overlay_step map_of_merge_maps[OF d] merge_entry_def)
    next
      case False
      then have entry: "merge_entry (map_of b s) j = j"
        by (auto simp: merge_entry_def split: option.splits json.splits)
      have "overlay (\<lambda>q. view (JObj b) (s # q)) (view j) p = view j p"
      proof (cases "map_of b s")
        case None
        then show ?thesis by (simp add: overlay_missing)
      next
        case (Some k)
        with False have "(\<exists>v. node_of k = Leaf v) \<or> (\<exists>v. node_of j = Leaf v)"
          by (cases k; cases j) auto
        with Some show ?thesis
          by (auto simp: overlay_leaf overlay_below_leaf)
      qed
      with Some entry show ?thesis
        by (simp add: overlay_step map_of_merge_maps[OF d])
    qed
  qed
qed simp

lemma view_insert_segments:
  "p \<noteq> [] \<Longrightarrow> view (JObj (insert_segments m p v)) q = mount (view (JObj m)) p (view v) q"
proof (induction m p v arbitrary: q rule: insert_segments.induct)
  case (2 m s v)
  then show ?case
    by (cases q) (auto simp: mount_def split: option.splits)
next
  case (3 m s t ss v)
  show ?case
  proof (cases q)
    case Nil
    then show ?thesis by (simp add: mount_def)
  next
    case (Cons x q')
    show ?thesis
    proof (cases "\<exists>c. map_of m s = Some (JObj c)")
      case True
      then obtain c where c: "map_of m s = Some (JObj c)" by blast
      then have "view (JObj (insert_segments c (t # ss) v)) q' = mount (view (JObj c)) (t # ss) (view v) q'"
        using 3 by simp
      with Cons c show ?thesis
        by (auto simp: mount_def)
    next
      case False
      have ins: "insert_segments m (s # t # ss) v
          = jinsert s (JObj (insert_segments [] (t # ss) v)) m"
        using False by (auto split: option.splits json.splits)
      have IH: "view (JObj (insert_segments [] (t # ss) v)) q' = mount (view (JObj [])) (t # ss) (view v) q'"
        using False 3 by (cases "map_of m s"; cases "the (map_of m s)") auto
      have gone: "q' = [] \<or> view (JObj m) (s # q') = None"
        using False by (cases "map_of m s"; cases q'; cases "the (map_of m s)") (auto simp: view_def)
      have fresh: "q' = [] \<or> view (JObj []) q' = None"
        by (cases q') simp_all
      show ?thesis
        using IH gone fresh Cons
        by (auto simp: ins mount_def simp del: insert_segments.simps split: if_splits)
    qed
  qed
qed simp

section \<open>Addressable keys\<close>

text \<open>A tree is clean when no key is empty or holds a dot, so that dotted paths address it.\<close>

definition clean_key :: "string \<Rightarrow> bool" where
  "clean_key k \<longleftrightarrow> k \<noteq> [] \<and> CHR ''.'' \<notin> set k"

fun clean :: "json \<Rightarrow> bool" where
  "clean (JObj m) = list_all (\<lambda>p. clean_key (fst p) \<and> clean (snd p)) m"
| "clean _ = True"

lemma clean_empty [simp]: "clean (JObj [])"
  by simp

lemma segments_clean: "list_all clean_key (segments key)"
  by (auto simp: segments_def list_all_iff clean_key_def dest: split_on_free)

lemma segments_join: "list_all clean_key p \<Longrightarrow> p \<noteq> [] \<Longrightarrow> segments (join_with ''.'' p) = p"
  by (simp add: segments_def split_join list_all_iff clean_key_def)

lemma clean_jinsert [wf_intros]:
  "clean (JObj m) \<Longrightarrow> clean_key k \<Longrightarrow> clean v \<Longrightarrow> clean (JObj (jinsert k v m))"
  by (induction k v m rule: jinsert.induct) auto

lemma clean_map_of: "clean (JObj m) \<Longrightarrow> map_of m k = Some v \<Longrightarrow> clean v"
  by (auto simp: list_all_iff dest!: map_of_SomeD)

lemma clean_map_of_key: "clean (JObj m) \<Longrightarrow> map_of m k = Some v \<Longrightarrow> clean_key k"
  by (auto simp: list_all_iff dest!: map_of_SomeD)

lemma clean_path: "clean j \<Longrightarrow> json_at j p = Some v \<Longrightarrow> list_all clean_key p"
proof (induction j p rule: json_at.induct)
  case (2 m s ss)
  then show ?case
    by (auto split: option.splits simp del: clean.simps dest: clean_map_of clean_map_of_key)
qed simp_all

lemma clean_insert_segments [wf_intros]:
  "clean (JObj m) \<Longrightarrow> list_all clean_key p \<Longrightarrow> clean v \<Longrightarrow> clean (JObj (insert_segments m p v))"
proof (induction m p v rule: insert_segments.induct)
  case (3 m s t ss v)
  have empty: "clean (JObj [])" by simp
  show ?case
  proof (cases "\<exists>c. map_of m s = Some (JObj c)")
    case True
    then obtain c where c: "map_of m s = Some (JObj c)" by blast
    with 3 show ?thesis
      using clean_map_of[OF "3.prems"(1) c] by (simp del: clean.simps add: clean_jinsert)
  next
    case False
    with 3 empty show ?thesis
      by (auto simp del: clean.simps simp: clean_jinsert split: option.splits json.splits)
  qed
qed (simp_all del: clean.simps add: clean_jinsert)

lemma clean_merge_maps [wf_intros]:
  "clean (JObj b) \<Longrightarrow> clean (JObj m) \<Longrightarrow> clean (JObj (merge_maps b m))"
proof (induction b m rule: merge_maps.induct)
  case (2 base key v overlay)
  have v: "clean_key key" "clean v" and rest: "clean (JObj overlay)"
    using "2.prems"(2) by auto
  have "clean (JObj (case map_of base key of
          Some (JObj base_obj) \<Rightarrow>
            (case v of
               JObj overlay_obj \<Rightarrow> jinsert key (JObj (merge_maps base_obj overlay_obj)) base
             | _ \<Rightarrow> jinsert key v base)
        | _ \<Rightarrow> jinsert key v base))"
    using "2.IH"(1) "2.prems"(1) v clean_map_of[OF "2.prems"(1), of key]
    by (auto simp del: clean.simps simp: clean_jinsert split: option.split json.split)
  with "2.IH"(2) rest show ?case by (simp del: clean.simps)
qed simp

lemma merge_value_wf [wf_intros]:
  "json_wf (JObj m) \<Longrightarrow> json_wf v \<Longrightarrow> json_wf (JObj (merge_value m key v))"
  by (simp add: merge_value_def json_wf_insert_segments del: json_wf.simps)

lemma merge_value_clean [wf_intros]:
  "clean (JObj m) \<Longrightarrow> clean v \<Longrightarrow> clean (JObj (merge_value m key v))"
  by (simp add: merge_value_def clean_insert_segments segments_clean del: clean.simps)

lemma view_merge_value:
  "segments key \<noteq> [] \<Longrightarrow>
   view (JObj (merge_value m key v)) q = mount (view (JObj m)) (segments key) (view v) q"
  by (simp add: merge_value_def view_insert_segments)

end
