(* ===== verification/ConfigSource.thy ===== *)
theory ConfigSource
  imports ConfigTree
begin

text \<open>
  The configuration sources of \<open>sb-config\<close> (\<open>source/env.rs\<close>,
  \<open>source/cli.rs\<close>, \<open>source/file.rs\<close>), snapshots and their accessors
  (\<open>snapshot.rs\<close>, \<open>access.rs\<close>) and the switch between snapshots
  (\<open>switch.rs\<close>).  The contract of a source is the locale \<open>config_source\<close>;
  the sources whose keys are all addressable satisfy \<open>clean_source\<close> too.
\<close>

section \<open>String operations of the sources\<close>

fun split_once :: "char \<Rightarrow> string \<Rightarrow> (string \<times> string) option" where
  "split_once c [] = None"
| "split_once c (x # s) =
     (if x = c then Some ([], s)
      else map_option (\<lambda>(a, b). (x # a, b)) (split_once c s))"

text \<open>\<open>str::split\<close> by a string; \<open>acc\<close> is the piece read so far.\<close>

function split_str_from :: "string \<Rightarrow> string \<Rightarrow> string \<Rightarrow> string list" where
  "split_str_from sep acc [] = [acc]"
| "split_str_from sep acc (c # s) =
     (if starts_with (c # s) sep then acc # split_str_from sep [] (drop (length sep - 1) s)
      else split_str_from sep (acc @ [c]) s)"
  by pat_completeness auto
termination by (relation "measure (\<lambda>(_, _, s). length s)") auto

definition split_str :: "string \<Rightarrow> string \<Rightarrow> string list" where
  "split_str sep s =
     (if sep = [] then [] # map (\<lambda>c. [c]) s @ [[]] else split_str_from sep [] s)"

function trim_start_matches :: "string \<Rightarrow> string \<Rightarrow> string" where
  "trim_start_matches p s =
     (if p \<noteq> [] \<and> starts_with s p then trim_start_matches p (drop (length p) s) else s)"
  by pat_completeness auto
termination
  by (relation "measure (\<lambda>(_, s). length s)") (auto simp: starts_with_iff)

declare trim_start_matches.simps [simp del]

lemma split_once_Some: "split_once c s = Some (a, b) \<Longrightarrow> s = a @ c # b \<and> c \<notin> set a"
  by (induction s arbitrary: a) (auto split: if_splits)

section \<open>Sources\<close>

datatype file_content = Missing | Unreadable string | Unparsable | Parsed json

record config_world =
  env_vars :: "(string \<times> string) list"
  config_files :: "string \<Rightarrow> file_content"

record source_snapshot =
  ss_map :: config_map
  ss_provenance :: provenance

definition provenance_entry_of :: "string \<Rightarrow> string \<Rightarrow> provenance_entry" where
  "provenance_entry_of src layer = \<lparr>pe_source = src, pe_version = None, pe_layer = Some layer\<rparr>"

record env_source =
  es_prefix :: string
  es_separator :: string

definition env_path :: "env_source \<Rightarrow> string \<Rightarrow> string option" where
  "env_path src key =
     (let prefix_upper = to_upper (es_prefix src) in
      if \<not> starts_with key prefix_upper then None
      else
        let trimmed = dropWhile ((=) CHR ''_'') (trim_start_matches prefix_upper key) in
        if trimmed = [] then None
        else Some (join_with ''.''
               (map to_lower (filter (\<lambda>s. s \<noteq> []) (split_str (es_separator src) trimmed)))))"

definition env_put :: "env_source \<Rightarrow> string \<times> string \<Rightarrow> config_map \<Rightarrow> config_map" where
  "env_put src kv m =
     (case env_path src (fst kv) of
        None \<Rightarrow> m
      | Some path \<Rightarrow> merge_value m path (JStr (snd kv)))"

definition env_load :: "env_source \<Rightarrow> config_world \<Rightarrow> source_snapshot config_result" where
  "env_load src w = Ok \<lparr>ss_map = fold (env_put src) (env_vars w) [],
     ss_provenance = [provenance_entry_of ''env'' ''env'']\<rparr>"

definition cli_put :: "string \<Rightarrow> config_map \<Rightarrow> config_map" where
  "cli_put arg m =
     (case strip_prefix arg ''--'' of
        Some stripped \<Rightarrow>
          (case split_once CHR ''='' stripped of
             Some (key, v) \<Rightarrow> merge_value m key (JStr v)
           | None \<Rightarrow> m)
      | None \<Rightarrow>
          (case split_once CHR ''='' arg of
             Some (key, v) \<Rightarrow> merge_value m key (JStr v)
           | None \<Rightarrow> m))"

definition cli_load :: "string list \<Rightarrow> config_world \<Rightarrow> source_snapshot config_result" where
  "cli_load args w = Ok \<lparr>ss_map = fold cli_put args [],
     ss_provenance = [provenance_entry_of ''cli'' ''cli'']\<rparr>"

fun file_load_from ::
  "config_world \<Rightarrow> string list \<Rightarrow> source_snapshot \<Rightarrow> source_snapshot config_result" where
  "file_load_from w [] acc = Ok acc"
| "file_load_from w (path # paths) acc =
     (case config_files w path of
        Missing \<Rightarrow> file_load_from w paths acc
      | Unreadable err \<Rightarrow> Err (io_provider_unavailable ''file'' err)
      | Unparsable \<Rightarrow>
          file_load_from w paths
            (acc\<lparr>ss_provenance := ss_provenance acc @ [provenance_entry_of path ''file'']\<rparr>)
      | Parsed j \<Rightarrow>
          file_load_from w paths
            \<lparr>ss_map = (case j of JObj obj \<Rightarrow> merge_maps (ss_map acc) obj | _ \<Rightarrow> ss_map acc),
             ss_provenance = ss_provenance acc @ [provenance_entry_of path ''file'']\<rparr>)"

definition file_load :: "string list \<Rightarrow> config_world \<Rightarrow> source_snapshot config_result" where
  "file_load paths w = file_load_from w paths \<lparr>ss_map = [], ss_provenance = []\<rparr>"

text \<open>
  What a loader relies on: a source that loads gives a well-formed map.  \<open>sound w\<close> is
  what the source needs of the world, nothing for the environment and the arguments, and that a
  parser yields well-formed values for the files.
\<close>

locale config_source =
  fixes load :: "config_world \<Rightarrow> source_snapshot config_result"
    and sound :: "config_world \<Rightarrow> bool"
  assumes load_wf: "sound w \<Longrightarrow> load w = Ok s \<Longrightarrow> json_wf (JObj (ss_map s))"
begin

lemma layer_wf:
  "sound w \<Longrightarrow> load w = Ok s \<Longrightarrow> json_wf (JObj base) \<Longrightarrow> json_wf (JObj (merge_maps base (ss_map s)))"
  using load_wf by (simp add: json_wf_merge_maps del: json_wf.simps)

lemma layer_view:
  "sound w \<Longrightarrow> load w = Ok s \<Longrightarrow>
   view (JObj (merge_maps base (ss_map s))) = overlay (view (JObj base)) (view (JObj (ss_map s)))"
  using load_wf by (auto simp: view_merge_maps simp del: json_wf.simps)

end

locale clean_source = config_source +
  assumes load_clean: "load w = Ok s \<Longrightarrow> clean (JObj (ss_map s))"
    and load_ok: "\<exists>s. load w = Ok s"
begin

lemma layer_clean:
  "load w = Ok s \<Longrightarrow> clean (JObj base) \<Longrightarrow> clean (JObj (merge_maps base (ss_map s)))"
  using load_clean by (simp add: clean_merge_maps del: clean.simps)

end

lemma env_put_wf: "json_wf (JObj m) \<Longrightarrow> json_wf (JObj (env_put src kv m))"
  by (simp add: env_put_def merge_value_wf del: json_wf.simps(2) split: option.split)

lemma env_put_clean: "clean (JObj m) \<Longrightarrow> clean (JObj (env_put src kv m))"
  by (simp add: env_put_def merge_value_clean del: clean.simps(1) split: option.split)

lemma cli_put_wf: "json_wf (JObj m) \<Longrightarrow> json_wf (JObj (cli_put arg m))"
  by (simp add: cli_put_def merge_value_wf del: json_wf.simps(2) split: option.split)

lemma cli_put_clean: "clean (JObj m) \<Longrightarrow> clean (JObj (cli_put arg m))"
  by (simp add: cli_put_def merge_value_clean del: clean.simps(1) split: option.split)

lemma fold_invariant:
  "P m \<Longrightarrow> (\<And>x m. P m \<Longrightarrow> P (f x m)) \<Longrightarrow> P (fold f xs m)"
  by (induction xs arbitrary: m) auto

interpretation env_src: clean_source "env_load src" "\<lambda>_. True" for src
  by unfold_locales
    (auto simp: env_load_def simp del: json_wf.simps clean.simps
      intro!: fold_invariant[where P = "\<lambda>m. json_wf (JObj m)"]
        fold_invariant[where P = "\<lambda>m. clean (JObj m)"]
      intro: env_put_wf env_put_clean json_wf_empty clean_empty)

interpretation cli_src: clean_source "cli_load args" "\<lambda>_. True" for args
  by unfold_locales
    (auto simp: cli_load_def simp del: json_wf.simps clean.simps
      intro!: fold_invariant[where P = "\<lambda>m. json_wf (JObj m)"]
        fold_invariant[where P = "\<lambda>m. clean (JObj m)"]
      intro: cli_put_wf cli_put_clean json_wf_empty clean_empty)

text \<open>What parsing guarantees of the files that a source reads.\<close>

definition files_parsed :: "string list \<Rightarrow> config_world \<Rightarrow> bool" where
  "files_parsed paths w \<longleftrightarrow>
     list_all (\<lambda>p. case config_files w p of Parsed j \<Rightarrow> json_wf j | _ \<Rightarrow> True) paths"

lemma file_load_from_wf:
  "files_parsed paths w \<Longrightarrow> json_wf (JObj (ss_map acc)) \<Longrightarrow> file_load_from w paths acc = Ok s \<Longrightarrow>
   json_wf (JObj (ss_map s))"
proof (induction w paths acc rule: file_load_from.induct)
  case (2 w path paths acc)
  then show ?case
    by (cases "config_files w path")
      (auto simp: files_parsed_def json_wf_merge_maps simp del: json_wf.simps(2) split: json.splits)
qed simp

interpretation file_src: config_source "file_load paths" "files_parsed paths" for paths
  by unfold_locales (simp add: file_load_def file_load_from_wf[where acc = "\<lparr>ss_map = [], ss_provenance = []\<rparr>"]
    del: json_wf.simps(2))

section \<open>Snapshots\<close>

record config_snapshot =
  snap_data :: config_value
  snap_metadata :: snapshot_metadata

definition snapshot_new :: "config_map \<Rightarrow> snapshot_metadata \<Rightarrow> config_snapshot" where
  "snapshot_new m metadata = \<lparr>snap_data = JObj m, snap_metadata = metadata\<rparr>"

definition get_raw :: "config_snapshot \<Rightarrow> key_path \<Rightarrow> config_value option" where
  "get_raw snap path =
     (if segments path = [] then None else json_at (snap_data snap) (segments path))"

text \<open>\<open>get<T>\<close> decodes with \<open>T\<close>'s deserialiser.\<close>

definition snapshot_get :: "(json \<Rightarrow> 'a option) \<Rightarrow> config_snapshot \<Rightarrow> key_path \<Rightarrow> 'a option" where
  "snapshot_get decode snap path = Option.bind (get_raw snap path) decode"

definition dotted :: "string \<Rightarrow> string \<Rightarrow> string" where
  "dotted pre key = (if pre = [] then key else pre @ ''.'' @ key)"

function collect_keys :: "string \<Rightarrow> config_map \<Rightarrow> string list" where
  "collect_keys pre [] = []"
| "collect_keys pre ((key, v) # m) =
     (let next_key = dotted pre key in
      next_key # (case v of JObj child \<Rightarrow> collect_keys next_key child | _ \<Rightarrow> [])
        @ collect_keys pre m)"
  by pat_completeness auto
termination
  by (relation "measure (\<lambda>(_, m). size (JObj m))") auto

definition iter_keys :: "config_snapshot \<Rightarrow> string list" where
  "iter_keys snap = (case snap_data snap of JObj m \<Rightarrow> collect_keys [] m | _ \<Rightarrow> [])"

definition access_namespace :: "config_snapshot \<Rightarrow> namespace_id \<Rightarrow> config_map option" where
  "access_namespace snap ns = Option.bind (get_raw snap ns) as_object"

definition feature_flag :: "config_snapshot \<Rightarrow> key_path \<Rightarrow> bool option" where
  "feature_flag snap key = snapshot_get as_bool snap key"

section \<open>The switch\<close>

record snapshot_switch =
  sw_current :: config_snapshot
  sw_lkg :: config_snapshot

definition switch_new :: "config_snapshot \<Rightarrow> snapshot_switch" where
  "switch_new initial = \<lparr>sw_current = initial, sw_lkg = initial\<rparr>"

definition switch_get :: "snapshot_switch \<Rightarrow> config_snapshot" where
  "switch_get sw = sw_current sw"

definition switch_swap :: "config_snapshot \<Rightarrow> snapshot_switch \<Rightarrow> snapshot_switch" where
  "switch_swap next_snap sw = sw\<lparr>sw_current := next_snap\<rparr>"

definition switch_rollback :: "snapshot_switch \<Rightarrow> snapshot_switch \<times> config_snapshot" where
  "switch_rollback sw = (sw\<lparr>sw_current := sw_lkg sw\<rparr>, sw_lkg sw)"

inductive switch_step :: "snapshot_switch \<Rightarrow> snapshot_switch \<Rightarrow> bool" where
  step_swap: "switch_step sw (switch_swap snap sw)"
| step_rollback: "switch_step sw (fst (switch_rollback sw))"

inductive_cases switch_stepE: "switch_step sw sw'"

text \<open>The last known good snapshot is the first one, for ever.\<close>

lemma switch_lkg_fixed: "switch_step\<^sup>*\<^sup>* sw sw' \<Longrightarrow> sw_lkg sw' = sw_lkg sw"
  by (induction rule: rtranclp_induct)
    (auto simp: switch_swap_def switch_rollback_def elim!: switch_stepE)

lemma rollback_restores_first:
  "switch_step\<^sup>*\<^sup>* (switch_new initial) sw \<Longrightarrow> switch_rollback sw = (switch_new initial, initial)"
  by (drule switch_lkg_fixed) (simp add: switch_rollback_def switch_new_def)

section \<open>Watcher and labels\<close>

record watch_event =
  we_snapshot :: config_snapshot

definition noop_watcher_run :: "unit config_result" where
  "noop_watcher_run = Ok ()"

definition labels_for_update :: "string \<Rightarrow> string \<Rightarrow> (string \<times> string) list" where
  "labels_for_update namespace reload_class =
     jinsert ''reload_class'' reload_class (jinsert ''namespace'' namespace [])"

end
