(* ===== verification/TxBackoff.thy ===== *)
theory TxBackoff
  imports TxSurreal ConfigSource
begin

text \<open>
  When a failed message is due again (\<open>backoff.rs\<close>, \<open>RetryPolicy::next_after\<close>), and how the
  configuration of the crate and its stores is put together (\<open>config.rs\<close>, \<open>memory/mod.rs\<close>,
  \<open>surreal/store.rs\<close>).  An \<open>f64\<close> is its 64 bits and its arithmetic is the record
  \<open>f64_ops\<close>; the random draw is an argument.
\<close>

section \<open>Arithmetic of doubles\<close>

record f64_ops =
  d_of_u64 :: "64 word \<Rightarrow> f64"
  d_to_i64 :: "f64 \<Rightarrow> int"
  d_add :: "f64 \<Rightarrow> f64 \<Rightarrow> f64"
  d_sub :: "f64 \<Rightarrow> f64 \<Rightarrow> f64"
  d_mul :: "f64 \<Rightarrow> f64 \<Rightarrow> f64"
  d_powi :: "f64 \<Rightarrow> int \<Rightarrow> f64"
  d_is_nan :: "f64 \<Rightarrow> bool"
  d_le :: "f64 \<Rightarrow> f64 \<Rightarrow> bool"
  d_lt :: "f64 \<Rightarrow> f64 \<Rightarrow> bool"

definition f64_one :: f64 where
  "f64_one = 0x3FF0000000000000"

definition f64_two :: f64 where
  "f64_two = 0x4000000000000000"

text \<open>\<open>f64::min\<close>, which prefers a number to a NaN, and \<open>f64::clamp\<close>, which panics on an empty range.\<close>

definition f64_min :: "f64_ops \<Rightarrow> f64 \<Rightarrow> f64 \<Rightarrow> f64" where
  "f64_min f a b = (if d_is_nan f a then b else if d_is_nan f b then a else if d_lt f b a then b else a)"

definition f64_clamp :: "f64_ops \<Rightarrow> f64 \<Rightarrow> f64 \<Rightarrow> f64 \<Rightarrow> f64 option" where
  "f64_clamp f x low high =
     (if d_le f low high then
        Some (let x = (if d_lt f x low then low else x) in if d_lt f high x then high else x)
      else None)"

section \<open>The next attempt\<close>

definition jitter_factor :: "f64_ops \<Rightarrow> f64 \<Rightarrow> retry_policy \<Rightarrow> f64" where
  "jitter_factor f draw p =
     d_add f f64_one (d_mul f (d_sub f (d_mul f draw f64_two) f64_one) (rp_jitter p))"

definition backoff_product :: "f64_ops \<Rightarrow> f64 \<Rightarrow> retry_policy \<Rightarrow> 32 word \<Rightarrow> f64" where
  "backoff_product f draw p attempts =
     (let growth = d_mul f (d_of_u64 f (rp_base_ms p)) (d_powi f (rp_factor p) (sint (sat_sub attempts 1)));
          capped = f64_min f growth (d_of_u64 f (rp_cap_ms p))
      in d_mul f capped (jitter_factor f draw p))"

text \<open>\<open>None\<close> is the panic of \<open>clamp\<close>.\<close>

definition next_after :: "f64_ops \<Rightarrow> f64 \<Rightarrow> retry_policy \<Rightarrow> int \<Rightarrow> 32 word \<Rightarrow> int option" where
  "next_after f draw p now attempts =
     map_option (\<lambda>delay. i64_add now (d_to_i64 f delay))
       (f64_clamp f (backoff_product f draw p attempts) (d_of_u64 f (rp_base_ms p)) (d_of_u64 f (rp_cap_ms p)))"

text \<open>
  What IEEE 754 and the language give: numbers are ordered, integers up to \<open>2 ^ 53\<close> convert exactly and in order, the
  conversion back is monotone and takes a NaN to zero, and a comparison with a NaN is false.
\<close>

definition f64_exact :: "64 word \<Rightarrow> bool" where
  "f64_exact n \<longleftrightarrow> n \<le> 2 ^ 53"

definition f64_laws :: "f64_ops \<Rightarrow> bool" where
  "f64_laws f \<longleftrightarrow>
     (\<forall>a b. d_lt f a b \<longrightarrow> \<not> d_is_nan f a \<and> \<not> d_is_nan f b \<and> \<not> d_le f b a) \<and>
     (\<forall>a b. \<not> d_is_nan f a \<longrightarrow> \<not> d_is_nan f b \<longrightarrow> \<not> d_lt f a b \<longrightarrow> d_le f b a) \<and>
     (\<forall>a b. d_le f a b \<longrightarrow> d_to_i64 f a \<le> d_to_i64 f b) \<and>
     (\<forall>a. d_is_nan f a \<longrightarrow> d_to_i64 f a = 0) \<and>
     (\<forall>n. f64_exact n \<longrightarrow> \<not> d_is_nan f (d_of_u64 f n) \<and> d_to_i64 f (d_of_u64 f n) = uint n) \<and>
     (\<forall>m n. f64_exact m \<longrightarrow> f64_exact n \<longrightarrow> d_le f (d_of_u64 f m) (d_of_u64 f n) = (m \<le> n))"

lemma f64_clamp_range:
  assumes "f64_laws f" "f64_clamp f x (d_of_u64 f base) (d_of_u64 f cap) = Some y" "f64_exact base" "f64_exact cap"
  shows "if d_is_nan f x then d_to_i64 f y = 0 else uint base \<le> d_to_i64 f y \<and> d_to_i64 f y \<le> uint cap"
proof -
  let ?b = "d_of_u64 f base" and ?c = "d_of_u64 f cap"
  have nums: "\<not> d_is_nan f ?b" "\<not> d_is_nan f ?c" and ints: "d_to_i64 f ?b = uint base" "d_to_i64 f ?c = uint cap"
    and mono: "\<And>a b. d_le f a b \<Longrightarrow> d_to_i64 f a \<le> d_to_i64 f b" and nan: "\<And>a. d_is_nan f a \<Longrightarrow> d_to_i64 f a = 0"
    and total: "\<And>a b. \<not> d_is_nan f a \<Longrightarrow> \<not> d_is_nan f b \<Longrightarrow> \<not> d_lt f a b \<Longrightarrow> d_le f b a"
    and lt: "\<And>a b. d_lt f a b \<Longrightarrow> \<not> d_is_nan f a \<and> \<not> d_is_nan f b"
    using assms unfolding f64_laws_def by blast+
  have le: "d_le f ?b ?c" and y: "y = (let z = (if d_lt f x ?b then ?b else x) in if d_lt f ?c z then ?c else z)"
    using assms(2) by (auto simp: f64_clamp_def split: if_splits)
  have "uint base \<le> uint cap"
    using mono[OF le] ints by simp
  moreover have "uint base \<le> d_to_i64 f x" if "\<not> d_is_nan f x" "\<not> d_lt f x ?b"
    using mono[OF total[OF that(1) nums(1) that(2)]] ints by simp
  moreover have "d_to_i64 f z \<le> uint cap" if "\<not> d_is_nan f z" "\<not> d_lt f ?c z" for z
    using mono[OF total[OF nums(2) that]] ints by simp
  ultimately show ?thesis
    using lt nan nums ints by (auto simp: y Let_def)
qed

section \<open>Configuration and stores\<close>

definition tx_config_load :: "(json \<Rightarrow> tx_config option) \<Rightarrow> config_snapshot \<Rightarrow> tx_config" where
  "tx_config_load decode snap =
     (case snapshot_get decode snap ''tx'' of Some c \<Rightarrow> c | None \<Rightarrow> tx_config_default)"

definition config_budget_guard :: "tx_config \<Rightarrow> budget_guard" where
  "config_budget_guard c = build_budget_guard (oc_budget (tc_outbox c))"

text \<open>\<open>NoopA2AHooks\<close> keeps the default hooks of the trait.\<close>

definition noop_on_outbox_dead_letter :: "tenant_id \<Rightarrow> outbox_message \<Rightarrow> string option \<Rightarrow> unit tx_result" where
  "noop_on_outbox_dead_letter t m code = Ok ()"

definition noop_on_outbox_replay :: "tenant_id \<Rightarrow> id \<Rightarrow> unit tx_result" where
  "noop_on_outbox_replay t i = Ok ()"

text \<open>\<open>InMemoryTxStore\<close>: its parts, its default with the budget guard it builds, and the empty stores.\<close>

definition memory_store_with_config ::
  "tx_config \<Rightarrow> (tenant_id \<Rightarrow> outbox_message \<Rightarrow> string option \<Rightarrow> unit tx_result) \<Rightarrow> tx_store" where
  "memory_store_with_config config a2a = \<lparr>ts_config = config, ts_a2a_dead_letter = a2a\<rparr>"

definition memory_store_default :: "tx_store \<times> budget_guard" where
  "memory_store_default =
     (memory_store_with_config tx_config_default noop_on_outbox_dead_letter, config_budget_guard tx_config_default)"

definition memory_world_new :: tx_world where
  "memory_world_new =
     \<lparr>w_outbox = Map.empty, w_idempo = Map.empty, w_sagas = Map.empty, w_dead = Map.empty,
      w_budgets = Map.empty, w_metrics = [], w_sent = []\<rparr>"

text \<open>\<open>SurrealTxStore\<close> over a datastore.\<close>

definition surreal_store_with_config ::
  "('d, 'r) tx_db \<Rightarrow> tx_config \<Rightarrow> (tenant_id \<Rightarrow> outbox_message \<Rightarrow> string option \<Rightarrow> unit tx_result)
   \<Rightarrow> (tenant_id \<Rightarrow> id \<Rightarrow> unit tx_result) \<Rightarrow> ('d, 'r) surreal_tx_store" where
  "surreal_store_with_config db config a2a replay =
     \<lparr>xt_db = db, xt_config = config, xt_a2a_dead_letter = a2a, xt_a2a_replay = replay\<rparr>"

definition surreal_store_new :: "('d, 'r) tx_db \<Rightarrow> ('d, 'r) surreal_tx_store \<times> budget_guard" where
  "surreal_store_new db =
     (surreal_store_with_config db tx_config_default noop_on_outbox_dead_letter noop_on_outbox_replay,
      config_budget_guard tx_config_default)"

section \<open>Properties\<close>

text \<open>
  C11: The date of a retry.  Where base and cap are converted exactly (up to \<open>2 ^ 53\<close> milliseconds) and
  the sum fits \<open>i64\<close>, a failed message is due again between base and cap after now, whatever
  the attempts, the factor and the random draw; only a jitter that makes the delay no number has it due
  at once.  The code panics exactly when the cap is below the base, which nothing checks.
\<close>

theorem next_after_bounds:
  assumes "f64_laws f" and "f64_exact (rp_base_ms p)" and "f64_exact (rp_cap_ms p)"
    and "in_i64 now" and "in_i64 (now + uint (rp_cap_ms p))"
  shows "case next_after f draw p now attempts of
    None \<Rightarrow> rp_cap_ms p < rp_base_ms p
  | Some t \<Rightarrow> rp_base_ms p \<le> rp_cap_ms p \<and>
      (if d_is_nan f (backoff_product f draw p attempts) then t = now
       else now + uint (rp_base_ms p) \<le> t \<and> t \<le> now + uint (rp_cap_ms p))"
proof -
  let ?x = "backoff_product f draw p attempts"
  let ?clamp = "f64_clamp f ?x (d_of_u64 f (rp_base_ms p)) (d_of_u64 f (rp_cap_ms p))"
  have le: "d_le f (d_of_u64 f (rp_base_ms p)) (d_of_u64 f (rp_cap_ms p)) = (rp_base_ms p \<le> rp_cap_ms p)"
    using assms(1-3) unfolding f64_laws_def by blast
  show ?thesis
  proof (cases ?clamp)
    case None
    then show ?thesis
      using le by (auto simp: next_after_def f64_clamp_def split: if_splits)
  next
    case (Some y)
    then have ok: "rp_base_ms p \<le> rp_cap_ms p"
      using le by (auto simp: f64_clamp_def split: if_splits)
    note range = f64_clamp_range[OF assms(1) Some assms(2,3)]
    have "0 \<le> d_to_i64 f y" "d_to_i64 f y \<le> uint (rp_cap_ms p)"
      using range order_trans[OF uint_nonnegative[of "rp_base_ms p"]] by (auto split: if_splits)
    then have "in_i64 (now + d_to_i64 f y)"
      using assms(4,5) unfolding in_i64_def by linarith
    with Some ok range show ?thesis
      by (auto simp: next_after_def i64_add_exact split: if_splits)
  qed
qed

text \<open>Whole numbers in the place of doubles, the greatest standing for NaN.\<close>

definition whole_ops :: f64_ops where
  "whole_ops =
     \<lparr>d_of_u64 = (\<lambda>n. n), d_to_i64 = (\<lambda>a. if a = - 1 then 0 else uint a), d_add = (+), d_sub = (-), d_mul = (*),
      d_powi = (\<lambda>a i. a ^ nat i), d_is_nan = (\<lambda>a. a = - 1), d_le = (\<lambda>a b. a \<noteq> - 1 \<and> b \<noteq> - 1 \<and> a \<le> b),
      d_lt = (\<lambda>a b. a \<noteq> - 1 \<and> b \<noteq> - 1 \<and> a < b)\<rparr>"

lemma whole_laws: "f64_laws whole_ops"
proof -
  have "n \<noteq> - 1" if "f64_exact n" for n
    using that by (auto simp: f64_exact_def word_le_nat_alt unat_minus_one_eq)
  then show ?thesis
    by (auto simp: f64_laws_def whole_ops_def word_le_def word_less_def)
qed

definition demo_retry :: retry_policy where
  "demo_retry = \<lparr>rp_max_attempts = 5, rp_base_ms = 500, rp_factor = 2, rp_jitter = 0, rp_cap_ms = 60000\<rparr>"

theorem next_after_bounds_witness:
  "\<exists>t. next_after whole_ops 0 demo_retry 1000 3 = Some t \<and> 1500 \<le> t \<and> t \<le> 61000"
proof -
  have "(case next_after whole_ops 0 demo_retry 1000 3 of
      None \<Rightarrow> rp_cap_ms demo_retry < rp_base_ms demo_retry
    | Some t \<Rightarrow> rp_base_ms demo_retry \<le> rp_cap_ms demo_retry \<and>
        (if d_is_nan whole_ops (backoff_product whole_ops 0 demo_retry 3) then t = 1000
         else 1000 + uint (rp_base_ms demo_retry) \<le> t \<and> t \<le> 1000 + uint (rp_cap_ms demo_retry)))"
    by (rule next_after_bounds[OF whole_laws]) (simp_all add: demo_retry_def f64_exact_def in_i64_def)
  moreover have "backoff_product whole_ops 0 demo_retry 3 \<noteq> - 1"
    by (simp add: backoff_product_def jitter_factor_def f64_min_def whole_ops_def demo_retry_def f64_one_def
        f64_two_def sat_sub_def)
  ultimately show ?thesis
    by (auto simp: demo_retry_def whole_ops_def split: option.splits)
qed

end
