(* ===== verification/TxWorker.thy ===== *)
theory TxWorker
  imports TxMemory TxDead
begin

text \<open>
  The background workers of \<open>sb-tx\<close> (\<open>worker.rs\<close>): the dispatcher's loop, the maintenance of
  dead letters and the runtime that starts both.  A run of a loop is the list of its events in the order in which
  \<open>select!\<close> takes them: a tick of the interval with the clock's reading, or the stop signal.  What the
  loops print is the list of errors.
\<close>

section \<open>The loops\<close>

datatype worker_event = TickAt int | StopSignal

definition logged :: "unit tx_result \<Rightarrow> tx_error list" where
  "logged r = (case r of Inl e \<Rightarrow> [e] | Inr _ \<Rightarrow> [])"

fun dispatcher_worker ::
  "'w dispatcher \<Rightarrow> tenant_id \<Rightarrow> worker_event list \<Rightarrow> 'w \<Rightarrow> 'w \<times> tx_error list" where
  "dispatcher_worker d tenant [] w = (w, [])"
| "dispatcher_worker d tenant (StopSignal # evs) w = (w, [])"
| "dispatcher_worker d tenant (TickAt now # evs) w =
     (let (w, r) = dispatcher_tick d tenant now w;
          (w, errs) = dispatcher_worker d tenant evs w
      in (w, logged r @ errs))"

text \<open>\<open>purge\<close> is the dead store's \<open>purge_older_than\<close>.\<close>

fun maintenance_loop ::
  "(tenant_id \<Rightarrow> int \<Rightarrow> 'w \<Rightarrow> 'w \<times> unit tx_result) \<Rightarrow> tenant_id \<Rightarrow> int \<Rightarrow> worker_event list \<Rightarrow> 'w
   \<Rightarrow> 'w \<times> tx_error list" where
  "maintenance_loop purge tenant retention [] w = (w, [])"
| "maintenance_loop purge tenant retention (StopSignal # evs) w = (w, [])"
| "maintenance_loop purge tenant retention (TickAt now # evs) w =
     (let (w, r) = purge tenant (i64_sub now retention) w;
          (w, errs) = maintenance_loop purge tenant retention evs w
      in (w, logged r @ errs))"

text \<open>\<open>retention_ms as i64\<close>.\<close>

definition dead_letter_maintenance ::
  "(tenant_id \<Rightarrow> int \<Rightarrow> 'w \<Rightarrow> 'w \<times> unit tx_result) \<Rightarrow> tenant_id \<Rightarrow> 64 word \<Rightarrow> worker_event list \<Rightarrow> 'w
   \<Rightarrow> 'w \<times> tx_error list" where
  "dead_letter_maintenance purge tenant retain evs w =
     (if retain = 0 then (w, [])
      else maintenance_loop purge tenant (sint retain) evs w)"

text \<open>What the runtime starts: each worker with its interval, the maintenance with its retention too.\<close>

record ('d, 's) tx_runtime =
  rn_dispatcher :: "('d \<times> 64 word) option"
  rn_maintenance :: "('s \<times> 64 word \<times> 64 word) option"

definition spawn_runtime ::
  "'d option \<Rightarrow> 's option \<Rightarrow> worker_config \<Rightarrow> 64 word \<Rightarrow> ('d, 's) tx_runtime" where
  "spawn_runtime dispatcher dead_store cfg default_retention_ms =
     (let retain = (case dead_letter_retention_ms cfg of Some r \<Rightarrow> r | None \<Rightarrow> default_retention_ms) in
      \<lparr>rn_dispatcher =
         (if enable_dispatcher cfg
          then map_option (\<lambda>d. (d, max (dispatcher_interval_ms cfg) 10)) dispatcher else None),
       rn_maintenance =
         (if retain > 0
          then map_option (\<lambda>s. (s, retain, max (dead_letter_interval_ms cfg) 1000)) dead_store else None)\<rparr>)"

section \<open>Maintenance\<close>

text \<open>The first tick removes every letter of the tenant older than the retention, and keeps the others.\<close>

lemma maintenance_purges:
  assumes "retain \<noteq> 0" "uint retain < 2 ^ 63" "- (2 ^ 63) \<le> now - uint retain" "now < 2 ^ 63"
  shows "fst (dead_letter_maintenance purge_older_than t retain [TickAt now] s) k =
    (case s k of
       Some l \<Rightarrow> if dl_tenant l = t \<and> dl_occurred_at l < now - uint retain then None else Some l
     | None \<Rightarrow> None)"
proof -
  have "signed_take_bit 63 (uint retain) = uint retain"
    by (rule signed_take_bit_int_eq_self) (use assms(2) uint_ge_0[of retain] in linarith)+
  then have "sint retain = uint retain"
    by (simp add: sint_uint)
  moreover have "0 \<le> uint retain" by simp
  then have "in_i64 (now - uint retain)"
    using assms(3,4) unfolding in_i64_def by linarith
  ultimately show ?thesis
    using assms(1) by (simp add: dead_letter_maintenance_def i64_sub_exact purge_older_than_def)
qed

section \<open>Draining the outbox\<close>

text \<open>The attempts the unfinished messages of a tenant have left.\<close>

definition message_left :: "32 word \<Rightarrow> tenant_id \<Rightarrow> outbox \<Rightarrow> tenant_id \<times> id \<Rightarrow> nat" where
  "message_left mx t s k =
     (case s k of
        Some m \<Rightarrow>
          if fst k = t \<and> \<not> status_is_terminal (om_status m) then unat mx - unat (om_attempts m) else 0
      | None \<Rightarrow> 0)"

definition work_left :: "32 word \<Rightarrow> tenant_id \<Rightarrow> outbox \<Rightarrow> nat" where
  "work_left mx t s = (\<Sum>k\<in>dom s. message_left mx t s k)"

definition idle :: "tenant_id \<Rightarrow> int \<Rightarrow> string \<Rightarrow> outbox \<Rightarrow> bool" where
  "idle t now worker s \<longleftrightarrow> (\<forall>i m. s (t, i) = Some m \<longrightarrow> \<not> eligible t now worker m)"

lemma outcome_left:
  assumes "om_attempts m < mx" "om_status m = Leased"
  shows "(if status_is_terminal (om_status (outcome mx nf now ans m)) then 0
      else unat mx - unat (om_attempts (outcome mx nf now ans m))) < unat mx - unat (om_attempts m)"
proof -
  have "unat (om_attempts m) < unat mx" using assms(1) by (simp add: word_less_nat_alt)
  moreover have "unat (om_attempts m + 1) = unat (om_attempts m) + 1"
  proof -
    have "unat (om_attempts m) + 1 < 2 ^ LENGTH(32)"
      using \<open>unat (om_attempts m) < unat mx\<close> unat_lt_2p32[of mx] by simp
    then show ?thesis by (simp add: unat_word_ariths)
  qed
  ultimately show ?thesis
    using sat_add_one[OF assms(1)]
    by (auto simp: outcome_def mark_done_def mark_dead_def mark_backoff_def split: sum.splits)
qed

text \<open>What a tick over the in-memory stores does for the drain.\<close>

lemma outcome_shape:
  "message_ok (outcome mx nf now ans m)" "om_tenant (outcome mx nf now ans m) = om_tenant m"
  "om_id (outcome mx nf now ans m) = om_id m"
  by (auto simp: outcome_def split: sum.splits)

lemma tick_drains:
  fixes ts e t now w
  defines "mx \<equiv> oc_max_attempts (tc_outbox (ts_config ts))"
    and "w' \<equiv> fst (dispatcher_tick (memory_dispatcher ts e) t now w)"
  assumes ok: "world_ok e w" and left: "attempts_left mx (w_outbox w)"
    and calm: "de_guard e = NoopGuard" "\<And>t m c. ts_a2a_dead_letter ts t m c = Ok ()"
  shows "dom (w_outbox w') = dom (w_outbox w) \<and> outbox_ok (w_outbox w') \<and> attempts_left mx (w_outbox w') \<and>
    (idle t now (de_worker_id e) (w_outbox w) \<or> work_left mx t (w_outbox w') < work_left mx t (w_outbox w))"
proof -
  let ?d = "memory_dispatcher ts e"
  let ?lease = "mark_leased (lease_deadline now (d_lease_ms ?d)) (d_worker_id ?d)"
  let ?out = "\<lambda>m. outcome mx (d_next_after ?d) now (de_answer e (?lease m)) (?lease m)"
  have fields: "d_max_attempts ?d = mx" "d_worker_id ?d = de_worker_id e"
    by (simp_all add: memory_dispatcher_def mx_def)
  obtain sel n where choice: "lease_choice t now (d_batch ?d) (d_worker_id ?d)
      (oc_group_by_dispatch_key (tc_outbox (ts_config ts))) (w_outbox w) sel"
    and part: "\<forall>m\<in>set (take n sel). w_outbox w' (t, om_id m) = Some (?out m)"
    and rest: "\<forall>k. k \<notin> (\<lambda>m. (t, om_id m)) ` set sel \<longrightarrow> w_outbox w' k = w_outbox w k"
    and all: "is_ok (snd (dispatcher_tick ?d t now w)) \<longrightarrow> n = length sel"
    using mem_tick_msgs[OF ok ok, where ts = ts and t = t and now = now]
    unfolding fields(1) w'_def by (elim exE conjE)
  have out: "w_outbox w' (t, om_id m) = Some (?out m)" if "m \<in> set sel" for m
    using part all mem_tick_ok[OF ok calm] that by simp
  have sel: "w_outbox w (t, om_id m) = Some m" "om_tenant m = t" "\<not> status_is_terminal (om_status m)"
    "om_attempts (?lease m) < mx" if "m \<in> set sel" for m
    using choice left that by (auto simp: lease_choice_def eligible_def attempts_left_def mark_leased_def)
  have cases: "(\<exists>m\<in>set sel. k = (t, om_id m) \<and> w_outbox w k = Some m \<and> w_outbox w' k = Some (?out m)) \<or>
      w_outbox w' k = w_outbox w k" for k
  proof (cases "k \<in> (\<lambda>m. (t, om_id m)) ` set sel")
    case True
    then show ?thesis using out sel(1) by auto
  next
    case False
    then show ?thesis using rest by (meson)
  qed
  have "k \<in> dom (w_outbox w') \<longleftrightarrow> k \<in> dom (w_outbox w)" for k
    using cases[of k] by (metis domIff option.distinct(1))
  then have dom: "dom (w_outbox w') = dom (w_outbox w)" by blast
  have "om_tenant m' = t' \<and> om_id m' = i \<and> message_ok m'" if "w_outbox w' (t', i) = Some m'" for t' i m'
    using cases[of "(t', i)"]
  proof
    assume "w_outbox w' (t', i) = w_outbox w (t', i)"
    with that have "w_outbox w (t', i) = Some m'" by simp
    then show ?thesis using ok by (auto simp: world_ok_def dest: outbox_okD)
  qed (use that sel(2) in \<open>auto simp: outcome_shape mark_leased_def\<close>)
  then have shape: "outbox_ok (w_outbox w')" by (simp add: outbox_ok_def)
  have "om_attempts m' < mx" if "w_outbox w' k = Some m'" "\<not> status_is_terminal (om_status m')" for k m'
    using cases[of k]
  proof
    assume "\<exists>m\<in>set sel. k = (t, om_id m) \<and> w_outbox w k = Some m \<and> w_outbox w' k = Some (?out m)"
    then obtain m where "m \<in> set sel" "w_outbox w' k = Some (?out m)" by blast
    moreover from this(2) have "m' = ?out m" using that(1) by simp
    ultimately show ?thesis
      using outcome_attempts[OF sel(4)] that(2) by blast
  next
    assume "w_outbox w' k = w_outbox w k"
    then show ?thesis using that left unfolding attempts_left_def by metis
  qed
  then have attempts: "attempts_left mx (w_outbox w')" unfolding attempts_left_def by blast
  have less: "message_left mx t (w_outbox w') (t, om_id m) < message_left mx t (w_outbox w) (t, om_id m)" if "m \<in> set sel" for m
  proof -
    have lease: "om_attempts (?lease m) = om_attempts m" "om_status (?lease m) = Leased"
      by (simp_all add: mark_leased_def)
    from outcome_left[OF sel(4)[OF that] lease(2), of "d_next_after ?d" now "de_answer e (?lease m)"]
    show ?thesis
      by (simp only: message_left_def out[OF that] sel(1,3)[OF that] lease option.case fst_conv simp_thms split: if_splits)
  qed
  have le: "message_left mx t (w_outbox w') k \<le> message_left mx t (w_outbox w) k" for k
    using cases[of k] less by (auto simp: message_left_def intro: less_imp_le)
  have "work_left mx t (w_outbox w') < work_left mx t (w_outbox w)" if "\<not> idle t now (de_worker_id e) (w_outbox w)"
  proof -
    have "sel \<noteq> []"
      using choice that unfolding idle_def lease_choice_def fields by blast
    then obtain m where m: "m \<in> set sel" by (cases sel) auto
    have "finite (dom (w_outbox w))"
      using ok unfolding world_ok_def iter_order_def by (metis List.finite_set)
    then show ?thesis
      unfolding work_left_def dom
      by (rule sum_strict_mono_ex1) (use le less[OF m] sel(1)[OF m] in auto)
  qed
  with dom shape attempts show ?thesis by blast
qed

text \<open>The world a worker has reached after its first \<open>k\<close> events.\<close>

definition worker_world :: "tx_store \<Rightarrow> dispatch_env \<Rightarrow> tenant_id \<Rightarrow> int list \<Rightarrow> tx_world \<Rightarrow> tx_world" where
  "worker_world ts e t ticks w = fst (dispatcher_worker (memory_dispatcher ts e) t (map TickAt ticks) w)"

lemma worker_world_simps:
  "worker_world ts e t [] w = w"
  "worker_world ts e t (now # ticks) w =
     worker_world ts e t ticks (fst (dispatcher_tick (memory_dispatcher ts e) t now w))"
  by (simp_all add: worker_world_def split_beta Let_def)

lemma worker_drains:
  fixes ts e t
  defines "mx \<equiv> oc_max_attempts (tc_outbox (ts_config ts))"
  assumes "outbox_ok (w_outbox w)" "attempts_left mx (w_outbox w)"
    and order: "\<And>s. dom s = dom (w_outbox w) \<Longrightarrow> iter_order (de_order e s) s"
    and calm: "de_guard e = NoopGuard" "\<And>t m c. ts_a2a_dead_letter ts t m c = Ok ()"
    and "work_left mx t (w_outbox w) < length ticks"
  shows "\<exists>k<length ticks. idle t (ticks ! k) (de_worker_id e) (w_outbox (worker_world ts e t (take k ticks) w))"
  using assms(2-4,7)
proof (induction ticks arbitrary: w)
  case (Cons now ticks)
  let ?w' = "fst (dispatcher_tick (memory_dispatcher ts e) t now w)"
  have "world_ok e w" using Cons.prems(1,3) by (simp add: world_ok_def)
  note tick = tick_drains[OF this Cons.prems(2)[unfolded mx_def] calm, of t now, folded mx_def]
  show ?case
  proof (cases "idle t now (de_worker_id e) (w_outbox w)")
    case True
    then show ?thesis by (intro exI[of _ 0]) (simp add: worker_world_simps)
  next
    case False
    have "\<exists>k<length ticks. idle t (ticks ! k) (de_worker_id e) (w_outbox (worker_world ts e t (take k ticks) ?w'))"
      by (rule Cons.IH) (use tick False Cons.prems in auto)
    then obtain k where "k < length ticks"
      "idle t (ticks ! k) (de_worker_id e) (w_outbox (worker_world ts e t (take k ticks) ?w'))"
      by blast
    then show ?thesis
      by (intro exI[of _ "Suc k"]) (simp add: worker_world_simps)
  qed
qed simp

lemma worker_stop:
  "dispatcher_worker d t (map TickAt ticks @ StopSignal # evs) w = dispatcher_worker d t (map TickAt ticks) w"
  by (induction ticks arbitrary: w) simp_all

lemma worker_silent:
  fixes ts e t
  defines "mx \<equiv> oc_max_attempts (tc_outbox (ts_config ts))"
  assumes "outbox_ok (w_outbox w)" "attempts_left mx (w_outbox w)"
    and order: "\<And>s. dom s = dom (w_outbox w) \<Longrightarrow> iter_order (de_order e s) s"
    and calm: "de_guard e = NoopGuard" "\<And>t m c. ts_a2a_dead_letter ts t m c = Ok ()"
  shows "snd (dispatcher_worker (memory_dispatcher ts e) t (map TickAt ticks) w) = []"
  using assms(2-4)
proof (induction ticks arbitrary: w)
  case (Cons now ticks)
  let ?t = "dispatcher_tick (memory_dispatcher ts e) t now w"
  have ok: "world_ok e w" using Cons.prems(1,3) by (simp add: world_ok_def)
  note tick = tick_drains[OF ok Cons.prems(2)[unfolded mx_def] calm, of t now, folded mx_def]
  have "snd (dispatcher_worker (memory_dispatcher ts e) t (map TickAt ticks) (fst ?t)) = []"
    by (rule Cons.IH) (use tick Cons.prems(3) in auto)
  moreover have "logged (snd ?t) = []"
    using mem_tick_ok[OF ok calm, of t now] by (auto simp: logged_def split: sum.splits)
  ultimately show ?case by (simp add: split_beta)
qed simp



end
