(* ===== verification/TxTransport.thy ===== *)
theory TxTransport
  imports TxMemory
begin

text \<open>
  The transports of \<open>sb-tx\<close> (\<open>transport/http.rs\<close>, \<open>transport/kafka.rs\<close>,
  \<open>transport/redis.rs\<close>): how each is configured, which messages it refuses, what it sends and how it
  reads the answer.  The reqwest, rdkafka and redis crates are parameters; a state \<open>'n\<close> is the
  network they act on.
\<close>

section \<open>HTTP\<close>

record http_transport_config =
  ht_method :: string
  ht_timeout_ms :: "64 word"
  ht_default_headers :: "(string \<times> string) list"

definition http_transport_config_default :: http_transport_config where
  "http_transport_config_default = \<lparr>ht_method = ''POST'', ht_timeout_ms = 15000, ht_default_headers = []\<rparr>"

record http_call =
  hq_method :: string
  hq_url :: string
  hq_headers :: "(string \<times> string) list"
  hq_timeout_ms :: "64 word"
  hq_json :: json

text \<open>
  What reqwest does: checking a method, a header's name and value, building a client, sending; the last
  gives the status of the response.
\<close>

record 'n reqwest =
  rw_method :: "string \<Rightarrow> string + string"
  rw_name :: "string \<Rightarrow> string + string"
  rw_value :: "string \<Rightarrow> string + string"
  rw_build :: "64 word \<Rightarrow> string + unit"
  rw_send :: "http_call \<Rightarrow> 'n \<Rightarrow> 'n \<times> (string + 16 word)"
  rw_show_status :: "16 word \<Rightarrow> string"

record http_transport =
  tr_method :: string
  tr_headers :: "(string \<times> string) list"
  tr_timeout_ms :: "64 word"

definition http_transport_new :: "'n reqwest \<Rightarrow> http_transport_config \<Rightarrow> http_transport tx_result" where
  "http_transport_new rw config =
     and_then (map_err (\<lambda>err. tx_schema (''invalid HTTP method: '' @ err)) (rw_method rw (ht_method config))) (\<lambda>method.
     let timeout = (if ht_timeout_ms config = 0 then 15000 else ht_timeout_ms config) in
     and_then
       (try_map (\<lambda>(name, value).
          and_then (map_err (\<lambda>err. tx_schema (''invalid header name '' @ name @ '': '' @ err)) (rw_name rw name)) (\<lambda>header_name.
          and_then (map_err (\<lambda>err. tx_schema (''invalid header value for '' @ header_name @ '': '' @ err)) (rw_value rw value))
            (\<lambda>header_value. Ok (header_name, header_value))))
         (ht_default_headers config)) (\<lambda>headers.
     and_then (map_err (\<lambda>err. provider_unavailable (''http client build failed: '' @ err)) (rw_build rw timeout)) (\<lambda>_.
       Ok \<lparr>tr_method = method, tr_headers = headers, tr_timeout_ms = timeout\<rparr>)))"

definition build_url :: "outbox_message \<Rightarrow> string tx_result" where
  "build_url message =
     (let url = om_topic message in
      if starts_with url ''http://'' \<or> starts_with url ''https://'' then Ok url
      else Err (tx_schema ''outbox topic must be http(s) URL for HttpTransport''))"

definition is_success :: "16 word \<Rightarrow> bool" where
  "is_success status \<longleftrightarrow> 200 \<le> status \<and> status < 300"

definition http_send :: "'n reqwest \<Rightarrow> http_transport \<Rightarrow> outbox_message \<Rightarrow> 'n \<Rightarrow> 'n \<times> unit tx_result" where
  "http_send rw tr message n =
     and_do (n, build_url message) (\<lambda>url n.
     and_do (let (n, r) = rw_send rw
               \<lparr>hq_method = tr_method tr, hq_url = url, hq_headers = tr_headers tr, hq_timeout_ms = tr_timeout_ms tr,
                hq_json = om_payload message\<rparr> n
             in (n, map_err (\<lambda>err. provider_unavailable (''http send failed: '' @ err)) r)) (\<lambda>status n.
       if is_success status then (n, Ok ())
       else (n, Err (provider_unavailable (''http transport status '' @ rw_show_status rw status)))))"

section \<open>Kafka\<close>

record kafka_transport_config =
  kc_brokers :: string
  kc_topic :: "string option"
  kc_linger_ms :: "64 word option"
  kc_ack_timeout_ms :: "64 word option"

definition kafka_transport_config_default :: kafka_transport_config where
  "kafka_transport_config_default =
     \<lparr>kc_brokers = ''localhost:9092'', kc_topic = None, kc_linger_ms = Some 5, kc_ack_timeout_ms = Some 15000\<rparr>"

record kafka_record =
  kr_topic :: string
  kr_payload :: string
  kr_key :: string

record 'n rdkafka =
  rk_create :: "(string \<times> string) list \<Rightarrow> string + unit"
  rk_send :: "kafka_record \<Rightarrow> 64 word \<Rightarrow> 'n \<Rightarrow> 'n \<times> (string + unit)"
  rk_to_vec :: "json \<Rightarrow> string + string"

record kafka_transport =
  kt_topic_override :: "string option"
  kt_ack_timeout_ms :: "64 word"

definition kafka_transport_new :: "'n rdkafka \<Rightarrow> kafka_transport_config \<Rightarrow> kafka_transport tx_result" where
  "kafka_transport_new rk config =
     (let settings = (''bootstrap.servers'', kc_brokers config) #
            (case kc_linger_ms config of Some l \<Rightarrow> [(''linger.ms'', show_nat (unat l))] | None \<Rightarrow> []) in
      and_then (map_err (\<lambda>err. provider_unavailable (''kafka producer build failed: '' @ err)) (rk_create rk settings)) (\<lambda>_.
        Ok \<lparr>kt_topic_override = kc_topic config,
            kt_ack_timeout_ms = (case kc_ack_timeout_ms config of Some ms \<Rightarrow> ms | None \<Rightarrow> 15000)\<rparr>))"

definition topic_for :: "kafka_transport \<Rightarrow> outbox_message \<Rightarrow> string tx_result" where
  "topic_for kt message =
     (case kt_topic_override kt of
        Some topic \<Rightarrow> Ok topic
      | None \<Rightarrow>
          (case strip_prefix (om_topic message) ''kafka://'' of
             Some stripped \<Rightarrow> Ok stripped
           | None \<Rightarrow> Err (tx_schema ''outbox topic must be kafka://<topic> or set in KafkaTransportConfig'')))"

definition kafka_send :: "'n rdkafka \<Rightarrow> kafka_transport \<Rightarrow> outbox_message \<Rightarrow> 'n \<Rightarrow> 'n \<times> unit tx_result" where
  "kafka_send rk kt message n =
     and_do (n, topic_for kt message) (\<lambda>topic n.
     and_do (n, map_err (\<lambda>err. tx_schema (''serialize kafka payload failed: '' @ err)) (rk_to_vec rk (om_payload message))) (\<lambda>bytes n.
     and_do (let (n, r) = rk_send rk \<lparr>kr_topic = topic, kr_payload = bytes, kr_key = om_id message\<rparr> (kt_ack_timeout_ms kt) n
             in (n, map_err (\<lambda>err. provider_unavailable (''kafka send failed: '' @ err)) r)) (\<lambda>_ n. (n, Ok ()))))"

section \<open>Redis\<close>

record redis_transport_config =
  rc_url :: string
  rc_list_key :: string
  rc_channel :: "string option"
  rc_timeout_ms :: "64 word option"

definition redis_transport_config_default :: redis_transport_config where
  "redis_transport_config_default =
     \<lparr>rc_url = ''redis://127.0.0.1:6379/'', rc_list_key = ''sb:tx:outbox'', rc_channel = Some ''sb.tx.outbox'',
      rc_timeout_ms = Some 15000\<rparr>"

record redis_envelope =
  re_id :: string
  re_tenant :: string
  re_topic :: string
  re_attempts :: "32 word"
  re_payload :: json

datatype connect_error = ConnectTimedOut | ConnectFailed string

record 'n redis_crate =
  rx_open :: "string \<Rightarrow> string + unit"
  rx_connect :: "64 word \<Rightarrow> 'n \<Rightarrow> 'n \<times> (connect_error + unit)"
  rx_rpush :: "string \<Rightarrow> string \<Rightarrow> 'n \<Rightarrow> 'n \<times> (string + unit)"
  rx_publish :: "string \<Rightarrow> string \<Rightarrow> 'n \<Rightarrow> 'n \<times> (string + unit)"
  rx_to_string :: "redis_envelope \<Rightarrow> string + string"

record redis_transport =
  rt_list_key :: string
  rt_channel :: "string option"
  rt_timeout_ms :: "64 word"

definition redis_transport_new :: "'n redis_crate \<Rightarrow> redis_transport_config \<Rightarrow> redis_transport tx_result" where
  "redis_transport_new rx config =
     and_then (map_err (\<lambda>err. provider_unavailable (''redis client create failed: '' @ err)) (rx_open rx (rc_url config))) (\<lambda>_.
       Ok \<lparr>rt_list_key = rc_list_key config, rt_channel = rc_channel config,
           rt_timeout_ms = (case rc_timeout_ms config of Some ms \<Rightarrow> ms | None \<Rightarrow> 15000)\<rparr>)"

definition redis_connection :: "'n redis_crate \<Rightarrow> redis_transport \<Rightarrow> 'n \<Rightarrow> 'n \<times> unit tx_result" where
  "redis_connection rx rt n =
     (let (n, r) = rx_connect rx (rt_timeout_ms rt) n in
      (n, map_err (\<lambda>err. case err of
            ConnectTimedOut \<Rightarrow> provider_unavailable ''redis connect timed out''
          | ConnectFailed e \<Rightarrow> provider_unavailable (''redis connect failed: '' @ e)) r))"

definition redis_send :: "'n redis_crate \<Rightarrow> redis_transport \<Rightarrow> outbox_message \<Rightarrow> 'n \<Rightarrow> 'n \<times> unit tx_result" where
  "redis_send rx rt message n =
     (let envelope = \<lparr>re_id = om_id message, re_tenant = om_tenant message, re_topic = om_topic message,
            re_attempts = om_attempts message + 1, re_payload = om_payload message\<rparr> in
      and_do (n, map_err (\<lambda>err. tx_schema (''serialize redis envelope failed: '' @ err)) (rx_to_string rx envelope)) (\<lambda>body n.
      and_do (redis_connection rx rt n) (\<lambda>_ n.
      and_do (let (n, r) = rx_rpush rx (rt_list_key rt) body n
              in (n, map_err (\<lambda>err. provider_unavailable (''redis RPUSH failed: '' @ err)) r)) (\<lambda>_ n.
        case rt_channel rt of
          Some channel \<Rightarrow>
            and_do (let (n, r) = rx_publish rx channel body n
                    in (n, map_err (\<lambda>err. provider_unavailable (''redis publish to '' @ channel @ '' failed: '' @ err)) r))
              (\<lambda>_ n. (n, Ok ()))
        | None \<Rightarrow> (n, Ok ())))))"

section \<open>What is sent\<close>

text \<open>
  Success means a response of class 2xx; a message whose topic is no URL is refused without a request, and
  the error is not retryable in kind but counted as a failed attempt all the same.
\<close>

lemma http_send_ok:
  "http_send rw tr m n = (n', Ok ()) \<longleftrightarrow>
   (\<exists>url status. build_url m = Ok url \<and> is_success status \<and>
      rw_send rw \<lparr>hq_method = tr_method tr, hq_url = url, hq_headers = tr_headers tr, hq_timeout_ms = tr_timeout_ms tr,
        hq_json = om_payload m\<rparr> n = (n', Ok status))"
proof (cases "build_url m")
  case (Inr url)
  obtain n1 r where "rw_send rw \<lparr>hq_method = tr_method tr, hq_url = url, hq_headers = tr_headers tr,
      hq_timeout_ms = tr_timeout_ms tr, hq_json = om_payload m\<rparr> n = (n1, r)"
    by fastforce
  with Inr show ?thesis
    by (cases r) (auto simp: http_send_def)
qed (simp add: http_send_def)

lemma http_send_refused: "build_url m = Err e \<Longrightarrow> http_send rw tr m n = (n, Err e)"
  by (simp add: http_send_def)

text \<open>Redis: a message is on the list before it is published, so a failed publication repeats it on the list.\<close>

lemma redis_failed_publish_pushed:
  assumes "rx_to_string rx \<lparr>re_id = om_id m, re_tenant = om_tenant m, re_topic = om_topic m,
      re_attempts = om_attempts m + 1, re_payload = om_payload m\<rparr> = Ok body"
    and "rx_connect rx (rt_timeout_ms rt) n = (n1, Ok ())" and "rx_rpush rx (rt_list_key rt) body n1 = (n2, Ok ())"
    and "rt_channel rt = Some ch" and "rx_publish rx ch body n2 = (n3, Err e)"
  shows "redis_send rx rt m n =
    (n3, Err (provider_unavailable (''redis publish to '' @ ch @ '' failed: '' @ e)))"
  using assms by (simp add: redis_send_def redis_connection_def Let_def)

end
