(* ===== verification/SandboxModel.thy ===== *)
theory SandboxModel
  imports SbErrors SbTypes
begin

text \<open>
  The data of the execution sandbox (crate \<open>sb-sandbox\<close>): capabilities, grants,
  budgets, limits, whitelists, profiles and manifests (\<open>model.rs\<close>), the policy
  (\<open>config.rs\<close>), errors (\<open>errors.rs\<close>), the operations and results of an
  execution (\<open>exec/mod.rs\<close>) and the evidence events (\<open>evidence.rs\<close>).
  SHA-256, base64 and serde are parameters of the definitions that use them.
\<close>

section \<open>Capabilities\<close>

datatype capability =
    FsRead string
  | FsWrite string bool
  | FsList string
  | NetHttp string "16 word option" "string option" "string list"
  | BrowserUse string
  | ProcExec string
  | TmpUse
  | SysGpu string

datatype capability_kind =
  KFsRead | KFsWrite | KFsList | KNetHttp | KBrowserUse | KProcExec | KTmpUse | KSysGpu

fun cap_kind :: "capability \<Rightarrow> capability_kind" where
  "cap_kind (FsRead _) = KFsRead"
| "cap_kind (FsWrite _ _) = KFsWrite"
| "cap_kind (FsList _) = KFsList"
| "cap_kind (NetHttp _ _ _ _) = KNetHttp"
| "cap_kind (BrowserUse _) = KBrowserUse"
| "cap_kind (ProcExec _) = KProcExec"
| "cap_kind TmpUse = KTmpUse"
| "cap_kind (SysGpu _) = KSysGpu"

definition show_bool :: "bool \<Rightarrow> string" where
  "show_bool b = (if b then ''true'' else ''false'')"

fun describe :: "capability \<Rightarrow> string" where
  "describe (FsRead path) = ''fs.read:'' @ path"
| "describe (FsWrite path app) = ''fs.write:'' @ path @ '':append='' @ show_bool app"
| "describe (FsList path) = ''fs.list:'' @ path"
| "describe (NetHttp host port scheme methods) =
     ''net.http:'' @ join_with '':''
       ([case scheme of Some s \<Rightarrow> s | None \<Rightarrow> ''http'', host]
        @ (case port of Some p \<Rightarrow> [show_nat (unat p)] | None \<Rightarrow> [])
        @ (if methods \<noteq> [] then [join_with ''|'' methods] else []))"
| "describe (BrowserUse sc) = ''browser.use:'' @ sc"
| "describe (ProcExec tool) = ''proc.exec:'' @ tool"
| "describe TmpUse = ''tmp.use''"
| "describe (SysGpu cls) = ''sys.gpu:'' @ cls"

datatype safety_class = Low | Medium | High

datatype side_effect =
  SideNone | SideRead | SideWrite | SideNetwork | SideFilesystem | SideBrowser | SideProcess

text \<open>The derived \<open>Ord\<close> of the two enums: declaration order.\<close>

fun safety_rank :: "safety_class \<Rightarrow> nat" where
  "safety_rank Low = 0" | "safety_rank Medium = 1" | "safety_rank High = 2"

fun side_rank :: "side_effect \<Rightarrow> nat" where
  "side_rank SideNone = 0" | "side_rank SideRead = 1" | "side_rank SideWrite = 2"
| "side_rank SideNetwork = 3" | "side_rank SideFilesystem = 4" | "side_rank SideBrowser = 5"
| "side_rank SideProcess = 6"

lemma safety_rank_inj: "safety_rank a = safety_rank b \<longleftrightarrow> a = b"
  by (cases a; cases b) simp_all

lemma side_rank_inj: "side_rank a = side_rank b \<longleftrightarrow> a = b"
  by (cases a; cases b) simp_all

instantiation safety_class :: linorder
begin

definition less_eq_safety_class :: "safety_class \<Rightarrow> safety_class \<Rightarrow> bool" where
  "less_eq_safety_class a b \<longleftrightarrow> safety_rank a \<le> safety_rank b"

definition less_safety_class :: "safety_class \<Rightarrow> safety_class \<Rightarrow> bool" where
  "less_safety_class a b \<longleftrightarrow> safety_rank a < safety_rank b"

instance
  by standard (auto simp: less_eq_safety_class_def less_safety_class_def safety_rank_inj)

end

instantiation side_effect :: linorder
begin

definition less_eq_side_effect :: "side_effect \<Rightarrow> side_effect \<Rightarrow> bool" where
  "less_eq_side_effect a b \<longleftrightarrow> side_rank a \<le> side_rank b"

definition less_side_effect :: "side_effect \<Rightarrow> side_effect \<Rightarrow> bool" where
  "less_side_effect a b \<longleftrightarrow> side_rank a < side_rank b"

instance
  by standard (auto simp: less_eq_side_effect_def less_side_effect_def side_rank_inj)

end

section \<open>Budgets, limits, whitelists\<close>

record budget =
  b_calls :: "64 word"
  b_bytes_out :: "64 word"
  b_bytes_in :: "64 word"
  b_cpu_ms :: "64 word"
  b_gpu_ms :: "64 word"
  b_file_count :: "64 word"

definition budget_default :: budget where
  "budget_default = \<lparr>b_calls = 0, b_bytes_out = 0, b_bytes_in = 0, b_cpu_ms = 0, b_gpu_ms = 0,
     b_file_count = 0\<rparr>"

definition budget_saturating_sub :: "budget \<Rightarrow> budget \<Rightarrow> budget" where
  "budget_saturating_sub a r =
     \<lparr>b_calls = sat_sub (b_calls a) (b_calls r),
      b_bytes_out = sat_sub (b_bytes_out a) (b_bytes_out r),
      b_bytes_in = sat_sub (b_bytes_in a) (b_bytes_in r),
      b_cpu_ms = sat_sub (b_cpu_ms a) (b_cpu_ms r),
      b_gpu_ms = sat_sub (b_gpu_ms a) (b_gpu_ms r),
      b_file_count = sat_sub (b_file_count a) (b_file_count r)\<rparr>"

definition budget_add_assign :: "budget \<Rightarrow> budget \<Rightarrow> budget" where
  "budget_add_assign a r =
     \<lparr>b_calls = sat_add (b_calls a) (b_calls r),
      b_bytes_out = sat_add (b_bytes_out a) (b_bytes_out r),
      b_bytes_in = sat_add (b_bytes_in a) (b_bytes_in r),
      b_cpu_ms = sat_add (b_cpu_ms a) (b_cpu_ms r),
      b_gpu_ms = sat_add (b_gpu_ms a) (b_gpu_ms r),
      b_file_count = sat_add (b_file_count a) (b_file_count r)\<rparr>"

record limits =
  max_bytes_in :: "64 word option"
  max_bytes_out :: "64 word option"
  max_files :: "64 word option"
  max_depth :: "32 word option"
  max_concurrency :: "32 word option"

definition limits_default :: limits where
  "limits_default = \<lparr>max_bytes_in = None, max_bytes_out = None, max_files = None, max_depth = None,
     max_concurrency = None\<rparr>"

record whitelists =
  wl_domains :: "string list"
  wl_paths :: "string list"
  wl_tools :: "string list"
  wl_mime_allow :: "string list"
  wl_methods :: "string list"

definition whitelists_default :: whitelists where
  "whitelists_default = \<lparr>wl_domains = [], wl_paths = [], wl_tools = [], wl_mime_allow = [],
     wl_methods = []\<rparr>"

record mappings =
  root_fs :: "string option"
  tmp_dir :: "string option"

definition mappings_default :: mappings where
  "mappings_default = \<lparr>root_fs = None, tmp_dir = None\<rparr>"

section \<open>Grants, manifests, profiles, policies\<close>

record grant =
  gr_tenant :: tenant_id
  gr_subject_id :: id
  gr_tool_name :: string
  gr_call_id :: id
  gr_capabilities :: "capability list"
  gr_expires_at :: int
  gr_budget :: budget
  gr_decision_fingerprint :: string
  gr_consent :: "consent option"

record tool_manifest =
  tm_name :: string
  tm_version :: string
  tm_capabilities :: "capability list"
  tm_safety :: safety_class
  tm_side_effects :: "side_effect list"
  tm_limits :: "limits option"
  tm_whitelists :: "whitelists option"
  tm_mappings :: "mappings option"
  tm_timeout_ms :: "64 word option"
  tm_metadata :: json

record profile =
  pf_tenant :: tenant_id
  pf_subject_id :: id
  pf_tool_name :: string
  pf_call_id :: id
  pf_capabilities :: "capability list"
  pf_safety :: safety_class
  pf_side_effects :: "side_effect list"
  pf_limits :: limits
  pf_whitelists :: whitelists
  pf_mappings :: mappings
  pf_timeout_ms :: "64 word"
  pf_profile_hash :: string
  pf_policy_hash :: "string option"
  pf_config_version :: "string option"
  pf_config_hash :: "string option"

record policy_defaults =
  pd_timeout_ms :: "64 word option"

record policy_config =
  pc_capabilities :: "capability list"
  pc_safety_class :: safety_class
  pc_side_effects :: "side_effect list"
  pc_limits :: "limits option"
  pc_whitelists :: "whitelists option"
  pc_mappings :: "mappings option"
  pc_timeout_ms :: "64 word option"
  pc_defaults :: policy_defaults
  pc_policy_hash :: "string option"
  pc_config_version :: "string option"
  pc_config_hash :: "string option"

record data_digest =
  dd_algo :: string
  dd_b64 :: string
  dd_size :: "64 word"

definition digest_sha256 :: "(string \<Rightarrow> string) \<Rightarrow> string \<Rightarrow> data_digest" where
  "digest_sha256 sha_b64 bytes =
     \<lparr>dd_algo = ''sha256'', dd_b64 = sha_b64 bytes, dd_size = of_nat (length bytes)\<rparr>"

record side_effect_record =
  se_kind :: side_effect
  se_meta :: json

section \<open>Errors\<close>

record sandbox_error =
  sx_inner :: error_obj
  sx_public :: string

definition sandbox_error_new :: "error_obj \<Rightarrow> sandbox_error" where
  "sandbox_error_new inner =
     (let view = to_public inner
      in \<lparr>sx_inner = inner, sx_public = pv_code view @ '': '' @ pv_message view\<rparr>)"

definition sx_to_public :: "sandbox_error \<Rightarrow> public_error_view" where
  "sx_to_public e = to_public (sx_inner e)"

definition permission_denied :: "string \<Rightarrow> sandbox_error" where
  "permission_denied detail = sandbox_error_new (dev_msg detail (user_msg
     (utf8 [230, 147, 141, 228, 189, 156, 232, 162, 171, 230, 178, 153, 231, 174, 177,
        231, 166, 129, 230, 173, 162, 227, 128, 130])
     (builder_new SANDBOX_PERMISSION_DENIED)))"

definition policy_violation :: "string \<Rightarrow> sandbox_error" where
  "policy_violation detail = sandbox_error_new (dev_msg detail (user_msg
     (utf8 [230, 156, 170, 233, 128, 154, 232, 191, 135, 231, 173, 150, 231, 149, 165,
        230, 160, 161, 233, 170, 140, 227, 128, 130])
     (builder_new POLICY_DENY_TOOL)))"

definition capability_missing :: "string \<Rightarrow> sandbox_error" where
  "capability_missing detail = sandbox_error_new (dev_msg detail (user_msg
     (utf8 [231, 188, 186, 229, 176, 145, 230, 137, 167, 232, 161, 140, 230, 137, 128,
        233, 156, 128, 232, 131, 189, 229, 138, 155, 227, 128, 130])
     (builder_new SANDBOX_CAPABILITY_BLOCKED)))"

definition forbidden :: "string \<Rightarrow> sandbox_error" where
  "forbidden detail = sandbox_error_new (dev_msg detail (user_msg
     (utf8 [229, 189, 147, 229, 137, 141, 232, 175, 183, 230, 177, 130, 232, 162, 171,
        230, 139, 146, 231, 187, 157, 227, 128, 130])
     (builder_new AUTH_FORBIDDEN)))"

type_synonym 'a sandbox_result = "sandbox_error + 'a"

definition sx_code :: "sandbox_error \<Rightarrow> string" where
  "sx_code e = pv_code (sx_to_public e)"

lemma sx_codes [simp]:
  "sx_code (permission_denied d) = ''SANDBOX.PERMISSION_DENIED''"
  "sx_code (policy_violation d) = ''POLICY.DENY_TOOL''"
  "sx_code (capability_missing d) = ''SANDBOX.CAPABILITY_BLOCKED''"
  "sx_code (forbidden d) = ''AUTH.FORBIDDEN''"
  by (simp_all add: sx_code_def sx_to_public_def to_public_def sandbox_error_new_def Let_def
      permission_denied_def policy_violation_def capability_missing_def forbidden_def
      builder_new_code spec_of_eq registry_entries_defs code_spec_new_def)
    (simp_all add: error_codes)

section \<open>Operations and results\<close>

datatype exec_op =
    OpFsRead string "64 word option" "64 word option"
  | OpFsWrite string string bool
  | OpFsList string
  | OpNetHttp string string json "string option"
  | OpBrowserNav string
  | OpBrowserScreenshot "string option" bool
  | OpProcExec string "string list" "64 word option"
  | OpTmpAlloc "64 word"

record exec_usage =
  u_bytes_in :: "64 word"
  u_bytes_out :: "64 word"
  u_calls :: "64 word"
  u_cpu_ms :: "64 word"
  u_file_count :: "64 word"

definition exec_usage_default :: exec_usage where
  "exec_usage_default = \<lparr>u_bytes_in = 0, u_bytes_out = 0, u_calls = 0, u_cpu_ms = 0,
     u_file_count = 0\<rparr>"

record exec_result =
  er_ok :: bool
  er_code :: "string option"
  er_message :: "string option"
  er_out :: json
  er_usage :: exec_usage
  er_side_effects :: "side_effect_record list"

definition exec_success :: "json \<Rightarrow> exec_usage \<Rightarrow> side_effect_record list \<Rightarrow> exec_result" where
  "exec_success out usage effects =
     \<lparr>er_ok = True, er_code = None, er_message = None, er_out = out, er_usage = usage,
      er_side_effects = effects\<rparr>"

definition exec_failure :: "string \<Rightarrow> string option \<Rightarrow> exec_result" where
  "exec_failure code msg =
     \<lparr>er_ok = False, er_code = Some code, er_message = msg, er_out = JNull,
      er_usage = exec_usage_default, er_side_effects = []\<rparr>"

definition budget_of_usage :: "exec_usage \<Rightarrow> budget" where
  "budget_of_usage u = budget_default\<lparr>b_calls := u_calls u, b_bytes_in := u_bytes_in u,
     b_bytes_out := u_bytes_out u, b_cpu_ms := u_cpu_ms u, b_file_count := u_file_count u\<rparr>"

section \<open>Evidence\<close>

datatype evidence_status = EvOk | EvDenied | EvError

record begin_evidence =
  be_envelope_id :: id
  be_tenant :: tenant_id
  be_subject_id :: id
  be_tool_name :: string
  be_call_id :: id
  be_profile_hash :: string
  be_capability :: string
  be_declared_side_effects :: "side_effect list"
  be_safety :: string
  be_inputs_digest :: "data_digest option"
  be_policy_hash :: "string option"
  be_config_version :: "string option"
  be_config_hash :: "string option"
  be_started_at :: int

record end_evidence =
  ee_envelope_id :: id
  ee_tenant :: tenant_id
  ee_subject_id :: id
  ee_tool_name :: string
  ee_call_id :: id
  ee_profile_hash :: string
  ee_policy_hash :: "string option"
  ee_config_version :: "string option"
  ee_config_hash :: "string option"
  ee_finished_at :: int
  ee_status :: evidence_status
  ee_error_code :: "string option"
  ee_inputs_digest :: "data_digest option"
  ee_outputs_digest :: "data_digest option"
  ee_side_effects :: "side_effect_record list"
  ee_budget_used :: budget
  ee_duration_ms :: int

datatype evidence_event = EvBegin begin_evidence | EvEnd end_evidence

record evidence_builder =
  eb_profile :: profile
  eb_capability :: capability
  eb_envelope_id :: id
  eb_started_at :: int

fun safety_debug :: "safety_class \<Rightarrow> string" where
  "safety_debug Low = ''Low''" | "safety_debug Medium = ''Medium''" | "safety_debug High = ''High''"

definition evidence_begin :: "evidence_builder \<Rightarrow> data_digest option \<Rightarrow> evidence_event" where
  "evidence_begin b inputs =
     EvBegin \<lparr>be_envelope_id = eb_envelope_id b, be_tenant = pf_tenant (eb_profile b),
       be_subject_id = pf_subject_id (eb_profile b), be_tool_name = pf_tool_name (eb_profile b),
       be_call_id = pf_call_id (eb_profile b), be_profile_hash = pf_profile_hash (eb_profile b),
       be_capability = describe (eb_capability b),
       be_declared_side_effects = pf_side_effects (eb_profile b),
       be_safety = safety_debug (pf_safety (eb_profile b)), be_inputs_digest = inputs,
       be_policy_hash = pf_policy_hash (eb_profile b),
       be_config_version = pf_config_version (eb_profile b),
       be_config_hash = pf_config_hash (eb_profile b), be_started_at = eb_started_at b\<rparr>"

definition evidence_end ::
  "int \<Rightarrow> evidence_builder \<Rightarrow> evidence_status \<Rightarrow> string option \<Rightarrow> data_digest option
     \<Rightarrow> data_digest option \<Rightarrow> side_effect_record list \<Rightarrow> budget \<Rightarrow> evidence_event" where
  "evidence_end now b status code inputs outputs effects used =
     EvEnd \<lparr>ee_envelope_id = eb_envelope_id b, ee_tenant = pf_tenant (eb_profile b),
       ee_subject_id = pf_subject_id (eb_profile b), ee_tool_name = pf_tool_name (eb_profile b),
       ee_call_id = pf_call_id (eb_profile b), ee_profile_hash = pf_profile_hash (eb_profile b),
       ee_policy_hash = pf_policy_hash (eb_profile b),
       ee_config_version = pf_config_version (eb_profile b),
       ee_config_hash = pf_config_hash (eb_profile b), ee_finished_at = now,
       ee_status = status, ee_error_code = code, ee_inputs_digest = inputs,
       ee_outputs_digest = outputs, ee_side_effects = effects, ee_budget_used = used,
       ee_duration_ms = now - eb_started_at b\<rparr>"

section \<open>Budget arithmetic\<close>

text \<open>The componentwise order, in which the operations are monotone.\<close>

definition budget_le :: "budget \<Rightarrow> budget \<Rightarrow> bool" where
  "budget_le a r \<longleftrightarrow> b_calls a \<le> b_calls r \<and> b_bytes_out a \<le> b_bytes_out r \<and>
     b_bytes_in a \<le> b_bytes_in r \<and> b_cpu_ms a \<le> b_cpu_ms r \<and> b_gpu_ms a \<le> b_gpu_ms r \<and>
     b_file_count a \<le> b_file_count r"

lemma budget_sub_le: "budget_le (budget_saturating_sub a r) a"
  by (simp add: budget_le_def budget_saturating_sub_def sat_sub_le)

lemma budget_add_ge: "budget_le a (budget_add_assign a r)"
  by (simp add: budget_le_def budget_add_assign_def sat_add_mono)

section \<open>Labels\<close>

definition sandbox_labels :: "(json \<Rightarrow> string) \<Rightarrow> sandbox_error \<Rightarrow> string \<Rightarrow> string \<Rightarrow> (string \<times> string) list" where
  "sandbox_labels show err resource act =
     jinsert ''action'' act (jinsert ''resource'' resource (labels show (sx_inner err)))"

end
