(* ===== verification/SandboxProfile.thy ===== *)
theory SandboxProfile
  imports SandboxModel
begin

text \<open>
  Building the profile an execution runs under (\<open>profile.rs\<close>,
  \<open>DefaultProfileBuilder\<close>): capabilities are intersected, limits, whitelists and
  timeouts of grant, manifest and policy are combined.  Serialising and hashing are the
  parameters \<open>profile_digest\<close> and \<open>policy_digest\<close>.
\<close>

definition intersect_capabilities ::
  "capability list \<Rightarrow> capability list \<Rightarrow> capability list \<Rightarrow> capability list" where
  "intersect_capabilities grant manifest policy =
     (let manifest_set = set manifest;
          policy_set = (if policy = [] then manifest_set else set policy)
      in filter (\<lambda>cap. cap \<in> manifest_set \<and> cap \<in> policy_set) grant)"

definition max_safety :: "safety_class \<Rightarrow> safety_class \<Rightarrow> safety_class" where
  "max_safety a b = max a b"

definition union_side_effects :: "side_effect list \<Rightarrow> side_effect list \<Rightarrow> side_effect list" where
  "union_side_effects a b = sort (remdups (a @ b))"

definition min_opt :: "'a::linorder option \<Rightarrow> 'a option \<Rightarrow> 'a option" where
  "min_opt a b =
     (case (a, b) of
        (Some x, Some y) \<Rightarrow> Some (min x y)
      | (Some x, None) \<Rightarrow> Some x
      | (None, Some y) \<Rightarrow> Some y
      | (None, None) \<Rightarrow> None)"

text \<open>A budget component of 0 sets no limit.\<close>

definition cap_by_budget :: "64 word \<Rightarrow> 64 word option \<Rightarrow> 64 word option" where
  "cap_by_budget b lim =
     (if b > 0 then Some (min (case lim of Some x \<Rightarrow> x | None \<Rightarrow> b) b) else lim)"

definition merge_limits :: "limits option \<Rightarrow> limits option \<Rightarrow> budget option \<Rightarrow> limits" where
  "merge_limits manifest policy budget =
     (let pick = (\<lambda>f. min_opt (Option.bind manifest f) (Option.bind policy f));
          bytes_in = pick max_bytes_in;
          bytes_out = pick max_bytes_out;
          files = pick max_files;
          capped = (\<lambda>f lim. case budget of Some b \<Rightarrow> cap_by_budget (f b) lim | None \<Rightarrow> lim)
      in \<lparr>max_bytes_in = capped b_bytes_in bytes_in, max_bytes_out = capped b_bytes_out bytes_out,
          max_files = capped b_file_count files,
          max_depth = min_opt (Option.bind manifest max_depth) (Option.bind policy max_depth),
          max_concurrency =
            min_opt (Option.bind manifest max_concurrency) (Option.bind policy max_concurrency)\<rparr>)"

definition intersect_list :: "string list \<Rightarrow> string list \<Rightarrow> string list" where
  "intersect_list a b =
     (if a = [] then b else if b = [] then a else filter (\<lambda>x. x \<in> set b) a)"

definition merge_whitelists :: "whitelists option \<Rightarrow> whitelists option \<Rightarrow> whitelists" where
  "merge_whitelists manifest policy =
     (case (manifest, policy) of
        (Some m, Some p) \<Rightarrow>
          \<lparr>wl_domains = intersect_list (wl_domains m) (wl_domains p),
           wl_paths = intersect_list (wl_paths m) (wl_paths p),
           wl_tools = intersect_list (wl_tools m) (wl_tools p),
           wl_mime_allow = intersect_list (wl_mime_allow m) (wl_mime_allow p),
           wl_methods = intersect_list (wl_methods m) (wl_methods p)\<rparr>
      | (Some m, None) \<Rightarrow> m
      | (None, Some p) \<Rightarrow> p
      | (None, None) \<Rightarrow> whitelists_default)"

definition or_else :: "'a option \<Rightarrow> 'a option \<Rightarrow> 'a option" where
  "or_else a b = (case a of Some x \<Rightarrow> Some x | None \<Rightarrow> b)"

definition merge_mappings :: "mappings option \<Rightarrow> mappings option \<Rightarrow> mappings" where
  "merge_mappings manifest policy =
     \<lparr>root_fs = or_else (Option.bind policy root_fs) (Option.bind manifest root_fs),
      tmp_dir = or_else (Option.bind policy tmp_dir) (Option.bind manifest tmp_dir)\<rparr>"

definition min_timeout :: "64 word option \<Rightarrow> 64 word option \<Rightarrow> 64 word option \<Rightarrow> 64 word" where
  "min_timeout manifest policy default_timeout =
     (let timeouts = (case manifest of Some m \<Rightarrow> [m] | None \<Rightarrow> [])
            @ (case policy of Some p \<Rightarrow> [p] | None \<Rightarrow> [])
            @ (case default_timeout of Some d \<Rightarrow> [d] | None \<Rightarrow> [])
      in if timeouts = [] then 30000 else Min (set timeouts))"

definition compute_policy_hash ::
  "(policy_config \<Rightarrow> string option) \<Rightarrow> policy_config \<Rightarrow> string option" where
  "compute_policy_hash policy_digest policy =
     (case pc_policy_hash policy of Some h \<Rightarrow> Some h | None \<Rightarrow> policy_digest policy)"

definition build_profile ::
  "(profile \<Rightarrow> string) \<Rightarrow> (policy_config \<Rightarrow> string option) \<Rightarrow> grant \<Rightarrow> tool_manifest
     \<Rightarrow> policy_config \<Rightarrow> profile sandbox_result" where
  "build_profile profile_digest policy_digest grant manifest policy =
     (let caps = intersect_capabilities (gr_capabilities grant) (tm_capabilities manifest)
                   (pc_capabilities policy)
      in if caps = [] then Err (forbidden ''capability set is empty after intersection'')
         else
           let policy_hash = compute_policy_hash policy_digest policy;
               profile =
                 \<lparr>pf_tenant = gr_tenant grant, pf_subject_id = gr_subject_id grant,
                  pf_tool_name = tm_name manifest, pf_call_id = gr_call_id grant,
                  pf_capabilities = caps,
                  pf_safety = max_safety (tm_safety manifest) (pc_safety_class policy),
                  pf_side_effects =
                    union_side_effects (tm_side_effects manifest) (pc_side_effects policy),
                  pf_limits = merge_limits (tm_limits manifest) (pc_limits policy)
                    (Some (gr_budget grant)),
                  pf_whitelists = merge_whitelists (tm_whitelists manifest) (pc_whitelists policy),
                  pf_mappings = merge_mappings (tm_mappings manifest) (pc_mappings policy),
                  pf_timeout_ms = min_timeout (tm_timeout_ms manifest) (pc_timeout_ms policy)
                    (pd_timeout_ms (pc_defaults policy)),
                  pf_profile_hash = [], pf_policy_hash = policy_hash,
                  pf_config_version = pc_config_version policy,
                  pf_config_hash = or_else (pc_config_hash policy) policy_hash\<rparr>
           in Ok (profile\<lparr>pf_profile_hash := profile_digest profile\<rparr>))"

section \<open>The parts\<close>

lemma intersect_capabilities_member:
  "cap \<in> set (intersect_capabilities g m p) \<longleftrightarrow>
     cap \<in> set g \<and> cap \<in> set m \<and> (p = [] \<or> cap \<in> set p)"
  by (auto simp: intersect_capabilities_def Let_def)

lemma min_opt_None [simp]: "min_opt a b = None \<longleftrightarrow> a = None \<and> b = None"
  by (simp add: min_opt_def split: option.splits)

text \<open>\<open>lim\<close> is at least as strict as an optional bound \<open>b\<close>.\<close>

definition tighter :: "'a::linorder option \<Rightarrow> 'a option \<Rightarrow> bool" where
  "tighter lim b \<longleftrightarrow> (\<forall>x. b = Some x \<longrightarrow> (\<exists>z. lim = Some z \<and> z \<le> x))"

lemma tighter_min_opt: "tighter (min_opt a b) a" "tighter (min_opt a b) b"
  by (cases a; cases b; simp add: tighter_def min_opt_def)+

lemma tighter_cap: "tighter lim b \<Longrightarrow> tighter (cap_by_budget x lim) b"
  by (auto simp: tighter_def cap_by_budget_def min_le_iff_disj)

lemma tighter_cap_min [simp]:
  "tighter (cap_by_budget x (min_opt a b)) a" "tighter (cap_by_budget x (min_opt a b)) b"
  by (simp_all add: tighter_cap tighter_min_opt)

lemma cap_by_budget_bound: "x > 0 \<Longrightarrow> tighter (cap_by_budget x lim) (Some x)"
  by (auto simp: tighter_def cap_by_budget_def)

lemma union_side_effects_set: "set (union_side_effects a b) = set a \<union> set b"
  "sorted (union_side_effects a b)" "distinct (union_side_effects a b)"
  by (simp_all add: union_side_effects_def)

lemma min_timeout_le:
  "m = Some x \<or> p = Some x \<or> d = Some x \<Longrightarrow> min_timeout m p d \<le> x"
  unfolding min_timeout_def Let_def
  by (auto split: option.splits simp: min_le_iff_disj)

lemma intersect_list_member:
  "a \<noteq> [] \<Longrightarrow> b \<noteq> [] \<Longrightarrow> x \<in> set (intersect_list a b) \<longleftrightarrow> x \<in> set a \<and> x \<in> set b"
  by (auto simp: intersect_list_def)

section \<open>Properties\<close>


definition demo_grant :: grant where
  "demo_grant = \<lparr>gr_tenant = ''acme'', gr_subject_id = ''u1'', gr_tool_name = ''reader'',
     gr_call_id = ''c1'', gr_capabilities = [FsRead ''/data'', NetHttp ''a.example'' None None []],
     gr_expires_at = 0, gr_budget = budget_default\<lparr>b_bytes_in := 50\<rparr>,
     gr_decision_fingerprint = [], gr_consent = None\<rparr>"

definition demo_manifest :: tool_manifest where
  "demo_manifest = \<lparr>tm_name = ''reader'', tm_version = ''1.0.0'',
     tm_capabilities = [FsRead ''/data'', NetHttp ''a.example'' None None []], tm_safety = Medium,
     tm_side_effects = [SideRead],
     tm_limits = Some (limits_default\<lparr>max_bytes_in := Some 100\<rparr>),
     tm_whitelists = Some (whitelists_default\<lparr>wl_methods := [''GET'']\<rparr>), tm_mappings = None,
     tm_timeout_ms = Some 5000, tm_metadata = JNull\<rparr>"

definition demo_policy :: policy_config where
  "demo_policy = \<lparr>pc_capabilities = [FsRead ''/data''], pc_safety_class = Low, pc_side_effects = [],
     pc_limits = None, pc_whitelists = Some (whitelists_default\<lparr>wl_methods := [''POST'']\<rparr>),
     pc_mappings = None, pc_timeout_ms = None, pc_defaults = \<lparr>pd_timeout_ms = Some 30000\<rparr>,
     pc_policy_hash = None, pc_config_version = None, pc_config_hash = None\<rparr>"

definition demo_profile :: profile where
  "demo_profile = (case build_profile (\<lambda>_. ''h'') (\<lambda>_. None) demo_grant demo_manifest demo_policy of
     Inr pf \<Rightarrow> pf | Inl _ \<Rightarrow> undefined)"

lemma demo_profile_built:
  "build_profile (\<lambda>_. ''h'') (\<lambda>_. None) demo_grant demo_manifest demo_policy = Ok demo_profile"
  by (simp add: demo_profile_def build_profile_def demo_grant_def demo_manifest_def demo_policy_def
      intersect_capabilities_def Let_def)


text \<open>
  Disjoint whitelists open the door.  An empty whitelist means no restriction, so when
  manifest and policy allow disjoint, non-empty sets of paths or HTTP methods, the merged
  profile restricts neither: it allows what both forbid.
\<close>

theorem disjoint_whitelists_merge_to_unrestricted:
  assumes "wl_methods m \<noteq> []" and "wl_methods p \<noteq> []" and "set (wl_methods m) \<inter> set (wl_methods p) = {}"
    and "wl_paths m \<noteq> []" and "wl_paths p \<noteq> []" and "set (wl_paths m) \<inter> set (wl_paths p) = {}"
  shows "wl_methods (merge_whitelists (Some m) (Some p)) = [] \<and>
    wl_paths (merge_whitelists (Some m) (Some p)) = []"
  using assms by (auto simp: merge_whitelists_def intersect_list_def filter_empty_conv)

theorem disjoint_whitelists_merge_to_unrestricted_witness:
  "wl_methods (merge_whitelists
     (Some (whitelists_default\<lparr>wl_methods := [''GET''], wl_paths := [''/a'']\<rparr>))
     (Some (whitelists_default\<lparr>wl_methods := [''POST''], wl_paths := [''/b'']\<rparr>))) = []"
  by (rule disjoint_whitelists_merge_to_unrestricted[THEN conjunct1])
    (simp_all add: whitelists_default_def)

end
