(* ===== verification/SandboxGuard.thy ===== *)
theory SandboxGuard
  imports SandboxProfile
begin

text \<open>
  Path normalisation and the policy guard (\<open>guard.rs\<close>).  \<open>Path::components\<close>
  of the standard library is modelled for Unix: a leading slash is the root component, empty
  parts and \<open>.\<close> are dropped, \<open>..\<close> is the parent component.
\<close>

datatype path_component = RootDir | ParentDir | Normal string

fun part_component :: "string \<Rightarrow> path_component list" where
  "part_component part =
     (if part = [] \<or> part = ''.'' then []
      else if part = ''..'' then [ParentDir] else [Normal part])"

definition path_components :: "string \<Rightarrow> path_component list" where
  "path_components path =
     (if starts_with path ''/'' then [RootDir] else [])
       @ concat (map part_component (split_on (CHR ''/'') path))"

text \<open>\<open>Vec::pop\<close> on an empty vector does nothing, as \<open>butlast\<close>.\<close>

fun push_component :: "path_component \<Rightarrow> string list \<Rightarrow> string list" where
  "push_component RootDir segs = [[]]"
| "push_component ParentDir segs = butlast segs"
| "push_component (Normal part) segs = segs @ [part]"

definition normalize_path :: "string \<Rightarrow> string" where
  "normalize_path path =
     (let segs = fold push_component (path_components path) [] in
      if segs = [] then ''/''
      else
        let value = join_with ''/'' segs in
        if value = [] then ''/''
        else if starts_with value ''/'' then value
        else ''/'' @ value)"

definition validate_path :: "string \<Rightarrow> profile \<Rightarrow> unit sandbox_result" where
  "validate_path path pf =
     (let normalized = normalize_path path in
      and_then
        (case root_fs (pf_mappings pf) of
           Some root \<Rightarrow>
             if \<not> starts_with normalized (normalize_path root)
             then Err (policy_violation ''path outside of mapped root'') else Ok ()
         | None \<Rightarrow> Ok ())
        (\<lambda>_. if wl_paths (pf_whitelists pf) \<noteq> [] \<and>
                 \<not> list_ex (starts_with normalized) (wl_paths (pf_whitelists pf))
              then Err (policy_violation ''path not in whitelist'') else Ok ()))"

definition validate_domain :: "string \<Rightarrow> profile \<Rightarrow> unit sandbox_result" where
  "validate_domain domain pf =
     (if wl_domains (pf_whitelists pf) = [] then
        Err (policy_violation ''network domains not declared'')
      else if \<not> list_ex (ends_with domain) (wl_domains (pf_whitelists pf)) then
        Err (policy_violation ''domain not allowed'')
      else Ok ())"

definition validate_tool :: "string \<Rightarrow> profile \<Rightarrow> unit sandbox_result" where
  "validate_tool tool pf =
     (if wl_tools (pf_whitelists pf) = [] then
        Err (policy_violation ''no allowed tools configured'')
      else if \<not> list_ex (\<lambda>allowed. allowed = tool) (wl_tools (pf_whitelists pf)) then
        Err (policy_violation ''tool not allowed'')
      else Ok ())"

definition guard_validate :: "profile \<Rightarrow> capability \<Rightarrow> unit sandbox_result" where
  "guard_validate pf cap =
     (if cap \<notin> set (pf_capabilities pf) then
        Err (permission_denied ''capability not allowed in profile'')
      else case cap of
        FsRead path \<Rightarrow> validate_path path pf
      | FsWrite path _ \<Rightarrow> validate_path path pf
      | FsList path \<Rightarrow> validate_path path pf
      | NetHttp host _ _ _ \<Rightarrow> validate_domain host pf
      | ProcExec tool \<Rightarrow> validate_tool tool pf
      | BrowserUse _ \<Rightarrow> Ok ()
      | TmpUse \<Rightarrow> Ok ()
      | SysGpu _ \<Rightarrow> Ok ())"

section \<open>Normal paths\<close>

text \<open>A clean segment: non-empty, no slash, neither \<open>.\<close> nor \<open>..\<close>.\<close>

definition clean :: "string \<Rightarrow> bool" where
  "clean s \<longleftrightarrow> s \<noteq> [] \<and> s \<noteq> ''.'' \<and> s \<noteq> ''..'' \<and> CHR ''/'' \<notin> set s"

definition render_path :: "string list \<Rightarrow> string" where
  "render_path segs = CHR ''/'' # join_with ''/'' segs"

text \<open>The segment stack: clean segments, possibly behind the empty root marker.\<close>

definition stack_ok :: "string list \<Rightarrow> bool" where
  "stack_ok segs \<longleftrightarrow> list_all clean segs \<or> (\<exists>rest. segs = [] # rest \<and> list_all clean rest)"

lemma part_component_clean:
  "CHR ''/'' \<notin> set part \<Longrightarrow> Normal p \<in> set (part_component part) \<Longrightarrow> clean p"
  by (auto simp: clean_def split: if_splits)

lemma path_components_clean: "Normal p \<in> set (path_components path) \<Longrightarrow> clean p"
  by (auto simp: path_components_def simp del: part_component.simps
      intro: part_component_clean dest: split_on_free split: if_splits)

lemma list_all_butlast: "list_all P xs \<Longrightarrow> list_all P (butlast xs)"
  by (auto simp: list_all_iff dest: in_set_butlastD)

lemma push_component_ok:
  "stack_ok segs \<Longrightarrow> (\<And>p. c = Normal p \<Longrightarrow> clean p) \<Longrightarrow> stack_ok (push_component c segs)"
proof (cases c)
  case RootDir
  then show ?thesis by (simp add: stack_ok_def)
next
  case ParentDir
  assume "stack_ok segs"
  then show ?thesis
    unfolding stack_ok_def
  proof (elim disjE exE conjE)
    fix rest assume "segs = [] # rest" "list_all clean rest"
    then show "list_all clean (push_component c segs) \<or>
        (\<exists>rest. push_component c segs = [] # rest \<and> list_all clean rest)"
      using ParentDir by (cases rest) (auto intro: list_all_butlast)
  qed (simp add: ParentDir list_all_butlast)
next
  case (Normal p)
  assume "stack_ok segs" "\<And>p. c = Normal p \<Longrightarrow> clean p"
  then show ?thesis
    using Normal by (auto simp: stack_ok_def)
qed

lemma fold_push_ok:
  "stack_ok segs \<Longrightarrow> (\<And>p. Normal p \<in> set cs \<Longrightarrow> clean p) \<Longrightarrow> stack_ok (fold push_component cs segs)"
  by (induction cs arbitrary: segs) (auto simp: push_component_ok)

lemma join_starts_clean:
  "list_all clean segs \<Longrightarrow> segs \<noteq> [] \<Longrightarrow>
   join_with ''/'' segs \<noteq> [] \<and> \<not> starts_with (join_with ''/'' segs) ''/''"
  by (cases segs; cases "tl segs"; cases "hd segs") (auto simp: clean_def starts_with_iff)

lemma render_root: "rest \<noteq> [] \<Longrightarrow> join_with ''/'' ([] # rest) = render_path rest"
  by (cases rest) (simp_all add: render_path_def)

text \<open>Every normalised path is a rooted path of clean segments.\<close>

lemma normalize_render: "\<exists>segs. normalize_path path = render_path segs \<and> list_all clean segs"
proof -
  let ?stack = "fold push_component (path_components path) []"
  have "stack_ok ?stack"
    by (rule fold_push_ok) (auto simp: stack_ok_def dest: path_components_clean)
  then consider (plain) "list_all clean ?stack"
    | (rooted) rest where "?stack = [] # rest" "list_all clean rest"
    unfolding stack_ok_def by blast
  then show ?thesis
  proof cases
    case plain
    then show ?thesis
      using join_starts_clean[of ?stack]
      by (cases "?stack = []") (auto simp: normalize_path_def Let_def render_path_def
          intro: exI[of _ "[]"])
  next
    case (rooted rest)
    then show ?thesis
      by (cases "rest = []")
        (auto simp: normalize_path_def Let_def render_root render_path_def starts_with_iff
          intro: exI[of _ "[]"] exI[of _ rest])
  qed
qed

lemma clean_components: "list_all clean segs \<Longrightarrow> concat (map part_component segs) = map Normal segs"
  by (induction segs) (auto simp: clean_def)

lemma fold_push_normal: "fold push_component (map Normal ps) segs = segs @ ps"
  by (induction ps arbitrary: segs) auto

lemma normalize_rendered:
  assumes "list_all clean segs"
  shows "normalize_path (render_path segs) = render_path segs"
proof (cases "segs = []")
  case True
  then show ?thesis by (simp add: render_path_def normalize_path_def path_components_def starts_with_def)
next
  case False
  have "split_on (CHR ''/'') (render_path segs) = [] # segs"
    using assms False split_join[of segs "CHR ''/''"]
    by (auto simp: render_path_def list_all_iff clean_def)
  then have "path_components (render_path segs) = RootDir # map Normal segs"
    using assms by (simp add: path_components_def clean_components starts_with_def render_path_def)
  then have "fold push_component (path_components (render_path segs)) [] = [] # segs"
    by (simp add: fold_push_normal)
  then show ?thesis
    using False by (simp add: normalize_path_def Let_def render_root render_path_def starts_with_iff)
qed

section \<open>Properties\<close>

text \<open>
  C21: Normalised paths cannot escape.  The result of \<open>normalize_path\<close> is always
  absolute, is made of segments that are non-empty and neither \<open>.\<close> nor \<open>..\<close>,
  and normalising it again changes nothing.
\<close>

theorem normalize_path_canonical:
  "(\<exists>segs. normalize_path path = CHR ''/'' # join_with ''/'' segs \<and>
      list_all (\<lambda>s. s \<noteq> [] \<and> s \<noteq> ''.'' \<and> s \<noteq> ''..'' \<and> CHR ''/'' \<notin> set s) segs) \<and>
    normalize_path (normalize_path path) = normalize_path path"
proof -
  obtain segs where segs: "normalize_path path = render_path segs" "list_all clean segs"
    using normalize_render by blast
  then have "list_all (\<lambda>s. s \<noteq> [] \<and> s \<noteq> ''.'' \<and> s \<noteq> ''..'' \<and> CHR ''/'' \<notin> set s) segs"
    by (simp add: clean_def[abs_def])
  with segs show ?thesis
    by (auto simp: normalize_rendered) (auto simp: render_path_def)
qed

text \<open>
  What the guard lets through.  A capability passes exactly when the profile holds it
  and, for files, its normalised path lies under the mapped root and one of the listed paths
  where these are set, for the network, its host ends in a declared domain, for processes, its
  tool is listed; undeclared domains and tools are refused.
\<close>

theorem guard_validate_iff:
  "guard_validate pf cap = Ok () \<longleftrightarrow>
     cap \<in> set (pf_capabilities pf) \<and>
     (case cap of
        NetHttp host _ _ _ \<Rightarrow> list_ex (ends_with host) (wl_domains (pf_whitelists pf))
      | ProcExec tool \<Rightarrow> tool \<in> set (wl_tools (pf_whitelists pf))
      | BrowserUse _ \<Rightarrow> True | TmpUse \<Rightarrow> True | SysGpu _ \<Rightarrow> True
      | FsRead path \<Rightarrow> validate_path path pf = Ok ()
      | FsWrite path _ \<Rightarrow> validate_path path pf = Ok ()
      | FsList path \<Rightarrow> validate_path path pf = Ok ()) \<and>
     (validate_path path pf = Ok () \<longleftrightarrow>
        (case root_fs (pf_mappings pf) of
           Some root \<Rightarrow> starts_with (normalize_path path) (normalize_path root) | None \<Rightarrow> True) \<and>
        (wl_paths (pf_whitelists pf) = [] \<or>
           list_ex (starts_with (normalize_path path)) (wl_paths (pf_whitelists pf))))"
proof -
  have path: "validate_path path pf = Ok () \<longleftrightarrow>
        (case root_fs (pf_mappings pf) of
           Some root \<Rightarrow> starts_with (normalize_path path) (normalize_path root) | None \<Rightarrow> True) \<and>
        (wl_paths (pf_whitelists pf) = [] \<or>
           list_ex (starts_with (normalize_path path)) (wl_paths (pf_whitelists pf)))"
    by (auto simp: validate_path_def Let_def split: option.splits)
  have "guard_validate pf cap = Ok () \<longleftrightarrow>
     cap \<in> set (pf_capabilities pf) \<and>
     (case cap of
        NetHttp host _ _ _ \<Rightarrow> list_ex (ends_with host) (wl_domains (pf_whitelists pf))
      | ProcExec tool \<Rightarrow> tool \<in> set (wl_tools (pf_whitelists pf))
      | BrowserUse _ \<Rightarrow> True | TmpUse \<Rightarrow> True | SysGpu _ \<Rightarrow> True
      | FsRead path \<Rightarrow> validate_path path pf = Ok ()
      | FsWrite path _ \<Rightarrow> validate_path path pf = Ok ()
      | FsList path \<Rightarrow> validate_path path pf = Ok ())"
    by (cases cap) (auto simp: guard_validate_def validate_domain_def validate_tool_def list_ex_iff)
  with path show ?thesis
    by blast
qed

end
