(* ===== verification/SandboxExec.thy ===== *)
theory SandboxExec
  imports SandboxGuard
begin

text \<open>
  The executors that perform a sandboxed operation (\<open>exec/fs.rs\<close>,
  \<open>exec/net.rs\<close>, \<open>exec/tmp.rs\<close>, \<open>exec/browser.rs\<close>, \<open>exec/proc_exec.rs\<close>)
  and the contract they share, the locale \<open>sandbox_executor\<close>: usage stays within the
  profile's limits, a cancelled execution has no effect.  The operating system is
  the record \<open>os_ops\<close> of the calls the executors make on a world \<open>'w\<close>;
  the url and base64 crates, serde's byte encoding and SHA-256 are the record
  \<open>externals\<close>.  The address parser of the standard library is modelled.
\<close>

section \<open>The environment\<close>

record parsed_url =
  url_scheme :: string
  url_host :: "string option"
  url_port :: "16 word option"

record externals =
  x_url_parse :: "string \<Rightarrow> parsed_url option"
  x_b64_decode :: "string \<Rightarrow> string option"
  x_b64_encode :: "string \<Rightarrow> string"
  x_json_bytes :: "json \<Rightarrow> string"
  x_sha_b64 :: "string \<Rightarrow> string"

datatype entry_kind = EntryDir | EntryFile | EntryOther

record process_output =
  po_status :: "int option"
  po_stdout :: string
  po_stderr :: string
  po_elapsed_ms :: nat

record ('w, 'f) os_ops =
  os_open :: "string \<Rightarrow> 'w \<Rightarrow> 'f option"
  os_seek :: "64 word \<Rightarrow> 'f \<Rightarrow> 'f option"
  os_read_to_end :: "64 word option \<Rightarrow> 'f \<Rightarrow> string option"
  os_exists :: "string \<Rightarrow> 'w \<Rightarrow> bool"
  os_create_dir_all :: "path_component list \<Rightarrow> 'w \<Rightarrow> 'w \<times> bool"
  os_create :: "string \<Rightarrow> 'w \<Rightarrow> 'w \<times> bool"
  os_write_all :: "string \<Rightarrow> string \<Rightarrow> 'w \<Rightarrow> 'w \<times> bool"
  os_read_dir :: "string \<Rightarrow> 'w \<Rightarrow> (string \<times> entry_kind option) option list option"
  os_output :: "string \<Rightarrow> string list \<Rightarrow> string option \<Rightarrow> 'w \<Rightarrow> 'w \<times> process_output option"

record exec_ctx =
  cx_profile :: profile
  cx_cancelled :: bool

type_synonym 'w executor = "exec_ctx \<Rightarrow> exec_op \<Rightarrow> 'w \<Rightarrow> 'w \<times> exec_result sandbox_result"

text \<open>A \<open>json!\<close> object.\<close>

definition obj :: "(string \<times> json) list \<Rightarrow> json" where
  "obj kvs = JObj (jextend [] kvs)"

definition num :: "64 word \<Rightarrow> json" where
  "num n = JNum (PosInt n)"

definition opt_json :: "('a \<Rightarrow> json) \<Rightarrow> 'a option \<Rightarrow> json" where
  "opt_json f x = (case x of Some a \<Rightarrow> f a | None \<Rightarrow> JNull)"

text \<open>An operating-system call whose failure becomes a policy violation.\<close>

definition os_try :: "string \<Rightarrow> 'w \<times> bool \<Rightarrow> 'w \<times> unit sandbox_result" where
  "os_try msg r = (fst r, if snd r then Ok () else Err (policy_violation msg))"

definition len64 :: "'a list \<Rightarrow> 64 word" where
  "len64 xs = of_nat (length xs)"

definition refuse_above :: "64 word option \<Rightarrow> 64 word \<Rightarrow> string \<Rightarrow> unit sandbox_result" where
  "refuse_above limit n msg =
     (case limit of
        Some l \<Rightarrow> if n > l then Err (policy_violation msg) else Ok ()
      | None \<Rightarrow> Ok ())"

lemma refuse_above_Ok [simp]:
  "refuse_above limit n msg = Ok u \<longleftrightarrow> (\<forall>l. limit = Some l \<longrightarrow> n \<le> l)"
  by (auto simp: refuse_above_def not_less split: option.splits)

section \<open>Files\<close>

definition read_file ::
  "('w, 'f) os_ops \<Rightarrow> externals \<Rightarrow> exec_ctx \<Rightarrow> string \<Rightarrow> 64 word option \<Rightarrow> 64 word option
     \<Rightarrow> 'w \<Rightarrow> exec_result sandbox_result" where
  "read_file os ext ctx path offset len w =
     and_then (ok_or (policy_violation ''failed to open file for read'') (os_open os path w)) (\<lambda>file.
     and_then
       (case offset of
          Some off \<Rightarrow> ok_or (policy_violation ''failed to seek file'') (os_seek os off file)
        | None \<Rightarrow> Ok file) (\<lambda>file.
     let lim = max_bytes_in (pf_limits (cx_profile ctx));
         allowed = (case lim of Some l \<Rightarrow> l | None \<Rightarrow> - 1);
         to_read = min (case len of Some l \<Rightarrow> l | None \<Rightarrow> allowed) allowed
     in and_then
       (ok_or (policy_violation ''failed to read file'')
          (os_read_to_end os (if to_read < - 1 then Some to_read else None) file)) (\<lambda>buffer.
     let usage = exec_usage_default\<lparr>u_bytes_in := len64 buffer, u_calls := 1\<rparr>
     in and_then (refuse_above lim (u_bytes_in usage) ''read exceeds byte limit'') (\<lambda>_.
     Ok (exec_success (obj [(''data_b64'', JStr (x_b64_encode ext buffer))]) usage
       [\<lparr>se_kind = SideRead,
         se_meta = obj [(''path'', JStr path), (''bytes'', num (u_bytes_in usage))]\<rparr>])))))"

text \<open>The components of \<open>Path::parent\<close>; a root or empty path has none.\<close>

definition path_parent :: "string \<Rightarrow> path_component list option" where
  "path_parent path =
     (let cs = path_components path
      in if cs = [] \<or> cs = [RootDir] then None else Some (butlast cs))"

definition write_file ::
  "('w, 'f) os_ops \<Rightarrow> externals \<Rightarrow> exec_ctx \<Rightarrow> string \<Rightarrow> string \<Rightarrow> bool
     \<Rightarrow> 'w \<Rightarrow> 'w \<times> exec_result sandbox_result" where
  "write_file os ext ctx path data_b64 overwrite w =
     and_do (w, ok_or (policy_violation ''invalid base64 payload'') (x_b64_decode ext data_b64)) (\<lambda>bytes w.
     and_do (w, refuse_above (max_bytes_out (pf_limits (cx_profile ctx))) (len64 bytes)
                  ''write exceeds byte limit'') (\<lambda>_ w.
     and_do (w, if max_files (pf_limits (cx_profile ctx)) = Some 0
                then Err (policy_violation ''file writes disabled by policy'') else Ok ()) (\<lambda>_ w.
     and_do (w, if os_exists os path w \<and> \<not> overwrite
                then Err (policy_violation ''file exists and overwrite disabled'') else Ok ()) (\<lambda>_ w.
     and_do (case path_parent path of
               Some parent \<Rightarrow> os_try ''failed to create directories'' (os_create_dir_all os parent w)
             | None \<Rightarrow> (w, Ok ())) (\<lambda>_ w.
     and_do (os_try ''failed to open file for write'' (os_create os path w)) (\<lambda>_ w.
     and_do (os_try ''failed to write file'' (os_write_all os path bytes w)) (\<lambda>_ w.
     let usage = exec_usage_default\<lparr>u_bytes_out := len64 bytes, u_calls := 1, u_file_count := 1\<rparr>
     in (w, Ok (exec_success (obj [(''written_bytes'', num (len64 bytes))]) usage
          [\<lparr>se_kind = SideWrite,
            se_meta = obj [(''path'', JStr path), (''bytes'', num (u_bytes_out usage))]\<rparr>])))))))))"

fun entry_kind_str :: "entry_kind \<Rightarrow> string" where
  "entry_kind_str EntryDir = ''dir''" | "entry_kind_str EntryFile = ''file''"
| "entry_kind_str EntryOther = ''other''"

definition list_entry :: "(string \<times> entry_kind option) option \<Rightarrow> json sandbox_result" where
  "list_entry entry =
     and_then (ok_or (policy_violation ''failed to read entry'') entry) (\<lambda>(name, kind).
     and_then (ok_or (policy_violation ''failed to inspect entry'') kind) (\<lambda>kind.
     Ok (obj [(''name'', JStr name), (''kind'', JStr (entry_kind_str kind))])))"

definition list_dir ::
  "('w, 'f) os_ops \<Rightarrow> exec_ctx \<Rightarrow> string \<Rightarrow> 'w \<Rightarrow> exec_result sandbox_result" where
  "list_dir os ctx path w =
     and_then (ok_or (policy_violation ''failed to list directory'') (os_read_dir os path w)) (\<lambda>entries.
     and_then (try_map list_entry entries) (\<lambda>items.
     and_then (refuse_above (max_files (pf_limits (cx_profile ctx))) (len64 items)
                 ''directory listing exceeds limit'') (\<lambda>_.
     Ok (exec_success (obj [(''entries'', JArr items)])
       (exec_usage_default\<lparr>u_calls := 1, u_file_count := len64 items\<rparr>)
       [\<lparr>se_kind = SideFilesystem,
         se_meta = obj [(''path'', JStr path), (''count'', num (len64 items))]\<rparr>]))))"

definition fs_execute :: "('w, 'f) os_ops \<Rightarrow> externals \<Rightarrow> 'w executor" where
  "fs_execute os ext ctx op w =
     (if cx_cancelled ctx then (w, Err (policy_violation ''execution cancelled''))
      else case op of
        OpFsRead path offset len \<Rightarrow> (w, read_file os ext ctx path offset len w)
      | OpFsWrite path data overwrite \<Rightarrow> write_file os ext ctx path data overwrite w
      | OpFsList path \<Rightarrow> (w, list_dir os ctx path w)
      | _ \<Rightarrow> (w, Err (policy_violation ''operation not supported by FsExecutor'')))"

section \<open>Addresses\<close>

text \<open>
  \<open>IpAddr::from_str\<close>: each reader returns its value and the rest of the input.
\<close>

definition digit_value :: "int \<Rightarrow> char \<Rightarrow> int option" where
  "digit_value radix c =
     (let n = of_char c :: int;
          d = (if 48 \<le> n \<and> n \<le> 57 then Some (n - 48)
               else if 97 \<le> n \<and> n \<le> 102 then Some (n - 87)
               else if 65 \<le> n \<and> n \<le> 70 then Some (n - 55) else None)
      in case d of Some v \<Rightarrow> if v < radix then Some v else None | None \<Rightarrow> None)"

definition read_number ::
  "int \<Rightarrow> nat \<Rightarrow> bool \<Rightarrow> int \<Rightarrow> string \<Rightarrow> (int \<times> string) option" where
  "read_number radix max_digits zero_prefix bound s =
     (let ds = takeWhile (\<lambda>c. digit_value radix c \<noteq> None) s;
          v = foldl (\<lambda>acc c. acc * radix + the (digit_value radix c)) 0 ds
      in if ds = [] \<or> length ds > max_digits \<or> v \<ge> bound
            \<or> (\<not> zero_prefix \<and> hd ds = CHR ''0'' \<and> length ds > 1)
         then None else Some (v, drop (length ds) s))"

definition read_sep :: "char \<Rightarrow> nat \<Rightarrow> string \<Rightarrow> string option" where
  "read_sep c i s =
     (if i = 0 then Some s else case s of [] \<Rightarrow> None | x # xs \<Rightarrow> if x = c then Some xs else None)"

fun read_octets :: "nat \<Rightarrow> nat \<Rightarrow> string \<Rightarrow> (int list \<times> string) option" where
  "read_octets 0 i s = Some ([], s)"
| "read_octets (Suc n) i s =
     (case read_sep (CHR ''.'') i s of
        None \<Rightarrow> None
      | Some s' \<Rightarrow> (case read_number 10 3 False 256 s' of
          None \<Rightarrow> None
        | Some (v, s'') \<Rightarrow> map_option (\<lambda>(vs, r). (v # vs, r)) (read_octets n (i + 1) s'')))"

fun read_groups :: "nat \<Rightarrow> nat \<Rightarrow> string \<Rightarrow> int list \<times> bool \<times> string" where
  "read_groups 0 i s = ([], False, s)"
| "read_groups (Suc left) i s =
     (case (if left > 0 then Option.bind (read_sep (CHR '':'') i s) (read_octets 4 0) else None) of
        Some (bs, r) \<Rightarrow> ([bs ! 0 * 256 + bs ! 1, bs ! 2 * 256 + bs ! 3], True, r)
      | None \<Rightarrow>
          (case Option.bind (read_sep (CHR '':'') i s) (read_number 16 4 True 65536) of
             None \<Rightarrow> ([], False, s)
           | Some (g, r) \<Rightarrow> (let (gs, v4, r') = read_groups left (i + 1) r in (g # gs, v4, r'))))"

definition parse_ipv4 :: "string \<Rightarrow> int list option" where
  "parse_ipv4 s = (case read_octets 4 0 s of Some (bs, []) \<Rightarrow> Some bs | _ \<Rightarrow> None)"

definition parse_ipv6 :: "string \<Rightarrow> int list option" where
  "parse_ipv6 s =
     (let (head, v4, r) = read_groups 8 0 s in
      if length head = 8 then (if r = [] then Some head else None)
      else if v4 then None
      else if \<not> starts_with r ''::'' then None
      else let (rest, _, r') = read_groups (7 - length head) 0 (drop 2 r) in
           if r' = [] then Some (head @ replicate (8 - length head - length rest) 0 @ rest) else None)"

definition is_private_ipv4 :: "int list \<Rightarrow> bool" where
  "is_private_ipv4 octets =
     (octets ! 0 = 10 \<or> octets ! 0 = 172 \<and> 16 \<le> octets ! 1 \<and> octets ! 1 \<le> 31
      \<or> octets ! 0 = 192 \<and> octets ! 1 = 168 \<or> octets ! 0 = 127
      \<or> octets ! 0 = 169 \<and> octets ! 1 = 254)"

text \<open>Loopback \<open>::1\<close>, unique local \<open>fc00::/7\<close>, unspecified \<open>::\<close>.\<close>

definition is_private_ipv6 :: "int list \<Rightarrow> bool" where
  "is_private_ipv6 groups =
     (groups = [0, 0, 0, 0, 0, 0, 0, 1] \<or> groups ! 0 div 512 = 126 \<or> groups = replicate 8 0)"

definition is_private_host :: "string \<Rightarrow> bool" where
  "is_private_host host =
     (if eq_ignore_case host ''localhost'' then True
      else case parse_ipv4 host of
        Some octets \<Rightarrow> is_private_ipv4 octets
      | None \<Rightarrow> (case parse_ipv6 host of Some groups \<Rightarrow> is_private_ipv6 groups | None \<Rightarrow> False))"


section \<open>Network\<close>

definition ensure_method_allowed :: "exec_ctx \<Rightarrow> string \<Rightarrow> unit sandbox_result" where
  "ensure_method_allowed ctx meth =
     (let method_upper = to_upper meth;
          allowed = wl_methods (pf_whitelists (cx_profile ctx))
      in if allowed \<noteq> [] \<and> \<not> list_ex (\<lambda>m. eq_ignore_case m method_upper) allowed
         then Err (policy_violation ''http method not allowed'') else Ok ())"

definition ensure_domain_allowed :: "exec_ctx \<Rightarrow> string \<Rightarrow> unit sandbox_result" where
  "ensure_domain_allowed ctx host =
     (let domains = wl_domains (pf_whitelists (cx_profile ctx)) in
      if is_private_host host then Err (policy_violation ''host resolves to private network'')
      else if domains = [] then Err (policy_violation ''network domains not declared'')
      else if \<not> list_ex (ends_with host) domains
      then Err (policy_violation ''domain not in whitelist'') else Ok ())"

definition execute_http ::
  "externals \<Rightarrow> exec_ctx \<Rightarrow> string \<Rightarrow> string \<Rightarrow> json \<Rightarrow> string option
     \<Rightarrow> exec_result sandbox_result" where
  "execute_http ext ctx meth url headers body_b64 =
     and_then (ok_or (policy_violation ''invalid url'') (x_url_parse ext url)) (\<lambda>parsed.
     and_then (if url_scheme parsed \<noteq> ''https'' \<and> url_scheme parsed \<noteq> ''http''
               then Err (policy_violation ''unsupported scheme'') else Ok ()) (\<lambda>_.
     and_then (case url_host parsed of
                 Some host \<Rightarrow> ensure_domain_allowed ctx host
               | None \<Rightarrow> Err (policy_violation ''missing host'')) (\<lambda>_.
     and_then (ensure_method_allowed ctx meth) (\<lambda>_.
     and_then (case body_b64 of
                 Some encoded \<Rightarrow>
                   ok_or (policy_violation ''invalid request body'') (x_b64_decode ext encoded)
               | None \<Rightarrow> Ok []) (\<lambda>body_bytes.
     and_then (refuse_above (max_bytes_out (pf_limits (cx_profile ctx))) (len64 body_bytes)
                 ''request body exceeds limit'') (\<lambda>_.
     and_then (if max_bytes_in (pf_limits (cx_profile ctx)) = Some 0
               then Err (policy_violation ''network response forbidden'') else Ok ()) (\<lambda>_.
     let usage = exec_usage_default\<lparr>u_calls := 1, u_bytes_out := len64 body_bytes\<rparr>
     in Ok (exec_success
          (obj [(''status'', JStr ''simulated''), (''method'', JStr meth), (''url'', JStr url),
                (''headers'', headers), (''request_body_present'', JBool (body_bytes \<noteq> []))])
          usage
          [\<lparr>se_kind = SideNetwork,
            se_meta = obj [(''method'', JStr meth), (''url'', JStr url),
              (''request_bytes'', num (u_bytes_out usage))]\<rparr>]))))))))"

definition net_execute :: "externals \<Rightarrow> 'w executor" where
  "net_execute ext ctx op w =
     (w, if cx_cancelled ctx then Err (policy_violation ''execution cancelled'')
         else case op of
           OpNetHttp meth url headers body \<Rightarrow> execute_http ext ctx meth url headers body
         | _ \<Rightarrow> Err (policy_violation ''operation not supported by NetExecutor''))"

section \<open>Temporary space and browser\<close>

definition tmp_execute :: "('w, 'f) os_ops \<Rightarrow> 'w executor" where
  "tmp_execute os ctx op w =
     (if cx_cancelled ctx then (w, Err (policy_violation ''execution cancelled''))
      else case op of
        OpTmpAlloc size_bytes \<Rightarrow>
          and_do (w, refuse_above (max_bytes_out (pf_limits (cx_profile ctx))) size_bytes
                       ''tmp allocation exceeds limit'') (\<lambda>_ w.
          and_do (case tmp_dir (pf_mappings (cx_profile ctx)) of
                    Some tmp \<Rightarrow>
                      os_try ''failed to create tmp dir'' (os_create_dir_all os (path_components tmp) w)
                  | None \<Rightarrow> (w, Ok ())) (\<lambda>_ w.
          (w, Ok (exec_success (obj [(''allocated'', num size_bytes)])
             (exec_usage_default\<lparr>u_bytes_out := size_bytes, u_calls := 1\<rparr>)
             [\<lparr>se_kind = SideFilesystem,
               se_meta = obj [(''tmp_dir'', opt_json JStr (tmp_dir (pf_mappings (cx_profile ctx)))),
                 (''bytes'', num size_bytes)]\<rparr>]))))
      | _ \<Rightarrow> (w, Err (policy_violation ''operation not supported by TmpExecutor'')))"

definition browser_execute :: "'w executor" where
  "browser_execute ctx op w =
     (w, if cx_cancelled ctx then Err (policy_violation ''execution cancelled'')
         else case op of
           OpBrowserNav url \<Rightarrow>
             Ok (exec_success (obj [(''navigated_to'', JStr url)])
               (exec_usage_default\<lparr>u_calls := 1\<rparr>)
               [\<lparr>se_kind = SideBrowser,
                 se_meta = obj [(''action'', JStr ''navigate''), (''url'', JStr url)]\<rparr>])
         | OpBrowserScreenshot selector full_page \<Rightarrow>
             if max_bytes_in (pf_limits (cx_profile ctx)) = Some 0
             then Err (policy_violation ''browser screenshot disabled by policy'')
             else
               Ok (exec_success
                 (obj [(''screenshot'', obj [(''selector'', opt_json JStr selector),
                    (''full_page'', JBool full_page)])])
                 (exec_usage_default\<lparr>u_calls := 1\<rparr>)
                 [\<lparr>se_kind = SideBrowser,
                   se_meta = obj [(''action'', JStr ''screenshot''),
                     (''selector'', opt_json JStr selector), (''full_page'', JBool full_page)]\<rparr>])
         | _ \<Rightarrow> Err (policy_violation ''operation not supported by BrowserExecutor''))"

section \<open>Processes\<close>

definition ensure_tool_allowed :: "exec_ctx \<Rightarrow> string \<Rightarrow> unit sandbox_result" where
  "ensure_tool_allowed ctx tool =
     (let tools = wl_tools (pf_whitelists (cx_profile ctx)) in
      if tools = [] then Err (policy_violation ''process execution disabled by policy'')
      else if \<not> list_ex (\<lambda>allowed. allowed = tool) tools
      then Err (policy_violation ''tool not allowed'') else Ok ())"

definition arg_safe :: "string \<Rightarrow> unit sandbox_result" where
  "arg_safe arg =
     (if CHR '';'' \<in> set arg \<or> CHR ''|'' \<in> set arg \<or> CHR ''&'' \<in> set arg \<or> CHR 0x60 \<in> set arg
      then Err (policy_violation ''argument contains unsafe characters'') else Ok ())"

definition ensure_args_safe :: "string list \<Rightarrow> unit sandbox_result" where
  "ensure_args_safe args = try_each arg_safe args"

definition int_json :: "int \<Rightarrow> json" where
  "int_json i = JNum (if i < 0 then NegInt i else PosInt (of_int i))"

definition process_result ::
  "externals \<Rightarrow> exec_ctx \<Rightarrow> string \<Rightarrow> string list \<Rightarrow> 64 word \<Rightarrow> process_output
     \<Rightarrow> exec_result sandbox_result" where
  "process_result ext ctx tool args timeout output =
     and_then (if po_elapsed_ms output > unat timeout
               then Err (policy_violation ''process timeout exceeded'') else Ok ()) (\<lambda>_.
     let stdout_len = len64 (po_stdout output); stderr_len = len64 (po_stderr output)
     in and_then (refuse_above (max_bytes_in (pf_limits (cx_profile ctx))) (stdout_len + stderr_len)
                    ''process output exceeds byte limit'') (\<lambda>_.
     Ok (exec_success
       (obj [(''status'', opt_json int_json (po_status output)),
             (''stdout_b64'', JStr (x_b64_encode ext (po_stdout output))),
             (''stderr_b64'', JStr (x_b64_encode ext (po_stderr output)))])
       (exec_usage_default\<lparr>u_calls := 1, u_bytes_in := stdout_len + stderr_len\<rparr>)
       [\<lparr>se_kind = SideProcess,
         se_meta = obj [(''tool'', JStr tool), (''args'', JArr (map JStr args)),
           (''status'', opt_json int_json (po_status output)),
           (''stdout_bytes'', num stdout_len), (''stderr_bytes'', num stderr_len)]\<rparr>])))"

definition process_execute :: "('w, 'f) os_ops \<Rightarrow> externals \<Rightarrow> 'w executor" where
  "process_execute os ext ctx op w =
     (if cx_cancelled ctx then (w, Err (policy_violation ''execution cancelled''))
      else case op of
        OpProcExec tool args timeout_ms \<Rightarrow>
          and_do (w, ensure_tool_allowed ctx tool) (\<lambda>_ w.
          and_do (w, ensure_args_safe args) (\<lambda>_ w.
          let timeout = (case timeout_ms of Some t \<Rightarrow> t | None \<Rightarrow> pf_timeout_ms (cx_profile ctx));
              r = os_output os tool args (tmp_dir (pf_mappings (cx_profile ctx))) w
          in and_do (fst r, ok_or (policy_violation ''failed to spawn process'') (snd r)) (\<lambda>output w.
             (w, process_result ext ctx tool args timeout output))))
      | _ \<Rightarrow> (w, Err (policy_violation ''operation not supported by ProcessExecutor'')))"

definition not_implemented_execute :: "'w executor" where
  "not_implemented_execute ctx op w = (w, Err (policy_violation ''executor not implemented''))"

section \<open>The contract of an executor\<close>

definition usage_within :: "limits \<Rightarrow> exec_usage \<Rightarrow> bool" where
  "usage_within lim u \<longleftrightarrow>
     (\<forall>l. max_bytes_in lim = Some l \<longrightarrow> u_bytes_in u \<le> l) \<and>
     (\<forall>l. max_bytes_out lim = Some l \<longrightarrow> u_bytes_out u \<le> l) \<and>
     (\<forall>l. max_files lim = Some l \<longrightarrow> u_file_count u \<le> l)"

locale sandbox_executor =
  fixes exec :: "'w executor"
  assumes cancelled: "cx_cancelled ctx \<Longrightarrow> \<exists>e. exec ctx op w = (w, Err e)"
    and within: "exec ctx op w = (w', Ok r) \<Longrightarrow>
      usage_within (pf_limits (cx_profile ctx)) (er_usage r) \<and> u_calls (er_usage r) \<le> 1 \<and> er_ok r"
begin

lemma never_over_limit:
  "snd (exec ctx op w) = Ok r \<Longrightarrow> usage_within (pf_limits (cx_profile ctx)) (er_usage r)"
  using within[of ctx op w "fst (exec ctx op w)" r] by (metis prod.collapse)

lemma success_shape: "snd (exec ctx op w) = Ok r \<Longrightarrow> er_ok r \<and> u_calls (er_usage r) \<le> 1"
  using within[of ctx op w "fst (exec ctx op w)" r] by (metis prod.collapse)

end

lemma exec_success_simps [simp]:
  "er_usage (exec_success out u eff) = u" "er_ok (exec_success out u eff)"
  "er_code (exec_success out u eff) = None" "er_side_effects (exec_success out u eff) = eff"
  "er_out (exec_success out u eff) = out"
  by (simp_all add: exec_success_def)

lemma exec_usage_default_simps [simp]:
  "u_bytes_in exec_usage_default = 0" "u_bytes_out exec_usage_default = 0"
  "u_file_count exec_usage_default = 0" "u_calls exec_usage_default = 0" "u_cpu_ms exec_usage_default = 0"
  by (simp_all add: exec_usage_default_def)

lemma word_ge_1: "(l :: 64 word) \<noteq> 0 \<Longrightarrow> 1 \<le> l"
  by (simp add: word_le_nat_alt) (metis One_nat_def Suc_leI unat_gt_0)

lemmas executor_defs = fs_execute_def read_file_def write_file_def list_dir_def net_execute_def
  execute_http_def tmp_execute_def browser_execute_def process_execute_def process_result_def

interpretation fs_exec: sandbox_executor "fs_execute os ext" for os ext
  by unfold_locales
    (auto simp: executor_defs usage_within_def and_do_Ok_iff Let_def word_ge_1
      split: exec_op.splits if_splits option.splits)

interpretation net_exec: sandbox_executor "net_execute ext" for ext
  by unfold_locales
    (auto simp: executor_defs usage_within_def Let_def split: exec_op.splits if_splits)

interpretation tmp_exec: sandbox_executor "tmp_execute os" for os
  by unfold_locales
    (auto simp: executor_defs usage_within_def and_do_Ok_iff split: exec_op.splits if_splits option.splits)

interpretation browser_exec: sandbox_executor browser_execute
  by unfold_locales
    (auto simp: executor_defs usage_within_def split: exec_op.splits if_splits)

interpretation process_exec: sandbox_executor "process_execute os ext" for os ext
  by unfold_locales
    (auto simp: executor_defs usage_within_def and_do_Ok_iff Let_def
      split: exec_op.splits if_splits option.splits)

interpretation not_implemented_exec: sandbox_executor not_implemented_execute
  by unfold_locales (auto simp: not_implemented_execute_def)

section \<open>Properties\<close>

lemma fs_effect:
  assumes "fst (fs_execute os ext ctx op w) \<noteq> w"
  shows "\<exists>path data overwrite bytes. op = OpFsWrite path data overwrite \<and>
    x_b64_decode ext data = Some bytes \<and>
    (\<forall>l. max_bytes_out (pf_limits (cx_profile ctx)) = Some l \<longrightarrow> len64 bytes \<le> l) \<and>
    max_files (pf_limits (cx_profile ctx)) \<noteq> Some 0 \<and> (os_exists os path w \<longrightarrow> overwrite)"
proof -
  obtain path data overwrite where op: "op = OpFsWrite path data overwrite"
    using assms by (cases op) (auto simp: fs_execute_def split: if_splits)
  then have "fst (write_file os ext ctx path data overwrite w) \<noteq> w"
    using assms by (auto simp: fs_execute_def split: if_splits)
  then show ?thesis
    unfolding write_file_def
    by - (drule and_do_effect, elim exE conjE, drule and_do_effect, elim exE conjE,
        drule and_do_effect, elim exE conjE, drule and_do_effect, auto simp: op split: if_splits)
qed

lemma tmp_effect:
  assumes "fst (tmp_execute os ctx op w) \<noteq> w"
  shows "\<exists>n d. op = OpTmpAlloc n \<and> tmp_dir (pf_mappings (cx_profile ctx)) = Some d \<and>
    (\<forall>l. max_bytes_out (pf_limits (cx_profile ctx)) = Some l \<longrightarrow> n \<le> l)"
  using assms unfolding tmp_execute_def
  by (cases op) (auto split: if_splits option.splits dest!: and_do_effect)

lemma tool_allowed_Ok:
  "ensure_tool_allowed ctx tool = Ok u \<longleftrightarrow> tool \<in> set (wl_tools (pf_whitelists (cx_profile ctx)))"
  by (auto simp: ensure_tool_allowed_def Let_def list_ex_iff)

lemma process_effect:
  assumes "fst (process_execute os ext ctx op w) \<noteq> w"
  shows "\<exists>tool args t. op = OpProcExec tool args t \<and>
    tool \<in> set (wl_tools (pf_whitelists (cx_profile ctx))) \<and>
    (\<forall>arg \<in> set args. set arg \<inter> {CHR '';'', CHR ''|'', CHR ''&'', CHR 0x60} = {})"
proof -
  obtain tool args t where op: "op = OpProcExec tool args t"
    using assms by (cases op) (auto simp: process_execute_def split: if_splits)
  then have "ensure_tool_allowed ctx tool = Ok () \<and> ensure_args_safe args = Ok ()"
    using assms by (auto simp: process_execute_def split: if_splits dest!: and_do_effect)
  with op show ?thesis
    by (force simp: tool_allowed_Ok ensure_args_safe_def try_each_ok arg_safe_def split: if_splits)
qed

text \<open>
  C22: What an executor may do to the system.  The network and browser executors change
  nothing; the file executor changes it only for a write whose decoded payload fits the byte limit,
  with file writes enabled, to a path that does not exist unless overwriting is asked for; the
  temporary-space executor only to create the mapped directory for a size within the limit; a
  process is started only for a listed tool with arguments free of shell metacharacters.
\<close>

theorem executor_effects:
  "fst (net_execute ext ctx op w) = w \<and> fst (browser_execute ctx op w) = w \<and>
   (fst (fs_execute os ext ctx op w) \<noteq> w \<longrightarrow>
      (\<exists>path data overwrite bytes. op = OpFsWrite path data overwrite \<and>
        x_b64_decode ext data = Some bytes \<and>
        (\<forall>l. max_bytes_out (pf_limits (cx_profile ctx)) = Some l \<longrightarrow> len64 bytes \<le> l) \<and>
        max_files (pf_limits (cx_profile ctx)) \<noteq> Some 0 \<and> (os_exists os path w \<longrightarrow> overwrite))) \<and>
   (fst (tmp_execute os ctx op w) \<noteq> w \<longrightarrow>
      (\<exists>n d. op = OpTmpAlloc n \<and> tmp_dir (pf_mappings (cx_profile ctx)) = Some d \<and>
        (\<forall>l. max_bytes_out (pf_limits (cx_profile ctx)) = Some l \<longrightarrow> n \<le> l))) \<and>
   (fst (process_execute os ext ctx op w) \<noteq> w \<longrightarrow>
      (\<exists>tool args t. op = OpProcExec tool args t \<and>
        tool \<in> set (wl_tools (pf_whitelists (cx_profile ctx))) \<and>
        (\<forall>arg \<in> set args. set arg \<inter> {CHR '';'', CHR ''|'', CHR ''&'', CHR 0x60} = {})))"
proof (intro conjI impI)
  show "fst (net_execute ext ctx op w) = w" "fst (browser_execute ctx op w) = w"
    by (simp_all add: net_execute_def browser_execute_def)
qed (erule fs_effect tmp_effect process_effect)+

text \<open>A file system that maps paths to contents, for concrete runs.\<close>

definition demo_os :: "(string \<rightharpoonup> string, string) os_ops" where
  "demo_os = \<lparr>os_open = (\<lambda>path w. w path), os_seek = (\<lambda>off f. Some (drop (unat off) f)),
     os_read_to_end = (\<lambda>n f. Some (case n of Some k \<Rightarrow> take (unat k) f | None \<Rightarrow> f)),
     os_exists = (\<lambda>path w. w path \<noteq> None), os_create_dir_all = (\<lambda>_ w. (w, True)),
     os_create = (\<lambda>path w. (w(path \<mapsto> []), True)),
     os_write_all = (\<lambda>path bytes w. (w(path \<mapsto> bytes), True)),
     os_read_dir = (\<lambda>_ _. Some []), os_output = (\<lambda>_ _ _ w. (w, None))\<rparr>"

definition demo_externals :: externals where
  "demo_externals = \<lparr>x_url_parse = (\<lambda>u. Some \<lparr>url_scheme = ''https'', url_host = Some u, url_port = None\<rparr>),
     x_b64_decode = Some, x_b64_encode = (\<lambda>s. s), x_json_bytes = (\<lambda>_. []), x_sha_b64 = (\<lambda>s. s)\<rparr>"

theorem executor_effects_witness:
  "len64 ''hi'' \<le> (50 :: 64 word)"
proof -
  let ?ctx = "\<lparr>cx_profile = demo_profile\<lparr>pf_limits := limits_default\<lparr>max_bytes_out := Some 50\<rparr>\<rparr>,
    cx_cancelled = False\<rparr>"
  have "fst (fs_execute demo_os demo_externals ?ctx (OpFsWrite ''/d/x'' ''hi'' False) Map.empty) ''/d/x''
      = Some ''hi''"
    by (simp add: fs_execute_def write_file_def demo_os_def demo_externals_def path_parent_def
        os_try_def Let_def limits_default_def refuse_above_def len64_def split: option.splits)
  then have "fst (fs_execute demo_os demo_externals ?ctx (OpFsWrite ''/d/x'' ''hi'' False) Map.empty)
      \<noteq> Map.empty"
    by (metis option.distinct(1))
  with executor_effects[of demo_externals ?ctx "OpFsWrite ''/d/x'' ''hi'' False" Map.empty demo_os]
  show ?thesis
    by (auto simp: demo_externals_def limits_default_def)
qed

text \<open>
  The private-network check misses IPv6 hosts.  A URL's IPv6 host is written in brackets,
  which the address parser does not accept, so it is never private: the loopback host
  \<open>[::1]\<close> is allowed by every list that names it, while \<open>127.0.0.1\<close> is refused
  by every profile.
\<close>

theorem bracketed_ipv6_never_private:
  "\<not> is_private_host (''['' @ h @ '']'') \<and>
   (ensure_domain_allowed ctx (''['' @ h @ '']'') = Ok () \<longleftrightarrow>
      list_ex (ends_with (''['' @ h @ '']'')) (wl_domains (pf_whitelists (cx_profile ctx)))) \<and>
   \<not> is_ok (ensure_domain_allowed ctx ''127.0.0.1'')"
proof -
  have num: "read_number r d z b (CHR ''['' # s) = None" for r d z b s
    by (simp add: read_number_def digit_value_def)
  have oct: "read_octets 4 0 (CHR ''['' # s) = None" for s
    by (simp add: numeral_eq_Suc read_sep_def num)
  have grp: "read_groups 8 0 (CHR ''['' # s) = ([], False, CHR ''['' # s)" for s
    by (simp add: numeral_eq_Suc read_sep_def num)
  have free: "\<not> is_private_host (''['' @ h @ '']'')"
    by (simp add: is_private_host_def parse_ipv4_def parse_ipv6_def oct grp starts_with_def
        eq_ignore_case_def to_lower_def to_lower_char_def)
  have loop: "is_private_host ''127.0.0.1''"
    by code_simp
  show ?thesis
    using free loop by (auto simp: ensure_domain_allowed_def Let_def is_ok_iff)
qed

end
