(* ===== verification/SandboxManager.thy ===== *)
theory SandboxManager
  imports SandboxExec
begin

text \<open>
  \<open>Sandbox::execute\<close> (\<open>manager.rs\<close>): the gates an operation passes, the
  reservation, the execution and the evidence.  The profile builder, the guard, the
  budget meter (\<open>budget.rs\<close>), the executors and the revocation watcher are
  components of the sandbox; the clock readings come as an argument.  The default sandbox of
  \<open>sb-tools\<close> is the instance at the end.
\<close>

section \<open>The sandbox\<close>

record execute_request =
  rq_grant :: grant
  rq_manifest :: tool_manifest
  rq_policy :: policy_config
  rq_op :: exec_op
  rq_envelope_id :: id

record execution_outcome =
  ox_begin :: evidence_event
  ox_end :: evidence_event
  ox_result :: exec_result

record ('m, 'w) sandbox =
  sb_builder :: "grant \<Rightarrow> tool_manifest \<Rightarrow> policy_config \<Rightarrow> profile sandbox_result"
  sb_guard :: "profile \<Rightarrow> capability \<Rightarrow> unit sandbox_result"
  sb_reserve :: "budget \<Rightarrow> 'm \<Rightarrow> 'm \<times> unit sandbox_result"
  sb_commit :: "budget \<Rightarrow> 'm \<Rightarrow> 'm"
  sb_rollback :: "budget \<Rightarrow> 'm \<Rightarrow> 'm"
  sb_executors :: "capability_kind \<Rightarrow> 'w executor option"
  sb_is_revoked :: "grant \<Rightarrow> bool sandbox_result"

text \<open>What an execution changes: the meter, the events the sink got, the system.\<close>

record ('m, 'w) sandbox_state =
  st_meter :: 'm
  st_evidence :: "evidence_event list"
  st_world :: 'w

record exec_clock =
  ck_grant :: int
  ck_consent :: int
  ck_started :: int
  ck_finished :: int

definition never_revoked :: "grant \<Rightarrow> bool sandbox_result" where
  "never_revoked g = Ok False"

definition noop_reserve :: "budget \<Rightarrow> 'm \<Rightarrow> 'm \<times> unit sandbox_result" where
  "noop_reserve b m = (m, Ok ())"

definition noop_meter :: "budget \<Rightarrow> 'm \<Rightarrow> 'm" where
  "noop_meter b m = m"

definition sandbox_new ::
  "(grant \<Rightarrow> tool_manifest \<Rightarrow> policy_config \<Rightarrow> profile sandbox_result)
     \<Rightarrow> (profile \<Rightarrow> capability \<Rightarrow> unit sandbox_result)
     \<Rightarrow> (budget \<Rightarrow> 'm \<Rightarrow> 'm \<times> unit sandbox_result) \<Rightarrow> (budget \<Rightarrow> 'm \<Rightarrow> 'm) \<Rightarrow> (budget \<Rightarrow> 'm \<Rightarrow> 'm)
     \<Rightarrow> ('m, 'w) sandbox" where
  "sandbox_new builder guard reserve commit rollback =
     \<lparr>sb_builder = builder, sb_guard = guard, sb_reserve = reserve, sb_commit = commit,
      sb_rollback = rollback, sb_executors = Map.empty, sb_is_revoked = never_revoked\<rparr>"

definition with_noop_meter ::
  "(grant \<Rightarrow> tool_manifest \<Rightarrow> policy_config \<Rightarrow> profile sandbox_result)
     \<Rightarrow> (profile \<Rightarrow> capability \<Rightarrow> unit sandbox_result) \<Rightarrow> ('m, 'w) sandbox" where
  "with_noop_meter builder guard = sandbox_new builder guard noop_reserve noop_meter noop_meter"

definition with_executor ::
  "capability_kind \<Rightarrow> 'w executor \<Rightarrow> ('m, 'w) sandbox \<Rightarrow> ('m, 'w) sandbox" where
  "with_executor kind ex sb = sb\<lparr>sb_executors := (sb_executors sb)(kind \<mapsto> ex)\<rparr>"

definition with_revocation_watcher ::
  "(grant \<Rightarrow> bool sandbox_result) \<Rightarrow> ('m, 'w) sandbox \<Rightarrow> ('m, 'w) sandbox" where
  "with_revocation_watcher watcher sb = sb\<lparr>sb_is_revoked := watcher\<rparr>"

definition emit ::
  "evidence_event \<Rightarrow> ('m, 'w) sandbox_state \<Rightarrow> ('m, 'w) sandbox_state" where
  "emit ev s = s\<lparr>st_evidence := st_evidence s @ [ev]\<rparr>"

section \<open>Choosing the capability\<close>

definition find_first :: "profile \<Rightarrow> capability_kind \<Rightarrow> capability sandbox_result" where
  "find_first pf kind =
     ok_or (capability_missing ''required capability not granted'')
       (List.find (\<lambda>cap. cap_kind cap = kind) (pf_capabilities pf))"

fun fs_covers :: "string \<Rightarrow> capability \<Rightarrow> bool" where
  "fs_covers normalized (FsRead path) = starts_with normalized (normalize_path path)"
| "fs_covers normalized (FsWrite path _) = starts_with normalized (normalize_path path)"
| "fs_covers normalized (FsList path) = starts_with normalized (normalize_path path)"
| "fs_covers normalized _ = False"

definition find_fs_capability ::
  "profile \<Rightarrow> capability_kind \<Rightarrow> string \<Rightarrow> capability sandbox_result" where
  "find_fs_capability pf kind path =
     (let normalized = normalize_path path in
      ok_or (capability_missing ''filesystem path not covered by capability'')
        (List.find (\<lambda>cap. cap_kind cap = kind \<and> fs_covers normalized cap) (pf_capabilities pf)))"

fun net_covers :: "string \<Rightarrow> string \<Rightarrow> 16 word option \<Rightarrow> string \<Rightarrow> capability \<Rightarrow> bool" where
  "net_covers host scheme port method_upper (NetHttp allowed_host allowed_port allowed_scheme methods) =
     (if methods \<noteq> [] \<and> \<not> list_ex (\<lambda>m. eq_ignore_case m method_upper) methods then False
      else if (case allowed_scheme of Some s \<Rightarrow> \<not> eq_ignore_case s scheme | None \<Rightarrow> False) then False
      else if (case allowed_port of Some p \<Rightarrow> port \<noteq> Some p | None \<Rightarrow> False) then False
      else ends_with host allowed_host)"
| "net_covers host scheme port method_upper _ = False"

definition find_net_capability ::
  "externals \<Rightarrow> profile \<Rightarrow> string \<Rightarrow> string \<Rightarrow> capability sandbox_result" where
  "find_net_capability ext pf url_str meth =
     and_then (ok_or (policy_violation ''invalid URL'') (x_url_parse ext url_str)) (\<lambda>parsed.
     and_then (ok_or (policy_violation ''URL missing host'') (url_host parsed)) (\<lambda>host.
     ok_or (capability_missing ''network host not allowed'')
       (List.find (net_covers host (url_scheme parsed) (url_port parsed) (to_upper meth))
          (pf_capabilities pf))))"

definition find_proc_capability :: "profile \<Rightarrow> string \<Rightarrow> capability sandbox_result" where
  "find_proc_capability pf tool =
     ok_or (capability_missing ''process tool not allowed'')
       (List.find (\<lambda>cap. cap = ProcExec tool) (pf_capabilities pf))"

fun select_capability :: "externals \<Rightarrow> profile \<Rightarrow> exec_op \<Rightarrow> capability sandbox_result" where
  "select_capability ext pf (OpFsRead path _ _) = find_fs_capability pf KFsRead path"
| "select_capability ext pf (OpFsWrite path _ _) = find_fs_capability pf KFsWrite path"
| "select_capability ext pf (OpFsList path) = find_fs_capability pf KFsList path"
| "select_capability ext pf (OpNetHttp meth url _ _) = find_net_capability ext pf url meth"
| "select_capability ext pf (OpBrowserNav _) = find_first pf KBrowserUse"
| "select_capability ext pf (OpBrowserScreenshot _ _) = find_first pf KBrowserUse"
| "select_capability ext pf (OpProcExec tool _ _) = find_proc_capability pf tool"
| "select_capability ext pf (OpTmpAlloc _) = find_first pf KTmpUse"

section \<open>The gates\<close>

definition decoded_len :: "externals \<Rightarrow> string \<Rightarrow> 64 word sandbox_result" where
  "decoded_len ext data_b64 =
     and_then (ok_or (policy_violation ''invalid base64 payload'') (x_b64_decode ext data_b64))
       (\<lambda>bytes. Ok (len64 bytes))"

fun estimate_budget :: "externals \<Rightarrow> exec_op \<Rightarrow> budget sandbox_result" where
  "estimate_budget ext (OpFsRead _ _ len) =
     Ok (budget_default\<lparr>b_calls := 1, b_bytes_in := (case len of Some n \<Rightarrow> n | None \<Rightarrow> 0)\<rparr>)"
| "estimate_budget ext (OpFsWrite _ bytes_b64 _) =
     and_then (decoded_len ext bytes_b64) (\<lambda>n. Ok (budget_default\<lparr>b_calls := 1, b_bytes_out := n\<rparr>))"
| "estimate_budget ext (OpFsList _) = Ok (budget_default\<lparr>b_calls := 1\<rparr>)"
| "estimate_budget ext (OpNetHttp _ _ _ body_b64) =
     and_then (case body_b64 of Some body \<Rightarrow> decoded_len ext body | None \<Rightarrow> Ok 0)
       (\<lambda>n. Ok (budget_default\<lparr>b_calls := 1, b_bytes_out := n\<rparr>))"
| "estimate_budget ext (OpBrowserNav _) = Ok (budget_default\<lparr>b_calls := 1\<rparr>)"
| "estimate_budget ext (OpBrowserScreenshot _ _) = Ok (budget_default\<lparr>b_calls := 1\<rparr>)"
| "estimate_budget ext (OpProcExec _ _ _) = Ok (budget_default\<lparr>b_calls := 1\<rparr>)"
| "estimate_budget ext (OpTmpAlloc size_bytes) =
     Ok (budget_default\<lparr>b_calls := 1, b_bytes_out := size_bytes\<rparr>)"

definition ensure_grant_active :: "int \<Rightarrow> grant \<Rightarrow> unit sandbox_result" where
  "ensure_grant_active now grant =
     (if gr_expires_at grant > 0 \<and> gr_expires_at grant \<le> now
      then Err (permission_denied ''grant expired'') else Ok ())"

fun requires_consent :: "capability \<Rightarrow> exec_op \<Rightarrow> profile \<Rightarrow> bool" where
  "requires_consent (FsWrite _ _) op pf = True"
| "requires_consent (ProcExec _) op pf = True"
| "requires_consent (NetHttp _ _ _ _) op pf =
     (case op of
        OpNetHttp meth _ _ _ \<Rightarrow> \<not> (to_upper meth = ''GET'' \<or> to_upper meth = ''HEAD'')
      | _ \<Rightarrow> False)"
| "requires_consent TmpUse op pf = False"
| "requires_consent (FsRead _) op pf = False"
| "requires_consent (FsList _) op pf = False"
| "requires_consent (BrowserUse _) op pf = (pf_safety pf = High)"
| "requires_consent (SysGpu _) op pf = (pf_safety pf = High)"

definition ensure_consent ::
  "int \<Rightarrow> grant \<Rightarrow> capability \<Rightarrow> exec_op \<Rightarrow> profile \<Rightarrow> unit sandbox_result" where
  "ensure_consent now grant cap op pf =
     (if \<not> requires_consent cap op pf then Ok ()
      else and_then (ok_or (permission_denied ''consent required'') (gr_consent grant)) (\<lambda>consent.
        case expires_at consent of
          Some limit \<Rightarrow>
            if limit \<le> now then Err (permission_denied ''consent expired'') else Ok ()
        | None \<Rightarrow> Ok ()))"

definition ensure_usage_within_limits :: "profile \<Rightarrow> exec_usage \<Rightarrow> unit sandbox_result" where
  "ensure_usage_within_limits pf usage =
     and_then (refuse_above (max_bytes_in (pf_limits pf)) (u_bytes_in usage) ''bytes_in exceeds limit'') (\<lambda>_.
     and_then (refuse_above (max_bytes_out (pf_limits pf)) (u_bytes_out usage) ''bytes_out exceeds limit'') (\<lambda>_.
     refuse_above (max_files (pf_limits pf)) (u_file_count usage) ''file count exceeds limit''))"

definition map_error_status :: "string \<Rightarrow> evidence_status" where
  "map_error_status code =
     (if starts_with code ''AUTH.'' \<or> starts_with code ''SANDBOX.PERMISSION_DENIED''
         \<or> starts_with code ''POLICY.'' then EvDenied else EvError)"

section \<open>Execution\<close>

text \<open>serde's internally tagged form of an operation.\<close>

fun op_to_value :: "exec_op \<Rightarrow> json" where
  "op_to_value (OpFsRead path offset len) =
     obj [(''op'', JStr ''fs_read''), (''path'', JStr path), (''offset'', opt_json num offset),
          (''len'', opt_json num len)]"
| "op_to_value (OpFsWrite path bytes overwrite) =
     obj [(''op'', JStr ''fs_write''), (''path'', JStr path), (''bytes_b64'', JStr bytes),
          (''overwrite'', JBool overwrite)]"
| "op_to_value (OpFsList path) = obj [(''op'', JStr ''fs_list''), (''path'', JStr path)]"
| "op_to_value (OpNetHttp meth url headers body) =
     obj [(''op'', JStr ''net_http''), (''method'', JStr meth), (''url'', JStr url),
          (''headers'', headers), (''body_b64'', opt_json JStr body)]"
| "op_to_value (OpBrowserNav url) = obj [(''op'', JStr ''browser_nav''), (''url'', JStr url)]"
| "op_to_value (OpBrowserScreenshot selector full_page) =
     obj [(''op'', JStr ''browser_screenshot''), (''selector'', opt_json JStr selector),
          (''full_page'', JBool full_page)]"
| "op_to_value (OpProcExec tool args timeout) =
     obj [(''op'', JStr ''proc_exec''), (''tool'', JStr tool), (''args'', JArr (map JStr args)),
          (''timeout_ms'', opt_json num timeout)]"
| "op_to_value (OpTmpAlloc n) = obj [(''op'', JStr ''tmp_alloc''), (''size_bytes'', num n)]"

definition digest_value :: "externals \<Rightarrow> json \<Rightarrow> data_digest" where
  "digest_value ext v = digest_sha256 (x_sha_b64 ext) (x_json_bytes ext v)"

text \<open>What an operation needs before the meter is asked.\<close>

definition sandbox_admit ::
  "externals \<Rightarrow> exec_clock \<Rightarrow> ('m, 'w) sandbox \<Rightarrow> execute_request
     \<Rightarrow> (profile \<times> capability \<times> 'w executor \<times> budget) sandbox_result" where
  "sandbox_admit ext clk sb req =
     and_then (ensure_grant_active (ck_grant clk) (rq_grant req)) (\<lambda>_.
     and_then (sb_is_revoked sb (rq_grant req)) (\<lambda>revoked.
     and_then (if revoked then Err (permission_denied ''grant has been revoked'') else Ok ()) (\<lambda>_.
     and_then (sb_builder sb (rq_grant req) (rq_manifest req) (rq_policy req)) (\<lambda>pf.
     and_then (select_capability ext pf (rq_op req)) (\<lambda>cap.
     and_then (ensure_consent (ck_consent clk) (rq_grant req) cap (rq_op req) pf) (\<lambda>_.
     and_then (sb_guard sb pf cap) (\<lambda>_.
     and_then (ok_or (capability_missing ''executor not registered'')
                 (sb_executors sb (cap_kind cap))) (\<lambda>executor.
     and_then (estimate_budget ext (rq_op req)) (\<lambda>reservation.
     Ok (pf, cap, executor, reservation))))))))))"

text \<open>The execution after the reservation, from the begin event on.\<close>

definition sandbox_run ::
  "externals \<Rightarrow> exec_clock \<Rightarrow> ('m, 'w) sandbox \<Rightarrow> execute_request \<Rightarrow> profile \<Rightarrow> capability
     \<Rightarrow> 'w executor \<Rightarrow> budget \<Rightarrow> ('m, 'w) sandbox_state
     \<Rightarrow> ('m, 'w) sandbox_state \<times> execution_outcome sandbox_result" where
  "sandbox_run ext clk sb req pf cap executor reservation s =
     (let input_digest = Some (digest_value ext (op_to_value (rq_op req)));
          builder = \<lparr>eb_profile = pf, eb_capability = cap, eb_envelope_id = rq_envelope_id req,
                     eb_started_at = ck_started clk\<rparr>;
          begin_event = evidence_begin builder input_digest;
          s = emit begin_event s;
          (w, r) = executor \<lparr>cx_profile = pf, cx_cancelled = False\<rparr> (rq_op req) (st_world s);
          s = s\<lparr>st_world := w\<rparr>
      in case r of
        Inl err \<Rightarrow>
          (let s = s\<lparr>st_meter := sb_rollback sb reservation (st_meter s)\<rparr>;
               public = sx_to_public err;
               failure = exec_failure (pv_code public) (Some (pv_message public));
               end_event = evidence_end (ck_finished clk) builder
                 (map_error_status (pv_code public)) (Some (pv_code public)) input_digest None []
                 budget_default
           in (emit end_event s, Ok \<lparr>ox_begin = begin_event, ox_end = end_event, ox_result = failure\<rparr>))
      | Inr result \<Rightarrow>
          and_do (s, ensure_usage_within_limits pf (er_usage result)) (\<lambda>_ s.
            let usage_budget = budget_of_usage (er_usage result);
                s = s\<lparr>st_meter := sb_commit sb usage_budget (st_meter s)\<rparr>;
                end_event = evidence_end (ck_finished clk) builder
                  (if er_ok result then EvOk else EvError) (er_code result) input_digest
                  (Some (digest_value ext (er_out result))) (er_side_effects result) usage_budget
            in (emit end_event s, Ok \<lparr>ox_begin = begin_event, ox_end = end_event, ox_result = result\<rparr>)))"

definition sandbox_execute ::
  "externals \<Rightarrow> exec_clock \<Rightarrow> ('m, 'w) sandbox \<Rightarrow> execute_request \<Rightarrow> ('m, 'w) sandbox_state
     \<Rightarrow> ('m, 'w) sandbox_state \<times> execution_outcome sandbox_result" where
  "sandbox_execute ext clk sb req s =
     and_do (s, sandbox_admit ext clk sb req) (\<lambda>(pf, cap, executor, reservation) s.
     and_do (let (m, r) = sb_reserve sb reservation (st_meter s) in (s\<lparr>st_meter := m\<rparr>, r)) (\<lambda>_ s.
     sandbox_run ext clk sb req pf cap executor reservation s))"

text \<open>The sandbox the tool invoker is built with.\<close>

definition default_sandbox_with_executors ::
  "(profile \<Rightarrow> string) \<Rightarrow> (policy_config \<Rightarrow> string option) \<Rightarrow> ('w, 'f) os_ops \<Rightarrow> externals
     \<Rightarrow> (unit, 'w) sandbox" where
  "default_sandbox_with_executors profile_digest policy_digest os ext =
     with_executor KTmpUse (tmp_execute os)
       (with_executor KFsRead (fs_execute os ext)
         (with_executor KNetHttp (net_execute ext)
           (with_noop_meter (build_profile profile_digest policy_digest) guard_validate)))"

section \<open>What admission guarantees\<close>

text \<open>The capability is one for the operation: kind, path prefix, host suffix, method, tool.\<close>

fun capability_fits :: "externals \<Rightarrow> exec_op \<Rightarrow> capability \<Rightarrow> bool" where
  "capability_fits ext (OpFsRead p _ _) cap =
     (\<exists>q. cap = FsRead q \<and> starts_with (normalize_path p) (normalize_path q))"
| "capability_fits ext (OpFsWrite p _ _) cap =
     (\<exists>q a. cap = FsWrite q a \<and> starts_with (normalize_path p) (normalize_path q))"
| "capability_fits ext (OpFsList p) cap =
     (\<exists>q. cap = FsList q \<and> starts_with (normalize_path p) (normalize_path q))"
| "capability_fits ext (OpNetHttp meth url _ _) cap =
     (\<exists>host scheme port methods allowed parsed.
        cap = NetHttp allowed port scheme methods \<and> x_url_parse ext url = Some parsed \<and>
        url_host parsed = Some host \<and> ends_with host allowed \<and>
        (methods = [] \<or> (\<exists>m \<in> set methods. eq_ignore_case m (to_upper meth))) \<and>
        (\<forall>sc. scheme = Some sc \<longrightarrow> eq_ignore_case sc (url_scheme parsed)) \<and>
        (port \<noteq> None \<longrightarrow> url_port parsed = port))"
| "capability_fits ext (OpBrowserNav _) cap = (\<exists>sc. cap = BrowserUse sc)"
| "capability_fits ext (OpBrowserScreenshot _ _) cap = (\<exists>sc. cap = BrowserUse sc)"
| "capability_fits ext (OpProcExec tool _ _) cap = (cap = ProcExec tool)"
| "capability_fits ext (OpTmpAlloc _) cap = (cap = TmpUse)"

lemma find_Some: "List.find P xs = Some x \<Longrightarrow> x \<in> set xs \<and> P x"
  by (auto simp: find_Some_iff)

lemma net_covers_iff:
  "net_covers host scheme port meth cap \<longleftrightarrow>
     (\<exists>allowed p sc methods. cap = NetHttp allowed p sc methods \<and> ends_with host allowed \<and>
        (methods = [] \<or> (\<exists>m \<in> set methods. eq_ignore_case m meth)) \<and>
        (\<forall>s. sc = Some s \<longrightarrow> eq_ignore_case s scheme) \<and> (p \<noteq> None \<longrightarrow> port = p))"
  by (cases cap) (auto simp: list_ex_iff split: option.splits)

lemma select_capability_fits:
  assumes "select_capability ext pf op = Ok cap"
  shows "cap \<in> set (pf_capabilities pf) \<and> capability_fits ext op cap"
proof (cases op)
  case (OpNetHttp meth url hd body)
  then show ?thesis
    using assms by (fastforce simp: find_net_capability_def net_covers_iff dest!: find_Some)
qed (use assms in \<open>cases cap; auto simp: find_fs_capability_def find_first_def
      find_proc_capability_def Let_def dest!: find_Some\<close>)+

lemma ensure_grant_active_Ok:
  "ensure_grant_active now g = Ok u \<longleftrightarrow> (0 < gr_expires_at g \<longrightarrow> now < gr_expires_at g)"
  by (auto simp: ensure_grant_active_def)

lemma ensure_consent_Ok:
  "ensure_consent now g cap op pf = Ok u \<longleftrightarrow>
     (requires_consent cap op pf \<longrightarrow>
        (\<exists>c. gr_consent g = Some c \<and> (\<forall>t. expires_at c = Some t \<longrightarrow> now < t)))"
  by (auto simp: ensure_consent_def split: option.splits if_splits)
    (rule ccontr, auto simp: not_less)

lemma sandbox_admit_Ok:
  "sandbox_admit ext clk sb req = Ok (pf, cap, ex, res) \<longleftrightarrow>
     (0 < gr_expires_at (rq_grant req) \<longrightarrow> ck_grant clk < gr_expires_at (rq_grant req)) \<and>
     sb_is_revoked sb (rq_grant req) = Ok False \<and>
     sb_builder sb (rq_grant req) (rq_manifest req) (rq_policy req) = Ok pf \<and>
     select_capability ext pf (rq_op req) = Ok cap \<and>
     (requires_consent cap (rq_op req) pf \<longrightarrow>
        (\<exists>c. gr_consent (rq_grant req) = Some c \<and>
           (\<forall>t. expires_at c = Some t \<longrightarrow> ck_consent clk < t))) \<and>
     sb_guard sb pf cap = Ok () \<and> sb_executors sb (cap_kind cap) = Some ex \<and>
     estimate_budget ext (rq_op req) = Ok res"
  by (auto simp: sandbox_admit_def ensure_grant_active_Ok ensure_consent_Ok split: if_splits)

lemma sandbox_execute_refused:
  "sandbox_admit ext clk sb req = Err e \<Longrightarrow> sandbox_execute ext clk sb req s = (s, Err e)"
  by (simp add: sandbox_execute_def)

lemma sandbox_execute_unreserved:
  "sandbox_admit ext clk sb req = Ok (pf, cap, ex, res) \<Longrightarrow>
   sb_reserve sb res (st_meter s) = (m, Err e) \<Longrightarrow>
   sandbox_execute ext clk sb req s = (s\<lparr>st_meter := m\<rparr>, Err e)"
  by (simp add: sandbox_execute_def)

lemma sandbox_execute_admitted:
  "sandbox_admit ext clk sb req = Ok (pf, cap, ex, res) \<Longrightarrow>
   sb_reserve sb res (st_meter s) = (m, Ok ()) \<Longrightarrow>
   sandbox_execute ext clk sb req s = sandbox_run ext clk sb req pf cap ex res (s\<lparr>st_meter := m\<rparr>)"
  by (simp add: sandbox_execute_def)

section \<open>Registries of well-behaved executors\<close>

locale executor_registry =
  fixes executors :: "capability_kind \<Rightarrow> 'w executor option"
  assumes registered: "executors k = Some ex \<Longrightarrow> sandbox_executor ex"
begin

lemma usage_check_passes:
  assumes "executors k = Some ex" and "ex \<lparr>cx_profile = pf, cx_cancelled = c\<rparr> op w = (w', Ok r)"
  shows "ensure_usage_within_limits pf (er_usage r) = Ok ()" and "er_ok r"
  using sandbox_executor.within[OF registered[OF assms(1)] assms(2)]
  by (auto simp: ensure_usage_within_limits_def usage_within_def)

end


interpretation default_reg:
  executor_registry "sb_executors (default_sandbox_with_executors pd qd os ext)" for pd qd os ext
  by unfold_locales
    (auto simp: default_sandbox_with_executors_def with_executor_def with_noop_meter_def
      sandbox_new_def fs_exec.cancelled tmp_exec.cancelled net_exec.cancelled
      fs_exec.within tmp_exec.within net_exec.within split: if_splits
      dest: fs_exec.within tmp_exec.within net_exec.within)

text \<open>Any choice of the crate's executors is such a registry.\<close>

definition crate_executors ::
  "('w, 'f) os_ops \<Rightarrow> externals \<Rightarrow> 'w executor set" where
  "crate_executors os ext = {fs_execute os ext, net_execute ext, tmp_execute os, browser_execute,
     process_execute os ext, not_implemented_execute}"

lemma crate_executor_registry:
  "(\<And>k ex. executors k = Some ex \<Longrightarrow> ex \<in> crate_executors os ext) \<Longrightarrow> executor_registry executors"
  unfolding executor_registry_def crate_executors_def
  using fs_exec.sandbox_executor_axioms net_exec.sandbox_executor_axioms
    tmp_exec.sandbox_executor_axioms browser_exec.sandbox_executor_axioms
    process_exec.sandbox_executor_axioms not_implemented_exec.sandbox_executor_axioms
  by blast

text \<open>With such a registry an admitted execution completes: both events, one settlement.\<close>

lemma sandbox_run_completes:
  assumes "executor_registry (sb_executors sb)" and "sb_executors sb (cap_kind cap) = Some ex"
  shows "\<exists>w m b e out.
    sandbox_run ext clk sb req pf cap ex res s =
      (\<lparr>st_meter = m, st_evidence = st_evidence s @ [EvBegin b, EvEnd e], st_world = w\<rparr>, Ok out) \<and>
    be_envelope_id b = rq_envelope_id req \<and> ee_envelope_id e = rq_envelope_id req \<and>
    be_call_id b = pf_call_id pf \<and> ee_call_id e = pf_call_id pf \<and>
    be_inputs_digest b = ee_inputs_digest e \<and>
    ox_begin out = EvBegin b \<and> ox_end out = EvEnd e \<and>
    (ee_status e = EvOk \<longleftrightarrow> er_ok (ox_result out)) \<and>
    (if er_ok (ox_result out)
     then m = sb_commit sb (budget_of_usage (er_usage (ox_result out))) (st_meter s) \<and>
          ee_budget_used e = budget_of_usage (er_usage (ox_result out)) \<and>
          usage_within (pf_limits pf) (er_usage (ox_result out))
     else m = sb_rollback sb res (st_meter s) \<and> ee_budget_used e = budget_default)"
proof -
  obtain w r where run: "ex \<lparr>cx_profile = pf, cx_cancelled = False\<rparr> (rq_op req) (st_world s) = (w, r)"
    by (cases "ex \<lparr>cx_profile = pf, cx_cancelled = False\<rparr> (rq_op req) (st_world s)")
  show ?thesis
  proof (cases r)
    case (Inl err)
    then show ?thesis
      using run by (cases s) (auto simp: sandbox_run_def emit_def evidence_begin_def evidence_end_def Let_def
          exec_failure_def map_error_status_def)
  next
    case (Inr result)
    note ok = executor_registry.usage_check_passes[OF assms run[unfolded Inr]]
    then have "usage_within (pf_limits pf) (er_usage result)"
      by (auto simp: ensure_usage_within_limits_def usage_within_def)
    with Inr ok run show ?thesis
      by (cases s) (auto simp: sandbox_run_def emit_def evidence_begin_def evidence_end_def Let_def)
  qed
qed

lemma usage_check_Ok: "ensure_usage_within_limits pf u = Ok () \<longleftrightarrow> usage_within (pf_limits pf) u"
  by (auto simp: ensure_usage_within_limits_def usage_within_def)

lemma usage_check_Err: "ensure_usage_within_limits pf u = Err e \<Longrightarrow> sx_code e = ''POLICY.DENY_TOOL''"
  by (auto simp: ensure_usage_within_limits_def and_then_Err_iff refuse_above_def
      split: option.splits if_splits)

section \<open>Properties\<close>


definition demo_request :: execute_request where
  "demo_request = \<lparr>rq_grant = demo_grant, rq_manifest = demo_manifest, rq_policy = demo_policy,
     rq_op = OpFsRead ''/data/x'' None None, rq_envelope_id = ''e1''\<rparr>"

definition demo_clock :: exec_clock where
  "demo_clock = \<lparr>ck_grant = 0, ck_consent = 0, ck_started = 0, ck_finished = 5\<rparr>"

definition demo_sandbox :: "(unit, string \<rightharpoonup> string) sandbox" where
  "demo_sandbox =
     default_sandbox_with_executors (\<lambda>_. ''h'') (\<lambda>_. None) demo_os demo_externals"

lemma demo_paths:
  "normalize_path ''/data'' = ''/data''" "normalize_path ''/data/x'' = ''/data/x''"
  "normalize_path ''/database/x'' = ''/database/x''"
  by (simp_all add: normalize_path_def path_components_def starts_with_def)

lemma demo_profile_fields:
  "pf_capabilities demo_profile = [FsRead ''/data'']" "root_fs (pf_mappings demo_profile) = None"
  "wl_paths (pf_whitelists demo_profile) = []" "pf_limits demo_profile = limits_default\<lparr>max_bytes_in := Some 50\<rparr>"
  by (simp_all add: demo_profile_def build_profile_def demo_grant_def demo_manifest_def
      demo_policy_def intersect_capabilities_def Let_def merge_mappings_def or_else_def
      merge_whitelists_def intersect_list_def whitelists_default_def merge_limits_def
      min_opt_def cap_by_budget_def limits_default_def budget_default_def)

lemma demo_sandbox_fields:
  "sb_builder demo_sandbox = build_profile (\<lambda>_. ''h'') (\<lambda>_. None)" "sb_guard demo_sandbox = guard_validate"
  "sb_is_revoked demo_sandbox g = Ok False" "sb_reserve demo_sandbox b m = (m, Ok ())"
  "sb_executors demo_sandbox KFsRead = Some (fs_execute demo_os demo_externals)"
  by (simp_all add: demo_sandbox_def default_sandbox_with_executors_def with_executor_def
      with_noop_meter_def sandbox_new_def never_revoked_def noop_reserve_def)

lemma demo_registry': "executor_registry (sb_executors demo_sandbox)"
  unfolding demo_sandbox_def by (rule default_reg.executor_registry_axioms)

lemma demo_admitted:
  assumes "starts_with (normalize_path path) ''/data''"
  shows "sandbox_admit demo_externals demo_clock demo_sandbox (demo_request\<lparr>rq_op := OpFsRead path None None\<rparr>)
    = Ok (demo_profile, FsRead ''/data'', fs_execute demo_os demo_externals, budget_default\<lparr>b_calls := 1, b_bytes_in := 0\<rparr>)"
  using assms demo_profile_built
  by (simp add: sandbox_admit_Ok demo_sandbox_fields demo_request_def find_fs_capability_def Let_def
      demo_profile_fields demo_paths guard_validate_def validate_path_def)
    (simp add: demo_grant_def)




text \<open>
  A leaked reservation.  When an executor reports a success whose usage is over the
  profile's limits, the execution fails although the operation has happened: the change
  of the system stays, the reservation is neither committed nor rolled back, and the evidence has a begin event
  without an end.
\<close>

theorem over_limit_usage_leaks_reservation:
  assumes "sandbox_admit ext clk sb req = Ok (pf, cap, ex, res)"
    and "sb_reserve sb res (st_meter s) = (m, Ok ())"
    and "ex \<lparr>cx_profile = pf, cx_cancelled = False\<rparr> (rq_op req) (st_world s) = (w, Ok result)"
    and "\<not> usage_within (pf_limits pf) (er_usage result)"
  shows "\<exists>e b. sandbox_execute ext clk sb req s =
     (\<lparr>st_meter = m, st_evidence = st_evidence s @ [EvBegin b], st_world = w\<rparr>, Err e) \<and>
     sx_code e = ''POLICY.DENY_TOOL''"
proof -
  obtain e where "ensure_usage_within_limits pf (er_usage result) = Err e"
    using assms(4) by (cases "ensure_usage_within_limits pf (er_usage result)") (auto simp: usage_check_Ok)
  moreover from this have "sx_code e = ''POLICY.DENY_TOOL''"
    by (rule usage_check_Err)
  ultimately show ?thesis
    using assms(1-3) by (cases s) (auto simp: sandbox_execute_def sandbox_run_def emit_def Let_def evidence_begin_def)
qed

theorem over_limit_usage_leaks_reservation_witness:
  "\<exists>sb s e b. sandbox_execute demo_externals demo_clock sb demo_request s =
     (\<lparr>st_meter = 1 :: nat, st_evidence = [EvBegin b], st_world = ()\<rparr>, Err e)"
proof -
  let ?ex = "\<lambda>ctx op w. (w, Ok (exec_success JNull (exec_usage_default\<lparr>u_bytes_in := 100\<rparr>) []))"
  let ?sb = "with_executor KFsRead ?ex (sandbox_new (build_profile (\<lambda>_. ''h'') (\<lambda>_. None)) guard_validate
      (\<lambda>_ m. (m + 1, Ok ())) (\<lambda>_ m. m) (\<lambda>_ m. m - 1))"
  let ?s = "\<lparr>st_meter = 0 :: nat, st_evidence = [], st_world = ()\<rparr>"
  have "sandbox_admit demo_externals demo_clock ?sb demo_request =
      Ok (demo_profile, FsRead ''/data'', ?ex, budget_default\<lparr>b_calls := 1, b_bytes_in := 0\<rparr>)"
    using demo_profile_built
    by (simp add: sandbox_admit_Ok demo_request_def find_fs_capability_def Let_def with_executor_def
        demo_profile_fields demo_paths guard_validate_def validate_path_def sandbox_new_def
        never_revoked_def starts_with_def) (simp add: demo_grant_def)
  from over_limit_usage_leaks_reservation[OF this, of ?s 1 "()"] show ?thesis
    by (fastforce simp: with_executor_def sandbox_new_def usage_within_def demo_profile_fields)
qed

text \<open>
  A path prefix is not a directory.  Paths are compared as strings and the guard
  checks the capability's path, never the operation's: with the root, the list and the capability
  all confined to \<open>/data\<close>, reading \<open>/database/x\<close> is admitted.  In general any
  continuation of the root's name passes.
\<close>

theorem fs_prefix_escapes_root:
  assumes "normalize_path root = root" and "normalize_path (root @ t) = root @ t"
    and "FsRead root \<in> set (pf_capabilities pf)"
    and "root_fs (pf_mappings pf) = Some root" and "wl_paths (pf_whitelists pf) = [root]"
  shows "\<exists>cap. select_capability ext pf (OpFsRead (root @ t) off len) = Ok cap \<and>
    starts_with (root @ t) (normalize_path (case cap of FsRead q \<Rightarrow> q | _ \<Rightarrow> [])) \<and>
    guard_validate pf (FsRead root) = Ok ()"
proof -
  have "List.find (\<lambda>cap. cap_kind cap = KFsRead \<and> fs_covers (root @ t) cap) (pf_capabilities pf) \<noteq> None"
    using assms by (auto simp: find_None_iff intro!: exI[of _ "FsRead root"])
  then obtain cap where cap: "List.find (\<lambda>cap. cap_kind cap = KFsRead \<and> fs_covers (root @ t) cap)
      (pf_capabilities pf) = Some cap"
    by blast
  then have "cap_kind cap = KFsRead \<and> fs_covers (root @ t) cap"
    by (auto dest: find_Some)
  then have "starts_with (root @ t) (normalize_path (case cap of FsRead q \<Rightarrow> q | _ \<Rightarrow> []))"
    by (cases cap) auto
  with cap show ?thesis
    using assms by (auto simp: find_fs_capability_def guard_validate_def validate_path_def)
qed

theorem fs_prefix_escapes_root_witness:
  "guard_validate (demo_profile\<lparr>pf_mappings := \<lparr>root_fs = Some ''/data'', tmp_dir = None\<rparr>,
     pf_whitelists := whitelists_default\<lparr>wl_paths := [''/data'']\<rparr>\<rparr>) (FsRead ''/data'') = Ok ()"
proof -
  let ?pf = "demo_profile\<lparr>pf_mappings := \<lparr>root_fs = Some ''/data'', tmp_dir = None\<rparr>,
     pf_whitelists := whitelists_default\<lparr>wl_paths := [''/data'']\<rparr>\<rparr>"
  have "\<exists>cap. select_capability demo_externals ?pf (OpFsRead (''/data'' @ ''base/x'') None None) = Ok cap \<and>
      starts_with (''/data'' @ ''base/x'') (normalize_path (case cap of FsRead q \<Rightarrow> q | _ \<Rightarrow> [])) \<and>
      guard_validate ?pf (FsRead ''/data'') = Ok ()"
    by (rule fs_prefix_escapes_root) (simp_all add: demo_paths demo_profile_fields)
  then show ?thesis
    by blast
qed

end
