(* ===== verification/AuthModel.thy ===== *)
theory AuthModel
  imports SbErrors SbTypes
begin

text \<open>
  Authorisation (crate \<open>sb-auth\<close>): requests, decisions and their keys, attribute
  merging (\<open>model.rs\<close>), errors, authentication (\<open>authn/mod.rs\<close>), attributes
  (\<open>attr/mod.rs\<close>), the policy decision points (\<open>pdp/mod.rs\<close>), consent
  verification (\<open>consent/mod.rs\<close>), labels and decision events (\<open>observe.rs\<close>,
  \<open>events.rs\<close>).
\<close>

section \<open>Requests and decisions\<close>

datatype action = ActRead | ActWrite | ActInvoke | ActList | ActAdmin | ActConfigure

fun format_action :: "action \<Rightarrow> string" where
  "format_action ActRead = ''read''"
| "format_action ActWrite = ''write''"
| "format_action ActInvoke = ''invoke''"
| "format_action ActList = ''list''"
| "format_action ActAdmin = ''admin''"
| "format_action ActConfigure = ''configure''"

lemma format_action_inj: "format_action a = format_action b \<longleftrightarrow> a = b"
  by (cases a; cases b) simp_all

type_synonym resource_urn = string

record authz_request =
  az_subject :: subject
  az_resource :: resource_urn
  az_action :: action
  az_attrs :: json
  az_consent :: "consent option"
  az_correlation :: "string option"

record obligation =
  ob_kind :: string
  ob_params :: json

record decision =
  dc_allow :: bool
  dc_reason :: "string option"
  dc_obligations :: "obligation list"
  dc_evidence :: json
  dc_cache_ttl_ms :: "32 word"

definition decision_deny :: "string \<Rightarrow> decision" where
  "decision_deny reason = \<lparr>dc_allow = False, dc_reason = Some reason, dc_obligations = [],
     dc_evidence = JNull, dc_cache_ttl_ms = 0\<rparr>"

definition decision_allow_default :: decision where
  "decision_allow_default = \<lparr>dc_allow = True, dc_reason = None, dc_obligations = [],
     dc_evidence = JNull, dc_cache_ttl_ms = 0\<rparr>"

record decision_key =
  dk_tenant :: string
  dk_subject_id :: string
  dk_resource :: resource_urn
  dk_action :: action
  dk_attrs_hash :: "64 word"

record quota_key =
  qk_tenant :: string
  qk_subject_id :: string
  qk_resource :: resource_urn
  qk_action :: action

section \<open>Attributes\<close>

text \<open>\<open>merge_json\<close>: objects merge key by key, a null on the right keeps the left.\<close>

fun merge_json :: "json \<Rightarrow> json \<Rightarrow> json"
  and merge_entries :: "jmap \<Rightarrow> jmap \<Rightarrow> jmap" where
  "merge_json (JObj a) (JObj b) = JObj (merge_entries a b)"
| "merge_json lhs JNull = lhs"
| "merge_json lhs rhs = rhs"
| "merge_entries merged [] = merged"
| "merge_entries merged ((k, v) # b) =
     merge_entries
       (jinsert k (merge_json (case map_of merged k of Some e \<Rightarrow> e | None \<Rightarrow> JNull) v) merged) b"

definition attributes_merged :: "json \<Rightarrow> json \<Rightarrow> json" where
  "attributes_merged self other = merge_json self other"

text \<open>The hasher of the standard library is a parameter on the serialised bytes.\<close>

definition hash_attrs :: "(json \<Rightarrow> string) \<Rightarrow> (string \<Rightarrow> 64 word) \<Rightarrow> json \<Rightarrow> 64 word" where
  "hash_attrs to_bytes hasher attrs = hasher (to_bytes attrs)"

definition static_attributes :: "json \<Rightarrow> subject \<Rightarrow> resource_urn \<Rightarrow> json" where
  "static_attributes base subject resource = base"

definition attrs_from_map :: "(string \<times> json) list \<Rightarrow> json" where
  "attrs_from_map m = JObj (jextend [] m)"

lemma merge_entries_sorted: "jsorted a \<Longrightarrow> jsorted (merge_entries a b)"
  by (induction b arbitrary: a) auto

lemma merge_entries_lookup:
  "distinct (map fst b) \<Longrightarrow> map_of (merge_entries a b) k =
     (case map_of b k of
        None \<Rightarrow> map_of a k
      | Some v \<Rightarrow> Some (merge_json (case map_of a k of Some e \<Rightarrow> e | None \<Rightarrow> JNull) v))"
proof (induction b arbitrary: a)
  case (Cons kv b)
  obtain k' v where kv: "kv = (k', v)"
    by (cases kv)
  have "map_of b k' = None"
    using Cons.prems kv by (simp add: map_of_eq_None_iff)
  with Cons show ?case
    by (cases "k = k'") (simp_all add: kv split: option.splits)
qed simp

section \<open>Errors\<close>

type_synonym auth_error = error_obj
type_synonym 'a auth_result = "auth_error + 'a"

definition auth_unauthenticated :: "string \<Rightarrow> auth_error" where
  "auth_unauthenticated detail =
     dev_msg detail (user_msg ''Authentication required.'' (builder_new AUTH_UNAUTHENTICATED))"

definition auth_forbidden :: "string \<Rightarrow> auth_error" where
  "auth_forbidden detail =
     dev_msg detail (user_msg ''Access forbidden.'' (builder_new AUTH_FORBIDDEN))"

definition auth_rate_limited :: auth_error where
  "auth_rate_limited = user_msg ''Rate limit exceeded.'' (builder_new QUOTA_RATE_LIMITED)"

definition auth_budget_exceeded :: auth_error where
  "auth_budget_exceeded = user_msg ''Budget exceeded.'' (builder_new QUOTA_BUDGET_EXCEEDED)"

definition auth_policy_deny :: "string \<Rightarrow> auth_error" where
  "auth_policy_deny reason =
     dev_msg reason (user_msg ''Request denied by policy.'' (builder_new POLICY_DENY_TOOL))"

section \<open>Authentication, decisions, consent\<close>

datatype authn_input = Bearer string | ApiKey string | ServiceToken string

fun input_token :: "authn_input \<Rightarrow> string" where
  "input_token (Bearer t) = t"
| "input_token (ApiKey t) = t"
| "input_token (ServiceToken t) = t"

definition static_authenticate ::
  "(string \<Rightarrow> subject option) \<Rightarrow> authn_input \<Rightarrow> subject auth_result" where
  "static_authenticate tokens input =
     ok_or (auth_unauthenticated ''token not recognized'') (tokens (input_token input))"

definition subject_from_claims :: "string \<Rightarrow> string \<Rightarrow> subject_kind \<Rightarrow> subject" where
  "subject_from_claims tenant sid kind =
     \<lparr>subj_kind = kind, subject_id = sid, subj_tenant = tenant, claims = []\<rparr>"

definition allow_all_decide :: "authz_request \<Rightarrow> decision auth_result" where
  "allow_all_decide req = Ok decision_allow_default"

definition static_policy_decide ::
  "(string \<times> action) set \<Rightarrow> authz_request \<Rightarrow> decision auth_result" where
  "static_policy_decide allow_pairs req =
     (if (az_resource req, az_action req) \<in> allow_pairs then
        Ok \<lparr>dc_allow = True, dc_reason = None, dc_obligations = [],
            dc_evidence = JObj [(''policy'', JStr ''static_allow'')], dc_cache_ttl_ms = 1000\<rparr>
      else Ok (decision_deny ''static policy deny''))"

definition consent_verify :: "int \<Rightarrow> consent \<Rightarrow> authz_request \<Rightarrow> bool auth_result" where
  "consent_verify now consent req =
     (if (case expires_at consent of Some e \<Rightarrow> e < now | None \<Rightarrow> False) then Ok False
      else Ok (list_ex (\<lambda>scope. sc_resource scope = az_resource req \<and>
                 sc_action scope = format_action (az_action req)) (scopes consent)))"

section \<open>Events and labels\<close>

record auth_decision_event =
  ad_subject_id :: string
  ad_tenant :: string
  ad_resource :: string
  ad_action :: string
  ad_allow :: bool

definition wrap_decision ::
  "int \<Rightarrow> subject \<Rightarrow> resource_urn \<Rightarrow> action \<Rightarrow> decision \<Rightarrow> auth_decision_event envelope" where
  "wrap_decision now subject resource act dec =
     (let event = \<lparr>ad_subject_id = subject_id subject, ad_tenant = subj_tenant subject,
            ad_resource = resource, ad_action = format_action act, ad_allow = dc_allow dec\<rparr>
      in envelope_new (''auth-'' @ ad_subject_id event @ ''-'' @ resource) now ''auth''
           \<lparr>subj_kind = Service, subject_id = ''sb-auth'', subj_tenant = ''global'', claims = []\<rparr>
           ''1.0.0'' event)"

definition decision_labels :: "resource_urn \<Rightarrow> action \<Rightarrow> string \<Rightarrow> (string \<times> string) list" where
  "decision_labels resource act outcome =
     jinsert ''outcome'' outcome (jinsert ''action'' (format_action act)
       (jinsert ''resource'' resource []))"

section \<open>Properties\<close>

text \<open>
  What the caller's attributes do to the provider's.  For well-formed objects the merged
  attributes are again one, hold exactly the keys of both, and at every key the
  caller's value wins unless it is null: a caller can replace any attribute the provider
  asserts, and can neither remove one nor turn it into null.
\<close>

theorem caller_attributes_win:
  assumes "jsorted base" and "jsorted given"
  shows "\<exists>m. attributes_merged (JObj base) (JObj given) = JObj m \<and> jsorted m \<and>
    dom (map_of m) = dom (map_of base) \<union> dom (map_of given) \<and>
    (\<forall>k. map_of given k = None \<longrightarrow> map_of m k = map_of base k) \<and>
    (\<forall>k v. map_of given k = Some v \<longrightarrow>
       map_of m k = Some (case (map_of base k, v) of
         (None, _) \<Rightarrow> v
       | (Some old, JNull) \<Rightarrow> old
       | (Some (JObj o'), JObj g) \<Rightarrow> merge_json (JObj o') (JObj g)
       | (Some old, _) \<Rightarrow> v))"
proof -
  have null: "merge_json JNull v = v" for v
    by (cases v) simp_all
  have lookup: "map_of (merge_entries base given) k = (case map_of given k of
      None \<Rightarrow> map_of base k
    | Some v \<Rightarrow> Some (merge_json (case map_of base k of Some e \<Rightarrow> e | None \<Rightarrow> JNull) v))" for k
    using assms(2) by (simp add: merge_entries_lookup jsorted_distinct)
  have two: "merge_json old v = (case (old, v) of (_, JNull) \<Rightarrow> old
      | (JObj o', JObj g) \<Rightarrow> merge_json (JObj o') (JObj g) | (_, _) \<Rightarrow> v)" for old v
    by (cases old; cases v) simp_all
  have "dom (map_of (merge_entries base given)) = dom (map_of base) \<union> dom (map_of given)"
    by (auto simp: lookup dom_def split: option.splits)
  moreover have "map_of (merge_entries base given) k = Some (case (map_of base k, v) of
         (None, _) \<Rightarrow> v
       | (Some old, JNull) \<Rightarrow> old
       | (Some (JObj o'), JObj g) \<Rightarrow> merge_json (JObj o') (JObj g)
       | (Some old, _) \<Rightarrow> v)" if "map_of given k = Some v" for k v
    using that two[of "the (map_of base k)" v]
    by (cases "map_of base k"; cases "the (map_of base k)"; cases v) (simp_all add: lookup null)
  ultimately show ?thesis
    using assms(1) by (intro exI[of _ "merge_entries base given"])
      (simp add: attributes_merged_def merge_entries_sorted lookup)
qed

theorem caller_attributes_win_witness:
  "\<exists>m. attributes_merged (JObj [(''role'', JStr ''guest'')]) (JObj [(''role'', JStr ''admin'')]) = JObj m \<and>
     map_of m ''role'' = Some (JStr ''admin'')"
  using caller_attributes_win[of "[(''role'', JStr ''guest'')]" "[(''role'', JStr ''admin'')]"]
  by (fastforce simp: jsorted_def)

text \<open>
  Decision events never validate.  Every decision is wrapped with the actor tenant
  \<open>global\<close> and the partition key \<open>auth\<close>, which does not start with the tenant:
  whatever the decision, the subject and the version parser, the envelope fails
  \<open>Envelope::validate\<close>.
\<close>

theorem decision_event_invalid:
  "\<not> is_ok (validate_envelope semver (wrap_decision now subject resource act dec))"
  by (simp add: is_ok_iff validate_envelope_ok wrap_decision_def envelope_new_def Let_def
      starts_with_def)

end
