(* ===== verification/AuthFacade.thy ===== *)
theory AuthFacade
  imports AuthModel KeyedStore
begin

text \<open>
  The stores of the authorisation crate, the decision cache (\<open>cache/mod.rs\<close>) and the
  quota store (\<open>quota/mod.rs\<close>), and the facade that composes them with
  authentication, attributes, decision and consent (\<open>facade.rs\<close>).  What the facade needs of
  its stores is the locale \<open>auth_stores\<close>, interpreted on the in-memory ones.  An
  \<open>Instant\<close> is a number of nanoseconds.
\<close>

section \<open>The decision cache\<close>

type_synonym decision_cache = "decision_key \<Rightarrow> (decision \<times> nat \<times> 32 word) option"

definition cache_get ::
  "nat \<Rightarrow> decision_key \<Rightarrow> decision_cache \<Rightarrow> decision_cache \<times> decision option" where
  "cache_get now key c =
     (case c key of
        Some (dec, instant, ttl) \<Rightarrow>
          if ttl = 0 then (c, Some dec)
          else if now - instant \<le> unat ttl * 1000000 then (c, Some dec)
          else (c(key := None), None)
      | None \<Rightarrow> (c(key := None), None))"

definition cache_put :: "nat \<Rightarrow> decision_key \<Rightarrow> decision \<Rightarrow> decision_cache \<Rightarrow> decision_cache" where
  "cache_put now key dec c = c(key \<mapsto> (dec, now, dc_cache_ttl_ms dec))"

definition cache_invalidate :: "decision_key \<Rightarrow> decision_cache \<Rightarrow> decision_cache" where
  "cache_invalidate key c = c(key := None)"

section \<open>The quota store\<close>

datatype quota_outcome = Allowed | RateLimited | BudgetExceeded

text \<open>A key's limit and what has been used of it.\<close>

type_synonym quota_store = "quota_key \<Rightarrow> (int \<times> int) option"

definition quota_with_limits :: "(quota_key \<Rightarrow> int option) \<Rightarrow> quota_store" where
  "quota_with_limits limits = (\<lambda>k. map_option (\<lambda>limit. (limit, 0)) (limits k))"

definition quota_entry :: "quota_key \<Rightarrow> quota_store \<Rightarrow> int \<times> int" where
  "quota_entry key s = (case s key of Some e \<Rightarrow> e | None \<Rightarrow> (2 ^ 63 - 1, 0))"

definition check_and_consume ::
  "quota_key \<Rightarrow> int \<Rightarrow> quota_store \<Rightarrow> quota_store \<times> quota_outcome auth_result" where
  "check_and_consume key cost s =
     (let (limit, used) = quota_entry key s;
          s = s(key \<mapsto> (limit, used))
      in if used \<ge> limit then (s, Ok BudgetExceeded)
         else if i64_add used cost > limit then (s, Ok RateLimited)
         else (s(key \<mapsto> (limit, i64_add used cost)), Ok Allowed))"

interpretation quota: keyed_store "\<lambda>s k. s k" "\<lambda>(k, c) s. fst (check_and_consume k c s)" fst
  by unfold_locales (auto simp: check_and_consume_def Let_def split: prod.splits)

section \<open>The facade\<close>

record 's auth_facade =
  af_authenticate :: "authn_input \<Rightarrow> subject auth_result"
  af_attributes :: "subject \<Rightarrow> resource_urn \<Rightarrow> json"
  af_decide :: "authz_request \<Rightarrow> decision auth_result"
  af_verify :: "consent \<Rightarrow> authz_request \<Rightarrow> bool auth_result"
  af_consume :: "quota_key \<Rightarrow> int \<Rightarrow> 's \<Rightarrow> 's \<times> quota_outcome auth_result"
  af_cache_get :: "decision_key \<Rightarrow> 's \<Rightarrow> 's \<times> decision option"
  af_cache_put :: "decision_key \<Rightarrow> decision \<Rightarrow> 's \<Rightarrow> 's"
  af_hash :: "json \<Rightarrow> 64 word"

record auth_context =
  ac_input :: authn_input
  ac_resource :: resource_urn
  ac_action :: action
  ac_attrs :: json
  ac_consent :: "consent option"
  ac_correlation :: "string option"
  ac_cost :: int

record auth_answer =
  ar_subject :: subject
  ar_decision :: decision

definition decision_key_of ::
  "'s auth_facade \<Rightarrow> subject \<Rightarrow> auth_context \<Rightarrow> json \<Rightarrow> decision_key" where
  "decision_key_of af subject ctx attrs =
     \<lparr>dk_tenant = subj_tenant subject, dk_subject_id = subject_id subject,
      dk_resource = ac_resource ctx, dk_action = ac_action ctx, dk_attrs_hash = af_hash af attrs\<rparr>"

definition quota_key_of :: "subject \<Rightarrow> auth_context \<Rightarrow> quota_key" where
  "quota_key_of subject ctx =
     \<lparr>qk_tenant = subj_tenant subject, qk_subject_id = subject_id subject,
      qk_resource = ac_resource ctx, qk_action = ac_action ctx\<rparr>"

definition authz_request_of :: "subject \<Rightarrow> auth_context \<Rightarrow> json \<Rightarrow> authz_request" where
  "authz_request_of subject ctx attrs =
     \<lparr>az_subject = subject, az_resource = ac_resource ctx, az_action = ac_action ctx,
      az_attrs = attrs, az_consent = ac_consent ctx, az_correlation = ac_correlation ctx\<rparr>"

definition check_consent :: "'s auth_facade \<Rightarrow> authz_request \<Rightarrow> unit auth_result" where
  "check_consent af req =
     (case az_consent req of
        Some consent \<Rightarrow>
          and_then (af_verify af consent req) (\<lambda>valid.
            if valid then Ok () else Err (auth_policy_deny ''consent invalid''))
      | None \<Rightarrow> Ok ())"

definition consume_quota ::
  "'s auth_facade \<Rightarrow> quota_key \<Rightarrow> int \<Rightarrow> 's \<Rightarrow> 's \<times> unit auth_result" where
  "consume_quota af key cost s =
     and_do (af_consume af key cost s) (\<lambda>out s.
       (s, case out of
             Allowed \<Rightarrow> Ok ()
           | RateLimited \<Rightarrow> Err auth_rate_limited
           | BudgetExceeded \<Rightarrow> Err auth_budget_exceeded))"

lemma consume_quota_Ok:
  "consume_quota af k c s = (s', Ok u) \<longleftrightarrow> af_consume af k c s = (s', Ok Allowed)"
proof (cases "af_consume af k c s")
  case (Pair t r)
  then show ?thesis
    by (cases r; cases "projr r") (auto simp: consume_quota_def)
qed

text \<open>The decision of a request that is not in the cache.\<close>

definition authorize_fresh ::
  "'s auth_facade \<Rightarrow> subject \<Rightarrow> auth_context \<Rightarrow> json \<Rightarrow> 's \<Rightarrow> 's \<times> auth_answer auth_result" where
  "authorize_fresh af subject ctx attrs s =
     (let req = authz_request_of subject ctx attrs in
      and_do (s, af_decide af req) (\<lambda>dec s.
      and_do (s, if dc_allow dec then check_consent af req else Ok ()) (\<lambda>_ s.
      and_do (if dc_allow dec then consume_quota af (quota_key_of subject ctx) (ac_cost ctx) s
              else (s, Ok ())) (\<lambda>_ s.
      let s = (if dc_cache_ttl_ms dec > 0
               then af_cache_put af (decision_key_of af subject ctx attrs) dec s else s)
      in (s, Ok \<lparr>ar_subject = subject, ar_decision = dec\<rparr>)))))"

definition authorize ::
  "'s auth_facade \<Rightarrow> auth_context \<Rightarrow> 's \<Rightarrow> 's \<times> auth_answer auth_result" where
  "authorize af ctx s =
     and_do (s, af_authenticate af (ac_input ctx)) (\<lambda>subject s.
       let attrs = attributes_merged (af_attributes af subject (ac_resource ctx)) (ac_attrs ctx)
       in case af_cache_get af (decision_key_of af subject ctx attrs) s of
            (s, Some dec) \<Rightarrow> (s, Ok \<lparr>ar_subject = subject, ar_decision = dec\<rparr>)
          | (s, None) \<Rightarrow> authorize_fresh af subject ctx attrs s)"

text \<open>The facade over the in-memory stores and the static providers.\<close>

definition memory_facade ::
  "nat \<Rightarrow> int \<Rightarrow> (json \<Rightarrow> 64 word) \<Rightarrow> (string \<Rightarrow> subject option) \<Rightarrow> json \<Rightarrow> (string \<times> action) set
     \<Rightarrow> (decision_cache \<times> quota_store) auth_facade" where
  "memory_facade instant now hash tokens base allow_pairs =
     \<lparr>af_authenticate = static_authenticate tokens, af_attributes = static_attributes base,
      af_decide = static_policy_decide allow_pairs, af_verify = consent_verify now,
      af_consume = (\<lambda>k cost (c, q). let (q, r) = check_and_consume k cost q in ((c, q), r)),
      af_cache_get = (\<lambda>k (c, q). let (c, r) = cache_get instant k c in ((c, q), r)),
      af_cache_put = (\<lambda>k dec (c, q). (cache_put instant k dec c, q)),
      af_hash = hash\<rparr>"

section \<open>What the facade needs of its stores\<close>

locale auth_stores =
  fixes consume :: "quota_key \<Rightarrow> int \<Rightarrow> 's \<Rightarrow> 's \<times> quota_outcome auth_result"
    and cget :: "decision_key \<Rightarrow> 's \<Rightarrow> 's \<times> decision option"
    and cput :: "decision_key \<Rightarrow> decision \<Rightarrow> 's \<Rightarrow> 's"
    and used :: "'s \<Rightarrow> quota_key \<Rightarrow> int"
    and hit :: "'s \<Rightarrow> decision_key \<Rightarrow> decision option"
  assumes consume_allowed: "consume k cost s = (s', Ok Allowed) \<Longrightarrow> used s' k = i64_add (used s k) cost"
    and consume_refused: "snd (consume k cost s) \<noteq> Ok Allowed \<Longrightarrow> used (fst (consume k cost s)) k = used s k"
    and consume_other: "k' \<noteq> k \<Longrightarrow> used (fst (consume k cost s)) k' = used s k'"
    and consume_hit: "hit (fst (consume k cost s)) d = hit s d"
    and cget_hit: "snd (cget d s) = hit s d"
    and cget_used: "used (fst (cget d s)) k = used s k"
    and cget_keeps: "hit (fst (cget d s)) d' = hit s d'"
    and cput_hit: "hit (cput d dec s) d = Some dec"
    and cput_used: "used (cput d dec s) k = used s k"
begin

text \<open>The bill of an authorisation: the key's cost for an allowed fresh decision, else nothing.\<close>

lemma fresh_bill:
  assumes "af_consume af = consume" and "af_cache_put af = cput"
    and "authorize_fresh af subject ctx attrs s = (s', Ok ans)"
  shows "af_decide af (authz_request_of subject ctx attrs) = Ok (ar_decision ans) \<and>
    ar_subject ans = subject \<and>
    (dc_allow (ar_decision ans) \<longrightarrow> check_consent af (authz_request_of subject ctx attrs) = Ok () \<and>
       used s' (quota_key_of subject ctx) = i64_add (used s (quota_key_of subject ctx)) (ac_cost ctx)) \<and>
    (\<not> dc_allow (ar_decision ans) \<longrightarrow> used s' = used s) \<and>
    (\<forall>k. k \<noteq> quota_key_of subject ctx \<longrightarrow> used s' k = used s k) \<and>
    (dc_cache_ttl_ms (ar_decision ans) > 0 \<longrightarrow>
       hit s' (decision_key_of af subject ctx attrs) = Some (ar_decision ans))"
proof -
  let ?k = "quota_key_of subject ctx"
  obtain dec where dec: "af_decide af (authz_request_of subject ctx attrs) = Ok dec" "ar_decision ans = dec"
    "ar_subject ans = subject"
    using assms(3) by (auto simp: authorize_fresh_def Let_def and_do_Ok_iff)
  show ?thesis
  proof (cases "dc_allow dec")
    case True
    then obtain s1 where con: "consume ?k (ac_cost ctx) s = (s1, Ok Allowed)"
      and s': "s' = (if dc_cache_ttl_ms dec > 0 then cput (decision_key_of af subject ctx attrs) dec s1 else s1)"
      and chk: "check_consent af (authz_request_of subject ctx attrs) = Ok ()"
      using assms dec by (auto simp: authorize_fresh_def Let_def and_do_Ok_iff consume_quota_Ok)
    have "used s1 ?k = i64_add (used s ?k) (ac_cost ctx)"
      using con by (rule consume_allowed)
    moreover have "used s1 k' = used s k'" if "k' \<noteq> ?k" for k'
      using consume_other[OF that, of "ac_cost ctx" s] con by simp
    ultimately show ?thesis
      using True dec chk by (simp add: s' cput_used cput_hit)
  next
    case False
    then have "s' = (if dc_cache_ttl_ms dec > 0 then cput (decision_key_of af subject ctx attrs) dec s else s)"
      using assms dec by (auto simp: authorize_fresh_def Let_def and_do_Ok_iff)
    then show ?thesis
      using False dec by (auto simp: cput_used cput_hit fun_eq_iff)
  qed
qed

lemma authorize_cached:
  assumes "af_cache_get af = cget" and "af_authenticate af (ac_input ctx) = Ok subject"
    and "hit s (decision_key_of af subject ctx
           (attributes_merged (af_attributes af subject (ac_resource ctx)) (ac_attrs ctx))) = Some dec"
  shows "snd (authorize af ctx s) = Ok \<lparr>ar_subject = subject, ar_decision = dec\<rparr>"
    and "used (fst (authorize af ctx s)) k = used s k"
    and "hit (fst (authorize af ctx s)) d = hit s d"
  using assms cget_used cget_keeps
  by (auto simp: authorize_def Let_def cget_hit[symmetric] split: prod.splits option.splits)
    (metis fst_conv)+

lemma authorize_miss:
  assumes "af_cache_get af = cget" and "af_authenticate af (ac_input ctx) = Ok subject"
    and "hit s (decision_key_of af subject ctx
           (attributes_merged (af_attributes af subject (ac_resource ctx)) (ac_attrs ctx))) = None"
  shows "\<exists>s1. authorize af ctx s = authorize_fresh af subject ctx
      (attributes_merged (af_attributes af subject (ac_resource ctx)) (ac_attrs ctx)) s1 \<and> used s1 = used s"
  using assms cget_used
  by (auto simp: authorize_def Let_def cget_hit[symmetric] fun_eq_iff split: prod.splits option.splits)
    (metis fst_conv)

end

definition mem_used :: "decision_cache \<times> quota_store \<Rightarrow> quota_key \<Rightarrow> int" where
  "mem_used s k = snd (quota_entry k (snd s))"

definition mem_hit :: "nat \<Rightarrow> decision_cache \<times> quota_store \<Rightarrow> decision_key \<Rightarrow> decision option" where
  "mem_hit instant s d = snd (cache_get instant d (fst s))"

interpretation mem_auth: auth_stores
  "af_consume (memory_facade instant now hash tokens base allow)"
  "af_cache_get (memory_facade instant now hash tokens base allow)"
  "af_cache_put (memory_facade instant now hash tokens base allow)"
  mem_used "mem_hit instant" for instant now hash tokens base allow
  by unfold_locales
    (auto simp: memory_facade_def mem_used_def mem_hit_def check_and_consume_def cache_get_def
      cache_put_def quota_entry_def Let_def split: prod.splits option.splits if_splits)

section \<open>Properties\<close>

text \<open>The costs granted to a key over a sequence of requests, of any keys.\<close>

fun granted :: "quota_key \<Rightarrow> (quota_key \<times> int) list \<Rightarrow> quota_store \<Rightarrow> int" where
  "granted k [] s = 0"
| "granted k ((k', c) # ops) s =
     (if k' = k \<and> snd (check_and_consume k' c s) = Ok Allowed then c else 0)
       + granted k ops (fst (check_and_consume k' c s))"

lemma check_and_consume_entry:
  assumes "quota_entry k s = (l, u)" and "0 \<le> u" and "u \<le> l" and "0 \<le> c" and "l + c < 2 ^ 63"
  shows "quota_entry k (fst (check_and_consume k c s)) =
      (l, u + (if snd (check_and_consume k c s) = Ok Allowed then c else 0))"
    and "u + (if snd (check_and_consume k c s) = Ok Allowed then c else 0) \<le> l"
proof -
  have "i64_add u c = u + c"
    using assms by (intro i64_add_exact) (simp add: in_i64_def)
  then show "quota_entry k (fst (check_and_consume k c s)) =
      (l, u + (if snd (check_and_consume k c s) = Ok Allowed then c else 0))"
    "u + (if snd (check_and_consume k c s) = Ok Allowed then c else 0) \<le> l"
    using assms by (auto simp: check_and_consume_def Let_def quota_entry_def)
qed

text \<open>
  C26: The quota holds.  Over any sequence of requests on any keys, with costs that are not
  negative and small enough not to overflow next to the limit, what a key has used is exactly the sum of the
  costs granted to it, and never more than its limit; requests on other keys do not count.
\<close>

theorem quota_never_exceeded:
  assumes "quota_entry k s = (limit, used)" and "0 \<le> used" and "used \<le> limit"
    and "\<forall>(k', c) \<in> set ops. 0 \<le> c \<and> limit + c < 2 ^ 63"
  shows "quota_entry k (fold (\<lambda>(k', c) s. fst (check_and_consume k' c s)) ops s)
      = (limit, used + granted k ops s) \<and> used + granted k ops s \<le> limit"
  using assms
proof (induction ops arbitrary: s used)
  case (Cons op ops)
  obtain k' c where op: "op = (k', c)"
    by (cases op)
  let ?s = "fst (check_and_consume k' c s)"
  let ?u = "used + (if k' = k \<and> snd (check_and_consume k' c s) = Ok Allowed then c else 0)"
  have c: "0 \<le> c" "limit + c < 2 ^ 63"
    using Cons.prems(4) op by auto
  have "quota_entry k ?s = (limit, ?u) \<and> ?u \<le> limit \<and> 0 \<le> ?u"
  proof (cases "k' = k")
    case True
    then show ?thesis
      using check_and_consume_entry[OF Cons.prems(1-3) c] c(1) Cons.prems(2) by simp
  next
    case False
    then have "?s k = s k"
      using quota.frame[of "(k', c)" k s] by simp
    then show ?thesis
      using False Cons.prems by (simp add: quota_entry_def)
  qed
  with Cons.IH[of ?s ?u] Cons.prems(4) show ?case
    by (simp add: op add.assoc)
qed simp

abbreviation demo_quota_key :: quota_key where
  "demo_quota_key \<equiv> \<lparr>qk_tenant = ''t'', qk_subject_id = ''u'', qk_resource = ''r'', qk_action = ActRead\<rparr>"

theorem quota_never_exceeded_witness:
  "granted demo_quota_key [(demo_quota_key, 2), (demo_quota_key, 2)]
     (quota_with_limits [demo_quota_key \<mapsto> 3]) \<le> 3"
  using quota_never_exceeded[of demo_quota_key "quota_with_limits [demo_quota_key \<mapsto> 3]" 3 0
      "[(demo_quota_key, 2), (demo_quota_key, 2)]"]
  by (simp add: quota_entry_def quota_with_limits_def)

lemma static_policy_allow:
  "static_policy_decide allow req = Ok dec \<Longrightarrow> dc_allow dec \<longleftrightarrow> (az_resource req, az_action req) \<in> allow"
  by (auto simp: static_policy_decide_def decision_deny_def split: if_splits)

text \<open>
  C25: What a fresh authorisation has checked.  When the memory facade answers a request that
  was not cached, the token was one of the known ones and named the subject; an allowing decision is for a listed
  resource and action, a supplied consent had not expired and covers them, and exactly the cost was charged
  to the subject's quota, no other key being touched; a denying one charges nothing.  A cacheable decision
  is in the cache afterwards.
\<close>

theorem authorize_fresh_sound:
  assumes "authorize (memory_facade instant now hash tokens base allow) ctx s = (s', Ok ans)"
    and "\<And>subject attrs. mem_hit instant s
      (decision_key_of (memory_facade instant now hash tokens base allow) subject ctx attrs) = None"
  shows "tokens (input_token (ac_input ctx)) = Some (ar_subject ans) \<and>
    (dc_allow (ar_decision ans) \<longrightarrow>
       (ac_resource ctx, ac_action ctx) \<in> allow \<and>
       (\<forall>c. ac_consent ctx = Some c \<longrightarrow>
          (\<forall>t. expires_at c = Some t \<longrightarrow> now \<le> t) \<and>
          (\<exists>sc \<in> set (scopes c). sc_resource sc = ac_resource ctx \<and>
             sc_action sc = format_action (ac_action ctx))) \<and>
       mem_used s' (quota_key_of (ar_subject ans) ctx)
         = i64_add (mem_used s (quota_key_of (ar_subject ans) ctx)) (ac_cost ctx)) \<and>
    (\<not> dc_allow (ar_decision ans) \<longrightarrow> mem_used s' = mem_used s) \<and>
    (\<forall>k. k \<noteq> quota_key_of (ar_subject ans) ctx \<longrightarrow> mem_used s' k = mem_used s k) \<and>
    (dc_cache_ttl_ms (ar_decision ans) > 0 \<longrightarrow> (\<exists>attrs. mem_hit instant s'
       (decision_key_of (memory_facade instant now hash tokens base allow) (ar_subject ans) ctx attrs)
         = Some (ar_decision ans)))"
proof -
  let ?af = "memory_facade instant now hash tokens base allow"
  obtain subject where auth: "af_authenticate ?af (ac_input ctx) = Ok subject"
    using assms(1) by (auto simp: authorize_def and_do_Ok_iff)
  define attrs where
    "attrs = attributes_merged (af_attributes ?af subject (ac_resource ctx)) (ac_attrs ctx)"
  obtain s1 where fresh: "authorize_fresh ?af subject ctx attrs s1 = (s', Ok ans)"
    and used: "mem_used s1 = mem_used s"
    using mem_auth.authorize_miss[where instant = instant and now = now and hash = hash
        and tokens = tokens and base = base and allow = allow and af = ?af and s = s, OF refl auth assms(2)] assms(1)
    unfolding attrs_def by auto
  have bill: "af_decide ?af (authz_request_of subject ctx attrs) = Ok (ar_decision ans) \<and>
    ar_subject ans = subject \<and>
    (dc_allow (ar_decision ans) \<longrightarrow> check_consent ?af (authz_request_of subject ctx attrs) = Ok () \<and>
       mem_used s' (quota_key_of subject ctx) = i64_add (mem_used s1 (quota_key_of subject ctx)) (ac_cost ctx)) \<and>
    (\<not> dc_allow (ar_decision ans) \<longrightarrow> mem_used s' = mem_used s1) \<and>
    (\<forall>k. k \<noteq> quota_key_of subject ctx \<longrightarrow> mem_used s' k = mem_used s1 k) \<and>
    (dc_cache_ttl_ms (ar_decision ans) > 0 \<longrightarrow>
       mem_hit instant s' (decision_key_of ?af subject ctx attrs) = Some (ar_decision ans))"
    by (rule mem_auth.fresh_bill[where af = ?af, OF refl refl fresh])
  have tok: "tokens (input_token (ac_input ctx)) = Some subject"
    using auth by (simp add: memory_facade_def static_authenticate_def)
  have pdp: "(ac_resource ctx, ac_action ctx) \<in> allow" if "dc_allow (ar_decision ans)"
  proof -
    have "static_policy_decide allow (authz_request_of subject ctx attrs) = Ok (ar_decision ans)"
      using bill by (simp add: memory_facade_def)
    from static_policy_allow[OF this] that show ?thesis
      by (simp add: authz_request_of_def)
  qed
  have consent: "(\<forall>t. expires_at c = Some t \<longrightarrow> now \<le> t) \<and> (\<exists>sc \<in> set (scopes c).
      sc_resource sc = ac_resource ctx \<and> sc_action sc = format_action (ac_action ctx))"
    if "dc_allow (ar_decision ans)" "ac_consent ctx = Some c" for c
  proof -
    have "check_consent ?af (authz_request_of subject ctx attrs) = Ok ()"
      using bill that by simp
    then have "consent_verify now c (authz_request_of subject ctx attrs) = Ok True"
      using that by (auto simp: check_consent_def authz_request_of_def memory_facade_def split: if_splits)
    then show ?thesis
      by (force simp: consent_verify_def authz_request_of_def list_ex_iff split: if_splits option.splits)
  qed
  show ?thesis
    using bill tok pdp consent used by auto
qed

text \<open>
  A cached decision skips consent and quota.  The cache key holds neither the consent nor
  the cost: once a decision is cached, a later request with the same key gets it whatever its
  consent and however much of the quota is used, and is not charged.
\<close>

theorem cached_decision_skips_checks:
  assumes "tokens (input_token (ac_input ctx)) = Some subject"
    and "mem_hit instant s (decision_key_of (memory_facade instant now hash tokens base allow) subject ctx
      (attributes_merged base (ac_attrs ctx))) = Some dec"
  shows "snd (authorize (memory_facade instant now hash tokens base allow)
      (ctx\<lparr>ac_consent := consent, ac_cost := cost\<rparr>) s) = Ok \<lparr>ar_subject = subject, ar_decision = dec\<rparr> \<and>
    mem_used (fst (authorize (memory_facade instant now hash tokens base allow)
      (ctx\<lparr>ac_consent := consent, ac_cost := cost\<rparr>) s)) = mem_used s"
proof -
  let ?af = "memory_facade instant now hash tokens base allow"
  let ?ctx = "ctx\<lparr>ac_consent := consent, ac_cost := cost\<rparr>"
  have auth: "af_authenticate ?af (ac_input ?ctx) = Ok subject"
    using assms(1) by (simp add: memory_facade_def static_authenticate_def)
  have hit: "mem_hit instant s (decision_key_of ?af subject ?ctx
      (attributes_merged (af_attributes ?af subject (ac_resource ?ctx)) (ac_attrs ?ctx))) = Some dec"
    using assms(2) by (simp add: decision_key_of_def memory_facade_def static_attributes_def)
  note cached = mem_auth.authorize_cached[where instant = instant and now = now and hash = hash
      and tokens = tokens and base = base and allow = allow and af = ?af, OF refl auth hit]
  show ?thesis
    using cached(1) cached(2) by (simp add: fun_eq_iff)
qed

text \<open>
  The cost is not validated.  A negative cost is granted and lowers what was used; and
  under the default limit a cost that overflows the counter is granted and leaves it negative, so
  that the budget starts anew.
\<close>

theorem quota_cost_not_validated:
  assumes "quota_entry k s = (limit, used)" and "0 < used" and "used < limit" and "limit < 2 ^ 63"
  shows "(\<forall>cost. - (2 ^ 63) \<le> cost \<and> cost < 0 \<longrightarrow>
      snd (check_and_consume k cost s) = Ok Allowed \<and>
      quota_entry k (fst (check_and_consume k cost s)) = (limit, used + cost)) \<and>
    (limit = 2 ^ 63 - 1 \<longrightarrow>
      snd (check_and_consume k (2 ^ 63 - 1) s) = Ok Allowed \<and>
      snd (quota_entry k (fst (check_and_consume k (2 ^ 63 - 1) s))) < 0)"
proof -
  have add: "i64_add used cost = used + cost" if "- (2 ^ 63) \<le> cost" "cost < 0" for cost
    using assms that by (intro i64_add_exact) (simp add: in_i64_def)
  have wrap: "i64_add used (2 ^ 63 - 1) < 0"
  proof -
    have "(used + (2 ^ 63 - 1) + 2 ^ 63) mod 2 ^ 64 = used - 1"
      using assms mod_pos_pos_trivial[of "used - 1" "2 ^ 64"] mod_add_self2[of "used - 1" "2 ^ 64"] by simp
    then show ?thesis
      using assms by (simp add: i64_add_def i64_wrap_def)
  qed
  show ?thesis
    using assms add wrap by (auto simp: check_and_consume_def Let_def quota_entry_def)
qed

definition demo_used_quota :: quota_store where
  "demo_used_quota = [demo_quota_key \<mapsto> (2 ^ 63 - 1, 5)]"

theorem quota_cost_not_validated_witness:
  "quota_entry demo_quota_key (fst (check_and_consume demo_quota_key (- 5) demo_used_quota)) = (2 ^ 63 - 1, 0)"
  using quota_cost_not_validated[of demo_quota_key demo_used_quota "2 ^ 63 - 1" 5]
  by (simp add: demo_used_quota_def quota_entry_def)

section \<open>Witnesses\<close>

definition demo_subject :: subject where
  "demo_subject = \<lparr>subj_kind = User, subject_id = ''u'', subj_tenant = ''t'', claims = []\<rparr>"

definition demo_context :: auth_context where
  "demo_context = \<lparr>ac_input = Bearer ''tok'', ac_resource = ''r'', ac_action = ActRead, ac_attrs = JNull,
     ac_consent = None, ac_correlation = None, ac_cost = 2\<rparr>"

abbreviation demo_facade :: "(decision_cache \<times> quota_store) auth_facade" where
  "demo_facade \<equiv> memory_facade 0 0 (\<lambda>_. 0) [''tok'' \<mapsto> demo_subject] JNull {(''r'', ActRead)}"

lemma demo_authorize:
  "\<exists>s' ans. authorize demo_facade demo_context (Map.empty, Map.empty) = (s', Ok ans) \<and> dc_allow (ar_decision ans)"
  by (simp add: authorize_def memory_facade_def static_authenticate_def demo_context_def cache_get_def
      authorize_fresh_def Let_def static_policy_decide_def authz_request_of_def check_consent_def
      consume_quota_def check_and_consume_def quota_entry_def quota_key_of_def i64_add_def i64_wrap_def)

theorem authorize_fresh_sound_witness:
  "mem_used (fst (authorize demo_facade demo_context (Map.empty, Map.empty)))
     (quota_key_of demo_subject demo_context) = 2"
proof -
  obtain s' ans where run: "authorize demo_facade demo_context (Map.empty, Map.empty) = (s', Ok ans)"
    "dc_allow (ar_decision ans)"
    using demo_authorize by blast
  have "mem_hit 0 (Map.empty, Map.empty) d = None" for d
    by (simp add: mem_hit_def cache_get_def)
  from authorize_fresh_sound[OF run(1) this] run show ?thesis
    by (auto simp: demo_context_def mem_used_def quota_entry_def i64_add_def i64_wrap_def)
qed

theorem cached_decision_skips_checks_witness:
  "\<exists>s. snd (authorize demo_facade
     (demo_context\<lparr>ac_consent := Some (consent_new []), ac_cost := 1000\<rparr>) s) =
     Ok \<lparr>ar_subject = demo_subject, ar_decision = decision_allow_default\<rparr>"
proof -
  let ?k = "decision_key_of demo_facade demo_subject demo_context (attributes_merged JNull (ac_attrs demo_context))"
  have "mem_hit 0 ([?k \<mapsto> (decision_allow_default, 0, 0)], Map.empty) ?k = Some decision_allow_default"
    by (simp add: mem_hit_def cache_get_def)
  from cached_decision_skips_checks[OF _ this] show ?thesis
    by (fastforce simp: demo_context_def)
qed

end
