(* ===== verification/ToolModel.thy ===== *)
theory ToolModel
  imports SandboxManager AuthModel
begin

text \<open>
  Tools (crate \<open>sb-tools\<close>): errors (\<open>errors.rs\<close>), manifests and their
  validation (\<open>manifest.rs\<close>), the translation of a manifest's declarations into sandbox
  capabilities and of a call's arguments into operations (\<open>mapping.rs\<close>), with the
  \<open>schema-json\<close> feature on, as the build's default has it.  The JSON-Schema crates are the record
  \<open>schema_ops\<close>: an error text, or nothing, for serialising and compiling a
  schema, and the messages a value fails with.
\<close>

section \<open>Errors\<close>

record tool_error =
  tl_inner :: error_obj
  tl_public :: string

definition tool_error_new :: "error_obj \<Rightarrow> tool_error" where
  "tool_error_new inner =
     (let view = to_public inner
      in \<lparr>tl_inner = inner, tl_public = pv_code view @ '': '' @ pv_message view\<rparr>)"

definition tool_to_public :: "tool_error \<Rightarrow> public_error_view" where
  "tool_to_public e = to_public (tl_inner e)"

definition tool_invalid_manifest :: "string \<Rightarrow> tool_error" where
  "tool_invalid_manifest msg = tool_error_new (dev_msg msg
     (user_msg ''tool manifest validation failed'' (builder_new SCHEMA_VALIDATION_FAILED)))"

definition tool_not_found :: "string \<Rightarrow> tool_error" where
  "tool_not_found msg = tool_error_new (dev_msg msg
     (user_msg ''tool is unavailable or disabled'' (builder_new POLICY_DENY_TOOL)))"

definition tool_forbidden :: "string \<Rightarrow> tool_error" where
  "tool_forbidden msg = tool_error_new (dev_msg msg
     (user_msg ''request was rejected'' (builder_new AUTH_FORBIDDEN)))"

definition tool_sandbox_blocked :: "string \<Rightarrow> tool_error" where
  "tool_sandbox_blocked msg = tool_error_new (dev_msg msg
     (user_msg ''sandbox policy blocked tool execution'' (builder_new SANDBOX_CAPABILITY_BLOCKED)))"

definition tool_execution_failed :: "string \<Rightarrow> tool_error" where
  "tool_execution_failed msg = tool_error_new (dev_msg msg
     (user_msg ''tool execution failed'' (builder_new UNKNOWN_INTERNAL)))"

definition tool_schema :: "string \<Rightarrow> tool_error" where
  "tool_schema msg = tool_error_new (dev_msg msg
     (user_msg ''tool input or output violates schema'' (builder_new SCHEMA_VALIDATION_FAILED)))"

definition tool_unknown :: "string \<Rightarrow> tool_error" where
  "tool_unknown msg = tool_error_new (dev_msg msg
     (user_msg ''internal tool subsystem error'' (builder_new UNKNOWN_INTERNAL)))"

type_synonym 'a tool_result = "tool_error + 'a"

section \<open>Manifests\<close>

type_synonym tool_id = string

datatype tool_safety = TLow | TMedium | THigh

datatype tool_side = TNone | TRead | TWrite | TNetwork | TFilesystem | TBrowser | TProcess

fun tool_safety_rank :: "tool_safety \<Rightarrow> nat" where
  "tool_safety_rank TLow = 0" | "tool_safety_rank TMedium = 1" | "tool_safety_rank THigh = 2"

record consent_policy =
  cp_required :: bool
  cp_max_ttl_ms :: "64 word option"
  cp_scope_hint :: "scope list"

definition consent_policy_default :: consent_policy where
  "consent_policy_default = \<lparr>cp_required = False, cp_max_ttl_ms = None, cp_scope_hint = []\<rparr>"

record tool_limits =
  tl_timeout_ms :: "64 word"
  tl_max_bytes_in :: "64 word"
  tl_max_bytes_out :: "64 word"
  tl_max_files :: "64 word"
  tl_max_depth :: "32 word"
  tl_max_concurrency :: "32 word"

definition tool_limits_default :: tool_limits where
  "tool_limits_default = \<lparr>tl_timeout_ms = 30000, tl_max_bytes_in = 2 * 1024 * 1024,
     tl_max_bytes_out = 2 * 1024 * 1024, tl_max_files = 8, tl_max_depth = 4, tl_max_concurrency = 1\<rparr>"

record capability_decl =
  cd_domain :: string
  cd_action :: string
  cd_resource :: string
  cd_attrs :: json

record compat_matrix =
  cm_llm_models_allow :: "string list"
  cm_platform_min :: "string option"
  cm_notes :: "string option"

datatype idempo_kind = Keyed | NotKeyed

datatype concurrency_kind = Serial | Parallel

type_synonym root_schema = json

record manifest =
  mf_id :: tool_id
  mf_version :: string
  mf_display_name :: string
  mf_description :: string
  mf_tags :: "string list"
  mf_input_schema :: root_schema
  mf_output_schema :: root_schema
  mf_scopes :: "scope list"
  mf_capabilities :: "capability_decl list"
  mf_side_effect :: tool_side
  mf_safety_class :: tool_safety
  mf_consent :: consent_policy
  mf_limits :: tool_limits
  mf_idempotency :: idempo_kind
  mf_concurrency :: concurrency_kind
  mf_metadata :: json
  mf_compat :: compat_matrix
  mf_deprecated :: bool

record schema_ops =
  sch_serialize :: "root_schema \<Rightarrow> string + json"
  sch_compile :: "json \<Rightarrow> string option"
  sch_errors :: "json \<Rightarrow> json \<Rightarrow> string list option"

fun contains_str :: "string \<Rightarrow> string \<Rightarrow> bool" where
  "contains_str [] t = (t = [])"
| "contains_str (c # s) t = (starts_with (c # s) t \<or> contains_str s t)"

definition validate_tool_id :: "tool_id \<Rightarrow> unit tool_result" where
  "validate_tool_id tid =
     (if tid = [] then Err (tool_invalid_manifest ''tool id must not be empty'')
      else if \<not> list_all (\<lambda>c. is_alnum c \<or> c = CHR ''.'' \<or> c = CHR ''-'' \<or> c = CHR ''_'') tid
      then Err (tool_invalid_manifest ''tool id must contain only [a-zA-Z0-9._-]'')
      else if length (filter (\<lambda>c. c = CHR ''.'') tid) < 2
      then Err (tool_invalid_manifest ''tool id must follow <group>.<pkg>.<name>'')
      else Ok ())"

definition validate_alignment :: "manifest \<Rightarrow> unit tool_result" where
  "validate_alignment mf =
     (let cap_domains = set (map cd_domain (mf_capabilities mf)) in
      if ''fs'' \<in> cap_domains then
        let has_write_cap =
              list_ex (\<lambda>c. cd_domain c = ''fs'' \<and> contains_str (cd_action c) ''write'') (mf_capabilities mf)
        in if has_write_cap \<and> \<not> list_ex (\<lambda>s. sc_action s = ''write'') (mf_scopes mf)
           then Err (tool_invalid_manifest ''fs write capability requires write scope'')
           else Ok ()
      else Ok ())"

definition compile_schema :: "schema_ops \<Rightarrow> root_schema \<Rightarrow> unit tool_result" where
  "compile_schema sch schema =
     (case sch_serialize sch schema of
        Inl err \<Rightarrow> Err (tool_invalid_manifest (''serialize schema failed: '' @ err))
      | Inr value \<Rightarrow>
          (case sch_compile sch value of
             Some err \<Rightarrow> Err (tool_invalid_manifest (''compile schema failed: '' @ err))
           | None \<Rightarrow> Ok ()))"

text \<open>With the feature \<open>schema-json\<close>, the default: the schema compiles; the trial validation is dropped.\<close>

definition validate_schema :: "schema_ops \<Rightarrow> root_schema \<Rightarrow> unit tool_result" where
  "validate_schema sch schema = and_then (compile_schema sch schema) (\<lambda>_. Ok ())"

definition validate_manifest :: "schema_ops \<Rightarrow> manifest \<Rightarrow> unit tool_result" where
  "validate_manifest sch mf =
     and_then (validate_tool_id (mf_id mf)) (\<lambda>_.
     and_then (if mf_safety_class mf = TLow \<and> mf_side_effect mf \<in> {TWrite, TProcess}
               then Err (tool_invalid_manifest ''write/process side effect requires safety>=Medium'')
               else Ok ()) (\<lambda>_.
     and_then (if mf_safety_class mf = THigh \<and> \<not> cp_required (mf_consent mf)
               then Err (tool_invalid_manifest ''safety=High tools must require consent'')
               else Ok ()) (\<lambda>_.
     and_then (if mf_capabilities mf = []
               then Err (tool_invalid_manifest ''capabilities must not be empty'')
               else Ok ()) (\<lambda>_.
     and_then (validate_alignment mf) (\<lambda>_.
     and_then (validate_schema sch (mf_input_schema mf)) (\<lambda>_.
     validate_schema sch (mf_output_schema mf)))))))"

section \<open>Mapping to the sandbox\<close>

definition decl_to_capability :: "capability_decl \<Rightarrow> capability option" where
  "decl_to_capability decl =
     (if cd_domain decl = ''fs'' then
        if cd_action decl = ''read'' then Some (FsRead (cd_resource decl))
        else if cd_action decl = ''write'' then Some (FsWrite (cd_resource decl) False)
        else if cd_action decl = ''list'' then Some (FsList (cd_resource decl))
        else None
      else if cd_domain decl = ''net.http'' then
        Some (NetHttp (cd_resource decl) None (Some ''https'') [to_upper (cd_action decl)])
      else if cd_domain decl = ''tmp'' then Some TmpUse
      else if cd_domain decl = ''browser'' then Some (BrowserUse (cd_resource decl))
      else if cd_domain decl = ''proc'' then Some (ProcExec (cd_resource decl))
      else None)"

definition manifest_to_capabilities :: "manifest \<Rightarrow> capability list" where
  "manifest_to_capabilities mf = List.map_filter decl_to_capability (mf_capabilities mf)"

definition get_str :: "string \<Rightarrow> json \<Rightarrow> string option" where
  "get_str k args = Option.bind (json_get k args) as_str"

definition get_u64 :: "string \<Rightarrow> json \<Rightarrow> 64 word option" where
  "get_u64 k args = Option.bind (json_get k args) as_u64"

definition plan_http :: "string \<Rightarrow> json \<Rightarrow> exec_op tool_result" where
  "plan_http meth args =
     and_then (ok_or (tool_schema ''missing field: url'') (get_str ''url'' args)) (\<lambda>url.
     let headers = (case json_get ''headers'' args of Some h \<Rightarrow> h | None \<Rightarrow> JObj []);
         body = get_str ''body_b64'' args
     in Ok (OpNetHttp (to_upper meth) url headers body))"

definition plan_fs_read :: "json \<Rightarrow> exec_op tool_result" where
  "plan_fs_read args =
     and_then (ok_or (tool_schema ''missing field: path'') (get_str ''path'' args)) (\<lambda>path.
     Ok (OpFsRead path (get_u64 ''offset'' args) (get_u64 ''len'' args)))"

definition plan_fs_write :: "json \<Rightarrow> exec_op tool_result" where
  "plan_fs_write args =
     and_then (ok_or (tool_schema ''missing field: path'') (get_str ''path'' args)) (\<lambda>path.
     and_then (ok_or (tool_schema ''missing field: content_b64'') (get_str ''content_b64'' args)) (\<lambda>bytes.
     Ok (OpFsWrite path bytes
       (case Option.bind (json_get ''overwrite'' args) as_bool of Some b \<Rightarrow> b | None \<Rightarrow> False))))"

definition plan_tmp :: "json \<Rightarrow> exec_op tool_result" where
  "plan_tmp args =
     Ok (OpTmpAlloc (case get_u64 ''size_bytes'' args of Some n \<Rightarrow> n | None \<Rightarrow> 1024))"

definition plan_decl :: "json \<Rightarrow> capability_decl \<Rightarrow> exec_op list tool_result" where
  "plan_decl args decl =
     (if cd_domain decl = ''net.http'' then and_then (plan_http (cd_action decl) args) (\<lambda>op. Ok [op])
      else if cd_domain decl = ''fs'' then
        if cd_action decl = ''read'' then and_then (plan_fs_read args) (\<lambda>op. Ok [op])
        else if cd_action decl = ''write'' then and_then (plan_fs_write args) (\<lambda>op. Ok [op])
        else Ok []
      else if cd_domain decl = ''tmp'' then and_then (plan_tmp args) (\<lambda>op. Ok [op])
      else Ok [])"

definition plan_exec_ops :: "manifest \<Rightarrow> json \<Rightarrow> exec_op list tool_result" where
  "plan_exec_ops mf args =
     and_then (try_map (plan_decl args) (mf_capabilities mf)) (\<lambda>opss. Ok (concat opss))"

fun infer_capability_kind :: "capability \<Rightarrow> capability_kind" where
  "infer_capability_kind (FsRead _) = KFsRead"
| "infer_capability_kind (FsWrite _ _) = KFsWrite"
| "infer_capability_kind (FsList _) = KFsList"
| "infer_capability_kind (NetHttp _ _ _ _) = KNetHttp"
| "infer_capability_kind (BrowserUse _) = KBrowserUse"
| "infer_capability_kind (ProcExec _) = KProcExec"
| "infer_capability_kind TmpUse = KTmpUse"
| "infer_capability_kind (SysGpu _) = KSysGpu"

section \<open>What is planned\<close>

lemma infer_capability_kind_eq: "infer_capability_kind cap = cap_kind cap"
  by (cases cap) simp_all

text \<open>Only HTTP requests, file reads and writes and allocations are ever planned.\<close>

fun op_declared :: "exec_op \<Rightarrow> capability_decl \<Rightarrow> bool" where
  "op_declared (OpNetHttp meth _ _ _) decl \<longleftrightarrow>
     decl_to_capability decl = Some (NetHttp (cd_resource decl) None (Some ''https'') [meth])"
| "op_declared (OpFsRead _ _ _) decl \<longleftrightarrow> decl_to_capability decl = Some (FsRead (cd_resource decl))"
| "op_declared (OpFsWrite _ _ _) decl \<longleftrightarrow> decl_to_capability decl = Some (FsWrite (cd_resource decl) False)"
| "op_declared (OpTmpAlloc _) decl \<longleftrightarrow> decl_to_capability decl = Some TmpUse"
| "op_declared _ decl \<longleftrightarrow> False"

lemma plan_decl_kinds: "plan_decl args decl = Ok ops \<Longrightarrow> op \<in> set ops \<Longrightarrow> op_declared op decl"
  by (auto simp: plan_decl_def decl_to_capability_def plan_http_def plan_fs_read_def
      plan_fs_write_def plan_tmp_def Let_def split: if_splits)

lemma plan_exec_ops_kinds:
  assumes "plan_exec_ops mf args = Ok ops" and "op \<in> set ops"
  shows "\<exists>decl \<in> set (mf_capabilities mf). \<exists>part.
    plan_decl args decl = Ok part \<and> op \<in> set part"
proof -
  obtain opss where opss: "try_map (plan_decl args) (mf_capabilities mf) = Ok opss" "ops = concat opss"
    using assms(1) by (auto simp: plan_exec_ops_def)
  then have "list_all2 (\<lambda>decl part. plan_decl args decl = Ok part) (mf_capabilities mf) opss"
    by (simp add: try_map_ok)
  then show ?thesis
    using assms(2) opss(2) by (auto simp: list_all2_conv_all_nth in_set_conv_nth) (metis nth_mem)
qed

lemma manifest_capability_member:
  "cap \<in> set (manifest_to_capabilities mf) \<longleftrightarrow>
     (\<exists>decl \<in> set (mf_capabilities mf). decl_to_capability decl = Some cap)"
  by (force simp: manifest_to_capabilities_def List.map_filter_def)

end
