(* ===== verification/ToolRegistry.thy ===== *)
theory ToolRegistry
  imports ToolModel KeyedStore
begin

text \<open>
  The tool registry (\<open>registry.rs\<close>): records by tool id with their lifecycle state,
  the specifications it offers and the list filters.  A listing takes the order in which the
  hash map yields its keys.
\<close>

datatype tool_state = ToolRegistered | ToolEnabled | ToolPaused | ToolDeprecated

record registry_record =
  rr_manifest :: manifest
  rr_state :: tool_state
  rr_created_at :: int
  rr_updated_at :: int
  rr_policy_hash :: string
  rr_visible_to_llm :: bool
  rr_config_version :: "string option"
  rr_config_hash :: "string option"

record available_spec =
  as_manifest :: manifest
  as_policy_hash :: string
  as_enabled :: bool
  as_visible_to_llm :: bool
  as_safety_class :: tool_safety
  as_side_effect :: tool_side
  as_config_version :: "string option"
  as_config_hash :: "string option"

record list_filter =
  lf_tags :: "string list"
  lf_safety_le :: "tool_safety option"
  lf_side_effect_in :: "tool_side list"
  lf_text :: "string option"
  lf_visible_only :: bool

type_synonym registry = "tool_id \<Rightarrow> registry_record option"

definition registry_convert :: "registry_record \<Rightarrow> available_spec" where
  "registry_convert rr =
     \<lparr>as_manifest = rr_manifest rr, as_policy_hash = rr_policy_hash rr,
      as_enabled = (rr_state rr = ToolEnabled),
      as_visible_to_llm = (rr_visible_to_llm rr \<and> rr_state rr = ToolEnabled \<and>
                            \<not> mf_deprecated (rr_manifest rr)),
      as_safety_class = mf_safety_class (rr_manifest rr),
      as_side_effect = mf_side_effect (rr_manifest rr),
      as_config_version = rr_config_version rr, as_config_hash = rr_config_hash rr\<rparr>"

definition registry_register ::
  "schema_ops \<Rightarrow> int \<Rightarrow> manifest \<Rightarrow> registry \<Rightarrow> registry \<times> unit tool_result" where
  "registry_register sch now mf r =
     and_do (r, validate_manifest sch mf) (\<lambda>_ r.
       if r (mf_id mf) \<noteq> None then (r, Err (tool_invalid_manifest ''tool already exists''))
       else (r(mf_id mf \<mapsto> \<lparr>rr_manifest = mf, rr_state = ToolEnabled, rr_created_at = now,
                rr_updated_at = now, rr_policy_hash = ''policy:default'', rr_visible_to_llm = True,
                rr_config_version = None, rr_config_hash = None\<rparr>), Ok ()))"

text \<open>The record of a tool that is registered, changed in place.\<close>

definition with_record ::
  "tool_id \<Rightarrow> (registry_record \<Rightarrow> registry_record) \<Rightarrow> registry \<Rightarrow> registry \<times> unit tool_result" where
  "with_record tid f r =
     (case r tid of
        None \<Rightarrow> (r, Err (tool_not_found ''tool not registered''))
      | Some rr \<Rightarrow> (r(tid \<mapsto> f rr), Ok ()))"

definition registry_update ::
  "schema_ops \<Rightarrow> int \<Rightarrow> manifest \<Rightarrow> registry \<Rightarrow> registry \<times> unit tool_result" where
  "registry_update sch now mf r =
     and_do (r, validate_manifest sch mf) (\<lambda>_ r.
       with_record (mf_id mf) (\<lambda>rr. rr\<lparr>rr_manifest := mf, rr_updated_at := now\<rparr>) r)"

definition registry_set_state ::
  "int \<Rightarrow> tool_id \<Rightarrow> tool_state \<Rightarrow> registry \<Rightarrow> registry \<times> unit tool_result" where
  "registry_set_state now tid st r =
     with_record tid (\<lambda>rr. rr\<lparr>rr_state := st, rr_updated_at := now\<rparr>) r"

definition registry_update_policy ::
  "int \<Rightarrow> tool_id \<Rightarrow> string option \<Rightarrow> bool option \<Rightarrow> registry \<Rightarrow> registry \<times> unit tool_result" where
  "registry_update_policy now tid policy_hash visible r =
     with_record tid (\<lambda>rr. rr\<lparr>
       rr_policy_hash := (case policy_hash of Some h \<Rightarrow> h | None \<Rightarrow> rr_policy_hash rr),
       rr_visible_to_llm := (case visible of Some v \<Rightarrow> v | None \<Rightarrow> rr_visible_to_llm rr),
       rr_updated_at := now\<rparr>) r"

definition registry_update_fingerprint ::
  "int \<Rightarrow> tool_id \<Rightarrow> string option \<Rightarrow> string option \<Rightarrow> registry \<Rightarrow> registry \<times> unit tool_result" where
  "registry_update_fingerprint now tid version hash r =
     with_record tid (\<lambda>rr. rr\<lparr>rr_config_version := version, rr_config_hash := hash,
       rr_updated_at := now\<rparr>) r"

definition registry_get :: "tool_id \<Rightarrow> tenant_id \<Rightarrow> registry \<Rightarrow> available_spec option" where
  "registry_get tid tenant r = map_option registry_convert (r tid)"

definition filter_accepts :: "list_filter \<Rightarrow> available_spec \<Rightarrow> bool" where
  "filter_accepts f spec =
     (if \<not> as_enabled spec then False
      else if lf_visible_only f \<and> \<not> as_visible_to_llm spec then False
      else if (case lf_safety_le f of
                 Some safety \<Rightarrow> tool_safety_rank (as_safety_class spec) > tool_safety_rank safety
               | None \<Rightarrow> False) then False
      else if lf_side_effect_in f \<noteq> [] \<and> as_side_effect spec \<notin> set (lf_side_effect_in f) then False
      else if (case lf_text f of
                 Some text \<Rightarrow> \<not> contains_str (mf_display_name (as_manifest spec)) text \<and>
                              \<not> contains_str (mf_description (as_manifest spec)) text
               | None \<Rightarrow> False) then False
      else if lf_tags f \<noteq> [] \<and> \<not> list_all (\<lambda>tag. tag \<in> set (mf_tags (as_manifest spec))) (lf_tags f)
      then False
      else True)"

definition registry_list :: "tool_id list \<Rightarrow> tenant_id \<Rightarrow> list_filter \<Rightarrow> registry \<Rightarrow> available_spec list" where
  "registry_list ks tenant f r = filter (filter_accepts f) (map registry_convert (map_values ks r))"

section \<open>The operations as steps\<close>

datatype registry_op =
    RegRegister int manifest
  | RegUpdate int manifest
  | RegSetState int tool_id tool_state
  | RegUpdatePolicy int tool_id "string option" "bool option"
  | RegUpdateFingerprint int tool_id "string option" "string option"

fun registry_step :: "schema_ops \<Rightarrow> registry_op \<Rightarrow> registry \<Rightarrow> registry" where
  "registry_step sch (RegRegister now mf) r = fst (registry_register sch now mf r)"
| "registry_step sch (RegUpdate now mf) r = fst (registry_update sch now mf r)"
| "registry_step sch (RegSetState now tid st) r = fst (registry_set_state now tid st r)"
| "registry_step sch (RegUpdatePolicy now tid h v) r = fst (registry_update_policy now tid h v r)"
| "registry_step sch (RegUpdateFingerprint now tid v h) r = fst (registry_update_fingerprint now tid v h r)"

fun registry_key :: "registry_op \<Rightarrow> tool_id" where
  "registry_key (RegRegister now mf) = mf_id mf"
| "registry_key (RegUpdate now mf) = mf_id mf"
| "registry_key (RegSetState now tid st) = tid"
| "registry_key (RegUpdatePolicy now tid h v) = tid"
| "registry_key (RegUpdateFingerprint now tid v h) = tid"

text \<open>A record holds a manifest that passed validation, under its own id.\<close>

definition record_ok :: "schema_ops \<Rightarrow> tool_id \<Rightarrow> registry_record \<Rightarrow> bool" where
  "record_ok sch tid rr \<longleftrightarrow> mf_id (rr_manifest rr) = tid \<and> validate_manifest sch (rr_manifest rr) = Ok ()"

lemmas registry_op_defs = registry_register_def registry_update_def registry_set_state_def
  registry_update_policy_def registry_update_fingerprint_def with_record_def

lemma validate_manifest_cases:
  obtains (ok) "validate_manifest sch mf = Ok ()" | (bad) e where "validate_manifest sch mf = Err e"
  by (cases "validate_manifest sch mf") auto

interpretation reg: guarded_store "\<lambda>r k. r k" "registry_step sch" registry_key "record_ok sch" for sch
proof (unfold_locales, goal_cases)
  case (1 x k s)
  then show ?case
    by (cases x; cases rule: validate_manifest_cases[of sch "case x of RegRegister _ m \<Rightarrow> m | RegUpdate _ m \<Rightarrow> m"])
      (auto simp: registry_op_defs split: option.splits)
next
  case (2 s x v')
  then show ?case
    by (cases x; cases rule: validate_manifest_cases[of sch "case x of RegRegister _ m \<Rightarrow> m | RegUpdate _ m \<Rightarrow> m"])
      (auto simp: registry_op_defs record_ok_def split: option.splits if_splits)
qed

section \<open>Properties\<close>

lemma validate_manifest_safety:
  "validate_manifest sch mf = Ok () \<Longrightarrow>
     (mf_side_effect mf \<in> {TWrite, TProcess} \<longrightarrow> mf_safety_class mf \<noteq> TLow) \<and>
     (mf_safety_class mf = THigh \<longrightarrow> cp_required (mf_consent mf)) \<and>
     mf_capabilities mf \<noteq> [] \<and>
     (\<forall>c \<in> set (mf_capabilities mf). cd_domain c = ''fs'' \<and> contains_str (cd_action c) ''write'' \<longrightarrow>
        (\<exists>s \<in> set (mf_scopes mf). sc_action s = ''write''))"
  by (auto simp: validate_manifest_def validate_alignment_def Let_def list_ex_iff split: if_splits)
    (metis rev_image_eqI)+

text \<open>
  The registry keeps only valid tools.  After any sequence of operations on an empty
  registry, whatever the arguments, every listed or looked-up tool has a manifest that passes validation under
  the id it is stored by: a tool that writes or runs processes is at least of medium safety, a
  high-safety tool requires consent, one that writes files has a write scope.  A listing holds enabled tools
  only, and a tool shown to the model is enabled and not deprecated.
\<close>

theorem registry_tools_valid:
  assumes "registry_get tid tenant (fold (registry_step sch) ops Map.empty) = Some spec"
  shows "mf_id (as_manifest spec) = tid \<and> validate_manifest sch (as_manifest spec) = Ok () \<and>
    (mf_side_effect (as_manifest spec) \<in> {TWrite, TProcess} \<longrightarrow> mf_safety_class (as_manifest spec) \<noteq> TLow) \<and>
    (mf_safety_class (as_manifest spec) = THigh \<longrightarrow> cp_required (mf_consent (as_manifest spec))) \<and>
    (as_visible_to_llm spec \<longrightarrow> as_enabled spec \<and> \<not> mf_deprecated (as_manifest spec)) \<and>
    (\<forall>ks f. iter_order ks (fold (registry_step sch) ops Map.empty) \<longrightarrow>
       (spec \<in> set (registry_list ks tenant f (fold (registry_step sch) ops Map.empty)) \<longleftrightarrow>
          filter_accepts f spec) \<and> (filter_accepts f spec \<longrightarrow> as_enabled spec))"
proof -
  let ?r = "fold (registry_step sch) ops Map.empty"
  obtain rr where rr: "?r tid = Some rr" "spec = registry_convert rr"
    using assms by (auto simp: registry_get_def)
  have ok: "record_ok sch tid rr"
    using reg.run_ok[of Map.empty sch ops] rr(1) by auto
  then have "mf_id (as_manifest spec) = tid \<and> validate_manifest sch (as_manifest spec) = Ok ()"
    using rr by (simp add: record_ok_def registry_convert_def)
  moreover have "as_visible_to_llm spec \<longrightarrow> as_enabled spec \<and> \<not> mf_deprecated (as_manifest spec)"
    using rr by (simp add: registry_convert_def)
  moreover have "spec \<in> set (registry_list ks tenant f ?r) \<longleftrightarrow> filter_accepts f spec"
    if "iter_order ks ?r" for ks f
    using that rr by (force simp: registry_list_def map_values_ran ran_def)
  moreover have "filter_accepts f spec \<longrightarrow> as_enabled spec" for f
    by (simp add: filter_accepts_def)
  ultimately show ?thesis
    using validate_manifest_safety[of sch "as_manifest spec"] by blast
qed

definition demo_tool :: manifest where
  "demo_tool = \<lparr>mf_id = ''a.b.read'', mf_version = ''1.0.0'', mf_display_name = ''Reader'',
     mf_description = ''reads'', mf_tags = [], mf_input_schema = JObj [], mf_output_schema = JObj [],
     mf_scopes = [], mf_capabilities = [\<lparr>cd_domain = ''fs'', cd_action = ''read'', cd_resource = ''/data'',
       cd_attrs = JNull\<rparr>], mf_side_effect = TRead, mf_safety_class = TLow,
     mf_consent = consent_policy_default, mf_limits = tool_limits_default, mf_idempotency = Keyed,
     mf_concurrency = Serial, mf_metadata = JNull,
     mf_compat = \<lparr>cm_llm_models_allow = [], cm_platform_min = None, cm_notes = None\<rparr>, mf_deprecated = False\<rparr>"

definition demo_schema :: schema_ops where
  "demo_schema = \<lparr>sch_serialize = Inr, sch_compile = (\<lambda>_. None), sch_errors = (\<lambda>_ _. None)\<rparr>"

lemma demo_tool_valid: "validate_manifest demo_schema demo_tool = Ok ()"
  by (simp add: validate_manifest_def demo_tool_def validate_tool_id_def is_alnum_def
      validate_alignment_def contains_str.simps starts_with_def compile_schema_def validate_schema_def demo_schema_def Let_def)

theorem registry_tools_valid_witness:
  "\<exists>spec. registry_get ''a.b.read'' ''t''
     (fold (registry_step demo_schema) [RegRegister 0 demo_tool] Map.empty) = Some spec \<and>
     mf_id (as_manifest spec) = ''a.b.read''"
proof -
  have "mf_id demo_tool = ''a.b.read''"
    by (simp add: demo_tool_def)
  then obtain spec where "registry_get ''a.b.read'' ''t''
      (fold (registry_step demo_schema) [RegRegister 0 demo_tool] Map.empty) = Some spec"
    by (simp add: registry_register_def demo_tool_valid registry_get_def)
  with registry_tools_valid[OF this] show ?thesis
    by blast
qed

end
