(* ===== verification/ToolPreflight.thy ===== *)
theory ToolPreflight
  imports ToolRegistry
begin

text \<open>
  The preflight of a tool call (\<open>preflight.rs\<close>): availability, idempotency key,
  visibility, argument schema, consent, authorisation, planning, and the sandbox profile the
  call will run under.  The authorisation provider, the schema crates and the clock are parameters.
\<close>

datatype tool_origin = OriginLlm | OriginApi | OriginSystem

record tool_call =
  tc_tool_id :: tool_id
  tc_call_id :: id
  tc_actor :: subject
  tc_tenant :: tenant_id
  tc_origin :: tool_origin
  tc_args :: json
  tc_consent :: "consent option"
  tc_idempotency_key :: "string option"

record config_fingerprint =
  fp_version :: "string option"
  fp_hash :: "string option"

definition fingerprint_default :: config_fingerprint where
  "fingerprint_default = \<lparr>fp_version = None, fp_hash = None\<rparr>"

definition fingerprint_is_empty :: "config_fingerprint \<Rightarrow> bool" where
  "fingerprint_is_empty fp \<longleftrightarrow> fp_version fp = None \<and> fp_hash fp = None"

definition fingerprint_of_snapshot :: "string \<Rightarrow> string \<Rightarrow> config_fingerprint" where
  "fingerprint_of_snapshot version checksum =
     \<lparr>fp_version = (if version \<noteq> [] then Some version else None),
      fp_hash = (if checksum \<noteq> [] then Some checksum else None)\<rparr>"

text \<open>The providers of the fingerprint: none, or a fixed one, also that of a snapshot.\<close>

definition noop_config_current :: "config_fingerprint option" where
  "noop_config_current = None"

definition static_config_current :: "config_fingerprint option \<Rightarrow> config_fingerprint option" where
  "static_config_current fingerprint = fingerprint"

definition static_config_from_snapshot :: "string \<Rightarrow> string \<Rightarrow> config_fingerprint option" where
  "static_config_from_snapshot version checksum = Some (fingerprint_of_snapshot version checksum)"

record preflight_plan =
  pp_spec :: available_spec
  pp_sandbox_manifest :: tool_manifest
  pp_grant :: grant
  pp_policy :: policy_config
  pp_profile :: profile
  pp_obligations :: "obligation list"
  pp_budget_snapshot :: json
  pp_planned_ops :: "exec_op list"
  pp_config_version :: "string option"
  pp_config_hash :: "string option"

record preflight_output =
  po_allow :: bool
  po_reason :: "string option"
  po_error_code :: "string option"
  po_plan :: "preflight_plan option"

definition denied_with_code :: "string \<Rightarrow> string \<Rightarrow> preflight_output" where
  "denied_with_code reason code =
     \<lparr>po_allow = False, po_reason = Some reason, po_error_code = Some code, po_plan = None\<rparr>"

definition preflight_allowed :: "preflight_plan \<Rightarrow> preflight_output" where
  "preflight_allowed plan =
     \<lparr>po_allow = True, po_reason = None, po_error_code = None, po_plan = Some plan\<rparr>"

record auth_decision =
  ad_allowed :: bool
  ad_obligations :: "obligation list"
  ad_reason :: "string option"
  ad_error_code :: "string option"

definition allow_all_auth :: "tool_call \<Rightarrow> available_spec \<Rightarrow> auth_decision tool_result" where
  "allow_all_auth call spec =
     Ok \<lparr>ad_allowed = True, ad_obligations = [], ad_reason = None, ad_error_code = None\<rparr>"

record preflight_metric =
  pm_tenant :: tenant_id
  pm_tool :: tool_id
  pm_origin :: tool_origin
  pm_allow :: bool
  pm_code :: "string option"

record preflight_env =
  pv_auth :: "tool_call \<Rightarrow> available_spec \<Rightarrow> auth_decision tool_result"
  pv_config :: "config_fingerprint option"
  pv_schema :: schema_ops
  pv_profile_digest :: "profile \<Rightarrow> string"
  pv_policy_digest :: "policy_config \<Rightarrow> string option"
  pv_json_bytes :: "json \<Rightarrow> string"
  pv_now :: int

type_synonym preflight_state = "registry \<times> preflight_metric list"

section \<open>Checks\<close>

type_synonym consent_failure = "string \<times> string"

definition tool_ensure_consent :: "int \<Rightarrow> manifest \<Rightarrow> tool_call \<Rightarrow> consent_failure + unit" where
  "tool_ensure_consent now_ms mf call =
     (if \<not> cp_required (mf_consent mf) then Ok ()
      else and_then (ok_or (''consent required'', code_str AUTH_FORBIDDEN) (tc_consent call)) (\<lambda>consent.
        and_then
          (case expires_at consent of
             None \<Rightarrow> Ok ()
           | Some exp \<Rightarrow>
               if exp < now_ms then Err (''consent expired'', code_str AUTH_FORBIDDEN)
               else (case cp_max_ttl_ms (mf_consent mf) of
                       Some max_ttl \<Rightarrow>
                         if i64_sub exp now_ms > sint max_ttl
                         then Err (''consent ttl exceeds policy'', code_str AUTH_FORBIDDEN) else Ok ()
                     | None \<Rightarrow> Ok ())) (\<lambda>_.
        if mf_scopes mf \<noteq> [] \<and>
           \<not> set (map (\<lambda>s. (sc_resource s, sc_action s)) (mf_scopes mf))
               \<subseteq> set (map (\<lambda>s. (sc_resource s, sc_action s)) (scopes consent))
        then Err (''consent scopes insufficient'', code_str AUTH_FORBIDDEN) else Ok ())))"

definition validate_against ::
  "schema_ops \<Rightarrow> string \<Rightarrow> string \<Rightarrow> root_schema \<Rightarrow> json \<Rightarrow> unit tool_result" where
  "validate_against sch serialize_label validation_label schema v =
     (case sch_serialize sch schema of
        Inl err \<Rightarrow> Err (tool_schema (''serialize '' @ serialize_label @ '' schema failed: '' @ err))
      | Inr schema_json \<Rightarrow>
          (case sch_compile sch schema_json of
             Some err \<Rightarrow> Err (tool_schema (''compile '' @ serialize_label @ '' schema failed: '' @ err))
           | None \<Rightarrow>
               (case sch_errors sch schema_json v of
                  Some messages \<Rightarrow>
                    Err (tool_schema (validation_label @ join_with ''; '' messages))
                | None \<Rightarrow> Ok ())))"

definition validate_args :: "schema_ops \<Rightarrow> root_schema \<Rightarrow> json \<Rightarrow> unit tool_result" where
  "validate_args sch schema v =
     validate_against sch ''input'' ''input schema validation failed: '' schema v"

section \<open>What the sandbox is given\<close>

definition build_grant :: "tool_call \<Rightarrow> manifest \<Rightarrow> grant" where
  "build_grant call mf =
     \<lparr>gr_tenant = tc_tenant call, gr_subject_id = subject_id (tc_actor call), gr_tool_name = mf_id mf,
      gr_call_id = tc_call_id call, gr_capabilities = manifest_to_capabilities mf, gr_expires_at = 0,
      gr_budget = \<lparr>b_calls = 1, b_bytes_out = tl_max_bytes_out (mf_limits mf),
        b_bytes_in = tl_max_bytes_in (mf_limits mf), b_cpu_ms = 0, b_gpu_ms = 0,
        b_file_count = tl_max_files (mf_limits mf)\<rparr>,
      gr_decision_fingerprint = ''tool-preflight'', gr_consent = tc_consent call\<rparr>"

fun to_sandbox_safety :: "tool_safety \<Rightarrow> safety_class" where
  "to_sandbox_safety TLow = Low"
| "to_sandbox_safety TMedium = Medium"
| "to_sandbox_safety THigh = High"

fun to_sandbox_side :: "tool_side \<Rightarrow> side_effect" where
  "to_sandbox_side TNone = SideNone"
| "to_sandbox_side TRead = SideRead"
| "to_sandbox_side TWrite = SideWrite"
| "to_sandbox_side TNetwork = SideNetwork"
| "to_sandbox_side TFilesystem = SideFilesystem"
| "to_sandbox_side TBrowser = SideBrowser"
| "to_sandbox_side TProcess = SideProcess"

definition sandbox_limits :: "manifest \<Rightarrow> limits" where
  "sandbox_limits mf =
     \<lparr>max_bytes_in = Some (tl_max_bytes_in (mf_limits mf)),
      max_bytes_out = Some (tl_max_bytes_out (mf_limits mf)),
      max_files = Some (tl_max_files (mf_limits mf)), max_depth = Some (tl_max_depth (mf_limits mf)),
      max_concurrency = Some (tl_max_concurrency (mf_limits mf))\<rparr>"

definition whitelist_decl :: "capability_decl \<Rightarrow> whitelists \<times> bool \<Rightarrow> whitelists \<times> bool" where
  "whitelist_decl decl wp =
     (let wl = fst wp in
      if cd_domain decl = ''net.http'' then
        (wl\<lparr>wl_domains := wl_domains wl @ [cd_resource decl],
            wl_methods := wl_methods wl @ [to_upper (cd_action decl)]\<rparr>, True)
      else if cd_domain decl = ''fs'' then (wl\<lparr>wl_paths := wl_paths wl @ [cd_resource decl]\<rparr>, True)
      else if cd_domain decl = ''proc'' then (wl\<lparr>wl_tools := wl_tools wl @ [cd_resource decl]\<rparr>, True)
      else wp)"

definition build_whitelists :: "manifest \<Rightarrow> whitelists option" where
  "build_whitelists mf =
     (let (whitelist, populated) = fold whitelist_decl (mf_capabilities mf) (whitelists_default, False)
      in if populated then Some whitelist else None)"

definition build_policy_config :: "available_spec \<Rightarrow> config_fingerprint \<Rightarrow> policy_config" where
  "build_policy_config spec fp =
     (let mf = as_manifest spec in
      \<lparr>pc_capabilities = manifest_to_capabilities mf,
       pc_safety_class = to_sandbox_safety (mf_safety_class mf),
       pc_side_effects = [to_sandbox_side (mf_side_effect mf)],
       pc_limits = Some (sandbox_limits mf), pc_whitelists = build_whitelists mf,
       pc_mappings = None, pc_timeout_ms = Some (tl_timeout_ms (mf_limits mf)),
       pc_defaults = \<lparr>pd_timeout_ms = None\<rparr>, pc_policy_hash = Some (as_policy_hash spec),
       pc_config_version = fp_version fp, pc_config_hash = fp_hash fp\<rparr>)"

definition to_sandbox_manifest :: "manifest \<Rightarrow> tool_manifest" where
  "to_sandbox_manifest mf =
     \<lparr>tm_name = mf_id mf, tm_version = mf_version mf, tm_capabilities = manifest_to_capabilities mf,
      tm_safety = to_sandbox_safety (mf_safety_class mf),
      tm_side_effects = [to_sandbox_side (mf_side_effect mf)], tm_limits = Some (sandbox_limits mf),
      tm_whitelists = build_whitelists mf, tm_mappings = None,
      tm_timeout_ms = Some (tl_timeout_ms (mf_limits mf)), tm_metadata = mf_metadata mf\<rparr>"

definition budget_snapshot :: "(json \<Rightarrow> string) \<Rightarrow> int \<Rightarrow> json \<Rightarrow> json" where
  "budget_snapshot to_bytes now args =
     obj [(''args_size_bytes'', num (len64 (to_bytes args))), (''timestamp_ms'', int_json now)]"

section \<open>The preflight\<close>

definition record_preflight ::
  "tool_call \<Rightarrow> bool \<Rightarrow> string option \<Rightarrow> preflight_state \<Rightarrow> preflight_state" where
  "record_preflight call allow code s =
     (fst s, snd s @ [\<lparr>pm_tenant = tc_tenant call, pm_tool = tc_tool_id call, pm_origin = tc_origin call,
        pm_allow = allow, pm_code = code\<rparr>])"

definition preflight_deny ::
  "tool_call \<Rightarrow> string \<Rightarrow> string \<Rightarrow> preflight_state
     \<Rightarrow> preflight_state \<times> preflight_output tool_result" where
  "preflight_deny call reason code s =
     (record_preflight call False (Some code) s, Ok (denied_with_code reason code))"

text \<open>An error of the sandbox's builder or guard, as the preflight reports it.\<close>

definition blocked :: "'a sandbox_result \<Rightarrow> 'a tool_result" where
  "blocked r = (case r of
     Inl err \<Rightarrow> Err (tool_sandbox_blocked (pv_message (sx_to_public err))) | Inr a \<Rightarrow> Ok a)"

text \<open>From authorisation on, for an enabled, visible tool whose arguments and consent are good.\<close>

definition preflight_plan_call ::
  "preflight_env \<Rightarrow> tool_call \<Rightarrow> available_spec \<Rightarrow> obligation list \<Rightarrow> preflight_state
     \<Rightarrow> preflight_state \<times> preflight_output tool_result" where
  "preflight_plan_call env call spec obligations s =
     and_do (s, plan_exec_ops (as_manifest spec) (tc_args call)) (\<lambda>planned_ops s.
     and_do (s, if planned_ops = [] then Err (tool_invalid_manifest ''no executable operations planned'')
                else Ok ()) (\<lambda>_ s.
     let fp = (case pv_config env of Some f \<Rightarrow> f | None \<Rightarrow> fingerprint_default) in
     and_do (if fingerprint_is_empty fp then (s, Ok spec)
             else let (r, res) = registry_update_fingerprint (pv_now env) (mf_id (as_manifest spec))
                        (fp_version fp) (fp_hash fp) (fst s)
                  in and_do ((r, snd s), res) (\<lambda>_ s.
                     (s, Ok (spec\<lparr>as_config_version := fp_version fp, as_config_hash := fp_hash fp\<rparr>))))
       (\<lambda>spec s.
     let sandbox_manifest = to_sandbox_manifest (as_manifest spec);
         grant = build_grant call (as_manifest spec);
         policy = build_policy_config spec fp
     in and_do (s, blocked (build_profile (pv_profile_digest env) (pv_policy_digest env)
                     grant sandbox_manifest policy)) (\<lambda>pf s.
     and_do (s, try_each (\<lambda>cap. blocked (guard_validate pf cap))
                  (manifest_to_capabilities (as_manifest spec))) (\<lambda>_ s.
     (record_preflight call True None s,
      Ok (preflight_allowed
        \<lparr>pp_spec = spec, pp_sandbox_manifest = sandbox_manifest, pp_grant = grant, pp_policy = policy,
         pp_profile = pf, pp_obligations = obligations,
         pp_budget_snapshot = budget_snapshot (pv_json_bytes env) (pv_now env) (tc_args call),
         pp_planned_ops = planned_ops, pp_config_version = fp_version fp,
         pp_config_hash = fp_hash fp\<rparr>)))))))"

definition preflight ::
  "preflight_env \<Rightarrow> tool_call \<Rightarrow> preflight_state \<Rightarrow> preflight_state \<times> preflight_output tool_result" where
  "preflight env call s =
     (case registry_get (tc_tool_id call) (tc_tenant call) (fst s) of
        None \<Rightarrow> preflight_deny call ''tool not available'' (code_str POLICY_DENY_TOOL) s
      | Some spec \<Rightarrow>
          if \<not> as_enabled spec then preflight_deny call ''tool disabled'' (code_str POLICY_DENY_TOOL) s
          else if mf_idempotency (as_manifest spec) = Keyed \<and> tc_idempotency_key call = None then
            preflight_deny call ''idempotency key required'' (code_str POLICY_DENY_TOOL) s
          else if tc_origin call = OriginLlm \<and> \<not> as_visible_to_llm spec then
            preflight_deny call ''tool not visible to LLM'' (code_str POLICY_DENY_TOOL) s
          else
            and_do (s, validate_args (pv_schema env) (mf_input_schema (as_manifest spec)) (tc_args call))
              (\<lambda>_ s.
            case tool_ensure_consent (pv_now env) (as_manifest spec) call of
              Inl (reason, code) \<Rightarrow> preflight_deny call reason code s
            | Inr _ \<Rightarrow>
                and_do (s, pv_auth env call spec) (\<lambda>dec s.
                  if \<not> ad_allowed dec then
                    preflight_deny call
                      (case ad_reason dec of Some r \<Rightarrow> r | None \<Rightarrow> ''denied'')
                      (case ad_error_code dec of Some c \<Rightarrow> c | None \<Rightarrow> code_str AUTH_FORBIDDEN) s
                  else preflight_plan_call env call spec (ad_obligations dec) s)))"

section \<open>Properties\<close>

lemma tool_ensure_consent_Ok:
  "tool_ensure_consent now mf call = Ok u \<longleftrightarrow> (cp_required (mf_consent mf) \<longrightarrow>
     (\<exists>c. tc_consent call = Some c \<and>
        (\<forall>t. expires_at c = Some t \<longrightarrow> now \<le> t \<and>
           (\<forall>m. cp_max_ttl_ms (mf_consent mf) = Some m \<longrightarrow> i64_sub t now \<le> sint m)) \<and>
        (\<forall>sc \<in> set (mf_scopes mf). \<exists>g \<in> set (scopes c).
           sc_resource g = sc_resource sc \<and> sc_action g = sc_action sc)))"
proof (cases "tc_consent call")
  case None
  then show ?thesis by (simp add: tool_ensure_consent_def)
next
  case (Some c)
  have scopes: "set (map (\<lambda>s. (sc_resource s, sc_action s)) (mf_scopes mf))
      \<subseteq> set (map (\<lambda>s. (sc_resource s, sc_action s)) (scopes c)) \<longleftrightarrow>
    (\<forall>sc \<in> set (mf_scopes mf). \<exists>g \<in> set (scopes c). sc_resource g = sc_resource sc \<and> sc_action g = sc_action sc)"
    by (auto simp: image_subset_iff image_iff) metis+
  show ?thesis
  proof (cases "expires_at c")
    case None
    then show ?thesis
      using Some scopes by (auto simp: tool_ensure_consent_def)
  next
    case (Some t)
    then show ?thesis
      using \<open>tc_consent call = Some c\<close> scopes
      by (cases "cp_max_ttl_ms (mf_consent mf)") (auto simp: tool_ensure_consent_def not_less)
  qed
qed

lemma blocked_Ok [simp]: "blocked r = Ok a \<longleftrightarrow> r = Ok a"
  by (cases r) (auto simp: blocked_def)

lemma blocked_Inr [simp]: "blocked (Ok a) = Ok a"
  by simp

lemma build_profile_who:
  "build_profile pd qd grant manifest policy = Ok pf \<Longrightarrow>
     pf_tenant pf = gr_tenant grant \<and> pf_subject_id pf = gr_subject_id grant"
  by (auto simp: build_profile_def Let_def split: if_splits)

lemma preflight_plan_call_Ok:
  assumes "preflight_plan_call env call spec obls s = (s', Ok out)"
  shows "\<exists>plan. out = preflight_allowed plan \<and> snd s' = snd s @ [\<lparr>pm_tenant = tc_tenant call,
      pm_tool = tc_tool_id call, pm_origin = tc_origin call, pm_allow = True, pm_code = None\<rparr>] \<and>
    plan_exec_ops (as_manifest spec) (tc_args call) = Ok (pp_planned_ops plan) \<and> pp_planned_ops plan \<noteq> [] \<and>
    as_manifest (pp_spec plan) = as_manifest spec \<and> pp_obligations plan = obls \<and>
    pp_grant plan = build_grant call (as_manifest spec) \<and>
    pp_sandbox_manifest plan = to_sandbox_manifest (as_manifest spec) \<and>
    build_profile (pv_profile_digest env) (pv_policy_digest env) (pp_grant plan) (pp_sandbox_manifest plan)
      (pp_policy plan) = Ok (pp_profile plan) \<and>
    (\<forall>cap \<in> set (manifest_to_capabilities (as_manifest spec)). guard_validate (pp_profile plan) cap = Ok ())"
  using assms
  by (auto simp: preflight_plan_call_def and_do_Ok_iff Let_def try_each_ok record_preflight_def
      split: if_splits prod.splits)

lemma preflight_cases:
  assumes "preflight env call s = (s', Ok out)"
  shows "(\<exists>reason code. preflight_deny call reason code s = (s', Ok out)) \<or>
    (\<exists>spec dec. registry_get (tc_tool_id call) (tc_tenant call) (fst s) = Some spec \<and> as_enabled spec \<and>
       (mf_idempotency (as_manifest spec) = Keyed \<longrightarrow> tc_idempotency_key call \<noteq> None) \<and>
       (tc_origin call = OriginLlm \<longrightarrow> as_visible_to_llm spec) \<and>
       validate_args (pv_schema env) (mf_input_schema (as_manifest spec)) (tc_args call) = Ok () \<and>
       tool_ensure_consent (pv_now env) (as_manifest spec) call = Ok () \<and>
       pv_auth env call spec = Ok dec \<and> ad_allowed dec \<and>
       preflight_plan_call env call spec (ad_obligations dec) s = (s', Ok out))"
proof (cases "registry_get (tc_tool_id call) (tc_tenant call) (fst s)")
  case None
  then show ?thesis
    using assms by (auto simp: preflight_def)
next
  case (Some spec)
  show ?thesis
  proof (cases "tool_ensure_consent (pv_now env) (as_manifest spec) call")
    case (Inl f)
    then show ?thesis
      using assms Some by (cases f) (auto simp: preflight_def and_do_Ok_iff split: if_splits)
  next
    case (Inr u)
    then show ?thesis
      using assms Some by (auto simp: preflight_def and_do_Ok_iff split: if_splits)
  qed
qed


definition demo_call :: tool_call where
  "demo_call = \<lparr>tc_tool_id = ''a.b.read'', tc_call_id = ''c1'', tc_actor = subject_new User ''u'' ''t'',
     tc_tenant = ''t'', tc_origin = OriginApi, tc_args = JObj [(''path'', JStr ''/data/x'')],
     tc_consent = None, tc_idempotency_key = Some ''k''\<rparr>"

definition demo_preflight_env :: preflight_env where
  "demo_preflight_env = \<lparr>pv_auth = allow_all_auth, pv_config = None, pv_schema = demo_schema,
     pv_profile_digest = (\<lambda>_. ''h''), pv_policy_digest = (\<lambda>_. None), pv_json_bytes = (\<lambda>_. []), pv_now = 0\<rparr>"

definition demo_registry :: registry where
  "demo_registry = fst (registry_register demo_schema 0 demo_tool Map.empty)"

lemma demo_registry_get:
  "\<exists>spec. registry_get ''a.b.read'' ''t'' demo_registry = Some spec \<and> as_enabled spec \<and>
     as_manifest spec = demo_tool"
  by (simp add: demo_registry_def registry_register_def demo_tool_valid registry_get_def registry_convert_def)
    (simp add: demo_tool_def)

lemma demo_tool_capabilities:
  "manifest_to_capabilities demo_tool = [FsRead ''/data'']"
  "build_whitelists demo_tool = Some (whitelists_default\<lparr>wl_paths := [''/data'']\<rparr>)"
  by (simp_all add: demo_tool_def manifest_to_capabilities_def decl_to_capability_def List.map_filter_simps
      build_whitelists_def whitelist_decl_def Let_def whitelists_default_def)

lemma demo_plan_ops: "plan_exec_ops demo_tool (tc_args demo_call) = Ok [OpFsRead ''/data/x'' None None]"
  by (simp add: plan_exec_ops_def demo_tool_def demo_call_def plan_decl_def plan_fs_read_def get_str_def
      get_u64_def)


end
