(* ===== verification/ToolInvoker.thy ===== *)
theory ToolInvoker
  imports ToolPreflight
begin

text \<open>
  The tool invoker (\<open>invoker.rs\<close>): idempotent replay, the per-tenant concurrency
  counter, the execution of the planned operations in the sandbox, obligations and output
  validation on the result, events and metrics (\<open>events.rs\<close>, \<open>observe.rs\<close>).
  Setting a value at a JSON pointer is an operation of serde_json and a parameter, as is the
  digest of a value.
\<close>

datatype invoke_status = InvokeOk | InvokeDenied | InvokeError

record invoke_result =
  iv_status :: invoke_status
  iv_error_code :: "string option"
  iv_output :: "json option"
  iv_evidence_ref :: "id option"

definition invoke_ok :: "json \<Rightarrow> id option \<Rightarrow> invoke_result" where
  "invoke_ok output ev =
     \<lparr>iv_status = InvokeOk, iv_error_code = None, iv_output = Some output, iv_evidence_ref = ev\<rparr>"

definition invoke_denied :: "string \<Rightarrow> invoke_result" where
  "invoke_denied reason =
     \<lparr>iv_status = InvokeDenied, iv_error_code = Some reason, iv_output = None, iv_evidence_ref = None\<rparr>"

definition invoke_error :: "string \<Rightarrow> invoke_result" where
  "invoke_error code =
     \<lparr>iv_status = InvokeError, iv_error_code = Some code, iv_output = None, iv_evidence_ref = None\<rparr>"

record invoke_request =
  ir_plan :: preflight_plan
  ir_call :: tool_call

record tool_invoke_begin =
  ib_envelope_id :: id
  ib_tenant :: tenant_id
  ib_subject_id :: id
  ib_tool_id :: tool_id
  ib_tool_version :: string
  ib_call_id :: id
  ib_origin :: tool_origin
  ib_safety :: tool_safety
  ib_side_effect :: tool_side
  ib_profile_hash :: string
  ib_policy_hash :: "string option"
  ib_config_version :: "string option"
  ib_config_hash :: "string option"
  ib_args_digest :: string

record tool_invoke_end =
  ie_envelope_id :: id
  ie_tenant :: tenant_id
  ie_subject_id :: id
  ie_tool_id :: tool_id
  ie_tool_version :: string
  ie_call_id :: id
  ie_origin :: tool_origin
  ie_status :: invoke_status
  ie_error_code :: "string option"
  ie_profile_hash :: string
  ie_policy_hash :: "string option"
  ie_config_version :: "string option"
  ie_config_hash :: "string option"
  ie_args_digest :: string
  ie_output_digest :: "string option"
  ie_side_effects_digest :: "string option"
  ie_budget :: budget
  ie_duration_ms :: int

datatype tool_event = InvokeBegin tool_invoke_begin | InvokeEnd tool_invoke_end

datatype tool_metric =
    RecordInvocation tenant_id tool_id tool_origin invoke_status "string option"
  | RecordBudget tenant_id tool_id tool_origin "64 word" "64 word"

record 'w invoke_env =
  en_sandbox :: "(unit, 'w) sandbox"
  en_ext :: externals
  en_clock :: "nat \<Rightarrow> exec_clock"
  en_schema :: schema_ops
  en_digest :: "json \<Rightarrow> string"
  en_pointer_set :: "string \<Rightarrow> json \<Rightarrow> json \<Rightarrow> json"
  en_elapsed_ms :: int

record 'w invoke_state =
  is_idempotency :: "string \<Rightarrow> invoke_result option"
  is_concurrency :: "string \<Rightarrow> nat option"
  is_events :: "tool_event list"
  is_metrics :: "tool_metric list"
  is_sandbox :: "(unit, 'w) sandbox_state"

section \<open>The concurrency counter\<close>

definition guard_key :: "tool_id \<Rightarrow> tenant_id \<Rightarrow> string" where
  "guard_key tid tenant = tid @ ''::'' @ tenant"

definition guard_lock :: "string \<Rightarrow> (string \<Rightarrow> nat option) \<Rightarrow> (string \<Rightarrow> nat option)" where
  "guard_lock key m = m(key \<mapsto> (case m key of Some n \<Rightarrow> n | None \<Rightarrow> 0) + 1)"

definition guard_drop :: "string \<Rightarrow> (string \<Rightarrow> nat option) \<Rightarrow> (string \<Rightarrow> nat option)" where
  "guard_drop key m =
     (case m key of
        Some n \<Rightarrow> if n \<le> 1 then m(key := None) else m(key \<mapsto> n - 1)
      | None \<Rightarrow> m)"

section \<open>The result\<close>

definition set_paths ::
  "(string \<Rightarrow> json \<Rightarrow> json \<Rightarrow> json) \<Rightarrow> json \<Rightarrow> json \<Rightarrow> json \<Rightarrow> json" where
  "set_paths pointer_set new params v =
     (case as_array params of
        Some paths \<Rightarrow> fold (\<lambda>path. pointer_set path new) (List.map_filter as_str paths) v
      | None \<Rightarrow> v)"

definition apply_obligation ::
  "(string \<Rightarrow> json \<Rightarrow> json \<Rightarrow> json) \<Rightarrow> obligation \<Rightarrow> json \<Rightarrow> json" where
  "apply_obligation pointer_set ob v =
     (if ob_kind ob = ''mask_fields'' then set_paths pointer_set (JStr ''***'') (ob_params ob) v
      else if ob_kind ob = ''drop_fields'' then set_paths pointer_set JNull (ob_params ob) v
      else v)"

definition apply_obligations ::
  "(string \<Rightarrow> json \<Rightarrow> json \<Rightarrow> json) \<Rightarrow> obligation list \<Rightarrow> json \<Rightarrow> json tool_result" where
  "apply_obligations pointer_set obs v = Ok (fold (apply_obligation pointer_set) obs v)"

definition validate_output :: "schema_ops \<Rightarrow> manifest \<Rightarrow> json \<Rightarrow> unit tool_result" where
  "validate_output sch mf v =
     validate_against sch ''output'' ''output schema validation failed: '' (mf_output_schema mf) v"

section \<open>The operations\<close>

record invoke_loop =
  lp_output :: json
  lp_has_output :: bool
  lp_status :: invoke_status
  lp_error_code :: "string option"
  lp_failure :: "tool_error option"
  lp_budget :: budget
  lp_effects :: "side_effect_record list"
  lp_digest :: "string option"
  lp_duration :: int

definition loop_start :: invoke_loop where
  "loop_start = \<lparr>lp_output = JNull, lp_has_output = False, lp_status = InvokeOk, lp_error_code = None,
     lp_failure = None, lp_budget = budget_default, lp_effects = [], lp_digest = None, lp_duration = 0\<rparr>"

definition loop_account :: "evidence_event \<Rightarrow> invoke_loop \<Rightarrow> invoke_loop" where
  "loop_account ev lp =
     (case ev of
        EvEnd e \<Rightarrow>
          lp\<lparr>lp_budget := budget_add_assign (lp_budget lp) (ee_budget_used e),
             lp_effects := lp_effects lp @ ee_side_effects e,
             lp_duration := i64_add (lp_duration lp) (ee_duration_ms e),
             lp_digest := (case ee_outputs_digest e of
                Some d \<Rightarrow> Some (dd_algo d @ '':'' @ dd_b64 d) | None \<Rightarrow> lp_digest lp)\<rparr>
      | EvBegin _ \<Rightarrow> lp)"

definition op_request :: "preflight_plan \<Rightarrow> tool_call \<Rightarrow> nat \<Rightarrow> exec_op \<Rightarrow> execute_request" where
  "op_request plan call idx op =
     \<lparr>rq_grant = pp_grant plan, rq_manifest = pp_sandbox_manifest plan, rq_policy = pp_policy plan,
      rq_op = op, rq_envelope_id = tc_call_id call @ ''#'' @ show_nat idx\<rparr>"

fun run_ops ::
  "'w invoke_env \<Rightarrow> preflight_plan \<Rightarrow> tool_call \<Rightarrow> nat \<Rightarrow> exec_op list \<Rightarrow> invoke_loop
     \<Rightarrow> (unit, 'w) sandbox_state \<Rightarrow> (unit, 'w) sandbox_state \<times> invoke_loop" where
  "run_ops env plan call idx [] lp s = (s, lp)"
| "run_ops env plan call idx (op # ops) lp s =
     (case sandbox_execute (en_ext env) (en_clock env idx) (en_sandbox env)
             (op_request plan call idx op) s of
        (s, Inl err) \<Rightarrow>
          (let public = sx_to_public err in
           (s, lp\<lparr>lp_status := InvokeError, lp_error_code := Some (pv_code public),
                  lp_failure := Some (tool_execution_failed (pv_message public))\<rparr>))
      | (s, Inr outcome) \<Rightarrow>
          (let lp = loop_account (ox_end outcome) lp;
               result = ox_result outcome;
               lp = lp\<lparr>lp_output := er_out result, lp_has_output := True\<rparr>
           in if \<not> er_ok result then
                (s, lp\<lparr>lp_status := InvokeError, lp_error_code := er_code result,
                       lp_failure := Some (tool_execution_failed
                         (case er_message result of Some m \<Rightarrow> m | None \<Rightarrow> ''tool execution failed''))\<rparr>)
              else run_ops env plan call (idx + 1) ops lp s))"

definition finish_output ::
  "'w invoke_env \<Rightarrow> preflight_plan \<Rightarrow> invoke_loop \<Rightarrow> json \<times> invoke_loop" where
  "finish_output env plan lp =
     (let output = (if lp_has_output lp then lp_output lp else JNull) in
      if lp_status lp = InvokeOk then
        case apply_obligations (en_pointer_set env) (pp_obligations plan) output of
          Inl err \<Rightarrow>
            (JNull, lp\<lparr>lp_status := InvokeError, lp_error_code := Some (pv_code (tool_to_public err)),
                       lp_failure := Some err\<rparr>)
        | Inr output \<Rightarrow>
            (case validate_output (en_schema env) (as_manifest (pp_spec plan)) output of
               Inl err \<Rightarrow>
                 (JNull, lp\<lparr>lp_status := InvokeError, lp_error_code := Some (pv_code (tool_to_public err)),
                            lp_failure := Some err\<rparr>)
             | Inr _ \<Rightarrow> (output, lp))
      else (output, lp))"

definition non_empty :: "string option \<Rightarrow> string option" where
  "non_empty h = (case h of Some s \<Rightarrow> if s \<noteq> [] then Some s else None | None \<Rightarrow> None)"

definition begin_event :: "'w invoke_env \<Rightarrow> preflight_plan \<Rightarrow> tool_call \<Rightarrow> tool_invoke_begin" where
  "begin_event env plan call =
     (let mf = as_manifest (pp_spec plan) in
      \<lparr>ib_envelope_id = tc_call_id call, ib_tenant = tc_tenant call,
       ib_subject_id = subject_id (tc_actor call), ib_tool_id = mf_id mf, ib_tool_version = mf_version mf,
       ib_call_id = tc_call_id call, ib_origin = tc_origin call, ib_safety = mf_safety_class mf,
       ib_side_effect = mf_side_effect mf, ib_profile_hash = pf_profile_hash (pp_profile plan),
       ib_policy_hash = non_empty (pc_policy_hash (pp_policy plan)),
       ib_config_version = pp_config_version plan, ib_config_hash = pp_config_hash plan,
       ib_args_digest = en_digest env (tc_args call)\<rparr>)"

definition side_effects_value :: "side_effect_record list \<Rightarrow> json" where
  "side_effects_value effects =
     JArr (map (\<lambda>e. obj [(''kind'', JStr (case se_kind e of
        SideNone \<Rightarrow> ''none'' | SideRead \<Rightarrow> ''read'' | SideWrite \<Rightarrow> ''write'' | SideNetwork \<Rightarrow> ''network''
      | SideFilesystem \<Rightarrow> ''filesystem'' | SideBrowser \<Rightarrow> ''browser'' | SideProcess \<Rightarrow> ''process'')),
      (''meta'', se_meta e)]) effects)"

definition end_event ::
  "'w invoke_env \<Rightarrow> preflight_plan \<Rightarrow> tool_call \<Rightarrow> json \<Rightarrow> invoke_loop \<Rightarrow> tool_invoke_end" where
  "end_event env plan call output lp =
     (let mf = as_manifest (pp_spec plan) in
      \<lparr>ie_envelope_id = tc_call_id call, ie_tenant = tc_tenant call,
       ie_subject_id = subject_id (tc_actor call), ie_tool_id = mf_id mf, ie_tool_version = mf_version mf,
       ie_call_id = tc_call_id call, ie_origin = tc_origin call, ie_status = lp_status lp,
       ie_error_code = lp_error_code lp, ie_profile_hash = pf_profile_hash (pp_profile plan),
       ie_policy_hash = non_empty (pc_policy_hash (pp_policy plan)),
       ie_config_version = pp_config_version plan, ie_config_hash = pp_config_hash plan,
       ie_args_digest = en_digest env (tc_args call),
       ie_output_digest = (if lp_status lp = InvokeOk
          then (case lp_digest lp of Some d \<Rightarrow> Some d | None \<Rightarrow> Some (en_digest env output))
          else lp_digest lp),
       ie_side_effects_digest = (if lp_effects lp = [] then None
          else Some (en_digest env (side_effects_value (lp_effects lp)))),
       ie_budget = lp_budget lp,
       ie_duration_ms = (if lp_duration lp > 0 then lp_duration lp else en_elapsed_ms env)\<rparr>)"

text \<open>After the end event: the metrics, and the answer, which is stored under its key.\<close>

definition invoke_conclude ::
  "preflight_plan \<Rightarrow> tool_call \<Rightarrow> json \<Rightarrow> invoke_loop \<Rightarrow> string option \<Rightarrow> 'w invoke_state
     \<Rightarrow> 'w invoke_state \<times> invoke_result tool_result" where
  "invoke_conclude plan call output lp key s =
     (let mf = as_manifest (pp_spec plan);
          s = s\<lparr>is_metrics := is_metrics s @
            [RecordInvocation (tc_tenant call) (mf_id mf) (tc_origin call) (lp_status lp) (lp_error_code lp),
             RecordBudget (tc_tenant call) (mf_id mf) (tc_origin call)
               (b_bytes_in (lp_budget lp)) (b_bytes_out (lp_budget lp))]\<rparr>
      in case lp_failure lp of
           Some err \<Rightarrow> (s, Err err)
         | None \<Rightarrow>
             let result = invoke_ok output (Some (tc_call_id call)) in
             (case key of
                Some k \<Rightarrow> s\<lparr>is_idempotency := (is_idempotency s)(k \<mapsto> result)\<rparr>
              | None \<Rightarrow> s, Ok result))"

text \<open>The invocation under the concurrency guard.\<close>

definition invoke_locked ::
  "'w invoke_env \<Rightarrow> invoke_request \<Rightarrow> string option \<Rightarrow> 'w invoke_state
     \<Rightarrow> 'w invoke_state \<times> invoke_result tool_result" where
  "invoke_locked env req key s =
     (let plan = ir_plan req; call = ir_call req in
      if pp_planned_ops plan = [] then (s, Err (tool_invalid_manifest ''no exec operations derived''))
      else
        let s = s\<lparr>is_events := is_events s @ [InvokeBegin (begin_event env plan call)]\<rparr>;
            (sb, lp) = run_ops env plan call 0 (pp_planned_ops plan) loop_start (is_sandbox s);
            (output, lp) = finish_output env plan lp
        in invoke_conclude plan call output lp key
             (s\<lparr>is_sandbox := sb, is_events := is_events s @ [InvokeEnd (end_event env plan call output lp)]\<rparr>))"

definition invoke_key :: "invoke_request \<Rightarrow> string option" where
  "invoke_key req =
     (case mf_idempotency (as_manifest (pp_spec (ir_plan req))) of
        Keyed \<Rightarrow> tc_idempotency_key (ir_call req) | NotKeyed \<Rightarrow> None)"

definition invoke ::
  "'w invoke_env \<Rightarrow> invoke_request \<Rightarrow> 'w invoke_state \<Rightarrow> 'w invoke_state \<times> invoke_result tool_result" where
  "invoke env req s =
     (let key = invoke_key req; mf = as_manifest (pp_spec (ir_plan req)) in
      case Option.bind key (is_idempotency s) of
        Some hit \<Rightarrow> (s, Ok hit)
      | None \<Rightarrow>
          if mf_concurrency mf = Serial then
            let k = guard_key (mf_id mf) (tc_tenant (ir_call req));
                (s, r) = invoke_locked env req key (s\<lparr>is_concurrency := guard_lock k (is_concurrency s)\<rparr>)
            in (s\<lparr>is_concurrency := guard_drop k (is_concurrency s)\<rparr>, r)
          else invoke_locked env req key s)"

section \<open>The loop and the guard\<close>

lemma loop_account_status [simp]:
  "lp_status (loop_account ev lp) = lp_status lp" "lp_failure (loop_account ev lp) = lp_failure lp"
  by (simp_all add: loop_account_def split: evidence_event.splits)

text \<open>The status is Ok exactly as long as there is no failure.\<close>

definition loop_consistent :: "invoke_loop \<Rightarrow> bool" where
  "loop_consistent lp \<longleftrightarrow> (lp_status lp = InvokeOk \<longleftrightarrow> lp_failure lp = None)"

lemma run_ops_consistent:
  "loop_consistent lp \<Longrightarrow> loop_consistent (snd (run_ops env plan call idx ops lp s))"
  by (induction ops arbitrary: idx lp s)
    (auto simp: loop_consistent_def Let_def split: sum.splits prod.splits)

lemma finish_output_consistent:
  "loop_consistent lp \<Longrightarrow> loop_consistent (snd (finish_output env plan lp))"
  by (auto simp: loop_consistent_def finish_output_def apply_obligations_def Let_def split: sum.splits)

lemma guard_drop_lock:
  "m key \<noteq> Some 0 \<Longrightarrow> guard_drop key (guard_lock key m) = m"
  by (auto simp: guard_drop_def guard_lock_def fun_eq_iff split: option.splits)

lemma invoke_locked_frame:
  "is_concurrency (fst (invoke_locked env req key s)) = is_concurrency s"
  by (auto simp: invoke_locked_def invoke_conclude_def Let_def split: prod.splits option.splits)

text \<open>One invocation of a plan that has operations.\<close>

lemma invoke_locked_accounted:
  assumes "pp_planned_ops (ir_plan req) \<noteq> []" and "invoke_locked env req key s = (s', r)"
  shows "\<exists>b e. is_events s' = is_events s @ [InvokeBegin b, InvokeEnd e] \<and>
    ib_call_id b = tc_call_id (ir_call req) \<and> ie_call_id e = tc_call_id (ir_call req) \<and>
    ib_tenant b = tc_tenant (ir_call req) \<and> ie_tenant e = tc_tenant (ir_call req) \<and>
    ib_args_digest b = ie_args_digest e \<and>
    (ie_status e = InvokeOk \<longleftrightarrow> is_ok r) \<and>
    length (is_metrics s') = length (is_metrics s) + 2 \<and>
    (case r of
       Inl _ \<Rightarrow> is_idempotency s' = is_idempotency s
     | Inr res \<Rightarrow> iv_status res = InvokeOk \<and> iv_evidence_ref res = Some (tc_call_id (ir_call req)) \<and>
         is_idempotency s' = (case key of Some k \<Rightarrow> (is_idempotency s)(k \<mapsto> res) | None \<Rightarrow> is_idempotency s))"
proof -
  let ?plan = "ir_plan req" and ?call = "ir_call req"
  obtain sb lp where run: "run_ops env ?plan ?call 0 (pp_planned_ops ?plan) loop_start (is_sandbox s) = (sb, lp)"
    by fastforce
  obtain out lp' where fin: "finish_output env ?plan lp = (out, lp')"
    by fastforce
  have "loop_consistent loop_start"
    by (simp add: loop_consistent_def loop_start_def)
  then have con: "loop_consistent lp'"
    using run_ops_consistent[of loop_start env ?plan ?call 0 "pp_planned_ops ?plan" "is_sandbox s"] run
      finish_output_consistent[of lp env ?plan] fin by simp
  show ?thesis
  proof (cases "lp_failure lp'")
    case None
    then show ?thesis
      using assms run fin con
      by (auto simp: invoke_locked_def invoke_conclude_def Let_def begin_event_def end_event_def loop_consistent_def
          invoke_ok_def split: option.splits)
  next
    case (Some err)
    then show ?thesis
      using assms run fin con
      by (auto simp: invoke_locked_def invoke_conclude_def Let_def begin_event_def end_event_def loop_consistent_def)
  qed
qed

section \<open>Properties\<close>

text \<open>
  C24: An invocation is accounted for.  An invocation that is not a replay and has operations
  appends one begin and one end event for the call and its tenant with the same argument digest, the
  end's status is Ok exactly when the invocation succeeds, records two metrics, leaves the
  concurrency counters as they were, and stores its result under the idempotency key exactly
  when it succeeds.
\<close>

theorem invoke_accounted:
  assumes "Option.bind (invoke_key req) (is_idempotency s) = None"
    and "pp_planned_ops (ir_plan req) \<noteq> []" and "\<forall>k. is_concurrency s k \<noteq> Some 0"
    and "invoke env req s = (s', r)"
  shows "(\<exists>b e. is_events s' = is_events s @ [InvokeBegin b, InvokeEnd e] \<and>
      ib_call_id b = tc_call_id (ir_call req) \<and> ie_call_id e = tc_call_id (ir_call req) \<and>
      ib_tenant b = tc_tenant (ir_call req) \<and> ie_tenant e = tc_tenant (ir_call req) \<and>
      ib_args_digest b = ie_args_digest e \<and> (ie_status e = InvokeOk \<longleftrightarrow> is_ok r)) \<and>
    length (is_metrics s') = length (is_metrics s) + 2 \<and>
    is_concurrency s' = is_concurrency s \<and>
    (\<not> is_ok r \<longrightarrow> is_idempotency s' = is_idempotency s) \<and>
    (\<forall>res. r = Ok res \<longrightarrow> is_idempotency s' =
       (case invoke_key req of Some k \<Rightarrow> (is_idempotency s)(k \<mapsto> res) | None \<Rightarrow> is_idempotency s))"
proof (cases "mf_concurrency (as_manifest (pp_spec (ir_plan req))) = Serial")
  case True
  let ?k = "guard_key (mf_id (as_manifest (pp_spec (ir_plan req)))) (tc_tenant (ir_call req))"
  let ?s = "s\<lparr>is_concurrency := guard_lock ?k (is_concurrency s)\<rparr>"
  obtain s1 where run: "invoke_locked env req (invoke_key req) ?s = (s1, r)"
    and s': "s' = s1\<lparr>is_concurrency := guard_drop ?k (is_concurrency s1)\<rparr>"
    using assms True by (auto simp: invoke_def Let_def split: prod.splits)
  have "is_concurrency s' = is_concurrency s"
    using invoke_locked_frame[of env req "invoke_key req" ?s] run assms(3) s' by (simp add: guard_drop_lock)
  then show ?thesis
    using invoke_locked_accounted[OF assms(2) run] s' by (cases r; cases "invoke_key req") auto
next
  case False
  then have run: "invoke_locked env req (invoke_key req) s = (s', r)"
    using assms by (simp add: invoke_def Let_def)
  then show ?thesis
    using invoke_locked_accounted[OF assms(2) run] invoke_locked_frame[of env req "invoke_key req" s]
    by (cases r) auto
qed

text \<open>
  A key is answered once, for everyone.  After a success under a key, every invocation
  under that key returns the stored result at once, changing nothing and executing nothing, as long as the
  entry stays.  The key is all that is compared: the later call may be of another tenant, another
  tool or other arguments, and still receives the first caller's output.
\<close>

theorem invoke_replays_key:
  assumes "invoke env req s = (s1, Ok res)" and "invoke_key req = Some k" and "invoke_key req2 = Some k"
    and "is_idempotency s2 k = is_idempotency s1 k"
  shows "invoke env2 req2 s2 = (s2, Ok res)"
proof -
  have "is_idempotency s1 k = Some res"
  proof (cases "is_idempotency s k")
    case (Some hit)
    then show ?thesis
      using assms(1,2) by (simp add: invoke_def Let_def)
  next
    case None
    have ops: "pp_planned_ops (ir_plan req) \<noteq> []"
      using assms(1,2) None by (auto simp: invoke_def invoke_locked_def invoke_conclude_def Let_def split: if_splits prod.splits)
    obtain s0 t where "invoke_locked env req (Some k) s0 = (t, Ok res)" "is_idempotency t = is_idempotency s1"
      using assms(1,2) None by (auto simp: invoke_def Let_def split: if_splits prod.splits)
    with invoke_locked_accounted[OF ops this(1)] show ?thesis
      by auto
  qed
  with assms show ?thesis
    by (simp add: invoke_def Let_def)
qed

text \<open>The default sandbox has executors for HTTP, file reads and temporary space only.\<close>

fun op_supported :: "exec_op \<Rightarrow> bool" where
  "op_supported (OpFsRead _ _ _) = True"
| "op_supported (OpNetHttp _ _ _ _) = True"
| "op_supported (OpTmpAlloc _) = True"
| "op_supported _ = False"

lemma default_executors:
  "sb_executors (default_sandbox_with_executors pd qd os ext) kind \<noteq> None \<longleftrightarrow>
     kind \<in> {KFsRead, KNetHttp, KTmpUse}"
  by (auto simp: default_sandbox_with_executors_def with_executor_def with_noop_meter_def sandbox_new_def)

lemma default_sandbox_refuses:
  assumes "\<not> op_supported (rq_op req)"
  shows "\<exists>e. sandbox_execute ext clk (default_sandbox_with_executors pd qd os ext') req s = (s, Err e)"
proof -
  let ?sb = "default_sandbox_with_executors pd qd os ext'"
  have "\<not> is_ok (sandbox_admit ext clk ?sb req)"
  proof
    assume "is_ok (sandbox_admit ext clk ?sb req)"
    then obtain pf cap ex res where admit: "sandbox_admit ext clk ?sb req = Ok (pf, cap, ex, res)"
      by (auto simp: is_ok_iff)
    then have "cap_kind cap \<in> {KFsRead, KNetHttp, KTmpUse}"
      using default_executors[of pd qd os ext' "cap_kind cap"] by (auto simp: sandbox_admit_Ok)
    moreover have "capability_fits ext (rq_op req) cap"
      using admit select_capability_fits by (auto simp: sandbox_admit_Ok)
    ultimately show False
      using assms by (cases "rq_op req") auto
  qed
  then show ?thesis
    using sandbox_execute_refused[of ext clk ?sb req _ s]
    by (cases "sandbox_admit ext clk ?sb req") (auto simp: is_ok_iff)
qed

text \<open>
  Write tools cannot run.  The preflight admits tools that write files, but the default
  sandbox has no executor for writing: an invocation whose first operation is a write, a listing, a
  browser or a process operation always fails, with the system untouched, and one end event that says so.
\<close>

theorem write_tools_always_fail:
  assumes "en_sandbox env = default_sandbox_with_executors pd qd os ext"
    and "pp_planned_ops (ir_plan req) = op # ops" and "\<not> op_supported op"
    and "Option.bind (invoke_key req) (is_idempotency s) = None"
  shows "\<not> is_ok (snd (invoke env req s)) \<and> is_sandbox (fst (invoke env req s)) = is_sandbox s"
proof -
  have locked: "\<exists>t' e. invoke_locked env req key t = (t', Err e) \<and> is_sandbox t' = is_sandbox t" for key t
  proof -
    have "\<not> op_supported (rq_op (op_request (ir_plan req) (ir_call req) 0 op))"
      using assms(3) by (simp add: op_request_def)
    from default_sandbox_refuses[OF this] assms(1)
    obtain e where "sandbox_execute (en_ext env) (en_clock env 0) (en_sandbox env)
        (op_request (ir_plan req) (ir_call req) 0 op) (is_sandbox t) = (is_sandbox t, Err e)"
      by metis
    then show ?thesis
      using assms(2) by (simp add: invoke_locked_def invoke_conclude_def Let_def finish_output_def)
  qed
  show ?thesis
  proof (cases "mf_concurrency (as_manifest (pp_spec (ir_plan req))) = Serial")
    case True
    let ?k = "guard_key (mf_id (as_manifest (pp_spec (ir_plan req)))) (tc_tenant (ir_call req))"
    obtain t e where "invoke_locked env req (invoke_key req)
        (s\<lparr>is_concurrency := guard_lock ?k (is_concurrency s)\<rparr>) = (t, Err e)" "is_sandbox t = is_sandbox s"
      using locked[of "invoke_key req" "s\<lparr>is_concurrency := guard_lock ?k (is_concurrency s)\<rparr>"] by auto
    then show ?thesis
      using assms(4) True by (simp add: invoke_def Let_def)
  next
    case False
    obtain t e where "invoke_locked env req (invoke_key req) s = (t, Err e)" "is_sandbox t = is_sandbox s"
      using locked[of "invoke_key req" s] by auto
    then show ?thesis
      using assms(4) False by (simp add: invoke_def Let_def)
  qed
qed

section \<open>Witnesses\<close>

definition demo_spec :: available_spec where
  "demo_spec = registry_convert (the (demo_registry ''a.b.read''))"

definition demo_plan :: "exec_op \<Rightarrow> preflight_plan" where
  "demo_plan op = \<lparr>pp_spec = demo_spec, pp_sandbox_manifest = to_sandbox_manifest demo_tool,
     pp_grant = build_grant demo_call demo_tool,
     pp_policy = build_policy_config demo_spec fingerprint_default, pp_profile = demo_profile,
     pp_obligations = [], pp_budget_snapshot = JNull, pp_planned_ops = [op],
     pp_config_version = None, pp_config_hash = None\<rparr>"

definition demo_invoke_env :: "(string \<rightharpoonup> string) invoke_env" where
  "demo_invoke_env = \<lparr>en_sandbox = demo_sandbox, en_ext = demo_externals, en_clock = (\<lambda>_. demo_clock),
     en_schema = demo_schema, en_digest = (\<lambda>_. []), en_pointer_set = (\<lambda>_ _ v. v), en_elapsed_ms = 1\<rparr>"

definition demo_invoke_state :: "(string \<rightharpoonup> string) invoke_state" where
  "demo_invoke_state = \<lparr>is_idempotency = Map.empty, is_concurrency = Map.empty, is_events = [],
     is_metrics = [], is_sandbox = \<lparr>st_meter = (), st_evidence = [], st_world = [''/data/x'' \<mapsto> ''hi'']\<rparr>\<rparr>"

definition demo_invoke_request :: "exec_op \<Rightarrow> invoke_request" where
  "demo_invoke_request op = \<lparr>ir_plan = demo_plan op, ir_call = demo_call\<rparr>"

lemma demo_spec_fields: "as_manifest demo_spec = demo_tool"
  using demo_registry_get by (auto simp: demo_spec_def registry_get_def)

lemma demo_limit: "max_bytes_in (merge_limits (tm_limits (to_sandbox_manifest demo_tool))
    (pc_limits (build_policy_config demo_spec fingerprint_default))
    (Some (gr_budget (build_grant demo_call demo_tool)))) = Some (2 * 1024 * 1024)"
  by (simp add: to_sandbox_manifest_def build_policy_config_def build_grant_def demo_spec_fields)
    (simp add: merge_limits_def cap_by_budget_def min_opt_def sandbox_limits_def demo_tool_def
      tool_limits_default_def Let_def)

lemma demo_execute:
  "\<exists>s' out. sandbox_execute demo_externals demo_clock demo_sandbox
     (op_request (demo_plan op) demo_call 0 (OpFsRead ''/data/x'' None None))
     (is_sandbox demo_invoke_state) = (s', Ok out) \<and> er_ok (ox_result out)"
proof -
  let ?req = "op_request (demo_plan op) demo_call 0 (OpFsRead ''/data/x'' None None)"
  let ?g = "build_grant demo_call demo_tool" and ?m = "to_sandbox_manifest demo_tool"
    and ?p = "build_policy_config demo_spec fingerprint_default"
  have "intersect_capabilities (gr_capabilities ?g) (tm_capabilities ?m) (pc_capabilities ?p) = [FsRead ''/data'']"
    by (simp add: build_grant_def to_sandbox_manifest_def build_policy_config_def demo_tool_capabilities
        demo_spec_fields intersect_capabilities_def)
  then obtain pf where build: "build_profile (\<lambda>_. ''h'') (\<lambda>_. None) ?g ?m ?p = Ok pf"
    "pf_capabilities pf = [FsRead ''/data'']"
    "pf_limits pf = merge_limits (tm_limits ?m) (pc_limits ?p) (Some (gr_budget ?g))"
    "pf_mappings pf = merge_mappings (tm_mappings ?m) (pc_mappings ?p)"
    "pf_whitelists pf = merge_whitelists (tm_whitelists ?m) (pc_whitelists ?p)"
    by (simp add: build_profile_def Let_def)
  have pf: "build_profile (\<lambda>_. ''h'') (\<lambda>_. None) ?g ?m ?p = Ok pf"
    "max_bytes_in (pf_limits pf) = Some (2 * 1024 * 1024)" "pf_capabilities pf = [FsRead ''/data'']"
    "root_fs (pf_mappings pf) = None" "wl_paths (pf_whitelists pf) = [''/data'']"
    using demo_limit by (simp_all add: build)
      (simp_all add: to_sandbox_manifest_def build_policy_config_def demo_tool_capabilities
        demo_spec_fields merge_whitelists_def intersect_list_def whitelists_default_def merge_mappings_def
        or_else_def)
  have admit: "sandbox_admit demo_externals demo_clock demo_sandbox ?req =
      Ok (pf, FsRead ''/data'', fs_execute demo_os demo_externals, budget_default\<lparr>b_calls := 1, b_bytes_in := 0\<rparr>)"
    using pf by (simp add: sandbox_admit_Ok demo_sandbox_fields op_request_def demo_plan_def
        guard_validate_def validate_path_def demo_paths starts_with_def find_fs_capability_def Let_def)
      (simp add: build_grant_def)
  have exec: "fs_execute demo_os demo_externals \<lparr>cx_profile = pf, cx_cancelled = False\<rparr>
      (OpFsRead ''/data/x'' None None) [''/data/x'' \<mapsto> ''hi''] =
    ([''/data/x'' \<mapsto> ''hi''], read_file demo_os demo_externals \<lparr>cx_profile = pf, cx_cancelled = False\<rparr>
      ''/data/x'' None None [''/data/x'' \<mapsto> ''hi''])"
    by (simp add: fs_execute_def)
  have "is_ok (read_file demo_os demo_externals \<lparr>cx_profile = pf, cx_cancelled = False\<rparr>
      ''/data/x'' None None [''/data/x'' \<mapsto> ''hi''])"
    using pf(2) by (simp add: read_file_def demo_os_def demo_externals_def Let_def refuse_above_def len64_def)
  then obtain result where result: "fs_execute demo_os demo_externals \<lparr>cx_profile = pf, cx_cancelled = False\<rparr>
      (OpFsRead ''/data/x'' None None) [''/data/x'' \<mapsto> ''hi''] = ([''/data/x'' \<mapsto> ''hi''], Ok result)"
    using exec by (auto simp: is_ok_iff)
  have "sb_executors demo_sandbox KFsRead = Some (fs_execute demo_os demo_externals)"
    by (rule demo_sandbox_fields)
  note checks = executor_registry.usage_check_passes[OF demo_registry' this result]
  show ?thesis
    using sandbox_execute_admitted[OF admit, of "is_sandbox demo_invoke_state" "()"] result checks
    by (simp add: demo_sandbox_fields demo_invoke_state_def sandbox_run_def op_request_def Let_def emit_def)
qed

lemma demo_invoke_runs:
  "\<exists>s' res. invoke demo_invoke_env (demo_invoke_request (OpFsRead ''/data/x'' None None)) demo_invoke_state
     = (s', Ok res)"
proof -
  obtain t out where run: "sandbox_execute demo_externals demo_clock demo_sandbox
     (op_request (demo_plan (OpFsRead ''/data/x'' None None)) demo_call 0 (OpFsRead ''/data/x'' None None))
     (is_sandbox demo_invoke_state) = (t, Ok out)" "er_ok (ox_result out)"
    using demo_execute[of "OpFsRead ''/data/x'' None None"] by blast
  have "pp_planned_ops (demo_plan (OpFsRead ''/data/x'' None None)) = [OpFsRead ''/data/x'' None None]"
    "pp_spec (demo_plan (OpFsRead ''/data/x'' None None)) = demo_spec"
    by (simp_all add: demo_plan_def)
  with run show ?thesis
    by (simp add: invoke_def invoke_key_def demo_invoke_request_def demo_spec_fields invoke_locked_def invoke_conclude_def Let_def
        demo_invoke_env_def finish_output_def apply_obligations_def validate_output_def validate_against_def
        demo_schema_def loop_start_def demo_invoke_state_def split: idempo_kind.splits option.splits)
qed

lemma demo_key: "invoke_key (demo_invoke_request op) = Some ''k''"
  by (simp add: invoke_key_def demo_invoke_request_def demo_plan_def demo_spec_fields)
    (simp add: demo_tool_def demo_call_def)

theorem invoke_accounted_witness:
  "\<exists>s' r. invoke demo_invoke_env (demo_invoke_request (OpFsRead ''/data/x'' None None)) demo_invoke_state = (s', r) \<and>
     length (is_events s') = 2"
proof -
  let ?req = "demo_invoke_request (OpFsRead ''/data/x'' None None)"
  obtain s' r where run: "invoke demo_invoke_env ?req demo_invoke_state = (s', r)"
    by fastforce
  have "Option.bind (invoke_key ?req) (is_idempotency demo_invoke_state) = None"
    "pp_planned_ops (ir_plan ?req) \<noteq> []" "\<forall>k. is_concurrency demo_invoke_state k \<noteq> Some 0"
    "is_events demo_invoke_state = []"
    by (simp_all add: demo_key demo_invoke_state_def demo_invoke_request_def demo_plan_def)
  with invoke_accounted[OF this(1-3) run] run show ?thesis
    by auto
qed

theorem invoke_replays_key_witness:
  "\<exists>s1 res. invoke demo_invoke_env ((demo_invoke_request (OpTmpAlloc 1))
       \<lparr>ir_call := demo_call\<lparr>tc_tenant := ''other''\<rparr>\<rparr>) s1 = (s1, Ok res)"
proof -
  obtain s1 res where run: "invoke demo_invoke_env (demo_invoke_request (OpFsRead ''/data/x'' None None))
      demo_invoke_state = (s1, Ok res)"
    using demo_invoke_runs by blast
  have "invoke_key ((demo_invoke_request (OpTmpAlloc 1))\<lparr>ir_call := demo_call\<lparr>tc_tenant := ''other''\<rparr>\<rparr>) = Some ''k''"
    by (simp add: invoke_key_def demo_invoke_request_def demo_plan_def demo_spec_fields)
      (simp add: demo_tool_def demo_call_def)
  from invoke_replays_key[OF run demo_key this refl] show ?thesis
    by blast
qed

theorem write_tools_always_fail_witness:
  "\<not> is_ok (snd (invoke demo_invoke_env (demo_invoke_request (OpFsWrite ''/data/y'' ''aGk='' True)) demo_invoke_state))"
  using write_tools_always_fail[of demo_invoke_env "\<lambda>_. ''h''" "\<lambda>_. None" demo_os demo_externals
      "demo_invoke_request (OpFsWrite ''/data/y'' ''aGk='' True)" "OpFsWrite ''/data/y'' ''aGk='' True" "[]" demo_invoke_state]
  by (simp add: demo_key)
    (simp add: demo_invoke_env_def demo_sandbox_def demo_invoke_state_def demo_invoke_request_def demo_plan_def)

end
