(* ===== verification/ConfigLoader.thy ===== *)
theory ConfigLoader
  imports ConfigSource KeyedStore
begin

text \<open>
  The configuration loader of \<open>sb-config\<close> (\<open>loader.rs\<close>) with the schema
  registry (\<open>schema.rs\<close>), the default resolver and validator
  (\<open>secrets/mod.rs\<close>, \<open>validate.rs\<close>) and the update event
  (\<open>events.rs\<close>).  Sources, resolvers and the validator are fields of the loader, as the
  code's trait objects are; SHA-256 over the serialised map is the parameter
  \<open>ld_digest\<close>.  The registry is a hash map of hash maps: the order in which the
  namespaces and the fields of each come are arguments.
\<close>

section \<open>Schema registry\<close>

record field_meta =
  fm_reload :: reload_class
  fm_sensitive :: bool
  fm_default :: "json option"
  fm_description :: "string option"

record ns_view =
  nv_schema :: "json option"
  nv_fields :: "key_path \<Rightarrow> field_meta option"

type_synonym schema_registry = "namespace_id \<Rightarrow> ns_view option"

definition schema_registry_new :: schema_registry where
  "schema_registry_new = (\<lambda>_. None)"

definition register_namespace ::
  "namespace_id \<Rightarrow> json option \<Rightarrow> (key_path \<Rightarrow> field_meta option) \<Rightarrow> schema_registry \<Rightarrow> schema_registry" where
  "register_namespace ns schema flds reg = reg(ns \<mapsto> \<lparr>nv_schema = schema, nv_fields = flds\<rparr>)"

definition get_namespace :: "schema_registry \<Rightarrow> namespace_id \<Rightarrow> ns_view option" where
  "get_namespace reg ns = reg ns"

definition namespaces :: "namespace_id list \<Rightarrow> schema_registry \<Rightarrow> namespace_id list" where
  "namespaces ks reg = map_keys ks reg"

definition get_field_meta :: "schema_registry \<Rightarrow> namespace_id \<Rightarrow> key_path \<Rightarrow> field_meta option" where
  "get_field_meta reg ns key = Option.bind (reg ns) (\<lambda>v. nv_fields v key)"

interpretation schema_store: keyed_store get_namespace
  "\<lambda>(ns, schema, flds). register_namespace ns schema flds" "\<lambda>(ns, _, _). ns"
  by unfold_locales (auto simp: get_namespace_def register_namespace_def)

section \<open>Loading\<close>

definition compose_full_path :: "namespace_id \<Rightarrow> key_path \<Rightarrow> string" where
  "compose_full_path ns key = (if key = [] then ns else ns @ ''.'' @ key)"

record iteration =
  it_namespaces :: "namespace_id list"
  it_fields :: "namespace_id \<Rightarrow> key_path list"

definition default_field :: "namespace_id \<Rightarrow> ns_view \<Rightarrow> key_path \<Rightarrow> config_map \<Rightarrow> config_map" where
  "default_field ns nsv relative_key m =
     (case nv_fields nsv relative_key of
        None \<Rightarrow> m
      | Some meta \<Rightarrow>
          (case fm_default meta of
             None \<Rightarrow> m
           | Some d \<Rightarrow>
               let full = compose_full_path ns relative_key in
               if path_exists m full then m else merge_value m full d))"

definition default_namespace ::
  "iteration \<Rightarrow> schema_registry \<Rightarrow> namespace_id \<Rightarrow> config_map \<Rightarrow> config_map" where
  "default_namespace it reg ns m =
     (case get_namespace reg ns of
        None \<Rightarrow> m
      | Some nsv \<Rightarrow> fold (default_field ns nsv) (it_fields it ns) m)"

definition apply_defaults :: "iteration \<Rightarrow> schema_registry \<Rightarrow> config_map \<Rightarrow> config_map" where
  "apply_defaults it reg m = fold (default_namespace it reg) (namespaces (it_namespaces it) reg) m"

text \<open>\<open>splitn(2, '.')\<close>: the text before the first dot and the rest.\<close>

definition split_namespace :: "string \<Rightarrow> (string \<times> string) config_result" where
  "split_namespace path =
     (let (ns, rest) = (case split_once CHR ''.'' path of Some p \<Rightarrow> p | None \<Rightarrow> (path, [])) in
      if ns = [] then
        Err (ConfigError (dev_msg (''invalid key: '' @ path)
          (user_msg ''Configuration key missing namespace prefix.'' (builder_new SCHEMA_VALIDATION_FAILED))))
      else Ok (ns, rest))"

definition check_key :: "schema_registry \<Rightarrow> string \<Rightarrow> unit config_result" where
  "check_key reg key =
     and_then (split_namespace key) (\<lambda>(ns, relative).
     case get_namespace reg ns of
       None \<Rightarrow> Err (ConfigError (dev_msg (''unknown namespace: '' @ ns)
         (user_msg ''Configuration namespace not registered.'' (builder_new SCHEMA_VALIDATION_FAILED))))
     | Some nsv \<Rightarrow>
         if relative = [] then Ok ()
         else if nv_fields nsv relative = None then
           Err (ConfigError (dev_msg (''unknown key: '' @ key)
             (user_msg ''Configuration contains unknown key.'' (builder_new SCHEMA_VALIDATION_FAILED))))
         else Ok ())"

definition enforce_schema :: "config_map \<Rightarrow> schema_registry \<Rightarrow> unit config_result" where
  "enforce_schema m reg = try_each (check_key reg) (collect_keys [] m)"

definition summarise_namespace ::
  "iteration \<Rightarrow> schema_registry \<Rightarrow> namespace_id \<Rightarrow>
   (key_path \<Rightarrow> reload_class option) \<Rightarrow> (key_path \<Rightarrow> reload_class option)" where
  "summarise_namespace it reg ns summary =
     (case get_namespace reg ns of
        None \<Rightarrow> summary
      | Some nsv \<Rightarrow>
          fold (\<lambda>key s. case nv_fields nsv key of
                  None \<Rightarrow> s
                | Some meta \<Rightarrow> s(compose_full_path ns key \<mapsto> fm_reload meta))
            (it_fields it ns) summary)"

definition build_reload_summary ::
  "iteration \<Rightarrow> schema_registry \<Rightarrow> key_path \<Rightarrow> reload_class option" where
  "build_reload_summary it reg =
     fold (summarise_namespace it reg) (namespaces (it_namespaces it) reg) (\<lambda>_. None)"

text \<open>
  The flat hash map of the leaves.  It is only looked up and its keys are sorted in the end, so
  it is kept as a sorted association list.
\<close>

function flatten_map :: "config_map \<Rightarrow> string \<Rightarrow> jmap \<Rightarrow> jmap" where
  "flatten_map [] pre out = out"
| "flatten_map ((key, v) # m) pre out =
     flatten_map m pre
       (case v of
          JObj child \<Rightarrow> flatten_map child (dotted pre key) out
        | _ \<Rightarrow> jinsert (dotted pre key) v out)"
  by pat_completeness auto
termination
  by (relation "measure (\<lambda>(m, _, _). size (JObj m))") auto

definition flatten_snapshot :: "config_snapshot \<Rightarrow> jmap" where
  "flatten_snapshot snap = (case snap_data snap of JObj root \<Rightarrow> flatten_map root [] [] | _ \<Rightarrow> [])"

definition compute_changed_keys :: "config_snapshot option \<Rightarrow> config_snapshot \<Rightarrow> key_path list" where
  "compute_changed_keys prev current =
     (let current_flat = flatten_snapshot current;
          prev_flat = (case prev of Some s \<Rightarrow> flatten_snapshot s | None \<Rightarrow> []);
          keys = remdups (map fst current_flat @ map fst prev_flat)
      in sort (filter (\<lambda>k. map_of prev_flat k \<noteq> map_of current_flat k) keys))"

record config_update_event =
  cu_from_version :: "snapshot_version option"
  cu_to_version :: snapshot_version
  cu_checksum :: checksum
  cu_changed_keys :: "key_path list"
  cu_issued_at :: timestamp

record loader =
  ld_sources :: "(config_world \<Rightarrow> source_snapshot config_result) list"
  ld_secrets :: "(config_map \<Rightarrow> config_map config_result) list"
  ld_validator :: "namespace_id \<Rightarrow> config_map \<Rightarrow> unit config_result"
  ld_registry :: schema_registry
  ld_digest :: "config_map \<Rightarrow> checksum"

fun merge_sources ::
  "config_world \<Rightarrow> (config_world \<Rightarrow> source_snapshot config_result) list \<Rightarrow> config_map
   \<Rightarrow> config_map config_result" where
  "merge_sources w [] merged = Ok merged"
| "merge_sources w (src # srcs) merged =
     and_then (src w) (\<lambda>snap. merge_sources w srcs (merge_maps merged (ss_map snap)))"

fun resolve_secrets :: "(config_map \<Rightarrow> config_map config_result) list \<Rightarrow> config_map \<Rightarrow> config_map config_result" where
  "resolve_secrets [] working = Ok working"
| "resolve_secrets (r # rs) working = and_then (r working) (resolve_secrets rs)"

definition noop_resolver :: "config_map \<Rightarrow> config_map config_result" where
  "noop_resolver m = Ok m"

definition basic_validator :: "namespace_id \<Rightarrow> config_map \<Rightarrow> unit config_result" where
  "basic_validator ns data = Ok ()"

text \<open>\<open>now\<close> is the reading of the clock in milliseconds; a clock before 1970 gives 0.\<close>

definition load_with_prev ::
  "loader \<Rightarrow> iteration \<Rightarrow> config_world \<Rightarrow> int \<Rightarrow> config_snapshot option
   \<Rightarrow> (config_snapshot \<times> config_update_event) config_result" where
  "load_with_prev ld it w now prev =
     and_then (merge_sources w (ld_sources ld) []) (\<lambda>layered.
     let merged = apply_defaults it (ld_registry ld) layered in
     and_then (enforce_schema merged (ld_registry ld)) (\<lambda>_.
     and_then (resolve_secrets (ld_secrets ld) merged) (\<lambda>working.
     and_then (ld_validator ld ''root'' working) (\<lambda>_.
     let issued_at_ms = i64_wrap (max 0 now);
         checksum = ld_digest ld working;
         metadata = \<lparr>sm_version = CHR ''v'' # show_int issued_at_ms, sm_checksum = checksum,
           sm_issued_at = issued_at_ms, sm_reload_summary = build_reload_summary it (ld_registry ld)\<rparr>;
         snapshot = snapshot_new working metadata
     in Ok (snapshot,
          \<lparr>cu_from_version = map_option (\<lambda>s. sm_version (snap_metadata s)) prev,
           cu_to_version = sm_version metadata, cu_checksum = checksum,
           cu_changed_keys = compute_changed_keys prev snapshot,
           cu_issued_at = issued_at_ms\<rparr>)))))"

definition load_once ::
  "loader \<Rightarrow> iteration \<Rightarrow> config_world \<Rightarrow> int \<Rightarrow> config_snapshot config_result" where
  "load_once ld it w now = and_then (load_with_prev ld it w now None) (\<lambda>(snapshot, _). Ok snapshot)"

definition wrap_update :: "config_update_event \<Rightarrow> config_update_event envelope" where
  "wrap_update event =
     envelope_new (''cfg-'' @ cu_to_version event) (cu_issued_at event) ''config''
       (subject_new Service ''sb-config'' ''global'') ''1.0.0'' event"

section \<open>Layers\<close>

definition layers :: "source_snapshot list \<Rightarrow> tree \<Rightarrow> tree" where
  "layers snaps t = fold (\<lambda>s t. overlay t (view (JObj (ss_map s)))) snaps t"

lemma merge_sources_layers:
  "list_all2 (\<lambda>src s. src w = Ok s \<and> json_wf (JObj (ss_map s))) srcs snaps \<Longrightarrow> json_wf (JObj base) \<Longrightarrow>
   \<exists>m. merge_sources w srcs base = Ok m \<and> json_wf (JObj m) \<and>
       view (JObj m) = layers snaps (view (JObj base))"
proof (induction srcs snaps arbitrary: base rule: list_all2_induct)
  case Nil
  then show ?case by (simp add: layers_def del: json_wf.simps)
next
  case (Cons src srcs s snaps)
  have "json_wf (JObj (merge_maps base (ss_map s)))"
    using Cons by (simp add: json_wf_merge_maps del: json_wf.simps)
  moreover have "view (JObj (merge_maps base (ss_map s))) = overlay (view (JObj base)) (view (JObj (ss_map s)))"
    using Cons by (auto simp: view_merge_maps simp del: json_wf.simps)
  ultimately show ?case
    using Cons.IH[of "merge_maps base (ss_map s)"] Cons.hyps by (simp add: layers_def del: json_wf.simps)
qed

lemma overlay_keeps:
  "list_all (\<lambda>q. b q = None \<or> b q = Some Dir) (prefixes p) \<Longrightarrow> b p = None \<Longrightarrow> overlay a b p = a p"
  by (auto simp: overlay_def list_all_iff list_ex_iff is_leaf_def split: option.splits tree_node.splits)

lemma layers_keep:
  "\<forall>s\<in>set snaps. view (JObj (ss_map s)) p = None \<and>
     list_all (\<lambda>q. view (JObj (ss_map s)) q = None \<or> view (JObj (ss_map s)) q = Some Dir) (prefixes p) \<Longrightarrow>
   layers snaps t p = t p"
proof (induction snaps arbitrary: t)
  case (Cons s snaps)
  have "layers (s # snaps) t p = overlay t (view (JObj (ss_map s))) p"
    using Cons by (simp add: layers_def)
  also have "\<dots> = t p"
    using Cons.prems by (intro overlay_keeps) auto
  finally show ?case .
qed (simp add: layers_def)

text \<open>The last source that speaks of a path decides it.\<close>

lemma layers_winner:
  assumes "view (JObj (ss_map s)) p = Some n"
    and "\<forall>s'\<in>set later. view (JObj (ss_map s')) p = None \<and>
      list_all (\<lambda>q. view (JObj (ss_map s')) q = None \<or> view (JObj (ss_map s')) q = Some Dir) (prefixes p)"
  shows "layers (earlier @ s # later) t p = Some n"
proof -
  have "layers (earlier @ s # later) t p
      = layers later (overlay (layers earlier t) (view (JObj (ss_map s)))) p"
    by (simp add: layers_def)
  also have "\<dots> = Some n"
    using assms by (simp add: layers_keep overlay_def)
  finally show ?thesis .
qed

section \<open>Defaults\<close>

definition field_defaults :: "namespace_id \<Rightarrow> ns_view \<Rightarrow> key_path \<Rightarrow> (string \<times> json) list" where
  "field_defaults ns nsv key =
     (case Option.bind (nv_fields nsv key) fm_default of
        Some d \<Rightarrow> [(compose_full_path ns key, d)] | None \<Rightarrow> [])"

definition registry_defaults :: "iteration \<Rightarrow> schema_registry \<Rightarrow> (string \<times> json) list" where
  "registry_defaults it reg =
     concat (map (\<lambda>ns. case reg ns of None \<Rightarrow> []
       | Some nsv \<Rightarrow> concat (map (field_defaults ns nsv) (it_fields it ns))) (namespaces (it_namespaces it) reg))"

definition fill_default :: "string \<times> json \<Rightarrow> config_map \<Rightarrow> config_map" where
  "fill_default fd m = (if path_exists m (fst fd) then m else merge_value m (fst fd) (snd fd))"

lemma field_defaults_set:
  "fd \<in> set (field_defaults ns nsv key) \<longleftrightarrow>
     (\<exists>meta d. nv_fields nsv key = Some meta \<and> fm_default meta = Some d \<and> fd = (compose_full_path ns key, d))"
  by (cases "nv_fields nsv key"; cases "fm_default (the (nv_fields nsv key))") (auto simp: field_defaults_def)

lemma registry_defaults_set:
  "fd \<in> set (registry_defaults it reg) \<longleftrightarrow>
     (\<exists>ns nsv key meta d. ns \<in> set (it_namespaces it) \<and> reg ns = Some nsv \<and> key \<in> set (it_fields it ns) \<and>
        nv_fields nsv key = Some meta \<and> fm_default meta = Some d \<and> fd = (compose_full_path ns key, d))"
  by (fastforce simp: registry_defaults_def namespaces_def map_keys_def field_defaults_set split: option.splits)

lemma default_field_fill: "default_field ns nsv key m = fold fill_default (field_defaults ns nsv key) m"
  by (simp add: default_field_def field_defaults_def fill_default_def Let_def split: option.splits)

lemma fold_concat: "fold f (concat xss) m = fold (fold f) xss m"
  by (induction xss arbitrary: m) simp_all

lemma apply_defaults_fill: "apply_defaults it reg m = fold fill_default (registry_defaults it reg) m"
proof -
  have fields: "fold (default_field ns nsv) ks m = fold fill_default (concat (map (field_defaults ns nsv) ks)) m"
    for ns nsv ks m
    by (induction ks arbitrary: m) (simp_all add: default_field_fill)
  have "default_namespace it reg ns m = fold fill_default (case reg ns of None \<Rightarrow> []
       | Some nsv \<Rightarrow> concat (map (field_defaults ns nsv) (it_fields it ns))) m" for ns m
    by (simp add: default_namespace_def get_namespace_def fields split: option.splits)
  then have "fold (default_namespace it reg) nss m = fold fill_default (concat (map (\<lambda>ns. case reg ns of None \<Rightarrow> []
       | Some nsv \<Rightarrow> concat (map (field_defaults ns nsv) (it_fields it ns))) nss)) m" for nss
    by (induction nss arbitrary: m) simp_all
  then show ?thesis
    by (simp add: apply_defaults_def registry_defaults_def)
qed

lemma path_in_view: "path_in m p \<longleftrightarrow> p \<noteq> [] \<and> view (JObj m) p \<noteq> None"
  by (simp add: path_in_iff view_def)

lemma view_prefix: "view j (p @ q) \<noteq> None \<Longrightarrow> view j p \<noteq> None"
  by (simp add: view_def json_at_append split: option.splits)

text \<open>Filling a default never removes a path, and changes a node only above it.\<close>

lemma fill_default_view:
  assumes "segments (fst fd) \<noteq> []" "\<not> path_exists m (fst fd)"
  shows "view (JObj (fill_default fd m)) q = mount (view (JObj m)) (segments (fst fd)) (view (snd fd)) q"
  using assms by (simp add: fill_default_def view_merge_value)

lemma fill_default_noop: "segments (fst fd) = [] \<or> path_exists m (fst fd) \<Longrightarrow> fill_default fd m = m"
  by (auto simp: fill_default_def merge_value_def)

lemma fill_default_keeps:
  assumes "view (JObj m) q = Some n" "\<not> strict_prefix q (segments (fst fd)) \<or> n = Dir"
  shows "view (JObj (fill_default fd m)) q = Some n"
proof (cases "segments (fst fd) = [] \<or> path_exists m (fst fd)")
  case True
  with assms show ?thesis by (simp add: fill_default_noop)
next
  case False
  then have gone: "view (JObj m) (segments (fst fd)) = None"
    by (auto simp: path_exists_def path_in_view)
  then have "\<not> prefix (segments (fst fd)) q"
    using assms(1) view_prefix[of "JObj m" "segments (fst fd)"] by (auto simp: prefix_def)
  with False assms show ?thesis
    by (auto simp: fill_default_view mount_def strict_prefix_def)
qed

lemma fill_default_mono:
  assumes "view (JObj m) q \<noteq> None"
  shows "view (JObj (fill_default fd m)) q \<noteq> None"
proof (cases "segments (fst fd) = [] \<or> path_exists m (fst fd)")
  case True
  with assms show ?thesis by (simp add: fill_default_noop)
next
  case False
  then have gone: "view (JObj m) (segments (fst fd)) = None"
    by (auto simp: path_exists_def path_in_view)
  then have "\<not> prefix (segments (fst fd)) q"
    using assms view_prefix[of "JObj m" "segments (fst fd)"] by (auto simp: prefix_def)
  with False assms show ?thesis
    by (auto simp: fill_default_view mount_def)
qed

lemma fill_default_fills: "segments (fst fd) \<noteq> [] \<Longrightarrow> view (JObj (fill_default fd m)) (segments (fst fd)) \<noteq> None"
  by (cases "path_exists m (fst fd)")
    (auto simp: fill_default_noop fill_default_view mount_def path_exists_def path_in_view)

lemma fills_mono: "view (JObj m) q \<noteq> None \<Longrightarrow> view (JObj (fold fill_default fds m)) q \<noteq> None"
  by (induction fds arbitrary: m) (simp_all add: fill_default_mono del: not_None_eq)

lemma fills_fill:
  "fd \<in> set fds \<Longrightarrow> segments (fst fd) \<noteq> [] \<Longrightarrow>
   view (JObj (fold fill_default fds m)) (segments (fst fd)) \<noteq> None"
proof (induction fds arbitrary: m)
  case (Cons x fds)
  show ?case
  proof (cases "fd \<in> set fds")
    case True
    with Cons show ?thesis by simp
  next
    case False
    with Cons.prems have "view (JObj (fill_default x m)) (segments (fst fd)) \<noteq> None"
      using fill_default_fills by auto
    then show ?thesis by (simp add: fills_mono del: not_None_eq)
  qed
qed simp

lemma fills_keep:
  "view (JObj m) q = Some n \<Longrightarrow> \<forall>fd\<in>set fds. \<not> strict_prefix q (segments (fst fd)) \<Longrightarrow>
   view (JObj (fold fill_default fds m)) q = Some n"
  by (induction fds arbitrary: m) (simp_all add: fill_default_keeps)

section \<open>The schema check\<close>

definition path_str :: "string \<Rightarrow> string list \<Rightarrow> string" where
  "path_str pre p = foldl dotted pre p"

lemma path_str_clean:
  "list_all clean_key p \<Longrightarrow> p \<noteq> [] \<Longrightarrow> path_str pre p = (if pre = [] then join_with ''.'' p else pre @ ''.'' @ join_with ''.'' p)"
proof (induction p arbitrary: pre)
  case (Cons s p)
  then show ?case
    by (cases p) (auto simp: path_str_def dotted_def clean_key_def)
qed simp

lemma collect_keys_path:
  "json_at (JObj m) p = Some v \<Longrightarrow> p \<noteq> [] \<Longrightarrow> path_str pre p \<in> set (collect_keys pre m)"
proof (induction pre m arbitrary: p rule: collect_keys.induct)
  case (1 pre)
  then show ?case by (cases p) auto
next
  case (2 pre key w m)
  then obtain s ss where p: "p = s # ss" by (cases p) auto
  show ?case
  proof (cases "s = key")
    case True
    have at: "json_at w ss = Some v"
      using "2.prems" p True by simp
    show ?thesis
    proof (cases ss)
      case Nil
      then show ?thesis using p True by (simp add: path_str_def Let_def)
    next
      case (Cons t ts)
      with at obtain child where "w = JObj child" by (cases w) auto
      then have "path_str (dotted pre key) ss \<in> set (collect_keys (dotted pre key) child)"
        using "2.IH"(1)[OF refl] at Cons by simp
      then show ?thesis
        using p True \<open>w = JObj child\<close> by (simp add: path_str_def Let_def)
    qed
  next
    case False
    then have "json_at (JObj m) p = Some v"
      using "2.prems" p by simp
    from "2.IH"(2)[OF refl this] "2.prems" show ?thesis
      by (simp add: Let_def)
  qed
qed

lemma enforce_schema_paths:
  "enforce_schema m reg = Ok u \<Longrightarrow> json_at (JObj m) p = Some v \<Longrightarrow> p \<noteq> [] \<Longrightarrow>
   check_key reg (path_str [] p) = Ok ()"
  by (auto simp: enforce_schema_def try_each_ok dest: collect_keys_path[where pre = "[]"])

lemma split_once_append: "c \<notin> set a \<Longrightarrow> split_once c (a @ c # b) = Some (a, b)"
  by (induction a) auto

lemma split_once_None: "c \<notin> set a \<Longrightarrow> split_once c a = None"
  by (induction a) auto

lemma split_namespace_join:
  "list_all clean_key (s # p) \<Longrightarrow> split_namespace (join_with ''.'' (s # p)) = Ok (s, join_with ''.'' p)"
  by (cases p) (auto simp: split_namespace_def clean_key_def split_once_append split_once_None)

lemma join_with_Nil: "list_all clean_key p \<Longrightarrow> join_with ''.'' p = [] \<longleftrightarrow> p = []"
  by (cases p; cases "tl p") (auto simp: clean_key_def)

lemma check_key_join:
  "list_all clean_key (s # p) \<Longrightarrow>
   check_key reg (join_with ''.'' (s # p)) = Ok u \<longleftrightarrow>
     (\<exists>nsv. reg s = Some nsv \<and> (p \<noteq> [] \<longrightarrow> nv_fields nsv (join_with ''.'' p) \<noteq> None))"
  using split_namespace_join[of s p] join_with_Nil[of p]
  by (auto simp: check_key_def get_namespace_def split: option.splits)

lemma enforce_schema_registered:
  assumes "enforce_schema m reg = Ok u" "json_at (JObj m) (s # p) = Some v" "list_all clean_key (s # p)"
  shows "\<exists>nsv. reg s = Some nsv \<and> (p \<noteq> [] \<longrightarrow> nv_fields nsv (join_with ''.'' p) \<noteq> None)"
  using enforce_schema_paths[OF assms(1,2)] assms(3) check_key_join[OF assms(3)]
  by (simp add: path_str_clean)

section \<open>Flattening\<close>

fun leaves :: "json \<Rightarrow> (string list \<times> json) list" where
  "leaves (JObj m) = concat (map (\<lambda>(k, v). map (\<lambda>(p, l). (k # p, l)) (leaves v)) m)"
| "leaves j = [([], j)]"

definition put_leaf :: "string \<Rightarrow> string list \<times> json \<Rightarrow> jmap \<Rightarrow> jmap" where
  "put_leaf pre x out = jinsert (path_str pre (fst x)) (snd x) out"

lemma flatten_leaves: "flatten_map m pre out = fold (put_leaf pre) (leaves (JObj m)) out"
proof (induction m pre out rule: flatten_map.induct)
  case (2 key v m pre out)
  have below: "fold (put_leaf pre) (map (\<lambda>(p, l). (key # p, l)) xs) out = fold (put_leaf (dotted pre key)) xs out"
    for xs
    by (induction xs arbitrary: out) (auto simp: put_leaf_def path_str_def)
  have root: "put_leaf pr ([], l) acc = jinsert pr l acc" for pr l acc
    by (simp add: put_leaf_def path_str_def)
  have "(case v of JObj child \<Rightarrow> flatten_map child (dotted pre key) out
        | _ \<Rightarrow> jinsert (dotted pre key) v out) = fold (put_leaf (dotted pre key)) (leaves v) out"
    using "2.IH"(1) by (cases v) (simp_all add: root)
  with "2.IH"(2) show ?case
    by (simp add: below)
qed simp

definition leaf_at :: "json \<Rightarrow> string list \<Rightarrow> json option" where
  "leaf_at j p = (case view j p of Some (Leaf l) \<Rightarrow> Some l | _ \<Rightarrow> None)"

lemma leaf_at_Some: "leaf_at j p = Some l \<longleftrightarrow> json_at j p = Some l \<and> (\<forall>m. l \<noteq> JObj m)"
  unfolding view_leaf_at[symmetric] by (simp add: leaf_at_def split: option.split tree_node.split)

lemma leaf_at_step: "leaf_at (JObj m) (s # p) = Option.bind (map_of m s) (\<lambda>j. leaf_at j p)"
  by (cases "map_of m s") (simp_all add: leaf_at_def)

lemma leaves_set: "json_wf j \<Longrightarrow> (p, l) \<in> set (leaves j) \<longleftrightarrow> leaf_at j p = Some l"
proof (induction j arbitrary: p rule: leaves.induct)
  case (1 m)
  have d: "distinct (map fst m)"
    using "1.prems" by (simp add: jsorted_distinct)
  show ?case
  proof (cases p)
    case Nil
    then show ?thesis by (auto simp: leaf_at_def)
  next
    case (Cons s ss)
    have below: "(ss, l) \<in> set (leaves j) \<longleftrightarrow> leaf_at j ss = Some l" if "(s, j) \<in> set m" for j
      using "1.IH"[OF that refl] "1.prems" that by (auto simp: list_all_iff)
    have "(p, l) \<in> set (leaves (JObj m)) \<longleftrightarrow> (\<exists>j. (s, j) \<in> set m \<and> (ss, l) \<in> set (leaves j))"
      using Cons by force
    also have "\<dots> \<longleftrightarrow> (\<exists>j. map_of m s = Some j \<and> leaf_at j ss = Some l)"
      using d by (auto simp: below)
    finally show ?thesis
      using Cons by (simp add: leaf_at_step bind_eq_Some_conv)
  qed
qed (auto simp: leaf_at_Some elim: json_at.elims)

lemma leaves_cons:
  "leaves (JObj ((k, v) # n)) = map (\<lambda>(p, l). (k # p, l)) (leaves v) @ leaves (JObj n)"
  by simp

lemma leaves_distinct: "json_wf j \<Longrightarrow> distinct (map fst (leaves j))"
proof (induction j rule: leaves.induct)
  case (1 m)
  have step: "distinct (map fst (leaves (JObj n)))" if "distinct (map fst n)" "set n \<subseteq> set m" for n
    using that
  proof (induction n)
    case (Cons x n)
    obtain k v where x: "x = (k, v)" by (cases x)
    have "distinct (map fst (leaves v))"
      using 1 x Cons.prems by (auto simp: list_all_iff)
    then have "distinct (map fst (map (\<lambda>(p, l). (k # p, l)) (leaves v)))"
      by (simp add: o_def split_beta distinct_map inj_on_def)
    moreover have "(k # ss, l) \<notin> set (leaves (JObj n))" for ss l
      using Cons.prems x by force
    ultimately show ?case
      using Cons.IH Cons.prems x by (auto simp del: leaves.simps simp: leaves_cons)
  qed simp
  show ?case
    using "1.prems" by (intro step) (auto simp: jsorted_distinct simp del: leaves.simps)
qed simp_all

lemma flat_lookup:
  assumes "json_wf (JObj m)" "clean (JObj m)"
  shows "map_of (flatten_map m [] []) k = Some l \<longleftrightarrow> (\<exists>p. k = join_with ''.'' p \<and> leaf_at (JObj m) p = Some l)"
proof -
  let ?xs = "map (\<lambda>x. (path_str [] (fst x), snd x)) (leaves (JObj m))"
  have cleanp: "list_all clean_key p \<and> p \<noteq> []" if "leaf_at (JObj m) p = Some v" for p v
    using that clean_path[OF assms(2)] by (auto simp: leaf_at_Some)
  have str: "path_str [] p = join_with ''.'' p" if "leaf_at (JObj m) p = Some v" for p v
    using cleanp[OF that] by (simp add: path_str_clean)
  have inj: "inj_on (path_str []) (fst ` set (leaves (JObj m)))"
  proof (rule inj_onI)
    fix p q assume "p \<in> fst ` set (leaves (JObj m))" "q \<in> fst ` set (leaves (JObj m))"
      and eq: "path_str [] p = path_str [] q"
    then obtain u v where uv: "leaf_at (JObj m) p = Some u" "leaf_at (JObj m) q = Some v"
      using leaves_set[OF assms(1)] by (metis (no_types, lifting) imageE prod.collapse)
    then show "p = q"
      using eq segments_join cleanp str by metis
  qed
  have fold_ext: "fold (put_leaf []) xs out = jextend out (map (\<lambda>x. (path_str [] (fst x), snd x)) xs)"
    for xs out
    by (induction xs arbitrary: out) (simp_all add: put_leaf_def jextend_def)
  have "distinct (map fst ?xs)"
    using leaves_distinct[OF assms(1)] inj by (simp add: o_def distinct_map comp_inj_on_iff[symmetric] del: leaves.simps)
       (auto simp: inj_on_def distinct_map simp del: leaves.simps)
  then have "map_of (rev ?xs) k = Some l \<longleftrightarrow> (k, l) \<in> set ?xs"
    by (subst map_of_eq_Some_iff) (simp_all add: rev_map[symmetric] del: leaves.simps)
  also have "\<dots> \<longleftrightarrow> (\<exists>p. k = join_with ''.'' p \<and> leaf_at (JObj m) p = Some l)"
    using leaves_set[OF assms(1)] str by (force simp del: leaves.simps)
  finally show ?thesis
    by (simp add: flatten_leaves fold_ext map_of_jextend del: leaves.simps)
qed

section \<open>Properties of a load\<close>

text \<open>
  C32: Sources are layered in order: when every source loads, the merged map is well formed and
  stands for the tree of the first source overlaid by that of the second and so on, an entry of a
  later source replacing what earlier ones hold at its path, and a leaf of it hiding all they hold
  below.
\<close>

theorem sources_layer:
  assumes "list_all2 (\<lambda>src s. src w = Ok s \<and> json_wf (JObj (ss_map s))) srcs snaps"
  shows "\<exists>m. merge_sources w srcs [] = Ok m \<and> json_wf (JObj m) \<and>
    view (JObj m) = fold (\<lambda>s t. overlay t (view (JObj (ss_map s)))) snaps (view (JObj []))"
  using merge_sources_layers[OF assms json_wf_empty] unfolding layers_def .

definition demo_world :: config_world where
  "demo_world = \<lparr>env_vars = [(''SOUL_APP__NAME'', ''env''), (''PATH'', ''x'')],
     config_files = (\<lambda>p. if p = ''a.json'' then
       Parsed (JObj [(''app'', JObj [(''mode'', JStr ''file''), (''name'', JStr ''file'')])]) else Missing)\<rparr>"

definition demo_env :: env_source where
  "demo_env = \<lparr>es_prefix = ''SOUL'', es_separator = ''__''\<rparr>"

definition demo_sources :: "(config_world \<Rightarrow> source_snapshot config_result) list" where
  "demo_sources = [file_load [''a.json'', ''b.json''], env_load demo_env, cli_load [''--app.mode=cli'']]"

lemma demo_file: "file_load [''a.json'', ''b.json''] demo_world = Ok \<lparr>ss_map =
    [(''app'', JObj [(''mode'', JStr ''file''), (''name'', JStr ''file'')])],
    ss_provenance = [provenance_entry_of ''a.json'' ''file'']\<rparr>"
  by (simp add: file_load_def demo_world_def)

lemma demo_env_path: "env_path demo_env ''SOUL_APP__NAME'' = Some ''app.name''"
  by code_simp

lemma demo_env_load: "env_load demo_env demo_world = Ok \<lparr>ss_map = [(''app'', JObj [(''name'', JStr ''env'')])],
    ss_provenance = [provenance_entry_of ''env'' ''env'']\<rparr>"
proof -
  have "env_path demo_env ''PATH'' = None"
    by code_simp
  moreover have "segments ''app.name'' = [''app'', ''name'']"
    by code_simp
  ultimately show ?thesis
    by (simp add: env_load_def demo_world_def env_put_def demo_env_path merge_value_def)
qed

lemma demo_cli_load: "cli_load [''--app.mode=cli''] w = Ok \<lparr>ss_map = [(''app'', JObj [(''mode'', JStr ''cli'')])],
    ss_provenance = [provenance_entry_of ''cli'' ''cli'']\<rparr>"
proof -
  have "segments ''app.mode'' = [''app'', ''mode'']"
    by code_simp
  then show ?thesis
    by (simp add: cli_load_def cli_put_def strip_prefix_def merge_value_def)
qed

theorem sources_layer_witness:
  "\<exists>m. merge_sources demo_world demo_sources [] = Ok m \<and>
     view (JObj m) [''app'', ''mode''] = Some (Leaf (JStr ''cli'')) \<and>
     view (JObj m) [''app'', ''name''] = Some (Leaf (JStr ''env''))"
proof -
  let ?snaps = "map (\<lambda>src. projr (src demo_world)) demo_sources"
  have "list_all2 (\<lambda>src s. src demo_world = Ok s \<and> json_wf (JObj (ss_map s))) demo_sources ?snaps"
    by (simp add: demo_sources_def demo_file demo_env_load demo_cli_load jsorted_def)
  from sources_layer[OF this] show ?thesis
    by (elim exE conjE) (rule exI, rule conjI, assumption, simp add: demo_sources_def demo_file
      demo_env_load demo_cli_load overlay_def)
qed

text \<open>
  Applying the registered defaults keeps every path of the map, fills the path of every default
  that names one, and keeps the value at every path that no default's path runs through.
\<close>

theorem defaults_fill_gaps:
  "(path_in m q \<longrightarrow> path_in (apply_defaults it reg m) q) \<and>
   (\<forall>ns key nsv meta d. ns \<in> set (it_namespaces it) \<and> reg ns = Some nsv \<and> key \<in> set (it_fields it ns) \<and>
      nv_fields nsv key = Some meta \<and> fm_default meta = Some d \<and> segments (compose_full_path ns key) \<noteq> [] \<longrightarrow>
      path_exists (apply_defaults it reg m) (compose_full_path ns key)) \<and>
   (\<forall>l. view (JObj m) q = Some (Leaf l) \<and>
      (\<forall>ns\<in>set (it_namespaces it). \<forall>key\<in>set (it_fields it ns).
         get_field_meta reg ns key \<noteq> None \<longrightarrow> \<not> strict_prefix q (segments (compose_full_path ns key))) \<longrightarrow>
      view (JObj (apply_defaults it reg m)) q = Some (Leaf l))"
proof (intro conjI impI allI)
  assume "path_in m q"
  then show "path_in (apply_defaults it reg m) q"
    by (simp add: path_in_view apply_defaults_fill fills_mono del: not_None_eq)
next
  fix ns key nsv meta d
  assume a: "ns \<in> set (it_namespaces it) \<and> reg ns = Some nsv \<and> key \<in> set (it_fields it ns) \<and>
      nv_fields nsv key = Some meta \<and> fm_default meta = Some d \<and> segments (compose_full_path ns key) \<noteq> []"
  then have "(compose_full_path ns key, d) \<in> set (registry_defaults it reg)"
    by (auto simp: registry_defaults_set)
  from fills_fill[OF this] a show "path_exists (apply_defaults it reg m) (compose_full_path ns key)"
    by (simp add: path_exists_def path_in_view apply_defaults_fill del: not_None_eq)
next
  fix l
  assume a: "view (JObj m) q = Some (Leaf l) \<and>
      (\<forall>ns\<in>set (it_namespaces it). \<forall>key\<in>set (it_fields it ns).
         get_field_meta reg ns key \<noteq> None \<longrightarrow> \<not> strict_prefix q (segments (compose_full_path ns key)))"
  have "\<not> strict_prefix q (segments (fst fd))" if "fd \<in> set (registry_defaults it reg)" for fd
    using that a by (auto simp: registry_defaults_set get_field_meta_def)
  then show "view (JObj (apply_defaults it reg m)) q = Some (Leaf l)"
    using a by (simp add: apply_defaults_fill fills_keep)
qed

definition demo_field :: "json option \<Rightarrow> field_meta" where
  "demo_field d = \<lparr>fm_reload = HotReloadSafe, fm_sensitive = False, fm_default = d, fm_description = None\<rparr>"

definition demo_schema :: schema_registry where
  "demo_schema = register_namespace ''app'' None
     [''name'' \<mapsto> demo_field (Some (JStr ''Soulseed'')), ''mode'' \<mapsto> demo_field None] schema_registry_new"

definition demo_iteration :: iteration where
  "demo_iteration = \<lparr>it_namespaces = [''app''], it_fields = (\<lambda>_. [''name'', ''mode''])\<rparr>"

lemma demo_segments: "segments ''app.name'' = [''app'', ''name'']" "segments ''app.mode'' = [''app'', ''mode'']"
  by code_simp+

lemma demo_full: "compose_full_path ''app'' ''name'' = ''app.name''" "compose_full_path ''app'' ''mode'' = ''app.mode''"
  by (simp_all add: compose_full_path_def)

lemma demo_schema_app:
  "demo_schema ''app'' = Some \<lparr>nv_schema = None, nv_fields =
     [''name'' \<mapsto> demo_field (Some (JStr ''Soulseed'')), ''mode'' \<mapsto> demo_field None]\<rparr>"
  by (simp add: demo_schema_def register_namespace_def)

theorem defaults_fill_gaps_witness:
  "path_exists (apply_defaults demo_iteration demo_schema []) ''app.name'' \<and>
   view (JObj (apply_defaults demo_iteration demo_schema [(''app'', JObj [(''mode'', JStr ''x'')])])) [''app'', ''mode'']
     = Some (Leaf (JStr ''x''))"
proof
  note fills = defaults_fill_gaps[of "[]" "[]" demo_iteration demo_schema]
  show "path_exists (apply_defaults demo_iteration demo_schema []) ''app.name''"
    using conjunct1[OF conjunct2[OF fills], rule_format, of "''app''"
        "\<lparr>nv_schema = None, nv_fields =
           [''name'' \<mapsto> demo_field (Some (JStr ''Soulseed'')), ''mode'' \<mapsto> demo_field None]\<rparr>" "''name''"
        "demo_field (Some (JStr ''Soulseed''))" "JStr ''Soulseed''"]
    by (simp add: demo_iteration_def demo_full demo_segments demo_schema_app demo_field_def)
next
  let ?m = "[(''app'', JObj [(''mode'', JStr ''x'')])]"
  note keeps = defaults_fill_gaps[of ?m "[''app'', ''mode'']" demo_iteration demo_schema]
  show "view (JObj (apply_defaults demo_iteration demo_schema ?m)) [''app'', ''mode''] = Some (Leaf (JStr ''x''))"
    by (rule conjunct2[OF conjunct2[OF keeps], rule_format])
      (simp add: demo_iteration_def demo_full demo_segments)
qed

text \<open>
  C37: A snapshot loaded without secret resolvers holds only what the schema registry knows: at every
  path that dotted keys can name, the first segment is a registered namespace and the rest, if any, a
  field registered there under its dotted name.
\<close>

theorem loaded_snapshot_registered:
  assumes "load_with_prev ld it w now prev = Ok (snap, ev)"
    and "ld_secrets ld = []"
    and "json_at (snap_data snap) (s # p) = Some v"
    and "list_all clean_key (s # p)"
  shows "\<exists>nsv. ld_registry ld s = Some nsv \<and> (p \<noteq> [] \<longrightarrow> nv_fields nsv (join_with ''.'' p) \<noteq> None)"
proof -
  obtain m where "enforce_schema m (ld_registry ld) = Ok ()" "snap_data snap = JObj m"
    using assms(1,2) by (auto simp: load_with_prev_def Let_def snapshot_new_def)
  with assms(3,4) show ?thesis
    by (intro enforce_schema_registered[where m = m]) simp_all
qed

definition demo_loader :: loader where
  "demo_loader = \<lparr>ld_sources = demo_sources, ld_secrets = [], ld_validator = basic_validator,
     ld_registry = demo_schema, ld_digest = (\<lambda>_. ''digest'')\<rparr>"

lemma demo_check_key:
  "check_key demo_schema ''app'' = Ok ()" "check_key demo_schema ''app.name'' = Ok ()"
  "check_key demo_schema ''app.mode'' = Ok ()"
  by (simp_all add: check_key_def split_namespace_def get_namespace_def demo_schema_def
    register_namespace_def schema_registry_new_def)

definition demo_map :: config_map where
  "demo_map = [(''app'', JObj [(''mode'', JStr ''cli''), (''name'', JStr ''env'')])]"

lemma demo_merged: "merge_sources demo_world demo_sources [] = Ok demo_map"
  by (simp add: demo_sources_def demo_file demo_env_load demo_cli_load demo_map_def)

lemma demo_defaults: "apply_defaults demo_iteration demo_schema demo_map = demo_map"
  by (simp add: apply_defaults_def namespaces_def map_keys_def demo_iteration_def demo_schema_def
    register_namespace_def schema_registry_new_def default_namespace_def get_namespace_def default_field_def
    demo_field_def compose_full_path_def path_exists_def demo_segments demo_map_def)

lemma demo_enforced: "enforce_schema demo_map demo_schema = Ok ()"
  by (simp add: enforce_schema_def demo_map_def dotted_def Let_def demo_check_key)

lemma demo_load:
  "\<exists>ev. load_with_prev demo_loader demo_iteration demo_world 7 None =
     Ok (snapshot_new demo_map \<lparr>sm_version = ''v7'', sm_checksum = ''digest'', sm_issued_at = 7,
       sm_reload_summary = build_reload_summary demo_iteration demo_schema\<rparr>, ev)"
proof -
  have "show_int (i64_wrap 7) = ''7''" "i64_wrap 7 = 7"
    by code_simp+
  then show ?thesis
    by (simp add: load_with_prev_def demo_loader_def demo_merged demo_defaults demo_enforced basic_validator_def Let_def)
qed

theorem loaded_snapshot_registered_witness:
  "\<exists>nsv. demo_schema ''app'' = Some nsv \<and> nv_fields nsv ''mode'' \<noteq> None"
proof -
  obtain ev where l: "load_with_prev demo_loader demo_iteration demo_world 7 None =
     Ok (snapshot_new demo_map \<lparr>sm_version = ''v7'', sm_checksum = ''digest'', sm_issued_at = 7,
       sm_reload_summary = build_reload_summary demo_iteration demo_schema\<rparr>, ev)"
    using demo_load by blast
  show ?thesis
    using loaded_snapshot_registered[OF l, of "''app''" "[''mode'']" "JStr ''cli''"]
    by (simp add: demo_loader_def snapshot_new_def demo_map_def clean_key_def)
qed

text \<open>What the flat map of a snapshot, or of no snapshot, looks up.\<close>

definition tree_of :: "config_snapshot option \<Rightarrow> json" where
  "tree_of snap = (case snap of Some s \<Rightarrow> snap_data s | None \<Rightarrow> JObj [])"

definition addressable :: "json \<Rightarrow> bool" where
  "addressable j \<longleftrightarrow> (\<exists>m. j = JObj m) \<and> json_wf j \<and> clean j"

definition flat_of :: "config_snapshot option \<Rightarrow> jmap" where
  "flat_of snap = (case snap of Some s \<Rightarrow> flatten_snapshot s | None \<Rightarrow> [])"

lemma leaf_at_empty: "leaf_at (JObj []) p = None"
  by (cases p) (simp_all add: leaf_at_def)

lemma flat_of_lookup:
  assumes "addressable (tree_of snap)"
  shows "map_of (flat_of snap) k = Some l \<longleftrightarrow> (\<exists>p. k = join_with ''.'' p \<and> leaf_at (tree_of snap) p = Some l)"
proof (cases snap)
  case None
  then show ?thesis by (simp add: flat_of_def tree_of_def leaf_at_empty)
next
  case (Some s)
  with assms show ?thesis
    by (auto simp: addressable_def flat_of_def tree_of_def flatten_snapshot_def flat_lookup
      simp del: json_wf.simps clean.simps)
qed

lemma addressable_leaf:
  "addressable j \<Longrightarrow> leaf_at j p = Some l \<Longrightarrow> list_all clean_key p \<and> p \<noteq> []"
  by (auto simp: addressable_def leaf_at_Some simp del: clean.simps dest: clean_path)

lemma option_ext: "(\<And>l. x = Some l \<longleftrightarrow> y = Some l) \<Longrightarrow> x = y"
  by (cases x; cases y) auto

lemma flat_of_join:
  assumes "addressable (tree_of snap)" "list_all clean_key p" "p \<noteq> []"
  shows "map_of (flat_of snap) (join_with ''.'' p) = leaf_at (tree_of snap) p"
proof -
  have "map_of (flat_of snap) (join_with ''.'' p) = Some l \<longleftrightarrow> leaf_at (tree_of snap) p = Some l" for l
    using flat_of_lookup[OF assms(1), of "join_with ''.'' p" l] addressable_leaf[OF assms(1)]
      segments_join assms(2,3) by metis
  then show ?thesis
    by (rule option_ext)
qed

lemma differ_some: "x \<noteq> y \<Longrightarrow> (\<And>l. x = Some l \<Longrightarrow> P) \<Longrightarrow> (\<And>l. y = Some l \<Longrightarrow> P) \<Longrightarrow> P"
  by (cases x; cases y) auto

lemma changed_keys_set:
  "k \<in> set (compute_changed_keys prev cur) \<longleftrightarrow> map_of (flat_of prev) k \<noteq> map_of (flat_of (Some cur)) k"
proof -
  have "k \<in> fst ` set (flatten_snapshot cur) \<union> fst ` set (flat_of prev)"
    if "map_of (flat_of prev) k \<noteq> map_of (flatten_snapshot cur) k"
    using that by (rule differ_some) (auto dest!: map_of_SomeD intro: rev_image_eqI)
  then show ?thesis
    by (auto simp: compute_changed_keys_def Let_def flat_of_def cong: option.case_cong)
qed

text \<open>
  The changed keys of an update are exact: sorted, without repetition, and the dotted names of
  exactly the paths whose leaf value differs between the two snapshots, added and removed leaves
  included.
\<close>

theorem changed_keys_exact:
  assumes "addressable (tree_of prev)" "addressable (snap_data cur)"
  shows "sorted (compute_changed_keys prev cur) \<and> distinct (compute_changed_keys prev cur) \<and>
    set (compute_changed_keys prev cur)
      = join_with ''.'' ` {p. leaf_at (tree_of prev) p \<noteq> leaf_at (snap_data cur) p}"
proof (intro conjI)
  have wf: "addressable (tree_of prev)" "addressable (tree_of (Some cur))"
    using assms by (simp_all add: tree_of_def)
  have cur: "snap_data cur = tree_of (Some cur)"
    by (simp add: tree_of_def)
  show "set (compute_changed_keys prev cur)
      = join_with ''.'' ` {p. leaf_at (tree_of prev) p \<noteq> leaf_at (snap_data cur) p}"
  proof (intro equalityI subsetI)
    fix k assume "k \<in> set (compute_changed_keys prev cur)"
    then have diff: "map_of (flat_of prev) k \<noteq> map_of (flat_of (Some cur)) k"
      by (simp add: changed_keys_set)
    then have "\<exists>p. k = join_with ''.'' p \<and> list_all clean_key p \<and> p \<noteq> []"
      by (rule differ_some) (use flat_of_lookup addressable_leaf wf in blast)+
    then obtain p where p: "k = join_with ''.'' p" "list_all clean_key p" "p \<noteq> []"
      by blast
    with diff flat_of_join wf cur
    show "k \<in> join_with ''.'' ` {p. leaf_at (tree_of prev) p \<noteq> leaf_at (snap_data cur) p}"
      by auto
  next
    fix k assume "k \<in> join_with ''.'' ` {p. leaf_at (tree_of prev) p \<noteq> leaf_at (snap_data cur) p}"
    then obtain p where p: "k = join_with ''.'' p" "leaf_at (tree_of prev) p \<noteq> leaf_at (tree_of (Some cur)) p"
      by (auto simp: cur)
    from p(2) have "list_all clean_key p \<and> p \<noteq> []"
      by (rule differ_some) (use addressable_leaf wf in blast)+
    with p flat_of_join wf show "k \<in> set (compute_changed_keys prev cur)"
      by (simp add: changed_keys_set)
  qed
qed (simp_all add: compute_changed_keys_def Let_def)

theorem changed_keys_exact_witness:
  "let cur = snapshot_new [(''app'', JObj [(''name'', JStr ''x'')])] \<lparr>sm_version = ''v1'', sm_checksum = [],
     sm_issued_at = 1, sm_reload_summary = (\<lambda>_. None)\<rparr>
   in ''app.name'' \<in> set (compute_changed_keys None cur)"
proof -
  let ?cur = "snapshot_new [(''app'', JObj [(''name'', JStr ''x'')])] \<lparr>sm_version = ''v1'', sm_checksum = [],
     sm_issued_at = 1, sm_reload_summary = (\<lambda>_. None)\<rparr>"
  have "addressable (tree_of None)" "addressable (snap_data ?cur)"
    by (simp_all add: addressable_def tree_of_def snapshot_new_def clean_key_def jsorted_def)
  from changed_keys_exact[OF this]
  have set: "set (compute_changed_keys None ?cur)
      = join_with ''.'' ` {p. leaf_at (tree_of None) p \<noteq> leaf_at (snap_data ?cur) p}"
    by blast
  have "leaf_at (tree_of None) [''app'', ''name''] \<noteq> leaf_at (snap_data ?cur) [''app'', ''name'']"
    by (simp add: leaf_at_def tree_of_def snapshot_new_def)
  with set have "join_with ''.'' [''app'', ''name''] \<in> set (compute_changed_keys None ?cur)"
    by blast
  then show ?thesis by simp
qed

text \<open>Loading the same tree again changes nothing.\<close>

lemma reload_unchanged: "snap_data s = snap_data s' \<Longrightarrow> compute_changed_keys (Some s) s' = []"
proof -
  assume "snap_data s = snap_data s'"
  then have "flatten_snapshot s = flatten_snapshot s'"
    by (simp add: flatten_snapshot_def)
  then show ?thesis
    by (simp add: compute_changed_keys_def)
qed

text \<open>
  A field with a default that is registered below a key which is not itself registered makes
  every load fail: the default creates the intermediate object, whose key the schema check
  refuses.
\<close>

theorem nested_default_unloadable:
  assumes "ns \<in> set (it_namespaces it)" "ld_registry ld ns = Some nsv"
    and "join_with ''.'' (p @ q) \<in> set (it_fields it ns)"
    and "nv_fields nsv (join_with ''.'' (p @ q)) = Some meta" "fm_default meta = Some d"
    and "list_all clean_key (ns # p @ q)" "p \<noteq> []"
    and "nv_fields nsv (join_with ''.'' p) = None"
  shows "\<not> is_ok (load_with_prev ld it w now prev)"
proof
  let ?key = "join_with ''.'' (p @ q)"
  assume "is_ok (load_with_prev ld it w now prev)"
  then obtain layered where e: "enforce_schema (apply_defaults it (ld_registry ld) layered) (ld_registry ld) = Ok ()"
    by (auto simp: load_with_prev_def Let_def is_ok_iff)
  have full: "compose_full_path ns ?key = join_with ''.'' (ns # p @ q)"
    using assms(6,7) join_with_Nil[of "p @ q"] by (cases "p @ q") (simp_all add: compose_full_path_def)
  have segs: "segments (compose_full_path ns ?key) = ns # p @ q"
    using assms(6) unfolding full by (intro segments_join) simp_all
  have "(compose_full_path ns ?key, d) \<in> set (registry_defaults it (ld_registry ld))"
    using assms(1-5) by (auto simp: registry_defaults_set)
  from fills_fill[OF this, of layered]
  have "view (JObj (apply_defaults it (ld_registry ld) layered)) ((ns # p) @ q) \<noteq> None"
    by (simp add: segs apply_defaults_fill del: not_None_eq view_step)
  from view_prefix[OF this] obtain v
    where v: "json_at (JObj (apply_defaults it (ld_registry ld) layered)) (ns # p) = Some v"
    by (auto simp: view_def)
  from enforce_schema_registered[OF e v] assms(2,6,7,8) show False
    by auto
qed

definition nested_schema :: schema_registry where
  "nested_schema = register_namespace ''app'' None [''db.url'' \<mapsto> demo_field (Some (JStr ''u''))] schema_registry_new"

theorem nested_default_unloadable_witness:
  "\<not> is_ok (load_with_prev (demo_loader\<lparr>ld_registry := nested_schema\<rparr>)
     \<lparr>it_namespaces = [''app''], it_fields = (\<lambda>_. [''db.url''])\<rparr> demo_world 0 None)"
  using nested_default_unloadable[where ns = "''app''" and p = "[''db'']" and q = "[''url'']"
      and meta = "demo_field (Some (JStr ''u''))" and d = "JStr ''u''" and w = demo_world and now = 0 and prev = None
      and it = "\<lparr>it_namespaces = [''app''], it_fields = (\<lambda>_. [''db.url''])\<rparr>"
      and ld = "demo_loader\<lparr>ld_registry := nested_schema\<rparr>"
      and nsv = "\<lparr>nv_schema = None, nv_fields = [''db.url'' \<mapsto> demo_field (Some (JStr ''u''))]\<rparr>"]
  by (simp add: nested_schema_def register_namespace_def clean_key_def demo_field_def)

text \<open>
  A key with a dot in a configuration file passes the check as the nested field of that name, but the
  accessors, which split the name, do not find it.
\<close>

lemma dotted_file_key_unreachable:
  "check_key reg ''app.name'' = Ok () \<Longrightarrow>
   enforce_schema [(''app.name'', JStr v)] reg = Ok () \<and>
   get_raw (snapshot_new [(''app.name'', JStr v)] meta) ''app.name'' = None"
  by (simp add: enforce_schema_def dotted_def Let_def get_raw_def demo_segments snapshot_new_def)

text \<open>An object that disappears with nothing in it is not reported.\<close>

lemma empty_object_change_unreported:
  "compute_changed_keys (Some (snapshot_new [(''app'', JObj [])] m)) (snapshot_new [] m') = []"
  by (simp add: compute_changed_keys_def flatten_snapshot_def snapshot_new_def)

text \<open>The event's envelope has the partition key \<open>config\<close> and an actor of tenant \<open>global\<close>.\<close>

lemma wrap_update_invalid: "validate_envelope semver (wrap_update event) \<noteq> Ok ()"
  by (auto simp: validate_envelope_ok wrap_update_def envelope_new_def subject_new_def starts_with_def)

end
