(* ===== verification/SortBy.thy ===== *)
theory SortBy
  imports Prelude "HOL-Library.Multiset"
begin

text \<open>
  The standard library's comparisons and its stable \<open>sort_by\<close>, what the sort promises when the
  comparison is a total preorder, and the operations of \<open>f32\<close> the sources use, which are
  parameters: HOL has no IEEE floats among the theories used here.
\<close>

section \<open>Sorting by a comparison\<close>

text \<open>\<open>std::cmp::Ordering\<close>.\<close>

datatype ordering = Less | Equal | Greater

text \<open>
  \<open>sort_by\<close> is stable; for a comparison that is a total preorder the stable sort is the one
  insertion gives.
\<close>

fun insert_by :: "('a \<Rightarrow> 'a \<Rightarrow> ordering) \<Rightarrow> 'a \<Rightarrow> 'a list \<Rightarrow> 'a list" where
  "insert_by cmp x [] = [x]"
| "insert_by cmp x (y # ys) = (if cmp x y = Greater then y # insert_by cmp x ys else x # y # ys)"

definition sort_by :: "('a \<Rightarrow> 'a \<Rightarrow> ordering) \<Rightarrow> 'a list \<Rightarrow> 'a list" where
  "sort_by cmp xs = foldr (insert_by cmp) xs []"

lemma set_insert_by [simp]: "set (insert_by cmp x ys) = insert x (set ys)"
  by (induction ys) auto

lemma set_sort_by [simp]: "set (sort_by cmp xs) = set xs"
  by (induction xs) (simp_all add: sort_by_def)

lemma length_insert_by [simp]: "length (insert_by cmp x ys) = Suc (length ys)"
  by (induction ys) auto

lemma mset_insert_by: "mset (insert_by cmp x ys) = add_mset x (mset ys)"
  by (induction ys) auto

lemma mset_sort_by: "mset (sort_by cmp xs) = mset xs"
  by (induction xs) (simp_all add: sort_by_def mset_insert_by)

text \<open>A comparison is sound for \<open>le\<close> when it is total and transitive and decides \<open>le\<close>.\<close>

definition decides :: "('a \<Rightarrow> 'a \<Rightarrow> ordering) \<Rightarrow> ('a \<Rightarrow> 'a \<Rightarrow> bool) \<Rightarrow> bool" where
  "decides cmp le \<longleftrightarrow>
     (\<forall>x y. cmp x y = (if le x y then if le y x then Equal else Less else Greater)) \<and>
     (\<forall>x y. le x y \<or> le y x) \<and> (\<forall>x y z. le x y \<longrightarrow> le y z \<longrightarrow> le x z)"

text \<open>In the result, an element comes before another when it is less, or equal and came first.\<close>

definition stable_before :: "('a \<Rightarrow> 'a \<Rightarrow> bool) \<Rightarrow> ('a \<Rightarrow> 'a \<Rightarrow> bool) \<Rightarrow> 'a \<Rightarrow> 'a \<Rightarrow> bool" where
  "stable_before le first x y \<longleftrightarrow> le x y \<and> (le y x \<longrightarrow> first x y)"

lemma insert_by_stable:
  assumes d: "decides cmp le" and "sorted_wrt (stable_before le first) ys" "\<forall>y\<in>set ys. first x y"
  shows "sorted_wrt (stable_before le first) (insert_by cmp x ys)"
  using assms(2,3)
proof (induction ys)
  case (Cons y ys)
  have total: "le a b \<or> le b a" and trans: "le a b \<Longrightarrow> le b c \<Longrightarrow> le a c" for a b c
    using d unfolding decides_def by blast+
  have greater: "cmp x y = Greater \<longleftrightarrow> \<not> le x y"
    using d by (simp add: decides_def)
  have set: "set (insert_by cmp x ys) = insert x (set ys)"
    by (rule set_insert_by)
  show ?case
  proof (cases "le x y")
    case True
    have "stable_before le first x z" if "z \<in> set (y # ys)" for z
      using that True Cons.prems trans unfolding stable_before_def by auto
    with Cons.prems greater True show ?thesis by simp
  next
    case False
    then have "stable_before le first y x"
      using total[of x y] by (simp add: stable_before_def)
    with Cons greater False set show ?thesis by auto
  qed
qed simp

lemma sort_by_stable:
  "decides cmp le \<Longrightarrow> sorted_wrt first xs \<Longrightarrow> sorted_wrt (stable_before le first) (sort_by cmp xs)"
proof (induction xs)
  case (Cons x xs)
  have "set (sort_by cmp xs) = set xs"
    by (rule set_sort_by)
  with Cons show ?case
    using insert_by_stable[of cmp le first "sort_by cmp xs" x] by (simp add: sort_by_def)
qed (simp add: sort_by_def)

section \<open>Floating point\<close>

text \<open>Arithmetic on \<open>f32\<close>; \<open>f_le\<close> is the operator \<open><=\<close>, \<open>f_cmp\<close> is \<open>partial_cmp\<close>.\<close>

record 'f f32_ops =
  f_zero :: 'f
  f_tiny :: 'f
  f_of_nat :: "nat \<Rightarrow> 'f"
  f_add :: "'f \<Rightarrow> 'f \<Rightarrow> 'f"
  f_sub :: "'f \<Rightarrow> 'f \<Rightarrow> 'f"
  f_mul :: "'f \<Rightarrow> 'f \<Rightarrow> 'f"
  f_div :: "'f \<Rightarrow> 'f \<Rightarrow> 'f"
  f_sqrt :: "'f \<Rightarrow> 'f"
  f_max :: "'f \<Rightarrow> 'f \<Rightarrow> 'f"
  f_le :: "'f \<Rightarrow> 'f \<Rightarrow> bool"
  f_cmp :: "'f \<Rightarrow> 'f \<Rightarrow> ordering option"

end
