(* ===== verification/StorageMock.thy ===== *)
theory StorageMock
  imports StorageFilter KeyedStore SortBy
begin

text \<open>
  The in-memory store of the storage crate (\<open>mock/datastore.rs\<close>): repository
  (\<open>mock/repo.rs\<close>), graph (\<open>mock/graph.rs\<close>), search (\<open>mock/search.rs\<close>),
  migrator (\<open>mock/migrate.rs\<close>) and the writes of the vector index (\<open>mock/vector.rs\<close>).
  An operation holds the locks it needs for its whole body and is one step.  Rows of a table come in
  hash order, the argument \<open>ks\<close>.  The comparison of two numbers as \<open>f64\<close> is the parameter
  \<open>f64_cmp\<close>.

  That no operation of a tenant touches the records of another is the locale
  \<open>tenant_isolated\<close>, interpreted on the repository.
\<close>

section \<open>Isolation of tenants\<close>

locale tenant_isolated =
  fixes get :: "'s \<Rightarrow> 'k \<Rightarrow> 'v option"
    and step :: "'op \<Rightarrow> 's \<Rightarrow> 's"
    and issuer :: "'op \<Rightarrow> tenant_id"
    and owned :: "tenant_id \<Rightarrow> 'v \<Rightarrow> bool"
  assumes foreign: "get s k = Some v \<Longrightarrow> owned t v \<Longrightarrow> issuer x \<noteq> t \<Longrightarrow> get (step x s) k = Some v"
begin

lemma run_foreign:
  "get s k = Some v \<Longrightarrow> owned t v \<Longrightarrow> t \<notin> issuer ` set xs \<Longrightarrow> get (fold step xs s) k = Some v"
  by (induction xs arbitrary: s) (auto simp: foreign)

end

section \<open>State\<close>

type_synonym mock_table = "string \<Rightarrow> json option"

record edge_record =
  ed_tenant :: string
  ed_from :: string
  ed_edge :: string
  ed_to :: string
  ed_properties :: json

record 'f mock_state =
  ms_tables :: "string \<Rightarrow> mock_table option"
  ms_edges :: "edge_record list"
  ms_vectors :: "string \<Rightarrow> 'f list option"
  ms_migrations :: "string list"

definition mock_state_new :: "'f mock_state" where
  "mock_state_new = \<lparr>ms_tables = (\<lambda>_. None), ms_edges = [], ms_vectors = (\<lambda>_. None), ms_migrations = []\<rparr>"

section \<open>Repository\<close>

definition mock_ensure_tenant :: "json \<Rightarrow> tenant_id \<Rightarrow> unit storage_result" where
  "mock_ensure_tenant v tenant =
     (if json_get ''tenant'' v = Some (JStr tenant) then Ok () else Err (storage_schema ''tenant mismatch''))"

definition mock_table_of :: "'f mock_state \<Rightarrow> string \<Rightarrow> mock_table" where
  "mock_table_of s table = (case ms_tables s table of Some t \<Rightarrow> t | None \<Rightarrow> (\<lambda>_. None))"

definition put_table :: "string \<Rightarrow> mock_table \<Rightarrow> 'f mock_state \<Rightarrow> 'f mock_state" where
  "put_table table t s = s\<lparr>ms_tables := (ms_tables s)(table \<mapsto> t)\<rparr>"

definition mock_get :: "'e entity_ops \<Rightarrow> tenant_id \<Rightarrow> string \<Rightarrow> 'f mock_state \<Rightarrow> 'e option storage_result" where
  "mock_get en tenant rid s =
     (case Option.bind (ms_tables s (en_table en)) (\<lambda>t. t rid) of
        Some v \<Rightarrow>
          and_then (mock_ensure_tenant v tenant) (\<lambda>_.
          and_then (decode_entity en v) (\<lambda>e. Ok (Some e)))
      | None \<Rightarrow> Ok None)"

text \<open>The table is created when it is first written to, also when the write is refused.\<close>

definition mock_create ::
  "'e entity_ops \<Rightarrow> tenant_id \<Rightarrow> 'e \<Rightarrow> 'f mock_state \<Rightarrow> 'f mock_state \<times> 'e storage_result" where
  "mock_create en tenant doc s =
     (let table = mock_table_of s (en_table en);
          s = put_table (en_table en) table s in
      if table (en_id en doc) \<noteq> None then (s, Err (storage_conflict ''record already exists''))
      else
        (case encode_entity en doc of
           Inl e \<Rightarrow> (s, Err e)
         | Inr v \<Rightarrow>
             (case mock_ensure_tenant v tenant of
                Inl e \<Rightarrow> (s, Err e)
              | Inr _ \<Rightarrow>
                  (put_table (en_table en) (table(en_id en doc \<mapsto> v)) s, decode_entity en v))))"

definition patch_record ::
  "tenant_id \<Rightarrow> json \<Rightarrow> json \<Rightarrow> 64 word option \<Rightarrow> json storage_result" where
  "patch_record tenant base patch expected_version =
     and_then (mock_ensure_tenant base tenant) (\<lambda>_.
     and_then
       (case expected_version of
          Some ver \<Rightarrow>
            and_then (ok_or (storage_schema ''record missing version field'') (Option.bind (json_get ''ver'' base) as_u64))
              (\<lambda>current. if current \<noteq> ver then Err (storage_conflict ''version mismatch'') else Ok ())
        | None \<Rightarrow> Ok ()) (\<lambda>_.
     and_then (ok_or (storage_schema ''patch must be an object'') (as_object patch)) (\<lambda>patch_obj.
     and_then (ok_or (storage_schema ''stored record corrupted'') (as_object base)) (\<lambda>base_obj.
       Ok (JObj (jextend base_obj patch_obj))))))"

definition mock_upsert ::
  "'e entity_ops \<Rightarrow> tenant_id \<Rightarrow> string \<Rightarrow> json \<Rightarrow> 64 word option \<Rightarrow> 'f mock_state
   \<Rightarrow> 'f mock_state \<times> 'e storage_result" where
  "mock_upsert en tenant rid patch expected_version s =
     (let table = mock_table_of s (en_table en);
          s = put_table (en_table en) table s in
      case table rid of
        None \<Rightarrow> (s, Err (storage_not_found ''record not found''))
      | Some base \<Rightarrow>
          (case patch_record tenant base patch expected_version of
             Inl e \<Rightarrow> (s, Err e)
           | Inr v \<Rightarrow> (put_table (en_table en) (table(rid \<mapsto> v)) s, decode_entity en v)))"

definition mock_delete ::
  "'e entity_ops \<Rightarrow> tenant_id \<Rightarrow> string \<Rightarrow> 'f mock_state \<Rightarrow> 'f mock_state \<times> unit storage_result" where
  "mock_delete en tenant rid s =
     (case ms_tables s (en_table en) of
        None \<Rightarrow> (s, Ok ())
      | Some table \<Rightarrow>
          (case table rid of
             None \<Rightarrow> (s, Ok ())
           | Some existing \<Rightarrow>
               (case mock_ensure_tenant existing tenant of
                  Inl e \<Rightarrow> (s, Err e)
                | Inr _ \<Rightarrow> (put_table (en_table en) (table(rid := None)) s, Ok ()))))"

fun reverse_ordering :: "ordering \<Rightarrow> ordering" where
  "reverse_ordering Less = Greater" | "reverse_ordering Equal = Equal" | "reverse_ordering Greater = Less"

definition ord_cmp :: "'a::linorder \<Rightarrow> 'a \<Rightarrow> ordering" where
  "ord_cmp a b = (if a < b then Less else if a = b then Equal else Greater)"

fun json_cmp :: "(number \<Rightarrow> number \<Rightarrow> ordering) \<Rightarrow> json \<Rightarrow> json \<Rightarrow> ordering" where
  "json_cmp f64_cmp (JStr sa) (JStr sb) = ord_cmp sa sb"
| "json_cmp f64_cmp (JNum na) (JNum nb) = f64_cmp na nb"
| "json_cmp f64_cmp (JBool ba) (JBool bb) = ord_cmp ba bb"
| "json_cmp f64_cmp _ _ = Equal"

definition sort_step :: "(number \<Rightarrow> number \<Rightarrow> ordering) \<Rightarrow> sort_key \<Rightarrow> json list \<Rightarrow> json list" where
  "sort_step f64_cmp key items =
     sort_by (\<lambda>a b.
       let field_a = (case json_get (so_field key) a of Some v \<Rightarrow> v | None \<Rightarrow> JNull);
           field_b = (case json_get (so_field key) b of Some v \<Rightarrow> v | None \<Rightarrow> JNull);
           ord = json_cmp f64_cmp field_a field_b
       in if so_asc key then ord else reverse_ordering ord) items"

definition row_matches :: "tenant_id \<Rightarrow> jmap \<Rightarrow> json \<Rightarrow> bool" where
  "row_matches tenant filter_map v \<longleftrightarrow>
     is_ok (mock_ensure_tenant v tenant) \<and>
     list_all (\<lambda>(key, expected). (case json_get key v of Some x \<Rightarrow> x | None \<Rightarrow> JNull) = expected) filter_map"

definition mock_select ::
  "(number \<Rightarrow> number \<Rightarrow> ordering) \<Rightarrow> string list \<Rightarrow> 'e entity_ops \<Rightarrow> tenant_id \<Rightarrow> json \<Rightarrow> sort_key list option
   \<Rightarrow> nat \<Rightarrow> 'f mock_state \<Rightarrow> 'e page storage_result" where
  "mock_select f64_cmp ks en tenant flt sorts limit s =
     (case ms_tables s (en_table en) of
        None \<Rightarrow> Ok page_empty
      | Some table \<Rightarrow>
          let filter_map = (case as_object flt of Some m \<Rightarrow> m | None \<Rightarrow> []);
              items = filter (row_matches tenant filter_map) (map_values ks table);
              items = (case sorts of Some keys \<Rightarrow> fold (sort_step f64_cmp) (rev keys) items | None \<Rightarrow> items);
              items = take limit items
          in and_then (try_map (decode_entity en) items) (\<lambda>mapped. Ok \<lparr>pg_items = mapped, pg_next = None\<rparr>))"

section \<open>Graph\<close>

definition split_id :: "string \<Rightarrow> string" where
  "split_id rid = takeWhile (\<lambda>c. c \<noteq> CHR '':'') rid"

definition id_table :: "string \<Rightarrow> string" where
  "id_table rid = (if CHR '':'' \<in> set rid then split_id rid else [])"

definition graph_fetch_entity :: "'e entity_ops \<Rightarrow> 'f mock_state \<Rightarrow> tenant_id \<Rightarrow> string \<Rightarrow> 'e storage_result" where
  "graph_fetch_entity en s tenant rid =
     (if id_table rid = [] then Err (storage_schema ''invalid id format'')
      else
        and_then (ok_or (storage_not_found ''record table not found'') (ms_tables s (id_table rid))) (\<lambda>table.
        and_then (ok_or (storage_not_found ''record not found'') (table rid)) (\<lambda>v.
        if json_get ''tenant'' v \<noteq> Some (JStr tenant) then Err (storage_schema ''tenant mismatch in graph'')
        else decode_entity en v)))"

definition check_node :: "'f mock_state \<Rightarrow> tenant_id \<Rightarrow> string \<Rightarrow> string \<Rightarrow> unit storage_result" where
  "check_node s tenant role rid =
     and_then (ok_or (storage_not_found (role @ '' node not found'')) (ms_tables s (id_table rid))) (\<lambda>table.
     and_then (ok_or (storage_not_found (role @ '' node not found'')) (table rid)) (\<lambda>v.
     if json_get ''tenant'' v \<noteq> Some (JStr tenant) then Err (storage_schema (''tenant mismatch for '' @ role))
     else Ok ()))"

definition mock_relate ::
  "tenant_id \<Rightarrow> string \<Rightarrow> string \<Rightarrow> string \<Rightarrow> json \<Rightarrow> 'f mock_state \<Rightarrow> 'f mock_state \<times> unit storage_result" where
  "mock_relate tenant src edge dst properties s =
     (case and_then (check_node s tenant ''source'' src) (\<lambda>_. check_node s tenant ''target'' dst) of
        Inl e \<Rightarrow> (s, Err e)
      | Inr _ \<Rightarrow>
          (s\<lparr>ms_edges := ms_edges s @ [\<lparr>ed_tenant = tenant, ed_from = src, ed_edge = edge, ed_to = dst,
             ed_properties = properties\<rparr>]\<rparr>, Ok ()))"

text \<open>The loop tests the limit after each entity it has pushed, so a limit of 0 gives one.\<close>

fun collect_entities :: "(string \<Rightarrow> 'e storage_result) \<Rightarrow> nat \<Rightarrow> string list \<Rightarrow> 'e list \<Rightarrow> 'e list storage_result" where
  "collect_entities fetch limit [] results = Ok results"
| "collect_entities fetch limit (rid # rids) results =
     and_then (fetch rid) (\<lambda>entity.
       let results = results @ [entity]
       in if length results \<ge> limit then Ok results else collect_entities fetch limit rids results)"

definition mock_out :: "'e entity_ops \<Rightarrow> tenant_id \<Rightarrow> string \<Rightarrow> string \<Rightarrow> nat \<Rightarrow> 'f mock_state \<Rightarrow> 'e list storage_result" where
  "mock_out en tenant src edge limit s =
     collect_entities (graph_fetch_entity en s tenant) limit
       (map ed_to (filter (\<lambda>e. ed_tenant e = tenant \<and> ed_from e = src \<and> ed_edge e = edge) (ms_edges s))) []"

definition mock_in :: "'e entity_ops \<Rightarrow> tenant_id \<Rightarrow> string \<Rightarrow> string \<Rightarrow> nat \<Rightarrow> 'f mock_state \<Rightarrow> 'e list storage_result" where
  "mock_in en tenant dst edge limit s =
     collect_entities (graph_fetch_entity en s tenant) limit
       (map ed_from (filter (\<lambda>e. ed_tenant e = tenant \<and> ed_to e = dst \<and> ed_edge e = edge) (ms_edges s))) []"

section \<open>Search\<close>

fun contains_text :: "string \<Rightarrow> string \<Rightarrow> bool" where
  "contains_text [] t = (t = [])"
| "contains_text (c # s) t = (starts_with (c # s) t \<or> contains_text s t)"

definition search_text :: "json \<Rightarrow> string" where
  "search_text v =
     (case (case json_get ''title'' v of Some x \<Rightarrow> Some x | None \<Rightarrow> json_get ''name'' v) of
        Some x \<Rightarrow> (case as_str x of Some t \<Rightarrow> t | None \<Rightarrow> [])
      | None \<Rightarrow> [])"

definition mock_search ::
  "string list \<Rightarrow> 'e entity_ops \<Rightarrow> tenant_id \<Rightarrow> string \<Rightarrow> nat \<Rightarrow> 'f mock_state \<Rightarrow> 'e page storage_result" where
  "mock_search ks en tenant query limit s =
     (if trim query = [] then Ok page_empty
      else
        let rows = (case ms_tables s (en_table en) of Some table \<Rightarrow> map_values ks table | None \<Rightarrow> []);
            hits = filter (\<lambda>v. json_get ''tenant'' v = Some (JStr tenant) \<and> contains_text (search_text v) query) rows
        in and_then (try_map (decode_entity en) hits) (\<lambda>matches. Ok \<lparr>pg_items = take limit matches, pg_next = None\<rparr>))"

section \<open>Vectors and migrations\<close>

definition mock_upsert_vec :: "tenant_id \<Rightarrow> string \<Rightarrow> 'f list \<Rightarrow> 'f mock_state \<Rightarrow> 'f mock_state" where
  "mock_upsert_vec tenant rid embedding s =
     s\<lparr>ms_vectors := (ms_vectors s)(rid @ ''::'' @ tenant \<mapsto> embedding)\<rparr>"

definition mock_remove_vec :: "tenant_id \<Rightarrow> string \<Rightarrow> 'f mock_state \<Rightarrow> 'f mock_state" where
  "mock_remove_vec tenant rid s =
     s\<lparr>ms_vectors := (\<lambda>key. if starts_with key rid then None else ms_vectors s key)\<rparr>"

definition mock_current_version :: "'f mock_state \<Rightarrow> string" where
  "mock_current_version s = (if ms_migrations s = [] then ''none'' else last (ms_migrations s))"

definition mock_apply_up :: "migration_script list \<Rightarrow> 'f mock_state \<Rightarrow> 'f mock_state" where
  "mock_apply_up scripts s =
     fold (\<lambda>script s.
       if mg_version script \<in> set (ms_migrations s) then s
       else s\<lparr>ms_migrations := ms_migrations s @ [mg_version script]\<rparr>) scripts s"

definition mock_apply_down :: "migration_script list \<Rightarrow> 'f mock_state \<Rightarrow> 'f mock_state" where
  "mock_apply_down scripts s =
     fold (\<lambda>script s. s\<lparr>ms_migrations := filter (\<lambda>v. v \<noteq> mg_version script) (ms_migrations s)\<rparr>) scripts s"

section \<open>Properties\<close>

datatype 'e mock_request =
    MockCreate 'e
  | MockUpsert string json "64 word option"
  | MockDelete string

fun mock_step :: "'e entity_ops \<Rightarrow> tenant_id \<times> 'e mock_request \<Rightarrow> 'f mock_state \<Rightarrow> 'f mock_state" where
  "mock_step en (t, MockCreate doc) s = fst (mock_create en t doc s)"
| "mock_step en (t, MockUpsert rid patch ver) s = fst (mock_upsert en t rid patch ver s)"
| "mock_step en (t, MockDelete rid) s = fst (mock_delete en t rid s)"

definition mock_row :: "'f mock_state \<Rightarrow> string \<times> string \<Rightarrow> json option" where
  "mock_row s k = Option.bind (ms_tables s (fst k)) (\<lambda>t. t (snd k))"

definition row_owned :: "tenant_id \<Rightarrow> json \<Rightarrow> bool" where
  "row_owned t v \<longleftrightarrow> json_get ''tenant'' v = Some (JStr t)"

lemma mock_row_put [simp]:
  "mock_row (put_table table t s) k = (if fst k = table then t (snd k) else mock_row s k)"
  by (cases k) (simp add: mock_row_def put_table_def)

lemma mock_table_of_row: "mock_table_of s table rid = mock_row s (table, rid)"
  by (simp add: mock_table_of_def mock_row_def split: option.splits)

lemma ensure_tenant_Ok [simp]: "mock_ensure_tenant v t = Ok u \<longleftrightarrow> row_owned t v"
  by (simp add: mock_ensure_tenant_def row_owned_def)

lemma row_owned_unique: "row_owned t v \<Longrightarrow> row_owned t' v \<Longrightarrow> t = t'"
  by (simp add: row_owned_def)

lemma patch_record_owned: "patch_record t base patch ver = Ok v \<Longrightarrow> row_owned t base"
  by (auto simp: patch_record_def)

lemma mock_step_foreign:
  assumes "mock_row s k = Some v" "row_owned t v" "t' \<noteq> t"
  shows "mock_row (mock_step en (t', req) s) k = Some v"
proof (cases req)
  case (MockCreate doc)
  then show ?thesis
    using assms by (cases k) (auto simp: mock_create_def Let_def mock_table_of_row split: sum.splits)
next
  case (MockUpsert rid patch ver)
  then show ?thesis
    using assms by (cases k) (auto simp: mock_upsert_def Let_def mock_table_of_row split: sum.splits option.splits
      dest!: patch_record_owned dest: row_owned_unique)
next
  case (MockDelete rid)
  then show ?thesis
    using assms by (cases k) (auto simp: mock_delete_def mock_row_def put_table_def split: sum.splits option.splits
      dest: row_owned_unique)
qed

interpretation mock_repo: tenant_isolated mock_row "mock_step en" fst row_owned for en :: "'e entity_ops"
  by unfold_locales (auto simp: mock_step_foreign)

lemma set_sort_steps [simp]: "set (fold (sort_step f64_cmp) keys items) = set items"
  by (induction keys arbitrary: items) (simp_all add: sort_step_def)

lemma try_map_member: "try_map f xs = Ok ys \<Longrightarrow> y \<in> set ys \<Longrightarrow> \<exists>x\<in>set xs. f x = Ok y"
  by (induction xs arbitrary: ys) (auto split: sum.splits)

lemma mock_select_sound:
  assumes "mock_select f64_cmp ks en t flt sorts limit s = Ok page"
  shows "length (pg_items page) \<le> limit \<and>
    (\<forall>e\<in>set (pg_items page). \<exists>rid v. mock_row s (en_table en, rid) = Some v \<and> row_owned t v \<and> decode_entity en v = Ok e)"
proof (cases "ms_tables s (en_table en)")
  case None
  with assms show ?thesis by (auto simp: mock_select_def page_empty_def)
next
  case (Some table)
  let ?rows = "filter (row_matches t (case as_object flt of Some m \<Rightarrow> m | None \<Rightarrow> [])) (map_values ks table)"
  from assms Some obtain items mapped where m: "try_map (decode_entity en) (take limit items) = Ok mapped"
    and page: "page = \<lparr>pg_items = mapped, pg_next = None\<rparr>" and items: "set items = set ?rows"
    by (auto simp: mock_select_def Let_def split: option.splits)
  have "\<exists>rid v. mock_row s (en_table en, rid) = Some v \<and> row_owned t v \<and> decode_entity en v = Ok e" if "e \<in> set mapped" for e
  proof -
    from try_map_member[OF m that] obtain v where v: "v \<in> set ?rows" "decode_entity en v = Ok e"
      using items by (auto dest: in_set_takeD)
    then have "row_owned t v" "\<exists>rid. table rid = Some v"
      by (auto simp: row_matches_def is_ok_iff map_values_member)
    with v Some show ?thesis by (auto simp: mock_row_def)
  qed
  with page try_map_length[OF m] show ?thesis by simp
qed

text \<open>
  C36: The in-memory repository keeps tenants apart: no sequence of operations issued by others
  changes or removes a record of a tenant, and a page a tenant selects holds only decoded records that
  carry its tenant, at most the limit of them.
\<close>

theorem mock_repository_isolated:
  assumes "mock_row s k = Some v" "row_owned t v" "t \<notin> fst ` set ops"
  shows "mock_row (fold (mock_step en) ops s) k = Some v \<and>
    (\<forall>page. mock_select f64_cmp ks en t' flt sorts limit s = Ok page \<longrightarrow>
       length (pg_items page) \<le> limit \<and>
       (\<forall>e\<in>set (pg_items page). \<exists>rid v. mock_row s (en_table en, rid) = Some v \<and> row_owned t' v \<and>
          decode_entity en v = Ok e))"
  using mock_repo.run_foreign[where en = en, OF assms] mock_select_sound by blast

definition plain_entity :: "json entity_ops" where
  "plain_entity = \<lparr>en_table = ''doc'', en_id = (\<lambda>_. ''doc:1''), en_encode = (\<lambda>e. Ok e), en_decode = (\<lambda>j. Ok j)\<rparr>"

definition demo_row :: json where
  "demo_row = JObj [(''tenant'', JStr ''a''), (''ver'', JNum (PosInt 1))]"

theorem mock_repository_isolated_witness:
  "let s = put_table ''doc'' [''doc:1'' \<mapsto> demo_row] (mock_state_new :: nat mock_state)
   in mock_row (fold (mock_step plain_entity)
        [(''b'', MockDelete ''doc:1''), (''b'', MockUpsert ''doc:1'' (JObj []) None)] s) (''doc'', ''doc:1'') = Some demo_row"
proof -
  let ?s = "put_table ''doc'' [''doc:1'' \<mapsto> demo_row] (mock_state_new :: nat mock_state)"
  have "mock_row ?s (''doc'', ''doc:1'') = Some demo_row" "row_owned ''a'' demo_row"
    by (simp_all add: demo_row_def row_owned_def)
  then show ?thesis
    using mock_repository_isolated[of ?s "(''doc'', ''doc:1'')" demo_row "''a''"
        "[(''b'', MockDelete ''doc:1''), (''b'', MockUpsert ''doc:1'' (JObj []) None)]" plain_entity
        "\<lambda>_ _. Equal" "[]" "''a''" "JNull" None 0] by simp
qed

text \<open>A patch is merged over the tenant field as over any other: an update can give a record away.\<close>

lemma mock_upsert_moves_tenant:
  "patch_record ''a'' demo_row (JObj [(''tenant'', JStr ''b'')]) None
     = Ok (JObj [(''tenant'', JStr ''b''), (''ver'', JNum (PosInt 1))])"
  by (simp add: patch_record_def demo_row_def row_owned_def jextend_def)

text \<open>Removing a vector removes every vector whose key starts with the identifier, of every tenant.\<close>

lemma mock_remove_vec_prefix:
  "ms_vectors (mock_remove_vec ''a'' ''doc:1'' (mock_upsert_vec ''b'' ''doc:10'' e s)) ''doc:10::b'' = None"
  by (simp add: mock_remove_vec_def mock_upsert_vec_def starts_with_def)

lemma mock_apply_down_versions:
  "ms_migrations (mock_apply_down scripts s) = filter (\<lambda>w. w \<notin> mg_version ` set scripts) (ms_migrations s)"
  unfolding mock_apply_down_def by (induction scripts arbitrary: s) (auto intro: filter_cong)

lemma mock_apply_up_versions:
  "\<exists>new. ms_migrations (mock_apply_up scripts s) = ms_migrations s @ new \<and> set new \<subseteq> mg_version ` set scripts \<and>
     mg_version ` set scripts \<subseteq> set (ms_migrations s @ new) \<and>
     (distinct (ms_migrations s) \<longrightarrow> distinct (ms_migrations s @ new))"
  unfolding mock_apply_up_def
proof (induction scripts arbitrary: s)
  case (Cons x scripts)
  from Cons[of s] Cons[of "s\<lparr>ms_migrations := ms_migrations s @ [mg_version x]\<rparr>"] show ?case
    by auto
qed simp

text \<open>
  Applying migrations keeps the applied ones in order, applies each version once, and reverting
  new ones gives back the list of applied versions there was.
\<close>

theorem mock_migrations_round_trip:
  assumes "mg_version ` set scripts \<inter> set (ms_migrations s) = {}" "distinct (ms_migrations s)"
  shows "ms_migrations (mock_apply_down scripts (mock_apply_up scripts s)) = ms_migrations s \<and>
    distinct (ms_migrations (mock_apply_up scripts s)) \<and>
    set (ms_migrations (mock_apply_up scripts s)) = set (ms_migrations s) \<union> mg_version ` set scripts"
proof -
  obtain new where new: "ms_migrations (mock_apply_up scripts s) = ms_migrations s @ new" "set new \<subseteq> mg_version ` set scripts"
      "mg_version ` set scripts \<subseteq> set (ms_migrations s @ new)" "distinct (ms_migrations s @ new)"
    using mock_apply_up_versions[of scripts s] assms(2) by blast
  have "filter (\<lambda>w. w \<notin> mg_version ` set scripts) new = []"
      "filter (\<lambda>w. w \<notin> mg_version ` set scripts) (ms_migrations s) = ms_migrations s"
    using new(2) assms(1) by (auto simp: filter_empty_conv filter_id_conv)
  with new show ?thesis
    by (auto simp: mock_apply_down_versions)
qed

definition plain_script :: "string \<Rightarrow> migration_script" where
  "plain_script v = \<lparr>mg_version = v, mg_up_sql = [], mg_down_sql = [], mg_checksum = []\<rparr>"

theorem mock_migrations_round_trip_witness:
  "ms_migrations (mock_apply_down [plain_script ''2'', plain_script ''3''] (mock_apply_up [plain_script ''2'', plain_script ''3'']
     ((mock_state_new :: nat mock_state)\<lparr>ms_migrations := [''1'']\<rparr>))) = [''1'']"
  using mock_migrations_round_trip[of "[plain_script ''2'', plain_script ''3'']"
      "(mock_state_new :: nat mock_state)\<lparr>ms_migrations := [''1'']\<rparr>"]
  by (simp add: plain_script_def)

end
