(* ===== verification/StorageVector.thy ===== *)
theory StorageVector
  imports StorageSurreal StorageMock StorageErrors
begin

text \<open>
  Connections and vectors of the storage crate: the settings (\<open>surreal/config.rs\<close>), connecting and
  signing in (\<open>surreal/datastore.rs\<close>), the vector index over SurrealDB (\<open>surreal/vector.rs\<close>) and
  in memory (\<open>mock/vector.rs\<close>), and the answers of the mock session (\<open>mock/datastore.rs\<close>).
  Floating point is the record \<open>f32_ops\<close>.
\<close>

section \<open>Settings\<close>

datatype surreal_protocol = ProtoWs | ProtoHttp | ProtoMemory

record surreal_credentials =
  sc_username :: string
  sc_password :: string

definition surreal_credentials_new :: "string \<Rightarrow> string \<Rightarrow> surreal_credentials" where
  "surreal_credentials_new username password = \<lparr>sc_username = username, sc_password = password\<rparr>"

record surreal_config =
  sf_endpoint :: string
  sf_namespace :: string
  sf_database :: string
  sf_protocol :: surreal_protocol
  sf_credentials :: "surreal_credentials option"
  sf_max_connections :: "64 word"
  sf_strict :: bool

definition surreal_config_default :: surreal_config where
  "surreal_config_default =
     \<lparr>sf_endpoint = ''ws://127.0.0.1:8000'', sf_namespace = ''soul'', sf_database = ''base'',
      sf_protocol = ProtoWs, sf_credentials = None, sf_max_connections = 8, sf_strict = True\<rparr>"

definition with_credentials :: "surreal_credentials \<Rightarrow> surreal_config \<Rightarrow> surreal_config" where
  "with_credentials credentials cfg = cfg\<lparr>sf_credentials := Some credentials\<rparr>"

definition with_protocol :: "surreal_protocol \<Rightarrow> surreal_config \<Rightarrow> surreal_config" where
  "with_protocol protocol cfg = cfg\<lparr>sf_protocol := protocol\<rparr>"

definition with_pool :: "64 word \<Rightarrow> surreal_config \<Rightarrow> surreal_config" where
  "with_pool max_connections cfg = cfg\<lparr>sf_max_connections := max max_connections 1\<rparr>"

definition strict_mode :: "bool \<Rightarrow> surreal_config \<Rightarrow> surreal_config" where
  "strict_mode strict cfg = cfg\<lparr>sf_strict := strict\<rparr>"

section \<open>Connecting\<close>

text \<open>What the surrealdb crate does with a connection; \<open>'d\<close> is the database.\<close>

record 'd connection_ops =
  cn_open :: "surreal_protocol \<Rightarrow> string \<Rightarrow> 'd \<Rightarrow> 'd \<times> (surreal_error + unit)"
  cn_signin :: "string \<Rightarrow> string \<Rightarrow> 'd \<Rightarrow> 'd \<times> (surreal_error + unit)"
  cn_use_ns_db :: "string \<Rightarrow> string \<Rightarrow> 'd \<Rightarrow> 'd \<times> (surreal_error + unit)"
  cn_use_ns :: "string \<Rightarrow> 'd \<Rightarrow> 'd \<times> (surreal_error + unit)"
  cn_use_db :: "string \<Rightarrow> 'd \<Rightarrow> 'd \<times> (surreal_error + unit)"
  cn_query :: "string \<Rightarrow> 'd \<Rightarrow> 'd \<times> (surreal_error + unit)"
  cn_show_db :: "db_error \<Rightarrow> string"
  cn_show_api :: "api_error \<Rightarrow> string"

definition connection_step ::
  "'d connection_ops \<Rightarrow> ('d \<Rightarrow> 'd \<times> (surreal_error + 'a)) \<Rightarrow> 'd \<Rightarrow> 'd \<times> 'a storage_result" where
  "connection_step cn f d =
     (let (d, r) = f d in (d, map_err (map_surreal_error (cn_show_db cn) (cn_show_api cn)) r))"

definition surreal_authenticate :: "'d connection_ops \<Rightarrow> surreal_config \<Rightarrow> 'd \<Rightarrow> 'd \<times> unit storage_result" where
  "surreal_authenticate cn cfg d =
     (case sf_credentials cfg of
        Some c \<Rightarrow> and_do (connection_step cn (cn_signin cn (sc_username c) (sc_password c)) d) (\<lambda>_ d. (d, Ok ()))
      | None \<Rightarrow> (d, Ok ()))"

definition connect_remote ::
  "'d connection_ops \<Rightarrow> surreal_protocol \<Rightarrow> surreal_config \<Rightarrow> 'd \<Rightarrow> 'd \<times> unit storage_result" where
  "connect_remote cn protocol cfg d =
     and_do (connection_step cn (cn_open cn protocol (sf_endpoint cfg)) d) (\<lambda>_ d.
     and_do (surreal_authenticate cn cfg d) (\<lambda>_ d.
     and_do (connection_step cn (cn_use_ns_db cn (sf_namespace cfg) (sf_database cfg)) d) (\<lambda>_ d. (d, Ok ()))))"

definition connect_ws :: "'d connection_ops \<Rightarrow> surreal_config \<Rightarrow> 'd \<Rightarrow> 'd \<times> unit storage_result" where
  "connect_ws cn = connect_remote cn ProtoWs"

definition connect_http :: "'d connection_ops \<Rightarrow> surreal_config \<Rightarrow> 'd \<Rightarrow> 'd \<times> unit storage_result" where
  "connect_http cn = connect_remote cn ProtoHttp"

definition connect_mem :: "'d connection_ops \<Rightarrow> surreal_config \<Rightarrow> 'd \<Rightarrow> 'd \<times> unit storage_result" where
  "connect_mem cn cfg d =
     and_do (connection_step cn (cn_open cn ProtoMemory (sf_endpoint cfg)) d) (\<lambda>_ d.
     and_do (connection_step cn (cn_query cn (''DEFINE NAMESPACE '' @ sf_namespace cfg @ '' IF NOT EXISTS;'')) d) (\<lambda>_ d.
     and_do (connection_step cn (cn_use_ns cn (sf_namespace cfg)) d) (\<lambda>_ d.
     and_do (connection_step cn (cn_query cn (''DEFINE DATABASE '' @ sf_database cfg @ '' IF NOT EXISTS;'')) d) (\<lambda>_ d.
     and_do (connection_step cn (cn_use_db cn (sf_database cfg)) d) (\<lambda>_ d. (d, Ok ()))))))"

record surreal_pool =
  po_client :: surreal_protocol
  po_permits :: "64 word"
  po_config :: surreal_config

definition pool_connect :: "'d connection_ops \<Rightarrow> surreal_config \<Rightarrow> 'd \<Rightarrow> 'd \<times> surreal_pool storage_result" where
  "pool_connect cn cfg d =
     and_do
       (case sf_protocol cfg of
          ProtoWs \<Rightarrow> connect_ws cn cfg d
        | ProtoMemory \<Rightarrow> connect_mem cn cfg d
        | ProtoHttp \<Rightarrow> connect_http cn cfg d)
       (\<lambda>_ d. (d, Ok \<lparr>po_client = sf_protocol cfg, po_permits = sf_max_connections cfg, po_config = cfg\<rparr>))"

record surreal_datastore =
  ds_pool :: surreal_pool
  ds_config :: surreal_config

definition datastore_connect :: "'d connection_ops \<Rightarrow> surreal_config \<Rightarrow> 'd \<Rightarrow> 'd \<times> surreal_datastore storage_result" where
  "datastore_connect cn cfg d =
     and_do (pool_connect cn cfg d) (\<lambda>pool d. (d, Ok \<lparr>ds_pool = pool, ds_config = cfg\<rparr>))"

text \<open>A session is the store's pool with the flag \<open>strict\<close>.\<close>

definition datastore_session :: "surreal_datastore \<Rightarrow> surreal_pool \<times> bool" where
  "datastore_session ds = (ds_pool ds, sf_strict (ds_config ds))"


section \<open>Vectors in SurrealDB\<close>

text \<open>\<open>json!\<close> of a vector, and a number of a row read as \<open>f64\<close> and cut to \<open>f32\<close>.\<close>

record 'f vector_codec =
  vc_json :: "'f list \<Rightarrow> json"
  vc_score :: "number \<Rightarrow> 'f"

definition surreal_upsert_vec ::
  "('d, 'r) db_ops \<Rightarrow> 'f vector_codec \<Rightarrow> tenant_id \<Rightarrow> string \<Rightarrow> 'f list \<Rightarrow> 'd surreal_state
   \<Rightarrow> 'd surreal_state \<times> unit storage_result" where
  "surreal_upsert_vec db vc tenant rid embedding s =
     (let params = jinsert ''__kind'' (JStr ''vector'') (jinsert ''vector'' (vc_json vc embedding)
            (jinsert ''id'' (JStr rid) (jinsert ''tenant'' (JStr tenant) []))) in
      and_do (s, bind_tenant params tenant) (\<lambda>args s.
      and_do (run_raw db ''UPDATE type::thing($id) SET vector = $vector WHERE tenant = $tenant RETURN AFTER'' args s)
        (\<lambda>_ s. (record_request tenant ''vector'' ''write'' 0 s, Ok ()))))"

definition surreal_remove_vec ::
  "('d, 'r) db_ops \<Rightarrow> tenant_id \<Rightarrow> string \<Rightarrow> 'd surreal_state \<Rightarrow> 'd surreal_state \<times> unit storage_result" where
  "surreal_remove_vec db tenant rid s =
     (let params = jinsert ''__kind'' (JStr ''vector'') (jinsert ''id'' (JStr rid) (jinsert ''tenant'' (JStr tenant) [])) in
      and_do (s, bind_tenant params tenant) (\<lambda>args s.
      and_do (run_raw db ''UPDATE type::thing($id) REMOVE vector WHERE tenant = $tenant'' args s)
        (\<lambda>_ s. (record_request tenant ''vector'' ''write'' 0 s, Ok ()))))"

definition row_score :: "'f f32_ops \<Rightarrow> 'f vector_codec \<Rightarrow> json \<Rightarrow> 'f" where
  "row_score f vc row = (case json_get ''score'' row of Some (JNum n) \<Rightarrow> vc_score vc n | _ \<Rightarrow> f_zero f)"

text \<open>\<open>repo\<close> is the repository's \<open>get\<close>, when one is given.\<close>

fun knn_rows ::
  "'f f32_ops \<Rightarrow> 'f vector_codec \<Rightarrow> 'e entity_ops
   \<Rightarrow> (string \<Rightarrow> 'd surreal_state \<Rightarrow> 'd surreal_state \<times> 'e option storage_result) option
   \<Rightarrow> json list \<Rightarrow> ('e \<times> 'f) list \<Rightarrow> 'd surreal_state \<Rightarrow> 'd surreal_state \<times> ('e \<times> 'f) list storage_result" where
  "knn_rows f vc en repo [] results s = (s, Ok results)"
| "knn_rows f vc en repo (row # rows) results s =
     (let score = row_score f vc row in
      case Option.bind (json_get ''id'' row) as_str of
        None \<Rightarrow> (s, Err (storage_schema ''vector query missing id''))
      | Some record_id \<Rightarrow>
          (case repo of
             Some get \<Rightarrow>
               and_do (get record_id s) (\<lambda>entity s.
                 knn_rows f vc en repo rows
                   (case entity of Some e \<Rightarrow> results @ [(e, score)] | None \<Rightarrow> results) s)
           | None \<Rightarrow>
               and_do (s, decode_entity en (drop_score row)) (\<lambda>e s.
                 knn_rows f vc en repo rows (results @ [(e, score)]) s)))"

definition knn_stmt :: "string \<Rightarrow> string" where
  "knn_stmt table = ''SELECT *, SIMILARITY::COSINE(vector, $query_vec) AS score FROM '' @ table
     @ '' WHERE tenant = $tenant AND vector IS NOT NONE ORDER BY score DESC LIMIT $limit''"

definition surreal_knn ::
  "('d, 'r) db_ops \<Rightarrow> 'f f32_ops \<Rightarrow> 'f vector_codec \<Rightarrow> 'e entity_ops \<Rightarrow> tenant_id \<Rightarrow> 'f list \<Rightarrow> 64 word
   \<Rightarrow> (tenant_id \<Rightarrow> string \<Rightarrow> 'd surreal_state \<Rightarrow> 'd surreal_state \<times> 'e option storage_result) option
   \<Rightarrow> 'd surreal_state \<Rightarrow> 'd surreal_state \<times> ('e \<times> 'f) list storage_result" where
  "surreal_knn db f vc en tenant query k repo s =
     (if k = 0 \<or> query = [] then (s, Ok [])
      else
        let params = jinsert ''__kind'' (JStr ''vector'') (jinsert ''query_vec'' (vc_json vc query)
              (jinsert ''limit'' (JNum (PosInt k)) (jinsert ''tenant'' (JStr tenant) []))) in
        and_do (s, bind_tenant params tenant) (\<lambda>args s.
        and_do (run_raw db (knn_stmt (en_table en)) args s) (\<lambda>response s.
        and_do (s, db_take_rows db response) (\<lambda>rows s.
          knn_rows f vc en (map_option (\<lambda>get. get tenant) repo) rows []
            (record_request tenant (en_table en) ''vector'' (length rows) s)))))"

section \<open>Vectors in memory\<close>

fun l2_sum :: "'f f32_ops \<Rightarrow> 'f \<Rightarrow> 'f list \<Rightarrow> 'f list \<Rightarrow> 'f" where
  "l2_sum f acc (a # as) (b # bs) =
     (let diff = f_sub f a b in l2_sum f (f_add f acc (f_mul f diff diff)) as bs)"
| "l2_sum f acc _ _ = acc"

definition l2_distance :: "'f f32_ops \<Rightarrow> 'f list \<Rightarrow> 'f list \<Rightarrow> 'f" where
  "l2_distance f a b = f_sqrt f (l2_sum f (f_zero f) a b)"

definition vector_fetch_entity :: "'e entity_ops \<Rightarrow> 'f mock_state \<Rightarrow> tenant_id \<Rightarrow> string \<Rightarrow> 'e storage_result" where
  "vector_fetch_entity en s tenant rid =
     (if CHR '':'' \<notin> set rid then Err (storage_schema ''invalid id format'')
      else
        and_then (ok_or (storage_not_found ''vector target not found'') (ms_tables s (split_id rid))) (\<lambda>table.
        and_then (ok_or (storage_not_found ''vector target not found'') (table rid)) (\<lambda>v.
        if json_get ''tenant'' v \<noteq> Some (JStr tenant) then Err (storage_schema ''tenant mismatch'')
        else decode_entity en v)))"

text \<open>\<open>key.split("::").next()\<close>.\<close>

fun before_colons :: "string \<Rightarrow> string" where
  "before_colons [] = []"
| "before_colons (c # cs) = (if starts_with (c # cs) ''::'' then [] else c # before_colons cs)"

definition vector_cmp :: "'f f32_ops \<Rightarrow> string \<times> 'f \<Rightarrow> string \<times> 'f \<Rightarrow> ordering" where
  "vector_cmp f a b = (case f_cmp f (snd a) (snd b) of Some ord \<Rightarrow> ord | None \<Rightarrow> Equal)"

fun score_vectors ::
  "'f f32_ops \<Rightarrow> tenant_id \<Rightarrow> 'f list \<Rightarrow> (string \<Rightarrow> 'f list option) \<Rightarrow> string list \<Rightarrow> (string \<times> 'f) list" where
  "score_vectors f tenant query vectors [] = []"
| "score_vectors f tenant query vectors (key # ks) =
     (case vectors key of
        Some embedding \<Rightarrow>
          if ends_with key (''::'' @ tenant)
          then (before_colons key, l2_distance f query embedding) # score_vectors f tenant query vectors ks
          else score_vectors f tenant query vectors ks
      | None \<Rightarrow> score_vectors f tenant query vectors ks)"

definition mock_knn ::
  "'f f32_ops \<Rightarrow> string list \<Rightarrow> 'e entity_ops \<Rightarrow> tenant_id \<Rightarrow> 'f list \<Rightarrow> nat
   \<Rightarrow> (tenant_id \<Rightarrow> string \<Rightarrow> 'e option storage_result) option \<Rightarrow> 'f mock_state \<Rightarrow> ('e \<times> 'f) list storage_result" where
  "mock_knn f ks en tenant query k repo s =
     (let scored = take k (sort_by (vector_cmp f) (score_vectors f tenant query (ms_vectors s) ks)) in
      try_map (\<lambda>(rid, score).
        and_then
          (case repo of
             Some get \<Rightarrow> and_then (get tenant rid) (ok_or (storage_not_found ''entity not found''))
           | None \<Rightarrow> vector_fetch_entity en s tenant rid)
          (\<lambda>entity. Ok (entity, score))) scored)"

section \<open>The mock session\<close>

definition mock_session_query :: "string \<Rightarrow> named_args \<Rightarrow> query_result storage_result" where
  "mock_session_query statement params = Err (storage_unknown ''mock session query is not implemented'')"

definition mock_session_query_json :: "string \<Rightarrow> named_args \<Rightarrow> json option storage_result" where
  "mock_session_query_json statement params = Ok None"

definition mock_tx_execute :: "string \<Rightarrow> named_args \<Rightarrow> query_result storage_result" where
  "mock_tx_execute statement params = Err (storage_unknown ''mock tx execute is not implemented'')"

definition mock_tx_commit :: "'f mock_state \<Rightarrow> 'f mock_state \<times> unit storage_result" where
  "mock_tx_commit s = (s, Ok ())"

definition mock_tx_rollback :: "'f mock_state \<Rightarrow> 'f mock_state \<times> unit storage_result" where
  "mock_tx_rollback s = (s, Ok ())"

section \<open>Properties\<close>

text \<open>Nothing is asked of a remote database before the sign-in has succeeded.\<close>

lemma connect_remote_unauthenticated:
  assumes "sf_credentials cfg = Some c" and "cn_open cn p (sf_endpoint cfg) d = (d1, Ok ())"
    and "cn_signin cn (sc_username c) (sc_password c) d1 = (d2, Err e)"
  shows "connect_remote cn p cfg d = (d2, Err (map_surreal_error (cn_show_db cn) (cn_show_api cn) e))"
  using assms by (simp add: connect_remote_def surreal_authenticate_def connection_step_def)

text \<open>A store in memory is opened without its credentials.\<close>

lemma connect_mem_ignores_credentials:
  "connect_mem cn (cfg\<lparr>sf_credentials := c\<rparr>) d = connect_mem cn cfg d"
  by (simp add: connect_mem_def)

lemma with_pool_positive: "sf_max_connections (with_pool n cfg) > 0"
  by (simp add: with_pool_def less_max_iff_disj)

text \<open>The searches over vectors send statements for the tenant only.\<close>

lemma surreal_vectors_keep:
  assumes "keeps P db t" "P (sd_db s)"
  shows "P (sd_db (fst (surreal_upsert_vec db vc t rid v s)))" "P (sd_db (fst (surreal_remove_vec db t rid s)))"
  unfolding surreal_upsert_vec_def surreal_remove_vec_def Let_def
  by (auto intro!: and_do_inv[where Q = "\<lambda>s. P (sd_db s)"] run_raw_keeps[OF assms(1)] scoped_bind_scoped
      simp: assms scoped_bind simp del: jinsert.simps)

text \<open>
  A search in memory gives at most \<open>k\<close> entities in the order of their distances, and no vector of
  the tenant that is left out is nearer than one that is returned.
\<close>

lemma try_map_snd:
  "try_map (\<lambda>(a, b). and_then (g a) (\<lambda>e. Ok (e, b))) xs = Ok ys \<Longrightarrow> map snd ys = map snd xs"
  by (induction xs arbitrary: ys) (auto split: sum.splits)

lemma mock_knn_nearest:
  assumes run: "mock_knn f ks en t q k repo s = Ok rs"
    and le: "decides (\<lambda>x y. the (f_cmp f x y)) le" "\<forall>x y. f_cmp f x y \<noteq> None"
  defines "all \<equiv> sort_by (vector_cmp f) (score_vectors f t q (ms_vectors s) ks)"
  shows "length rs \<le> k \<and> map snd rs = map snd (take k all) \<and>
    sorted_wrt le (map snd rs @ map snd (drop k all)) \<and> mset all = mset (score_vectors f t q (ms_vectors s) ks)"
proof -
  have snds: "map snd rs = map snd (take k all)"
    using run unfolding mock_knn_def Let_def all_def by (rule try_map_snd)
  have "decides (vector_cmp f) (\<lambda>a b. le (snd a) (snd b))"
  proof -
    have "(case f_cmp f x y of Some ord \<Rightarrow> ord | None \<Rightarrow> Equal) = the (f_cmp f x y)" for x y
      using le(2)[rule_format, of x y] by (cases "f_cmp f x y") auto
    then show ?thesis
      using le(1) unfolding decides_def vector_cmp_def by simp
  qed
  from sort_by_stable[OF this, where first = "\<lambda>_ _. True"]
  have "sorted_wrt (stable_before (\<lambda>a b. le (snd a) (snd b)) (\<lambda>_ _. True)) all"
    unfolding all_def by (simp add: sorted_wrt_true)
  then have "sorted_wrt (\<lambda>a b. le (snd a) (snd b)) all"
    by (rule sorted_wrt_mono_rel[rotated]) (simp add: stable_before_def)
  then have "sorted_wrt le (map snd (take k all @ drop k all))"
    by (simp add: sorted_wrt_map)
  then have "sorted_wrt le (map snd rs @ map snd (drop k all))"
    unfolding map_append snds .
  moreover have "length rs \<le> k"
    using arg_cong[OF snds, of length] by simp
  ultimately show ?thesis
    using snds by (simp add: all_def mset_sort_by)
qed

text \<open>Without a repository every entity of the answer is a row of the tenant.\<close>

lemma mock_knn_owned:
  assumes "mock_knn f ks en t q k None s = Ok rs" "(e, d) \<in> set rs"
  shows "\<exists>rid v. mock_row s (split_id rid, rid) = Some v \<and> row_owned t v \<and> decode_entity en v = Ok e"
proof -
  obtain rid where "vector_fetch_entity en s t rid = Ok e"
    using try_map_member[OF assms(1)[unfolded mock_knn_def Let_def] assms(2)] by auto
  then show ?thesis
    by (auto simp: vector_fetch_entity_def mock_row_def row_owned_def split: if_splits intro!: exI[of _ rid])
qed

text \<open>
  The tenant of a vector is recognised by the end of its key: a vector of tenant \<open>a::b\<close> is scored
  for tenant \<open>b\<close>, whose search then ends with an error.
\<close>

lemma mock_knn_foreign_vector:
  "mock_knn f [''doc:1::a::b''] en ''b'' q 1 None
     (put_table ''doc'' [''doc:1'' \<mapsto> JObj [(''tenant'', JStr ''a::b'')]] (mock_upsert_vec ''a::b'' ''doc:1'' v mock_state_new)) =
   Err (storage_schema ''tenant mismatch'')"
  by (simp add: mock_knn_def mock_upsert_vec_def mock_state_new_def put_table_def ends_with_def starts_with_def suffix_def sort_by_def
      vector_fetch_entity_def split_id_def)

end
