(* ===== verification/InterceptModel.thy ===== *)
theory InterceptModel
  imports AuthFacade ConfigSource
begin

text \<open>
  The interceptor crate (\<open>sb-interceptors\<close>): the request context (\<open>context.rs\<close>),
  errors (\<open>errors.rs\<close>), route policies (\<open>policy/dsl.rs\<close>), the registry of
  JSON schemas (\<open>schema/json.rs\<close>), labels (\<open>observe.rs\<close>), the idempotency store
  (\<open>idempotency.rs\<close>) and the obligations on a response body
  (\<open>stages/obligations.rs\<close>).

  A request is the record \<open>proto_request\<close>: its reader gives the same body each time, as the
  adapters' cache makes it.  A response is the list of calls made on it; the adapters'
  \<open>write_json\<close> does not fail.  The state behind the stages, \<open>'w\<close>, belongs to the
  authorisation facade and to the idempotency store.  Instants and durations are
  milliseconds; chrono, uuid, base64 and the JSON-Schema crate are parameters.
\<close>

section \<open>Errors\<close>

record intercept_error =
  ie_inner :: error_obj
  ie_public :: string

definition intercept_error_new :: "error_obj \<Rightarrow> intercept_error" where
  "intercept_error_new inner =
     (let view = to_public inner
      in \<lparr>ie_inner = inner, ie_public = pv_code view @ '': '' @ pv_message view\<rparr>)"

definition intercept_from_public :: "error_code \<Rightarrow> string \<Rightarrow> intercept_error" where
  "intercept_from_public code message = intercept_error_new (user_msg message (builder_new code))"

definition intercept_deny_policy :: "string \<Rightarrow> intercept_error" where
  "intercept_deny_policy detail = intercept_error_new (dev_msg detail (builder_new POLICY_DENY_TOOL))"

definition intercept_of_auth :: "auth_error \<Rightarrow> intercept_error" where
  "intercept_of_auth err = intercept_error_new err"

type_synonym 'a intercept_result = "intercept_error + 'a"

section \<open>Requests and responses\<close>

record proto_request =
  rq_method :: string
  rq_path :: string
  rq_header :: "string \<Rightarrow> string option"
  rq_json :: "json intercept_result"

datatype rsp_call =
    SetStatus "16 word"
  | InsertHeader string string
  | WriteJson json

record stored_response =
  sr_status :: "16 word"
  sr_body :: json
  sr_headers :: "(string \<times> string) list"

record 'w idempotency_layer =
  il_get :: "string \<Rightarrow> 'w \<Rightarrow> 'w \<times> stored_response option"
  il_put :: "string \<Rightarrow> stored_response \<Rightarrow> nat \<Rightarrow> 'w \<Rightarrow> 'w"
  il_ttl :: nat
  il_max_body_size :: nat

record envelope_seed =
  sd_correlation_id :: "string option"
  sd_causation_id :: "string option"
  sd_partition_key :: string
  sd_produced_at_ms :: int

definition envelope_seed_default :: envelope_seed where
  "envelope_seed_default = \<lparr>sd_correlation_id = None, sd_causation_id = None, sd_partition_key = [],
     sd_produced_at_ms = 0\<rparr>"

record route_binding =
  rb_resource :: resource_urn
  rb_action :: action
  rb_attrs :: json
  rb_request_schema :: "string option"
  rb_response_schema :: "string option"

record 'w intercept_context =
  cx_request_id :: string
  cx_trace :: trace_context
  cx_tenant_header :: "string option"
  cx_consent_token :: "string option"
  cx_route :: "route_binding option"
  cx_subject :: "subject option"
  cx_obligations :: "obligation list"
  cx_envelope_seed :: envelope_seed
  cx_config_version :: "string option"
  cx_config_checksum :: "string option"
  cx_auth_input :: "authn_input option"
  cx_response_body :: "json option"
  cx_response_status :: "16 word option"
  cx_response_headers :: "(string \<times> string) list"
  cx_idempotency_replay :: bool
  cx_idempotency_key :: "string option"
  cx_idempotency_layer :: "'w idempotency_layer option"
  cx_extensions :: jmap

definition intercept_context_new :: "'w intercept_context" where
  "intercept_context_new =
     \<lparr>cx_request_id = [], cx_trace = trace_new None None, cx_tenant_header = None, cx_consent_token = None,
      cx_route = None, cx_subject = None, cx_obligations = [], cx_envelope_seed = envelope_seed_default,
      cx_config_version = None, cx_config_checksum = None, cx_auth_input = None, cx_response_body = None,
      cx_response_status = None, cx_response_headers = [], cx_idempotency_replay = False,
      cx_idempotency_key = None, cx_idempotency_layer = None, cx_extensions = []\<rparr>"

definition cx_set_response :: "16 word \<Rightarrow> json \<Rightarrow> 'w intercept_context \<Rightarrow> 'w intercept_context" where
  "cx_set_response status body cx = cx\<lparr>cx_response_status := Some status, cx_response_body := Some body\<rparr>"

definition ensure_response_body :: "'w intercept_context \<Rightarrow> 'w intercept_context \<times> json" where
  "ensure_response_body cx =
     (case cx_response_body cx of
        Some body \<Rightarrow> (cx, body)
      | None \<Rightarrow> (cx\<lparr>cx_response_body := Some JNull\<rparr>, JNull))"

section \<open>Route policy\<close>

record route_binding_spec =
  bs_resource :: string
  bs_action :: string
  bs_attrs_from_body :: bool
  bs_request_schema :: "string option"
  bs_response_schema :: "string option"

datatype match_cond = MatchHttp (mc_method: string) (mc_path_prefix: string)

record route_policy_spec =
  rp_when :: match_cond
  rp_bind :: route_binding_spec

type_synonym route_policy = "route_policy_spec list"

definition match_http :: "route_policy \<Rightarrow> string \<Rightarrow> string \<Rightarrow> route_policy_spec option" where
  "match_http rules method path =
     find (\<lambda>spec. case rp_when spec of MatchHttp m path_prefix \<Rightarrow>
       eq_ignore_case m method \<and> starts_with path path_prefix) rules"

definition convert_action :: "string \<Rightarrow> action" where
  "convert_action act =
     (if act = ''Read'' \<or> act = ''read'' then ActRead
      else if act = ''Write'' \<or> act = ''write'' then ActWrite
      else if act = ''Invoke'' \<or> act = ''invoke'' then ActInvoke
      else if act = ''List'' \<or> act = ''list'' then ActList
      else if act = ''Admin'' \<or> act = ''admin'' then ActAdmin
      else if act = ''Configure'' \<or> act = ''configure'' then ActConfigure
      else ActRead)"

section \<open>Schemas\<close>

text \<open>\<open>JSONSchema::compile\<close> and \<open>validate\<close>: \<open>compile\<close> gives an error or the errors of a payload.\<close>

type_synonym schema_table = "string \<Rightarrow> json option"

definition schema_register :: "string \<Rightarrow> json \<Rightarrow> schema_table \<Rightarrow> schema_table" where
  "schema_register name schema reg = reg(name \<mapsto> schema)"

definition schema_validate ::
  "(json \<Rightarrow> string + (json \<Rightarrow> string list)) \<Rightarrow> schema_table \<Rightarrow> string \<Rightarrow> json \<Rightarrow> string list + unit" where
  "schema_validate compile reg name pl =
     (case reg name of
        None \<Rightarrow> Ok ()
      | Some schema \<Rightarrow>
          (case compile schema of
             Inl err \<Rightarrow> Err [err]
           | Inr errors \<Rightarrow> if errors pl = [] then Ok () else Err (errors pl)))"

section \<open>Labels\<close>

definition intercept_labels ::
  "(json \<Rightarrow> string) \<Rightarrow> error_obj \<Rightarrow> string option \<Rightarrow> string option \<Rightarrow> (string \<times> string) list" where
  "intercept_labels show err resource act =
     (let ls = labels show err;
          ls = (case resource of Some r \<Rightarrow> jinsert ''resource'' r ls | None \<Rightarrow> ls)
      in case act of Some a \<Rightarrow> jinsert ''action'' a ls | None \<Rightarrow> ls)"

fun action_name :: "action \<Rightarrow> string" where
  "action_name ActRead = ''Read''"
| "action_name ActWrite = ''Write''"
| "action_name ActInvoke = ''Invoke''"
| "action_name ActList = ''List''"
| "action_name ActAdmin = ''Admin''"
| "action_name ActConfigure = ''Configure''"

section \<open>Idempotency store\<close>

type_synonym memory_idempotency = "string \<Rightarrow> (nat \<times> stored_response) option"

definition memory_idem_get ::
  "nat \<Rightarrow> string \<Rightarrow> memory_idempotency \<Rightarrow> memory_idempotency \<times> stored_response option" where
  "memory_idem_get now key st =
     (case st key of
        Some (expiry, stored) \<Rightarrow>
          if expiry > now then (st, Some stored) else (st(key := None), None)
      | None \<Rightarrow> (st(key := None), None))"

definition memory_idem_put ::
  "nat \<Rightarrow> string \<Rightarrow> stored_response \<Rightarrow> nat \<Rightarrow> memory_idempotency \<Rightarrow> memory_idempotency" where
  "memory_idem_put now key response ttl st = st(key \<mapsto> (now + ttl, response))"

definition idempotency_error :: "string \<Rightarrow> intercept_error" where
  "idempotency_error msg = intercept_error_new (dev_msg msg
     (user_msg (utf8 [232, 175, 183, 230, 177, 130, 231, 154, 132, 229, 185, 130, 231, 173, 137,
        233, 148, 174, 230, 151, 160, 230, 149, 136, 227, 128, 130]) (builder_new SCHEMA_VALIDATION_FAILED)))"

definition oversized_body_error :: "nat \<Rightarrow> nat \<Rightarrow> intercept_error" where
  "oversized_body_error size_now limit = intercept_error_new (dev_msg (''size='' @ show_nat size_now @ '' max='' @ show_nat limit)
     (user_msg (utf8 [229, 147, 141, 229, 186, 148, 228, 189, 147, 232, 182, 133, 229, 135, 186,
        229, 185, 130, 231, 173, 137, 231, 188, 147, 229, 173, 152, 233, 153, 144,
        229, 136, 182, 227, 128, 130]) (builder_new POLICY_DENY_TOOL)))"

definition build_idempotency_key :: "'w intercept_context \<Rightarrow> string \<Rightarrow> string \<Rightarrow> string \<Rightarrow> string" where
  "build_idempotency_key cx raw_key method path =
     (let tenant = (case cx_tenant_header cx of
            Some t \<Rightarrow> t
          | None \<Rightarrow> (case cx_subject cx of Some s \<Rightarrow> subj_tenant s | None \<Rightarrow> ''unknown''))
      in tenant @ '':'' @ method @ '':'' @ path @ '':'' @ raw_key)"

section \<open>Obligations\<close>

definition path_segments :: "obligation \<Rightarrow> string \<Rightarrow> string list intercept_result" where
  "path_segments ob key =
     (case Option.bind (json_get key (ob_params ob)) as_str of
        Some raw \<Rightarrow> Ok (split_on CHR ''.'' raw)
      | None \<Rightarrow> Err (intercept_from_public POLICY_DENY_TOOL (utf8 [228, 185, 137, 229, 138, 161, 231, 188, 186, 229, 176, 145, 232, 183, 175,
        229, 190, 132, 227, 128, 130])))"

text \<open>Replacing what \<open>descend_mut\<close> finds; nothing when it finds nothing.\<close>

fun replace_at :: "json \<Rightarrow> string list \<Rightarrow> json \<Rightarrow> json option" where
  "replace_at v [] new = Some new"
| "replace_at (JObj m) (k # path) new =
     (case map_of m k of
        None \<Rightarrow> None
      | Some below \<Rightarrow> map_option (\<lambda>b. JObj (jinsert k b m)) (replace_at below path new))"
| "replace_at _ (k # path) new = None"

fun remove_path :: "json \<Rightarrow> string list \<Rightarrow> json option" where
  "remove_path v [] = None"
| "remove_path (JObj m) [k] = (if map_of m k = None then None else Some (JObj (jremove k m)))"
| "remove_path (JObj m) (k # k' # path) =
     (case map_of m k of
        None \<Rightarrow> None
      | Some below \<Rightarrow> map_option (\<lambda>b. JObj (jinsert k b m)) (remove_path below (k' # path)))"
| "remove_path _ _ = None"

definition str_param :: "obligation \<Rightarrow> string \<Rightarrow> string \<Rightarrow> string" where
  "str_param ob key dflt =
     (case Option.bind (json_get key (ob_params ob)) as_str of Some s \<Rightarrow> s | None \<Rightarrow> dflt)"

definition intercept_obligation :: "json \<Rightarrow> obligation \<Rightarrow> json intercept_result" where
  "intercept_obligation body ob =
     (if ob_kind ob = ''mask'' then
        and_then (path_segments ob ''path'') (\<lambda>path.
          ok_or (intercept_from_public POLICY_DENY_TOOL (utf8 [230, 151, 160, 230, 179, 149, 230, 137, 167, 232, 161, 140, 232, 132, 177,
        230, 149, 143, 228, 185, 137, 229, 138, 161, 227, 128, 130]))
            (replace_at body path (JStr (str_param ob ''replacement'' ''****''))))
      else if ob_kind ob = ''redact'' then
        and_then (path_segments ob ''path'') (\<lambda>path.
          ok_or (intercept_from_public POLICY_DENY_TOOL (utf8 [230, 151, 160, 230, 179, 149, 230, 137, 167, 232, 161, 140, 229, 136, 160,
        233, 153, 164, 228, 185, 137, 229, 138, 161, 227, 128, 130]))
            (remove_path body path))
      else if ob_kind ob = ''watermark'' then
        (case as_object body of
           Some m \<Rightarrow> Ok (JObj (jinsert ''__watermark'' (JStr (str_param ob ''value'' ''watermark'')) m))
         | None \<Rightarrow> Err (intercept_from_public POLICY_DENY_TOOL (utf8 [229, 147, 141, 229, 186, 148, 228, 184, 141, 230, 152, 175, 32, 74, 83, 79,
        78, 32, 229, 175, 185, 232, 177, 161, 239, 188, 140, 230, 151, 160, 230, 179,
        149, 230, 137, 147, 230, 176, 180, 229, 141, 176, 227, 128, 130])))
      else Ok body)"

text \<open>The loop stops at the first obligation that fails, and keeps what those before it changed.\<close>

fun apply_all_obligations ::
  "obligation list \<Rightarrow> 'w intercept_context \<Rightarrow> 'w intercept_context \<times> unit intercept_result" where
  "apply_all_obligations [] cx = (cx, Ok ())"
| "apply_all_obligations (ob # obs) cx =
     (let (cx, body) = ensure_response_body cx in
      case intercept_obligation body ob of
        Inl e \<Rightarrow> (cx, Err e)
      | Inr body \<Rightarrow> apply_all_obligations obs (cx\<lparr>cx_response_body := Some body\<rparr>))"

end
