(* ===== verification/InterceptChain.thy ===== *)
theory InterceptChain
  imports InterceptModel
begin

text \<open>
  The interceptor chain (\<open>sb-interceptors\<close>): the stages (\<open>stages/context_init.rs\<close>,
  \<open>stages/route_policy.rs\<close>, \<open>stages/schema_guard.rs\<close>,
  \<open>stages/idempotency.rs\<close>, \<open>stages/authn_map.rs\<close>,
  \<open>stages/authz_quota.rs\<close>, \<open>stages/obligations.rs\<close>,
  \<open>stages/response_stamp.rs\<close>), retries (\<open>resilience.rs\<close>) and the chain with its error
  responder (\<open>stages/mod.rs\<close>).

  A handler's future is a duration and a result, so every handler ends; one that does not is a
  duration above the timeout of the policy.  The length of a body as JSON text is the chain's field
  \<open>ic_json_len\<close>; waiting for a permit of the concurrency semaphore has no effect on the state.
\<close>

section \<open>Stages\<close>

datatype stage_outcome = Continue | ShortCircuit

record 'w chain_state =
  ch_cx :: "'w intercept_context"
  ch_rsp :: "rsp_call list"
  ch_world :: 'w

type_synonym 'w stage = "proto_request \<Rightarrow> 'w chain_state \<Rightarrow> 'w chain_state \<times> stage_outcome intercept_result"
type_synonym 'w response_stage = "'w chain_state \<Rightarrow> 'w chain_state \<times> unit intercept_result"

definition upd_cx :: "('w intercept_context \<Rightarrow> 'w intercept_context) \<Rightarrow> 'w chain_state \<Rightarrow> 'w chain_state" where
  "upd_cx f s = s\<lparr>ch_cx := f (ch_cx s)\<rparr>"

definition emit :: "rsp_call \<Rightarrow> 'w chain_state \<Rightarrow> 'w chain_state" where
  "emit c s = s\<lparr>ch_rsp := ch_rsp s @ [c]\<rparr>"

lemma upd_cx_simps [simp]:
  "ch_cx (upd_cx f s) = f (ch_cx s)" "ch_rsp (upd_cx f s) = ch_rsp s" "ch_world (upd_cx f s) = ch_world s"
  by (simp_all add: upd_cx_def)

lemma emit_simps [simp]:
  "ch_cx (emit c s) = ch_cx s" "ch_rsp (emit c s) = ch_rsp s @ [c]" "ch_world (emit c s) = ch_world s"
  by (simp_all add: emit_def)

text \<open>\<open>uuid\<close> is the fresh identifier, \<open>now\<close> the clock, \<open>config\<close> what the provider gives.\<close>

definition first_path_segment :: "string \<Rightarrow> string" where
  "first_path_segment path = hd (split_on CHR ''/'' (dropWhile ((=) CHR ''/'') path))"

definition context_init_stage ::
  "string \<Rightarrow> int \<Rightarrow> config_snapshot option \<Rightarrow> 'w stage" where
  "context_init_stage uuid now config req s =
     (let request_id = (case rq_header req ''X-Request-Id'' of Some r \<Rightarrow> r | None \<Rightarrow> uuid);
          tenant = rq_header req ''X-Soul-Tenant'';
          cx = (ch_cx s)\<lparr>cx_request_id := request_id,
            cx_trace := trace_new (rq_header req ''X-Trace-Id'') (rq_header req ''X-Span-Id''),
            cx_tenant_header := tenant, cx_consent_token := rq_header req ''X-Consent-Token''\<rparr>;
          cx = (case config of
                  Some snap \<Rightarrow> cx\<lparr>cx_config_version := Some (sm_version (snap_metadata snap)),
                    cx_config_checksum := Some (sm_checksum (snap_metadata snap))\<rparr>
                | None \<Rightarrow> cx);
          cx = (if cx_config_version cx = None
                then cx\<lparr>cx_config_version := rq_header req ''X-Config-Version''\<rparr> else cx);
          cx = (if cx_config_checksum cx = None
                then cx\<lparr>cx_config_checksum := rq_header req ''X-Config-Checksum''\<rparr> else cx);
          partition = (case tenant of Some t \<Rightarrow> t | None \<Rightarrow> ''unknown'');
          cx = cx\<lparr>cx_envelope_seed := \<lparr>sd_correlation_id = rq_header req ''X-Correlation-Id'',
            sd_causation_id = rq_header req ''X-Causation-Id'',
            sd_partition_key = partition @ '':'' @ first_path_segment (rq_path req),
            sd_produced_at_ms = now\<rparr>\<rparr>
      in (s\<lparr>ch_cx := cx\<rparr>, Ok Continue))"

definition route_policy_stage :: "route_policy \<Rightarrow> 'w stage" where
  "route_policy_stage policy req s =
     (case match_http policy (rq_method req) (rq_path req) of
        None \<Rightarrow> (s, Err (intercept_deny_policy ''route not declared''))
      | Some spec \<Rightarrow>
          let b = rp_bind spec;
              attrs = (if bs_attrs_from_body b then (case rq_json req of Inl _ \<Rightarrow> JObj [] | Inr j \<Rightarrow> j) else JObj [])
          in (upd_cx (\<lambda>cx. cx\<lparr>cx_route := Some \<lparr>rb_resource = bs_resource b,
                rb_action = convert_action (bs_action b), rb_attrs = attrs,
                rb_request_schema = bs_request_schema b, rb_response_schema = bs_response_schema b\<rparr>\<rparr>) s,
              Ok Continue))"

definition schema_guard ::
  "(json \<Rightarrow> string + (json \<Rightarrow> string list)) \<Rightarrow> schema_table option \<Rightarrow> string \<Rightarrow> json \<Rightarrow> unit intercept_result" where
  "schema_guard compile registry schema pl =
     (case registry of
        None \<Rightarrow> Ok ()
      | Some reg \<Rightarrow>
          (case schema_validate compile reg schema pl of
             Inr _ \<Rightarrow> Ok ()
           | Inl errors \<Rightarrow>
               let detail = (if errors = [] then ''Schema validation failed'' else join_with ''; '' errors)
               in Err (intercept_error_new (dev_msg detail
                    (user_msg (utf8 [232, 175, 183, 230, 177, 130, 230, 149, 176, 230, 141, 174, 230, 160, 188,
        229, 188, 143, 228, 184, 141, 231, 172, 166, 229, 144, 136, 232, 166, 129,
        230, 177, 130, 227, 128, 130]) (builder_new SCHEMA_VALIDATION_FAILED))))))"

definition schema_guard_stage ::
  "(json \<Rightarrow> string + (json \<Rightarrow> string list)) \<Rightarrow> schema_table option \<Rightarrow> 'w stage" where
  "schema_guard_stage compile registry req s =
     (case Option.bind (cx_route (ch_cx s)) rb_request_schema of
        None \<Rightarrow> (s, Ok Continue)
      | Some schema_name \<Rightarrow>
          and_do (s, rq_json req) (\<lambda>pl s.
          and_do (s, schema_guard compile registry schema_name pl) (\<lambda>_ s.
            (upd_cx (\<lambda>cx. cx\<lparr>cx_extensions := jinsert ''last_request_body'' pl (cx_extensions cx)\<rparr>) s, Ok Continue))))"

definition schema_guard_response ::
  "(json \<Rightarrow> string + (json \<Rightarrow> string list)) \<Rightarrow> schema_table option \<Rightarrow> 'w response_stage" where
  "schema_guard_response compile registry s =
     (case Option.bind (cx_route (ch_cx s)) rb_response_schema of
        None \<Rightarrow> (s, Ok ())
      | Some schema_name \<Rightarrow>
          (case cx_response_body (ch_cx s) of
             Some body \<Rightarrow> (s, schema_guard compile registry schema_name body)
           | None \<Rightarrow> (s, Ok ())))"

definition IDEMPOTENT_METHODS :: "string list" where
  "IDEMPOTENT_METHODS = [''POST'', ''PUT'', ''PATCH'', ''DELETE'']"

definition drop_layer :: "'w chain_state \<Rightarrow> 'w chain_state" where
  "drop_layer s = upd_cx (\<lambda>cx. cx\<lparr>cx_idempotency_layer := None\<rparr>) s"

definition idempotency_stage :: "'w idempotency_layer option \<Rightarrow> 'w stage" where
  "idempotency_stage layer_opt req s =
     (case layer_opt of
        None \<Rightarrow> (drop_layer s, Ok Continue)
      | Some layer \<Rightarrow>
          let method = to_upper (rq_method req) in
          if method \<notin> set IDEMPOTENT_METHODS then (drop_layer s, Ok Continue)
          else
            (case rq_header req ''Idempotency-Key'' of
               None \<Rightarrow> (drop_layer s, Ok Continue)
             | Some raw_key \<Rightarrow>
                 if trim raw_key = [] then (s, Err (idempotency_error ''Idempotency-Key is empty''))
                 else
                   let key = build_idempotency_key (ch_cx s) (trim raw_key) method (rq_path req);
                       s = upd_cx (\<lambda>cx. cx\<lparr>cx_idempotency_layer := Some layer\<rparr>) s in
                   (case il_get layer key (ch_world s) of
                      (w, Some existing) \<Rightarrow>
                        (upd_cx (\<lambda>cx. cx\<lparr>cx_idempotency_replay := True, cx_idempotency_key := Some key,
                           cx_response_status := Some (sr_status existing),
                           cx_response_body := Some (sr_body existing),
                           cx_response_headers := cx_response_headers cx @ sr_headers existing\<rparr>)
                           (s\<lparr>ch_world := w\<rparr>), Ok ShortCircuit)
                    | (w, None) \<Rightarrow>
                        (upd_cx (\<lambda>cx. cx\<lparr>cx_idempotency_key := Some key\<rparr>) (s\<lparr>ch_world := w\<rparr>), Ok Continue))))"

definition bearer_token :: "string \<Rightarrow> string" where
  "bearer_token header =
     (case strip_prefix header ''Bearer '' of
        Some t \<Rightarrow> t
      | None \<Rightarrow> (case strip_prefix header ''bearer '' of Some t \<Rightarrow> t | None \<Rightarrow> header))"

definition authn_map_stage :: "(authn_input \<Rightarrow> subject auth_result) \<Rightarrow> 'w stage" where
  "authn_map_stage authenticate req s =
     (case rq_header req ''Authorization'' of
        None \<Rightarrow> (s, Err (intercept_from_public AUTH_UNAUTHENTICATED (utf8 [232, 175, 183, 229, 133, 136, 231, 153, 187, 229, 189, 149, 227, 128, 130])))
      | Some header \<Rightarrow>
          let input = Bearer (bearer_token header) in
          (case authenticate input of
             Inl e \<Rightarrow> (s, Err (intercept_of_auth e))
           | Inr subject \<Rightarrow>
               (upd_cx (\<lambda>cx. cx\<lparr>cx_subject := Some subject, cx_auth_input := Some input\<rparr>) s, Ok Continue)))"

text \<open>\<open>decode\<close> is base64 and \<open>parse\<close> serde's reading of a consent, each with its error text.\<close>

definition parse_consent ::
  "(string \<Rightarrow> string + string) \<Rightarrow> (string \<Rightarrow> string + consent) \<Rightarrow> string option \<Rightarrow> consent option intercept_result" where
  "parse_consent decode parse token =
     (case token of
        None \<Rightarrow> Ok None
      | Some raw \<Rightarrow>
          if trim raw = [] then Ok None
          else
            (case decode (trim raw) of
               Inl err \<Rightarrow> Err (intercept_from_public AUTH_FORBIDDEN (utf8 [230, 151, 160, 230, 149, 136, 231, 154, 132, 229, 144, 140, 230, 132, 143,
        229, 135, 173, 232, 175, 129, 58, 32] @ err))
             | Inr decoded \<Rightarrow>
                 (case parse decoded of
                    Inl err \<Rightarrow> Err (intercept_from_public AUTH_FORBIDDEN (utf8 [230, 151, 160, 230, 179, 149, 232, 167, 163, 230, 158, 144, 229, 144, 140,
        230, 132, 143, 229, 135, 173, 232, 175, 129, 58, 32] @ err))
                  | Inr consent \<Rightarrow> Ok (Some consent))))"

record 'w authz_quota =
  aq_facade :: "'w auth_facade"
  aq_default_cost :: int
  aq_decode :: "string \<Rightarrow> string + string"
  aq_parse :: "string \<Rightarrow> string + consent"

definition authz_with_cost :: "int \<Rightarrow> 'w authz_quota \<Rightarrow> 'w authz_quota" where
  "authz_with_cost cost aq = aq\<lparr>aq_default_cost := max cost 0\<rparr>"

definition authz_quota_stage :: "'w authz_quota \<Rightarrow> 'w stage" where
  "authz_quota_stage aq req s =
     (case cx_auth_input (ch_cx s) of
        None \<Rightarrow> (s, Err (intercept_from_public AUTH_UNAUTHENTICATED (utf8 [231, 188, 186, 229, 176, 145, 232, 186, 171, 228, 187, 189, 229, 135, 173,
        232, 175, 129, 227, 128, 130])))
      | Some auth_input \<Rightarrow>
          (case cx_route (ch_cx s) of
             None \<Rightarrow> (s, Err (intercept_deny_policy ''route not bound''))
           | Some route \<Rightarrow>
               if (case (cx_tenant_header (ch_cx s), cx_subject (ch_cx s)) of
                     (Some header_tenant, Some subject) \<Rightarrow> subj_tenant subject \<noteq> header_tenant
                   | _ \<Rightarrow> False)
               then (s, Err (intercept_from_public AUTH_FORBIDDEN (utf8 [231, 167, 159, 230, 136, 183, 228, 184, 141, 229, 140, 185, 233, 133, 141,
        227, 128, 130])))
               else
                 and_do (s, parse_consent (aq_decode aq) (aq_parse aq) (cx_consent_token (ch_cx s))) (\<lambda>consent s.
                 let ctx = \<lparr>ac_input = auth_input, ac_resource = rb_resource route, ac_action = rb_action route,
                       ac_attrs = rb_attrs route, ac_consent = consent,
                       ac_correlation = sd_correlation_id (cx_envelope_seed (ch_cx s)), ac_cost = aq_default_cost aq\<rparr> in
                 (case authorize (aq_facade aq) ctx (ch_world s) of
                    (w, Inl e) \<Rightarrow> (s\<lparr>ch_world := w\<rparr>, Err (intercept_of_auth e))
                  | (w, Inr answer) \<Rightarrow>
                      let s = upd_cx (\<lambda>cx. cx\<lparr>cx_subject := Some (ar_subject answer),
                            cx_obligations := dc_obligations (ar_decision answer)\<rparr>) (s\<lparr>ch_world := w\<rparr>) in
                      if \<not> dc_allow (ar_decision answer) then
                        (s, Err (intercept_from_public AUTH_FORBIDDEN
                          (case dc_reason (ar_decision answer) of Some r \<Rightarrow> r
                           | None \<Rightarrow> utf8 [232, 175, 183, 230, 177, 130, 232, 162, 171, 230, 139, 146, 231, 187, 157])))
                      else (s, Ok Continue)))))"

definition obligations_stage :: "'w response_stage" where
  "obligations_stage s =
     (let (cx, r) = apply_all_obligations (cx_obligations (ch_cx s)) (ch_cx s) in (s\<lparr>ch_cx := cx\<rparr>, r))"

definition stamp_opt :: "string \<Rightarrow> string option \<Rightarrow> 'w chain_state \<Rightarrow> 'w chain_state" where
  "stamp_opt name v s = (case v of Some x \<Rightarrow> emit (InsertHeader name x) s | None \<Rightarrow> s)"

definition response_stamp_stage :: "'w response_stage" where
  "response_stamp_stage s =
     (let cx = ch_cx s;
          s = emit (InsertHeader ''X-Request-Id'' (cx_request_id cx)) s;
          s = stamp_opt ''X-Trace-Id'' (trace_id (cx_trace cx)) s;
          s = stamp_opt ''X-Config-Version'' (cx_config_version cx) s;
          s = stamp_opt ''X-Config-Checksum'' (cx_config_checksum cx) s;
          s = (if cx_obligations cx \<noteq> []
               then emit (InsertHeader ''X-Obligations'' (join_with '','' (map ob_kind (cx_obligations cx)))) s else s);
          s = (if cx_idempotency_replay cx then emit (InsertHeader ''X-Idempotent-Replay'' ''true'') s else s)
      in (s, Ok ()))"

section \<open>Resilience\<close>

record resilience_policy =
  rl_timeout :: "nat option"
  rl_max_retries :: nat
  rl_retry_backoff :: "nat option"

definition resilience_default :: resilience_policy where
  "resilience_default = \<lparr>rl_timeout = Some 10000, rl_max_retries = 0, rl_retry_backoff = Some 200\<rparr>"

type_synonym 'w handler =
  "proto_request \<Rightarrow> 'w intercept_context \<times> 'w \<Rightarrow> ('w intercept_context \<times> 'w) \<times> nat \<times> json intercept_result"

definition timeout_error :: "nat \<Rightarrow> intercept_error" where
  "timeout_error timeout = intercept_error_new
     (meta_kv ''timeout_ms'' (JNum (PosInt (of_nat timeout)))
       (user_msg (utf8 [232, 175, 183, 230, 177, 130, 229, 164, 132, 231, 144, 134, 232, 182, 133,
        230, 151, 182, 239, 188, 140, 232, 175, 183, 231, 168, 141, 229, 144, 142,
        233, 135, 141, 232, 175, 149, 227, 128, 130]) (builder_new PROVIDER_UNAVAILABLE)))"

text \<open>One attempt: the result of the future, or nothing when the timeout comes first.\<close>

definition attempt_result :: "nat option \<Rightarrow> nat \<Rightarrow> json intercept_result \<Rightarrow> json intercept_result option" where
  "attempt_result timeout elapsed r =
     (case timeout of Some t \<Rightarrow> if elapsed > t then None else Some r | None \<Rightarrow> Some r)"

definition is_retryable :: "intercept_error \<Rightarrow> bool" where
  "is_retryable err \<longleftrightarrow> err_retryable (ie_inner err) = RetryTransient"

function resilience_loop ::
  "'w handler \<Rightarrow> proto_request \<Rightarrow> resilience_policy \<Rightarrow> nat \<Rightarrow> 'w intercept_context \<times> 'w
   \<Rightarrow> ('w intercept_context \<times> 'w) \<times> json intercept_result" where
  "resilience_loop handler req policy attempt st =
     (let attempt = attempt + 1;
          (st, elapsed, r) = handler req st in
      case attempt_result (rl_timeout policy) elapsed r of
        None \<Rightarrow> (st, Err (timeout_error (the (rl_timeout policy))))
      | Some (Inr body) \<Rightarrow> (st, Ok body)
      | Some (Inl err) \<Rightarrow>
          if is_retryable err \<and> attempt \<le> rl_max_retries policy then resilience_loop handler req policy attempt st
          else (st, Err err))"
  by pat_completeness auto
termination
  by (relation "measure (\<lambda>(_, _, policy, attempt, _). Suc (rl_max_retries policy) - attempt)") auto

declare resilience_loop.simps [simp del]

definition execute_with_resilience ::
  "'w handler \<Rightarrow> proto_request \<Rightarrow> resilience_policy \<Rightarrow> 'w intercept_context \<times> 'w
   \<Rightarrow> ('w intercept_context \<times> 'w) \<times> json intercept_result" where
  "execute_with_resilience handler req policy st = resilience_loop handler req policy 0 st"

section \<open>The chain\<close>

text \<open>\<open>StatusCode::from_u16\<close> accepts 100 to 999.\<close>

definition to_http_status :: "error_obj \<Rightarrow> 16 word" where
  "to_http_status err = (if 100 \<le> err_http_status err \<and> err_http_status err < 1000 then err_http_status err else 500)"

definition into_http_response_body :: "error_obj \<Rightarrow> 16 word \<times> public_error_view" where
  "into_http_response_body err = (to_http_status err, to_public err)"

text \<open>
  The status of the tonic crate: its codes and which numbers stand for one are arguments.
\<close>

definition to_grpc_status :: "(int \<Rightarrow> 'code option) \<Rightarrow> 'code \<Rightarrow> error_obj \<Rightarrow> 'code \<times> string" where
  "to_grpc_status from_i32 internal err =
     (case Option.bind (err_grpc_status err) from_i32 of Some c \<Rightarrow> c | None \<Rightarrow> internal, message_user err)"

definition public_json :: "public_error_view \<Rightarrow> json" where
  "public_json v = JObj (
     (case pv_correlation_id v of Some c \<Rightarrow> jinsert ''correlation_id'' (JStr c) | None \<Rightarrow> id)
       (jinsert ''message'' (JStr (pv_message v)) (jinsert ''code'' (JStr (pv_code v)) [])))"

definition default_handle_error ::
  "(json \<Rightarrow> string) \<Rightarrow> intercept_error \<Rightarrow> 'w chain_state \<Rightarrow> 'w chain_state \<times> unit intercept_result" where
  "default_handle_error show err s =
     (let inner = ie_inner err;
          status = to_http_status inner;
          body = public_json (to_public inner);
          route = cx_route (ch_cx s);
          ls = intercept_labels show inner (map_option rb_resource route)
            (map_option (\<lambda>r. action_name (rb_action r)) route);
          s = upd_cx (\<lambda>cx. cx\<lparr>cx_extensions := jinsert ''last_error_labels''
                 (JObj (map (\<lambda>(k, v). (k, JStr v)) ls)) (cx_extensions cx),
               cx_response_status := Some status, cx_response_body := Some body\<rparr>) s
      in (emit (WriteJson body) (emit (InsertHeader ''Content-Type'' ''application/json'') (emit (SetStatus status) s)), Ok ()))"

record 'w interceptor_chain =
  ic_request_stages :: "'w stage list"
  ic_response_stages :: "'w response_stage list"
  ic_error_responder :: "intercept_error \<Rightarrow> 'w chain_state \<Rightarrow> 'w chain_state \<times> unit intercept_result"
  ic_resilience :: resilience_policy
  ic_json_len :: "json \<Rightarrow> nat"

definition interceptor_chain_new ::
  "(json \<Rightarrow> string) \<Rightarrow> (json \<Rightarrow> nat) \<Rightarrow> 'w stage list \<Rightarrow> 'w response_stage list \<Rightarrow> 'w interceptor_chain" where
  "interceptor_chain_new show json_len request_stages response_stages =
     \<lparr>ic_request_stages = request_stages, ic_response_stages = response_stages,
      ic_error_responder = default_handle_error show, ic_resilience = resilience_default, ic_json_len = json_len\<rparr>"

definition with_error_responder ::
  "(intercept_error \<Rightarrow> 'w chain_state \<Rightarrow> 'w chain_state \<times> unit intercept_result)
   \<Rightarrow> 'w interceptor_chain \<Rightarrow> 'w interceptor_chain" where
  "with_error_responder responder ic = ic\<lparr>ic_error_responder := responder\<rparr>"

definition with_resilience :: "resilience_policy \<Rightarrow> 'w interceptor_chain \<Rightarrow> 'w interceptor_chain" where
  "with_resilience policy ic = ic\<lparr>ic_resilience := policy\<rparr>"

fun run_request_stages ::
  "'w stage list \<Rightarrow> proto_request \<Rightarrow> 'w chain_state \<Rightarrow> 'w chain_state \<times> stage_outcome intercept_result" where
  "run_request_stages [] req s = (s, Ok Continue)"
| "run_request_stages (stage # stages) req s =
     and_do (stage req s) (\<lambda>outcome s.
       case outcome of
         Continue \<Rightarrow> run_request_stages stages req s
       | ShortCircuit \<Rightarrow> (s, Ok ShortCircuit))"

fun run_response_stages :: "'w response_stage list \<Rightarrow> 'w chain_state \<Rightarrow> 'w chain_state \<times> unit intercept_result" where
  "run_response_stages [] s = (s, Ok ())"
| "run_response_stages (stage # stages) s = and_do (stage s) (\<lambda>_ s. run_response_stages stages s)"

text \<open>Storing the response of a request that has an idempotency key and is no replay.\<close>

definition store_response :: "'w interceptor_chain \<Rightarrow> 'w chain_state \<Rightarrow> 'w chain_state \<times> unit intercept_result" where
  "store_response ic s =
     (let cx = ch_cx s; status = (case cx_response_status cx of Some st \<Rightarrow> st | None \<Rightarrow> 200) in
      case (cx_idempotency_layer cx, cx_idempotency_key cx) of
        (Some layer, Some key) \<Rightarrow>
          if \<not> cx_idempotency_replay cx then
            (case cx_response_body cx of
               Some body \<Rightarrow>
                 if ic_json_len ic body > il_max_body_size layer
                 then (s, Err (oversized_body_error (ic_json_len ic body) (il_max_body_size layer)))
                 else (s\<lparr>ch_world := il_put layer key
                        \<lparr>sr_status = status, sr_body = body, sr_headers = cx_response_headers cx\<rparr>
                        (il_ttl layer) (ch_world s)\<rparr>, Ok ())
             | None \<Rightarrow> (s, Ok ()))
          else (s, Ok ())
      | _ \<Rightarrow> (s, Ok ()))"

definition write_response :: "'w chain_state \<Rightarrow> 'w chain_state" where
  "write_response s =
     (let cx = ch_cx s;
          status = (case cx_response_status cx of Some st \<Rightarrow> st | None \<Rightarrow> 200);
          body = (case cx_response_body cx of Some b \<Rightarrow> b | None \<Rightarrow> JNull);
          s = emit (SetStatus status) s;
          s = fold (\<lambda>(name, v). emit (InsertHeader name v)) (cx_response_headers cx) s
      in emit (WriteJson body) s)"

definition run_with_handler ::
  "'w interceptor_chain \<Rightarrow> 'w handler \<Rightarrow> proto_request \<Rightarrow> 'w chain_state \<Rightarrow> 'w chain_state \<times> unit intercept_result" where
  "run_with_handler ic handler req s =
     (case run_request_stages (ic_request_stages ic) req s of
        (s, Inl err) \<Rightarrow> ic_error_responder ic err s
      | (s, Inr outcome) \<Rightarrow>
          let (s, handled) =
            (if outcome \<noteq> ShortCircuit \<and> cx_response_body (ch_cx s) = None then
               (case execute_with_resilience handler req (ic_resilience ic) (ch_cx s, ch_world s) of
                  ((cx, w), Inr body) \<Rightarrow>
                    (s\<lparr>ch_cx := cx\<lparr>cx_response_body := Some body\<rparr>, ch_world := w\<rparr>, Ok ())
                | ((cx, w), Inl err) \<Rightarrow> (s\<lparr>ch_cx := cx, ch_world := w\<rparr>, Err err))
             else (s, Ok ()))
          in case handled of
               Inl err \<Rightarrow> ic_error_responder ic err s
             | Inr _ \<Rightarrow>
                 and_do (run_response_stages (ic_response_stages ic) s) (\<lambda>_ s.
                 and_do (store_response ic s) (\<lambda>_ s. (write_response s, Ok ()))))"

end
