(* ===== verification/InterceptLaws.thy ===== *)
theory InterceptLaws
  imports InterceptChain
begin

text \<open>
  What the interceptor chain guarantees.  Obligations are read as operations on the trees of
  \<open>ConfigTree\<close>; retries are compared with the first attempt that settles the request; the
  store of responses is a locale (\<open>replay_store\<close>) that the in-memory store interprets; and a
  chain is followed stage by stage to what was checked before its handler ran.
\<close>

section \<open>Obligations as operations on trees\<close>

definition erase :: "tree \<Rightarrow> string list \<Rightarrow> tree" where
  "erase a p q = (if prefix p q then None else a q)"

definition obligation_path :: "obligation \<Rightarrow> string list option" where
  "obligation_path ob = map_option (split_on CHR ''.'') (Option.bind (json_get ''path'' (ob_params ob)) as_str)"

definition policy_text :: "obligation \<Rightarrow> string" where
  "policy_text ob = (if ob_kind ob = ''watermark'' then str_param ob ''value'' ''watermark''
                     else str_param ob ''replacement'' ''****'')"

text \<open>An obligation on a tree, and nothing where it cannot be met.\<close>

definition oblige :: "obligation \<Rightarrow> tree \<Rightarrow> tree option" where
  "oblige ob a =
     (if ob_kind ob = ''mask'' then
        Option.bind (obligation_path ob) (\<lambda>p.
          if a p = None then None else Some (mount a p (view (JStr (policy_text ob)))))
      else if ob_kind ob = ''redact'' then
        Option.bind (obligation_path ob) (\<lambda>p. if a p = None then None else Some (erase a p))
      else if ob_kind ob = ''watermark'' then
        (if a [] = Some Dir then Some (mount a [''__watermark''] (view (JStr (policy_text ob)))) else None)
      else Some a)"

fun oblige_all :: "obligation list \<Rightarrow> tree \<Rightarrow> tree option" where
  "oblige_all [] a = Some a"
| "oblige_all (ob # obs) a = Option.bind (oblige ob a) (oblige_all obs)"

definition body_of :: "'w intercept_context \<Rightarrow> json" where
  "body_of cx = (case cx_response_body cx of Some b \<Rightarrow> b | None \<Rightarrow> JNull)"

lemma view_replace_at:
  "map_option view (replace_at v p new) = (if view v p = None then None else Some (mount (view v) p (view new)))"
proof (induction v p new rule: replace_at.induct)
  case (1 v new)
  then show ?case by (auto simp: mount_def fun_eq_iff)
next
  case (2 m k path new)
  show ?case
  proof (cases "map_of m k")
    case (Some below)
    have "view (JObj (jinsert k b m)) q = mount (view (JObj m)) (k # path) (view new) q"
      if "view b = mount (view below) path (view new)" for b q
      using that Some by (cases q) (auto simp: mount_def)
    with 2[OF Some] Some show ?thesis
      by (cases "replace_at below path new") (auto split: if_splits)
  qed simp
qed (simp_all add: view_below_leaf)

lemma view_remove_path:
  "p \<noteq> [] \<Longrightarrow>
   map_option view (remove_path v p) = (if view v p = None then None else Some (erase (view v) p))"
proof (induction v p rule: remove_path.induct)
  case (2 m k)
  have "view (JObj (jremove k m)) q = erase (view (JObj m)) [k] q" for q
    by (cases q) (auto simp: erase_def)
  then show ?case by (auto split: option.splits)
next
  case (3 m k k' path)
  show ?case
  proof (cases "map_of m k")
    case (Some below)
    have "view (JObj (jinsert k b m)) q = erase (view (JObj m)) (k # k' # path) q"
      if "view b = erase (view below) (k' # path)" for b q
      using that Some by (cases q) (auto simp: erase_def)
    with 3(1)[OF Some] Some show ?thesis
      by (cases "remove_path below (k' # path)") (auto split: if_splits)
  qed simp
qed (simp_all add: view_below_leaf)

lemma path_segments_spec:
  "(case path_segments ob ''path'' of Inl _ \<Rightarrow> None | Inr p \<Rightarrow> Some p) = obligation_path ob"
  by (simp add: path_segments_def obligation_path_def split: option.splits)

lemma obligation_path_nonempty: "obligation_path ob = Some p \<Longrightarrow> p \<noteq> []"
  by (auto simp: obligation_path_def)

lemma view_watermark:
  "view (JObj (jinsert k v m)) = mount (view (JObj m)) [k] (view v)"
proof
  fix q show "view (JObj (jinsert k v m)) q = mount (view (JObj m)) [k] (view v) q"
    by (cases q) (auto simp: mount_def)
qed

lemma intercept_obligation_spec:
  "(case intercept_obligation body ob of Inl _ \<Rightarrow> None | Inr b \<Rightarrow> Some (view b)) = oblige ob (view body)"
proof -
  have p: "path_segments ob ''path'' = Ok p \<Longrightarrow> obligation_path ob = Some p"
    "path_segments ob ''path'' = Err e \<Longrightarrow> obligation_path ob = None" for p e
    using path_segments_spec[of ob] by auto
  consider (mask) "ob_kind ob = ''mask''" | (redact) "ob_kind ob = ''redact''"
    | (watermark) "ob_kind ob = ''watermark''"
    | (other) "ob_kind ob \<notin> {''mask'', ''redact'', ''watermark''}" by blast
  then show ?thesis
  proof cases
    case mask
    show ?thesis
    proof (cases "path_segments ob ''path''")
      case (Inr q)
      with p have q: "obligation_path ob = Some q" by simp
      from mask q Inr view_replace_at[of body q "JStr (str_param ob ''replacement'' ''****'')"] show ?thesis
        by (cases "replace_at body q (JStr (str_param ob ''replacement'' ''****''))")
          (auto simp: intercept_obligation_def oblige_def policy_text_def ok_or_def split: if_splits)
    qed (use mask p in \<open>auto simp: intercept_obligation_def oblige_def\<close>)
  next
    case redact
    show ?thesis
    proof (cases "path_segments ob ''path''")
      case (Inr q)
      with p have q: "obligation_path ob = Some q" by simp
      from redact Inr q view_remove_path[OF obligation_path_nonempty[OF q], of body] show ?thesis
        by (cases "remove_path body q")
          (auto simp: intercept_obligation_def oblige_def ok_or_def split: option.splits if_splits)
    qed (use redact p in \<open>auto simp: intercept_obligation_def oblige_def\<close>)
  next
    case watermark
    then show ?thesis
      by (cases body) (auto simp: intercept_obligation_def oblige_def policy_text_def view_watermark)
  next
    case other
    then show ?thesis
      by (auto simp: intercept_obligation_def oblige_def)
  qed
qed

definition concealed :: "obligation list \<Rightarrow> string list \<Rightarrow> tree \<Rightarrow> bool" where
  "concealed obs p a \<longleftrightarrow>
     (\<forall>q. strict_prefix p q \<longrightarrow> a q = None) \<and>
     (a p = None \<or> (\<exists>ob\<in>set obs. a p = Some (Leaf (JStr (policy_text ob)))))"

lemma view_string: "view (JStr t) r = (if r = [] then Some (Leaf (JStr t)) else None)"
  by (cases r) (auto simp: view_below_leaf)

lemma concealed_mount:
  assumes "concealed obs p a" "p \<noteq> []" "ob \<in> set obs" "a p' \<noteq> None \<or> length p' = 1"
  shows "concealed obs p (mount a p' (view (JStr (policy_text ob))))"
proof -
  have below: "\<not> strict_prefix p p'"
  proof
    assume p': "strict_prefix p p'"
    with assms(1) have "a p' = None" by (auto simp: concealed_def)
    with assms(4) have "length p' = 1" by simp
    with p' have "p = []" by (auto simp: length_Suc_conv strict_prefix_def prefix_Cons)
    with assms(2) show False by simp
  qed
  have deeper: "mount a p' (view (JStr t)) q = None" if q: "strict_prefix p q" for q t
  proof -
    have "a q = None" using assms(1) q by (simp add: concealed_def)
    moreover have "\<not> prefix q p'" using q below prefix_order.less_le_trans by blast
    moreover have "q \<noteq> p'" using q below by blast
    then have "prefix p' q \<Longrightarrow> drop (length p') q \<noteq> []" by (auto simp: prefix_def)
    ultimately show ?thesis by (simp add: mount_def view_string)
  qed
  have "mount a p' (view (JStr t)) p \<in> {None, Some (Leaf (JStr t)), a p}" for t
    using below by (auto simp: mount_def view_string strict_prefix_def)
  from this[of "policy_text ob"] assms(1,3)
  have "mount a p' (view (JStr (policy_text ob))) p = None \<or>
      (\<exists>ob'\<in>set obs. mount a p' (view (JStr (policy_text ob))) p = Some (Leaf (JStr (policy_text ob'))))"
    by (auto simp: concealed_def)
  with deeper show ?thesis
    unfolding concealed_def by blast
qed

lemma concealed_erase: "concealed obs p a \<Longrightarrow> concealed obs p (erase a p')"
  by (auto simp: concealed_def erase_def)

lemma concealed_oblige:
  "concealed obs p a \<Longrightarrow> p \<noteq> [] \<Longrightarrow> ob \<in> set obs \<Longrightarrow> oblige ob a = Some b \<Longrightarrow> concealed obs p b"
  by (auto simp: oblige_def split: if_splits bind_splits intro!: concealed_erase concealed_mount)

text \<open>The loop over the response body, read on trees.\<close>

lemma apply_all_view:
  "oblige_all obs (view (body_of cx)) =
     (case apply_all_obligations obs cx of
        (cx', Inl _) \<Rightarrow> None
      | (cx', Inr _) \<Rightarrow> Some (view (body_of cx')))"
proof (induction obs arbitrary: cx)
  case Nil
  then show ?case by simp
next
  case (Cons ob obs)
  obtain cx1 where e: "ensure_response_body cx = (cx1, body_of cx)"
    by (cases "cx_response_body cx") (auto simp: ensure_response_body_def body_of_def)
  show ?case
  proof (cases "intercept_obligation (body_of cx) ob")
    case (Inl err)
    then show ?thesis
      using e intercept_obligation_spec[of "body_of cx" ob] by simp
  next
    case (Inr b)
    then have "oblige ob (view (body_of cx)) = Some (view b)"
      using intercept_obligation_spec[of "body_of cx" ob] by simp
    moreover have "body_of (cx1\<lparr>cx_response_body := Some b\<rparr>) = b"
      by (simp add: body_of_def)
    ultimately show ?thesis
      using Inr e Cons.IH[of "cx1\<lparr>cx_response_body := Some b\<rparr>"] by simp
  qed
qed

lemma oblige_path_concealed:
  assumes "oblige ob a = Some b" "ob_kind ob \<in> {''mask'', ''redact''}" "obligation_path ob = Some p" "ob \<in> set obs"
  shows "concealed obs p b"
proof -
  have "mount a p (view (JStr t)) p = Some (Leaf (JStr t))" for t
    by (simp add: mount_def)
  moreover have "mount a p (view (JStr t)) q = None" if "strict_prefix p q" for q t
    using that by (auto simp: mount_def strict_prefix_def prefix_def view_string)
  ultimately show ?thesis
    using assms by (auto simp: oblige_def concealed_def erase_def strict_prefix_def split: if_splits)
qed

lemma concealed_all:
  "concealed obs p a \<Longrightarrow> p \<noteq> [] \<Longrightarrow> set obs' \<subseteq> set obs \<Longrightarrow> oblige_all obs' a = Some b \<Longrightarrow> concealed obs p b"
proof (induction obs' arbitrary: a)
  case (Cons ob obs')
  from Cons.prems(4) obtain a' where a': "oblige ob a = Some a'" "oblige_all obs' a' = Some b"
    by (auto simp only: oblige_all.simps bind_eq_Some_conv)
  with Cons.prems have "concealed obs p a'"
    by (intro concealed_oblige[of obs p a ob a']) simp_all
  with a'(2) Cons.prems show ?case
    by (intro Cons.IH[of a']) simp_all
qed simp

lemma oblige_all_concealed:
  "oblige_all obs' a = Some b \<Longrightarrow> set obs' \<subseteq> set obs \<Longrightarrow> ob \<in> set obs' \<Longrightarrow>
   ob_kind ob \<in> {''mask'', ''redact''} \<Longrightarrow> obligation_path ob = Some p \<Longrightarrow> concealed obs p b"
proof (induction obs' arbitrary: a)
  case (Cons ob' obs')
  from Cons.prems(1) obtain a' where a': "oblige ob' a = Some a'" "oblige_all obs' a' = Some b"
    by (auto simp only: oblige_all.simps bind_eq_Some_conv)
  show ?case
  proof (cases "ob = ob'")
    case True
    with Cons.prems have "concealed obs p a'" by (intro oblige_path_concealed[OF a'(1)]) simp_all
    from concealed_all[OF this obligation_path_nonempty[OF Cons.prems(5)] _ a'(2)] Cons.prems(2)
    show ?thesis by simp
  next
    case False
    with Cons.prems show ?thesis by (intro Cons.IH[OF a'(2)]) simp_all
  qed
qed simp


definition demo_mask :: obligation where
  "demo_mask = \<lparr>ob_kind = ''mask'', ob_params = JObj [(''path'', JStr ''a.b'')]\<rparr>"

definition demo_body_cx :: "unit intercept_context" where
  "demo_body_cx = intercept_context_new\<lparr>cx_response_body := Some (JObj [(''a'', JObj [(''b'', JStr ''secret'')])])\<rparr>"


text \<open>A stored body to which redactions were applied refuses them when they are applied again.\<close>

lemma redact_is_not_idempotent:
  assumes "ob_kind ob = ''redact''" "intercept_obligation body ob = Ok body'"
  shows "\<exists>e. intercept_obligation body' ob = Err e"
proof -
  have v: "oblige ob (view body) = Some (view body')"
    using intercept_obligation_spec[of body ob] assms(2) by simp
  with assms(1) obtain p where p: "obligation_path ob = Some p" "view body' = erase (view body) p"
    by (auto simp: oblige_def bind_eq_Some_conv split: if_splits)
  then have "oblige ob (view body') = None"
    using assms(1) by (simp add: oblige_def erase_def)
  then show ?thesis
    using intercept_obligation_spec[of body' ob] by (cases "intercept_obligation body' ob") auto
qed

section \<open>Retries\<close>

definition nth_attempt ::
  "'w handler \<Rightarrow> proto_request \<Rightarrow> nat \<Rightarrow> 'w intercept_context \<times> 'w
   \<Rightarrow> ('w intercept_context \<times> 'w) \<times> nat \<times> json intercept_result" where
  "nth_attempt handler req n st = handler req (((\<lambda>st. fst (handler req st)) ^^ n) st)"

definition settles :: "resilience_policy \<Rightarrow> nat \<times> json intercept_result \<Rightarrow> bool" where
  "settles policy answer \<longleftrightarrow>
     (case attempt_result (rl_timeout policy) (fst answer) (snd answer) of
        Some (Inl err) \<Rightarrow> \<not> is_retryable err
      | _ \<Rightarrow> True)"

text \<open>The first of the attempts 0 to \<open>n - 1\<close> that settles the request, else attempt \<open>n\<close>.\<close>

definition retry_reference ::
  "'w handler \<Rightarrow> proto_request \<Rightarrow> resilience_policy \<Rightarrow> nat \<Rightarrow> 'w intercept_context \<times> 'w
   \<Rightarrow> ('w intercept_context \<times> 'w) \<times> json intercept_result" where
  "retry_reference handler req policy n st =
     (let k = (case find (\<lambda>k. settles policy (snd (nth_attempt handler req k st))) [0..<n] of
                 Some k \<Rightarrow> k | None \<Rightarrow> n);
          (st', elapsed, r) = nth_attempt handler req k st
      in (st', case attempt_result (rl_timeout policy) elapsed r of
                 None \<Rightarrow> Err (timeout_error (the (rl_timeout policy)))
               | Some answer \<Rightarrow> answer))"

lemma find_map: "find P (map f xs) = map_option f (find (P \<circ> f) xs)"
  by (induction xs) auto

lemma find_upt_Suc:
  "find P [0..<Suc n] = (if P 0 then Some 0 else map_option Suc (find (\<lambda>k. P (Suc k)) [0..<n]))"
  by (simp add: upt_conv_Cons find_map comp_def flip: map_Suc_upt del: upt_Suc)

lemma nth_attempt_Suc: "nth_attempt handler req (Suc n) st = nth_attempt handler req n (fst (handler req st))"
  by (simp add: nth_attempt_def funpow_Suc_right del: funpow.simps)

lemma retry_reference_step:
  "retry_reference handler req policy (Suc n) st =
     (if settles policy (snd (handler req st)) then retry_reference handler req policy 0 st
      else retry_reference handler req policy n (fst (handler req st)))"
  by (simp add: retry_reference_def find_upt_Suc nth_attempt_Suc nth_attempt_def[of _ _ 0] Let_def
      split: option.splits del: upt_Suc)

lemma resilience_loop_reference:
  "resilience_loop handler req policy a st =
     retry_reference handler req policy (rl_max_retries policy - a) st"
proof (induction "rl_max_retries policy - a" arbitrary: a st)
  case 0
  obtain st' elapsed r where h: "handler req st = (st', elapsed, r)" by (cases "handler req st") auto
  with 0 show ?case
    by (subst resilience_loop.simps)
      (auto simp: retry_reference_def nth_attempt_def split: option.splits sum.splits)
next
  case (Suc n)
  then have n: "n = rl_max_retries policy - Suc a" "Suc a \<le> rl_max_retries policy" by simp_all
  obtain st' elapsed r where h: "handler req st = (st', elapsed, r)" by (cases "handler req st") auto
  have "retry_reference handler req policy 0 st =
      (st', case attempt_result (rl_timeout policy) elapsed r of
              None \<Rightarrow> Err (timeout_error (the (rl_timeout policy))) | Some answer \<Rightarrow> answer)"
    by (simp add: retry_reference_def nth_attempt_def h)
  with h n Suc.hyps(1)[OF n(1), of st'] show ?case
    by (subst resilience_loop.simps)
      (auto simp: retry_reference_step settles_def simp flip: Suc.hyps(2) split: option.splits sum.splits)
qed

text \<open>
  C29: Running a handler under a resilience policy is running it until the first attempt that settles the
  request - an answer in time, a timeout, or an error that is not transient - and at most
  \<open>max_retries\<close> more times after the first, each attempt on the state the previous one left; the answer
  is that of the last attempt.
\<close>

theorem resilience_first_settled:
  "execute_with_resilience handler req policy st =
     retry_reference handler req policy (rl_max_retries policy) st"
  by (simp add: execute_with_resilience_def resilience_loop_reference)

section \<open>Replaying responses\<close>

datatype idem_op = IdemGet nat string | IdemPut nat string stored_response nat

fun idem_key :: "idem_op \<Rightarrow> string" where
  "idem_key (IdemGet t k) = k"
| "idem_key (IdemPut t k r ttl) = k"

text \<open>What the chain needs of a store of responses.\<close>

locale replay_store =
  fixes get :: "nat \<Rightarrow> string \<Rightarrow> 'w \<Rightarrow> 'w \<times> stored_response option"
    and put :: "nat \<Rightarrow> string \<Rightarrow> stored_response \<Rightarrow> nat \<Rightarrow> 'w \<Rightarrow> 'w"
  assumes get_put: "t' < t + ttl \<Longrightarrow> snd (get t' k (put t k r ttl w)) = Some r"
    and get_get: "k' \<noteq> k \<Longrightarrow> snd (get t k (fst (get t' k' w))) = snd (get t k w)"
    and get_other: "k' \<noteq> k \<Longrightarrow> snd (get t k (put t' k' r ttl w)) = snd (get t k w)"
    and get_keeps: "snd (get t k w) = Some r \<Longrightarrow> fst (get t k w) = w"
begin

fun step :: "idem_op \<Rightarrow> 'w \<Rightarrow> 'w" where
  "step (IdemGet t k) w = fst (get t k w)"
| "step (IdemPut t k r ttl) w = put t k r ttl w"

text \<open>Operations that leave the response under \<open>k\<close> alone until \<open>T\<close>: other keys, and early reads.\<close>

fun undisturbed :: "string \<Rightarrow> nat \<Rightarrow> idem_op \<Rightarrow> bool" where
  "undisturbed k T (IdemGet t k') \<longleftrightarrow> k' \<noteq> k \<or> t < T"
| "undisturbed k T (IdemPut t k' r ttl) \<longleftrightarrow> k' \<noteq> k"

lemma step_survives:
  assumes "undisturbed k T x" "\<And>t. t < T \<Longrightarrow> snd (get t k w) = Some r" "t < T"
  shows "snd (get t k (step x w)) = Some r"
proof (cases x)
  case (IdemGet t' k')
  with assms show ?thesis by (cases "k' = k") (auto simp: get_get get_keeps)
qed (use assms in \<open>auto simp: get_other\<close>)

lemma run_survives:
  "list_all (undisturbed k T) xs \<Longrightarrow> (\<And>t. t < T \<Longrightarrow> snd (get t k w) = Some r) \<Longrightarrow> t < T \<Longrightarrow>
   snd (get t k (fold step xs w)) = Some r"
  by (induction xs arbitrary: w) (auto simp: step_survives)

lemma stored_until:
  "list_all (undisturbed k (t + ttl)) xs \<Longrightarrow> t' < t + ttl \<Longrightarrow>
   get t' k (fold step xs (put t k r ttl w)) = (fold step xs (put t k r ttl w), Some r)"
  using run_survives[of k "t + ttl" xs "put t k r ttl w" r t']
  by (metis get_put get_keeps prod.collapse)

end

interpretation memory_replay: replay_store memory_idem_get memory_idem_put
  by unfold_locales (auto simp: memory_idem_get_def memory_idem_put_def split: option.splits if_splits)

abbreviation "idem_run \<equiv> fold memory_replay.step"

definition memory_layer :: "nat \<Rightarrow> nat \<Rightarrow> nat \<Rightarrow> memory_idempotency idempotency_layer" where
  "memory_layer now ttl max_body =
     \<lparr>il_get = memory_idem_get now, il_put = memory_idem_put now, il_ttl = ttl, il_max_body_size = max_body\<rparr>"

lemma run_request_stages_append:
  "run_request_stages (pre @ post) req s =
     and_do (run_request_stages pre req s) (\<lambda>outcome s.
       case outcome of Continue \<Rightarrow> run_request_stages post req s | ShortCircuit \<Rightarrow> (s, Ok ShortCircuit))"
proof (induction pre arbitrary: s)
  case (Cons stage pre)
  then show ?case
    by (cases "stage req s"; cases "snd (stage req s)") (auto split: stage_outcome.splits)
qed simp

lemma run_request_stages_Continue:
  "run_request_stages (pre @ post) req s = (s', Ok Continue) \<longleftrightarrow>
     (\<exists>s1. run_request_stages pre req s = (s1, Ok Continue) \<and> run_request_stages post req s1 = (s', Ok Continue))"
proof -
  obtain s1 r where r: "run_request_stages pre req s = (s1, r)" by (cases "run_request_stages pre req s")
  show ?thesis
  proof (cases r)
    case (Inr outcome)
    with r show ?thesis by (cases outcome) (simp_all add: run_request_stages_append)
  qed (simp add: run_request_stages_append r)
qed

lemma run_stage_Continue:
  "run_request_stages (stage # stages) req s = (s', Ok Continue) \<longleftrightarrow>
     (\<exists>s1. stage req s = (s1, Ok Continue) \<and> run_request_stages stages req s1 = (s', Ok Continue))"
proof -
  obtain s1 r where r: "stage req s = (s1, r)" by (cases "stage req s")
  show ?thesis
  proof (cases r)
    case (Inr outcome)
    with r show ?thesis by (cases outcome) simp_all
  qed (simp add: r)
qed

lemma store_response_stored:
  assumes "store_response ic s = (s1, Ok u)" "cx_idempotency_layer (ch_cx s) = Some layer"
    "cx_idempotency_key (ch_cx s) = Some key" "\<not> cx_idempotency_replay (ch_cx s)"
    "cx_response_body (ch_cx s) = Some body"
  shows "ch_world s1 = il_put layer key
      \<lparr>sr_status = (case cx_response_status (ch_cx s) of Some st \<Rightarrow> st | None \<Rightarrow> 200), sr_body = body,
       sr_headers = cx_response_headers (ch_cx s)\<rparr> (il_ttl layer) (ch_world s)"
  using assms by (auto simp: store_response_def Let_def split: if_splits)

lemma fold_emit:
  "ch_rsp (fold (\<lambda>(name, v). emit (InsertHeader name v)) hs s) = ch_rsp s @ map (\<lambda>(n, v). InsertHeader n v) hs"
  "ch_cx (fold (\<lambda>(name, v). emit (InsertHeader name v)) hs s) = ch_cx s"
  "ch_world (fold (\<lambda>(name, v). emit (InsertHeader name v)) hs s) = ch_world s"
  by (induction hs arbitrary: s) auto

text \<open>\<open>stamps s s'\<close>: from \<open>s\<close> to \<open>s'\<close> only headers were set.\<close>

definition stamps :: "'w chain_state \<Rightarrow> (string \<times> string) list \<Rightarrow> 'w chain_state \<Rightarrow> bool" where
  "stamps s hs s' \<longleftrightarrow> s' = s\<lparr>ch_rsp := ch_rsp s @ map (\<lambda>(n, v). InsertHeader n v) hs\<rparr>"

lemma stamps_emit: "stamps s hs s' \<Longrightarrow> stamps s (hs @ [(n, v)]) (emit (InsertHeader n v) s')"
  by (simp add: stamps_def emit_def)

lemma stamps_opt: "stamps s hs s' \<Longrightarrow> stamps s (hs @ (case v of Some x \<Rightarrow> [(n, x)] | None \<Rightarrow> [])) (stamp_opt n v s')"
  by (simp add: stamp_opt_def stamps_emit split: option.splits)

lemma stamps_if: "stamps s hs s' \<Longrightarrow> stamps s (hs @ (if b then [(n, v)] else [])) (if b then emit (InsertHeader n v) s' else s')"
  by (simp add: stamps_emit)

lemma response_stamp_stage_run:
  "\<exists>hs s'. response_stamp_stage s = (s', Ok ()) \<and> stamps s hs s' \<and>
     (cx_idempotency_replay (ch_cx s) \<longrightarrow> (''X-Idempotent-Replay'', ''true'') \<in> set hs)"
proof -
  have "stamps s [] s" by (simp add: stamps_def)
  from stamps_if[OF stamps_if[OF stamps_opt[OF stamps_opt[OF stamps_opt[OF stamps_emit[OF this]]]]],
      of _ _ _ _ _ _ _ _ _ _ _ "cx_idempotency_replay (ch_cx s)" "''X-Idempotent-Replay''" "''true''"]
  show ?thesis
    unfolding response_stamp_stage_def Let_def by (intro exI conjI) (rule refl, assumption, simp)
qed


definition demo_request :: proto_request where
  "demo_request = \<lparr>rq_method = ''POST'', rq_path = ''/t'',
     rq_header = [''Idempotency-Key'' \<mapsto> ''k'', ''Authorization'' \<mapsto> ''Bearer tok'', ''X-Soul-Tenant'' \<mapsto> ''t''],
     rq_json = Ok JNull\<rparr>"

definition demo_done :: "memory_idempotency chain_state" where
  "demo_done = \<lparr>ch_cx = intercept_context_new\<lparr>cx_idempotency_layer := Some (memory_layer 0 100 64),
       cx_idempotency_key := Some ''unknown:POST:/t:k'', cx_response_status := Some 201,
       cx_response_body := Some JNull\<rparr>, ch_rsp = [], ch_world = Map.empty\<rparr>"

definition demo_replay_chain :: "memory_idempotency interceptor_chain" where
  "demo_replay_chain = \<lparr>ic_request_stages = [idempotency_stage (Some (memory_layer 50 100 64)),
       authn_map_stage (\<lambda>_. Err (auth_unauthenticated []))],
     ic_response_stages = [response_stamp_stage], ic_error_responder = default_handle_error (\<lambda>_. []),
     ic_resilience = resilience_default, ic_json_len = (\<lambda>_. 4)\<rparr>"


text \<open>The key joins its parts with colons that the parts may hold: two requests share a key.\<close>

lemma idempotency_keys_collide:
  "build_idempotency_key (cx\<lparr>cx_tenant_header := Some ''t''\<rparr>) ''b:c'' ''POST'' ''/a'' =
   build_idempotency_key (cx\<lparr>cx_tenant_header := Some ''t''\<rparr>) ''c'' ''POST'' ''/a:b''"
  by (simp add: build_idempotency_key_def)

section \<open>Errors and the handler\<close>

text \<open>A handler can matter only when every request stage has said to continue.\<close>

lemma handler_reached:
  assumes "run_with_handler ic h1 req s \<noteq> run_with_handler ic h2 req s"
  shows "\<exists>s'. run_request_stages (ic_request_stages ic) req s = (s', Ok Continue)"
proof (cases "run_request_stages (ic_request_stages ic) req s")
  case (Pair s' r)
  then show ?thesis
  proof (cases r)
    case (Inr outcome)
    with assms Pair show ?thesis by (cases outcome) (auto simp: run_with_handler_def)
  qed (use assms Pair in \<open>simp add: run_with_handler_def\<close>)
qed

lemma authz_quota_stage_Continue:
  assumes "authz_quota_stage aq req s = (s', Ok Continue)"
  shows "\<exists>input route consent w answer.
     cx_auth_input (ch_cx s) = Some input \<and> cx_route (ch_cx s) = Some route \<and>
     (\<forall>header subject. cx_tenant_header (ch_cx s) = Some header \<and> cx_subject (ch_cx s) = Some subject \<longrightarrow>
        subj_tenant subject = header) \<and>
     parse_consent (aq_decode aq) (aq_parse aq) (cx_consent_token (ch_cx s)) = Ok consent \<and>
     authorize (aq_facade aq) \<lparr>ac_input = input, ac_resource = rb_resource route, ac_action = rb_action route,
        ac_attrs = rb_attrs route, ac_consent = consent,
        ac_correlation = sd_correlation_id (cx_envelope_seed (ch_cx s)), ac_cost = aq_default_cost aq\<rparr>
        (ch_world s) = (w, Ok answer) \<and> dc_allow (ar_decision answer)"
proof -
  note d = assms[unfolded authz_quota_stage_def]
  from d obtain input where i: "cx_auth_input (ch_cx s) = Some input"
    by (cases "cx_auth_input (ch_cx s)") simp_all
  from d i obtain route where r: "cx_route (ch_cx s) = Some route"
    by (cases "cx_route (ch_cx s)") simp_all
  let ?foreign = "case (cx_tenant_header (ch_cx s), cx_subject (ch_cx s)) of
      (Some header, Some subject) \<Rightarrow> subj_tenant subject \<noteq> header | _ \<Rightarrow> False"
  from d i r have t: "\<not> ?foreign" by (cases ?foreign) simp_all
  from d i r t obtain consent where c:
    "parse_consent (aq_decode aq) (aq_parse aq) (cx_consent_token (ch_cx s)) = Ok consent"
    by (cases "parse_consent (aq_decode aq) (aq_parse aq) (cx_consent_token (ch_cx s))") simp_all
  let ?ctx = "\<lparr>ac_input = input, ac_resource = rb_resource route, ac_action = rb_action route,
        ac_attrs = rb_attrs route, ac_consent = consent,
        ac_correlation = sd_correlation_id (cx_envelope_seed (ch_cx s)), ac_cost = aq_default_cost aq\<rparr>"
  obtain w res where a: "authorize (aq_facade aq) ?ctx (ch_world s) = (w, res)"
    by (cases "authorize (aq_facade aq) ?ctx (ch_world s)")
  from d i r t c a obtain answer where ans: "res = Ok answer"
    by (cases res) (simp_all add: Let_def)
  from d i r t c a ans have "dc_allow (ar_decision answer)"
    by (cases "dc_allow (ar_decision answer)") (simp_all add: Let_def)
  with i r t c a ans show ?thesis by auto
qed

text \<open>
  C27: A request reaches its handler only through its authorisation: if the outcome of a chain with an
  authorisation stage depends on the handler at all, the stages before it have bound a route and a
  credential, the tenant header is that of the subject, the consent parses, and the authorisation
  facade has allowed exactly the bound resource and action with that consent; a refusal, an error or
  a replay before it keeps the handler out.
\<close>

theorem handler_only_when_authorized:
  assumes "ic_request_stages ic = pre @ authz_quota_stage aq # post"
    and "run_with_handler ic h1 req s \<noteq> run_with_handler ic h2 req s"
  shows "\<exists>sa input route consent w answer. run_request_stages pre req s = (sa, Ok Continue) \<and>
     cx_auth_input (ch_cx sa) = Some input \<and> cx_route (ch_cx sa) = Some route \<and>
     (\<forall>header subject. cx_tenant_header (ch_cx sa) = Some header \<and> cx_subject (ch_cx sa) = Some subject \<longrightarrow>
        subj_tenant subject = header) \<and>
     parse_consent (aq_decode aq) (aq_parse aq) (cx_consent_token (ch_cx sa)) = Ok consent \<and>
     authorize (aq_facade aq) \<lparr>ac_input = input, ac_resource = rb_resource route, ac_action = rb_action route,
        ac_attrs = rb_attrs route, ac_consent = consent,
        ac_correlation = sd_correlation_id (cx_envelope_seed (ch_cx sa)), ac_cost = aq_default_cost aq\<rparr>
        (ch_world sa) = (w, Ok answer) \<and> dc_allow (ar_decision answer)"
proof -
  from handler_reached[OF assms(2)] obtain sa sb where sa: "run_request_stages pre req s = (sa, Ok Continue)"
    and stage: "authz_quota_stage aq req sa = (sb, Ok Continue)"
    unfolding assms(1) run_request_stages_Continue run_stage_Continue by blast
  from authz_quota_stage_Continue[OF stage] sa show ?thesis by blast
qed

definition demo_quota :: "(decision_cache \<times> quota_store) authz_quota" where
  "demo_quota = \<lparr>aq_facade = demo_facade, aq_default_cost = 2, aq_decode = Inr, aq_parse = (\<lambda>_. Inl [])\<rparr>"

definition demo_guarded_chain :: "(decision_cache \<times> quota_store) interceptor_chain" where
  "demo_guarded_chain = \<lparr>ic_request_stages = [authz_quota_stage demo_quota], ic_response_stages = [],
     ic_error_responder = default_handle_error (\<lambda>_. []), ic_resilience = resilience_default,
     ic_json_len = (\<lambda>_. 0)\<rparr>"

definition demo_ready :: "(decision_cache \<times> quota_store) chain_state" where
  "demo_ready = \<lparr>ch_cx = intercept_context_new\<lparr>cx_auth_input := Some (Bearer ''tok''),
     cx_route := Some \<lparr>rb_resource = ''r'', rb_action = ActRead, rb_attrs = JNull,
       rb_request_schema = None, rb_response_schema = None\<rparr>\<rparr>,
     ch_rsp = [], ch_world = (Map.empty, Map.empty)\<rparr>"

lemma demo_authz_continues:
  "\<exists>cx w. authz_quota_stage demo_quota req demo_ready = (\<lparr>ch_cx = cx, ch_rsp = [], ch_world = w\<rparr>, Ok Continue) \<and>
     cx_response_body cx = None \<and> cx_idempotency_layer cx = None"
proof -
  obtain w ans where "authorize demo_facade demo_context (Map.empty, Map.empty) = (w, Ok ans)"
    "dc_allow (ar_decision ans)"
    using demo_authorize by auto
  then show ?thesis
    by (simp add: authz_quota_stage_def demo_quota_def demo_ready_def intercept_context_new_def parse_consent_def
        demo_context_def envelope_seed_default_def Let_def upd_cx_def)
qed

theorem handler_only_when_authorized_witness:
  "\<exists>w answer. authorize demo_facade demo_context (Map.empty, Map.empty) = (w, Ok answer) \<and>
     dc_allow (ar_decision answer)"
proof -
  let ?h = "\<lambda>j _ st. (st, 0, Ok j)"
  obtain cx w where stage: "authz_quota_stage demo_quota demo_request demo_ready =
      (\<lparr>ch_cx = cx, ch_rsp = [], ch_world = w\<rparr>, Ok Continue)"
    "cx_response_body cx = None" "cx_idempotency_layer cx = None"
    using demo_authz_continues by blast
  have "execute_with_resilience (?h j) req resilience_default st = (st, Ok j)" for j req and st :: "_ \<times> decision_cache \<times> quota_store"
    by (simp add: execute_with_resilience_def resilience_loop.simps attempt_result_def resilience_default_def)
  with stage have "cx_response_body (ch_cx (fst (run_with_handler demo_guarded_chain (?h j) demo_request demo_ready))) = Some j" for j
    by (simp add: run_with_handler_def demo_guarded_chain_def store_response_def write_response_def Let_def fold_emit)
  then have "run_with_handler demo_guarded_chain (?h JNull) demo_request demo_ready \<noteq>
      run_with_handler demo_guarded_chain (?h (JBool True)) demo_request demo_ready"
    by (metis json.distinct(1) option.inject)
  from handler_only_when_authorized[of demo_guarded_chain "[]" demo_quota "[]", OF _ this]
  show ?thesis
    by (auto simp: demo_guarded_chain_def demo_quota_def demo_ready_def intercept_context_new_def
        parse_consent_def demo_context_def envelope_seed_default_def)
qed

text \<open>A response stage that fails leaves the handler's effects, and the response unwritten.\<close>

lemma response_error_unanswered:
  assumes "run_request_stages (ic_request_stages ic) req s = (s1, Ok Continue)" "cx_response_body (ch_cx s1) = None"
    and "execute_with_resilience handler req (ic_resilience ic) (ch_cx s1, ch_world s1) = ((cx, w), Ok body)"
    and "run_response_stages (ic_response_stages ic) (s1\<lparr>ch_cx := cx\<lparr>cx_response_body := Some body\<rparr>, ch_world := w\<rparr>) = (s2, Err e)"
  shows "run_with_handler ic handler req s = (s2, Err e)"
  using assms by (simp add: run_with_handler_def)

end
