(* ===== verification/InterceptAdapters.thy ===== *)
theory InterceptAdapters
  imports InterceptChain
begin

text \<open>
  The adapters of \<open>sb-interceptors\<close> (\<open>adapters/http.rs\<close>, \<open>adapters/grpc.rs\<close>,
  \<open>adapters/mq.rs\<close>): what the chain reads from a request of axum, of tonic or of a message queue,
  and what the calls of the chain make of the response.  Names and values of headers are checked by the http
  and tonic crates, which are parameters: \<open>hc_name\<close> gives the normal form of a valid name.
\<close>

section \<open>HTTP\<close>

record header_crate =
  hc_name :: "string \<Rightarrow> string option"
  hc_value_ok :: "string \<Rightarrow> bool"

text \<open>
  A request: the headers by normal name, those whose value is text, and the body stream; reading the stream
  empties it.
\<close>

record axum_request =
  ax_method :: string
  ax_path :: string
  ax_headers :: "string \<Rightarrow> string option"
  ax_body :: "string + string"
  ax_cached :: "json option"

definition axum_request_new :: "string \<Rightarrow> string \<Rightarrow> (string \<Rightarrow> string option) \<Rightarrow> string + string \<Rightarrow> axum_request" where
  "axum_request_new method path headers body =
     \<lparr>ax_method = method, ax_path = path, ax_headers = headers, ax_body = body, ax_cached = None\<rparr>"

definition axum_header :: "header_crate \<Rightarrow> axum_request \<Rightarrow> string \<Rightarrow> string option" where
  "axum_header hc req name = Option.bind (hc_name hc name) (ax_headers req)"

definition unreadable_body :: intercept_error where
  "unreadable_body = intercept_from_public SCHEMA_VALIDATION_FAILED
     (utf8 [230, 151, 160, 230, 179, 149, 232, 175, 187, 229, 143, 150, 232, 175, 183,
        230, 177, 130, 228, 189, 147, 227, 128, 130])"

definition body_not_json :: intercept_error where
  "body_not_json = intercept_from_public SCHEMA_VALIDATION_FAILED
     (utf8 [232, 175, 183, 230, 177, 130, 228, 189, 147, 228, 184, 141, 230, 152, 175,
        32, 74, 83, 79, 78, 227, 128, 130])"

definition axum_read_json ::
  "(string \<Rightarrow> string + json) \<Rightarrow> axum_request \<Rightarrow> axum_request \<times> json intercept_result" where
  "axum_read_json parse req =
     (case ax_cached req of
        Some value \<Rightarrow> (req, Ok value)
      | None \<Rightarrow>
          let body = ax_body req; req = req\<lparr>ax_body := Ok []\<rparr> in
          case body of
            Inl _ \<Rightarrow> (req, Err unreadable_body)
          | Inr bytes \<Rightarrow>
              if bytes = [] then (req\<lparr>ax_cached := Some JNull\<rparr>, Ok JNull)
              else (case parse bytes of
                      Inl _ \<Rightarrow> (req, Err body_not_json)
                    | Inr value \<Rightarrow> (req\<lparr>ax_cached := Some value\<rparr>, Ok value)))"

text \<open>The request as the chain sees it; it reads the body once, or again after a success.\<close>

definition axum_proto :: "header_crate \<Rightarrow> (string \<Rightarrow> string + json) \<Rightarrow> axum_request \<Rightarrow> proto_request" where
  "axum_proto hc parse req =
     \<lparr>rq_method = ax_method req, rq_path = ax_path req, rq_header = axum_header hc req,
      rq_json = snd (axum_read_json parse req)\<rparr>"

record axum_response =
  ar_status :: "16 word"
  ar_headers :: "string \<Rightarrow> string option"
  ar_body :: "json option"

definition axum_response_new :: axum_response where
  "axum_response_new = \<lparr>ar_status = 200, ar_headers = Map.empty, ar_body = None\<rparr>"

definition status_code_ok :: "16 word \<Rightarrow> bool" where
  "status_code_ok code \<longleftrightarrow> 100 \<le> code \<and> code < 1000"

fun axum_apply :: "header_crate \<Rightarrow> rsp_call \<Rightarrow> axum_response \<Rightarrow> axum_response" where
  "axum_apply hc (SetStatus code) rsp = (if status_code_ok code then rsp\<lparr>ar_status := code\<rparr> else rsp)"
| "axum_apply hc (InsertHeader name v) rsp =
     (case hc_name hc name of
        Some n \<Rightarrow> if hc_value_ok hc v then rsp\<lparr>ar_headers := (ar_headers rsp)(n \<mapsto> v)\<rparr> else rsp
      | None \<Rightarrow> rsp)"
| "axum_apply hc (WriteJson body) rsp = rsp\<lparr>ar_body := Some body\<rparr>"

record http_response =
  hr_status :: "16 word"
  hr_headers :: "string \<Rightarrow> string option"
  hr_body :: string

text \<open>\<open>to_vec\<close> prints the body.\<close>

definition axum_into_response :: "(json \<Rightarrow> string) \<Rightarrow> axum_response \<Rightarrow> http_response" where
  "axum_into_response to_vec rsp =
     \<lparr>hr_status = ar_status rsp,
      hr_headers = (if ar_body rsp \<noteq> None then (ar_headers rsp)(''content-type'' \<mapsto> ''application/json'') else ar_headers rsp),
      hr_body = (case ar_body rsp of Some j \<Rightarrow> to_vec j | None \<Rightarrow> [])\<rparr>"

section \<open>gRPC\<close>

record grpc_json_request =
  gr_method :: string
  gr_path :: string
  gr_metadata :: "string \<Rightarrow> string option"
  gr_message :: json

definition grpc_proto :: "grpc_json_request \<Rightarrow> proto_request" where
  "grpc_proto req =
     \<lparr>rq_method = gr_method req, rq_path = gr_path req, rq_header = gr_metadata req, rq_json = Ok (gr_message req)\<rparr>"

record grpc_json_response =
  gs_metadata :: "string \<Rightarrow> string option"
  gs_body :: "json option"

definition grpc_response_new :: grpc_json_response where
  "grpc_response_new = \<lparr>gs_metadata = Map.empty, gs_body = None\<rparr>"

fun grpc_apply :: "header_crate \<Rightarrow> rsp_call \<Rightarrow> grpc_json_response \<Rightarrow> grpc_json_response" where
  "grpc_apply hc (SetStatus code) rsp =
     rsp\<lparr>gs_metadata := (gs_metadata rsp)(''http-status'' \<mapsto> show_nat (unat code))\<rparr>"
| "grpc_apply hc (InsertHeader name v) rsp =
     (case hc_name hc name of
        Some n \<Rightarrow> if hc_value_ok hc v then rsp\<lparr>gs_metadata := (gs_metadata rsp)(n \<mapsto> v)\<rparr> else rsp
      | None \<Rightarrow> rsp)"
| "grpc_apply hc (WriteJson body) rsp = rsp\<lparr>gs_body := Some body\<rparr>"

definition grpc_into_response :: "grpc_json_response \<Rightarrow> json \<times> (string \<Rightarrow> string option)" where
  "grpc_into_response rsp = (case gs_body rsp of Some b \<Rightarrow> b | None \<Rightarrow> JNull, gs_metadata rsp)"

section \<open>Messages\<close>

record message_request =
  mq_topic :: string
  mq_headers :: "string \<Rightarrow> string option"
  mq_payload :: json

definition message_proto :: "message_request \<Rightarrow> proto_request" where
  "message_proto req =
     \<lparr>rq_method = ''MSG'', rq_path = mq_topic req, rq_header = mq_headers req, rq_json = Ok (mq_payload req)\<rparr>"

record message_response =
  ms_status :: "16 word"
  ms_headers :: "string \<Rightarrow> string option"
  ms_body :: "json option"

definition message_response_new :: message_response where
  "message_response_new = \<lparr>ms_status = 200, ms_headers = Map.empty, ms_body = None\<rparr>"

fun message_apply :: "rsp_call \<Rightarrow> message_response \<Rightarrow> message_response" where
  "message_apply (SetStatus code) rsp = rsp\<lparr>ms_status := code\<rparr>"
| "message_apply (InsertHeader name v) rsp = rsp\<lparr>ms_headers := (ms_headers rsp)(name \<mapsto> v)\<rparr>"
| "message_apply (WriteJson body) rsp = rsp\<lparr>ms_body := Some body\<rparr>"

section \<open>Laws\<close>

text \<open>A successful reading is repeated; a failed one has lost the body.\<close>

lemma axum_read_stable:
  "axum_read_json parse req = (req', Ok v) \<Longrightarrow> axum_read_json parse req' = (req', Ok v)"
  by (auto simp: axum_read_json_def Let_def split: option.splits sum.splits if_splits)

lemma axum_read_after_error:
  "axum_read_json parse req = (req', Err e) \<Longrightarrow> snd (axum_read_json parse req') = Ok JNull"
  by (auto simp: axum_read_json_def Let_def split: option.splits sum.splits if_splits)

text \<open>
  The chain writes a response as a status, headers and a body; each adapter then ends with that status and body,
  whatever headers were refused.
\<close>

lemma axum_headers_only:
  "ar_status (fold (axum_apply hc) (map (\<lambda>(n, v). InsertHeader n v) hs) rsp) = ar_status rsp \<and>
   ar_body (fold (axum_apply hc) (map (\<lambda>(n, v). InsertHeader n v) hs) rsp) = ar_body rsp"
  by (induction hs arbitrary: rsp) (auto split: option.splits)

lemma axum_write:
  assumes "status_code_ok code"
  shows "ar_status (fold (axum_apply hc) (SetStatus code # map (\<lambda>(n, v). InsertHeader n v) hs @ [WriteJson body]) rsp) = code"
    and "ar_body (fold (axum_apply hc) (SetStatus code # map (\<lambda>(n, v). InsertHeader n v) hs @ [WriteJson body]) rsp) = Some body"
  using assms axum_headers_only[of hc hs] by simp_all

end
