(* ===== verification/Gateway.thy ===== *)
theory Gateway
  imports InterceptAdapters InterceptLaws
begin

text \<open>
  The HTTP gateway (\<open>sb-gateway\<close>): its configuration (\<open>config.rs\<close>), the routes with
  their tenant id and error answers (\<open>api.rs\<close>), the interceptor facade (\<open>intercept.rs\<close>) and
  the two services (\<open>service.rs\<close>).  serde's conversions of the request bodies, the clock, fresh
  ids, the http crate and the duration of a handler are the record \<open>gateway_env\<close>.
\<close>

section \<open>Configuration\<close>

record gateway_config =
  gc_bind_addr :: string

definition gateway_config_from_env :: "(string \<Rightarrow> string option) \<Rightarrow> string + gateway_config" where
  "gateway_config_from_env env =
     (let bind_addr = (case env ''SB_GATEWAY_ADDR'' of Some a \<Rightarrow> a | None \<Rightarrow> ''0.0.0.0:8800'') in
      if trim bind_addr = [] then Err (utf8 [83, 66, 95, 71, 65, 84, 69, 87, 65, 89, 95, 65, 68, 68, 82, 32, 228, 184,
        141, 232, 131, 189, 228, 184, 186, 231, 169, 186])
      else Ok \<lparr>gc_bind_addr = bind_addr\<rparr>)"

section \<open>Requests of the services\<close>

record tool_plan_barrier =
  tb_mode :: "string option"
  tb_timeout_ms :: "32 word option"

record tool_plan_node =
  tn_id :: string
  tn_tool_id :: string
  tn_version :: "string option"
  tn_input :: json
  tn_timeout_ms :: "32 word option"

record tool_plan =
  tp_nodes :: "tool_plan_node list"
  tp_edges :: "json list"
  tp_barrier :: tool_plan_barrier

record tool_execute_request =
  tx_anchor :: "json option"
  tx_plan :: tool_plan
  tx_cycle :: json
  tx_router :: json
  tx_budget :: json

record collab_plan =
  cp_scope_id :: "string option"
  cp_scope :: json
  cp_order :: "string option"
  cp_rounds :: "32 word option"
  cp_privacy_mode :: "string option"
  cp_barrier :: tool_plan_barrier
  cp_participants :: "json list option"

record collab_execute_request =
  ce_anchor :: "json option"
  ce_plan :: collab_plan

section \<open>Services\<close>

text \<open>\<open>json!\<close> of an object and of an optional string.\<close>

definition jobject :: "(string \<times> json) list \<Rightarrow> json" where
  "jobject kvs = JObj (jextend [] kvs)"

definition jopt :: "('a \<Rightarrow> json) \<Rightarrow> 'a option \<Rightarrow> json" where
  "jopt f v = (case v of Some x \<Rightarrow> f x | None \<Rightarrow> JNull)"

definition jnat :: "64 word \<Rightarrow> json" where
  "jnat n = JNum (PosInt n)"

definition success_envelope :: "json \<Rightarrow> string \<Rightarrow> json" where
  "success_envelope data trace =
     jobject [(''success'', JBool True), (''data'', data), (''error'', JNull), (''trace_id'', JStr trace)]"

definition schema_error :: "string \<Rightarrow> intercept_error" where
  "schema_error msg = intercept_from_public SCHEMA_VALIDATION_FAILED msg"

definition parse_body :: "(json \<Rightarrow> string + 'a) \<Rightarrow> json \<Rightarrow> 'a intercept_result" where
  "parse_body de v =
     map_err (\<lambda>err. schema_error (utf8 [232, 175, 183, 230, 177, 130, 228, 189, 147, 232, 167, 163, 230, 158, 144,
        229, 164, 177, 232, 180, 165, 58, 32] @ err)) (de v)"

definition barrier_id :: "tool_plan_barrier \<Rightarrow> string \<times> json" where
  "barrier_id b = (''barrier_id'', jopt JStr (tb_mode b))"

definition tool_payload :: "64 word \<Rightarrow> tool_execute_request \<Rightarrow> tool_plan_node \<Rightarrow> json" where
  "tool_payload tenant_id parsed node =
     (let call_id = tn_id node; route_fragment = ''tool-route-'' @ call_id;
          barrier = tp_barrier (tx_plan parsed); mode = jopt JStr (tb_mode barrier) in
      jobject
        [(''invocation'', jobject
            [(''tool_id'', JStr (tn_tool_id node)), (''call_id'', JStr call_id), (''input'', tn_input node),
             (''strategy'', mode)]),
         (''result'', jobject
            [(''tool_id'', JStr (tn_tool_id node)), (''call_id'', JStr route_fragment), (''success'', JBool True),
             (''output'', jobject
                [(''message'', JStr (utf8 [229, 183, 165, 229, 133, 183, 230, 137, 167, 232, 161, 140, 231, 148, 177,
        32, 115, 98, 45, 103, 97, 116, 101, 119, 97, 121, 32, 230, 168, 161, 230,
        139, 159, 229, 174, 140, 230, 136, 144])),
                 (''node_id'', JStr (tn_id node)), (''tenant_id'', jnat tenant_id)]),
             (''error'', JNull), (''degradation_reason'', JNull)]),
         (''route_id'', JStr route_fragment), (''attempt'', jnat 1), (''latency_ms'', jnat 12),
         (''evidence'', JArr []), (''output_digest_sha256'', JNull), (''blob_ref'', JNull),
         (''degradation_reason'', JNull),
         (''attributes'', jobject [(''gateway'', JStr ''sb-gateway''), (''mode'', mode), (''stub'', JBool True)]),
         (''metadata'', jobject
            [(''tool_node_id'', JStr (tn_id node)), (''tool_version'', jopt JStr (tn_version node)),
             (''stub'', JBool True)]),
         (''manifest'', jobject
            [(''provider'', JStr ''sb-gateway''),
             (''scenario'', (case json_get ''lane'' (tx_cycle parsed) of Some v \<Rightarrow> v | None \<Rightarrow> JStr ''unknown'')),
             (''router_digest'',
                (case json_get ''decision_router_digest'' (tx_router parsed) of Some v \<Rightarrow> v | None \<Rightarrow> JNull))]),
         (''awareness'', JArr
            [jobject
               [(''event_type'', JStr ''tool_called''),
                (''payload'', jobject [(''tool_id'', JStr (tn_tool_id node)), (''call_id'', JStr route_fragment)]),
                (''degradation_reason'', JNull), barrier_id barrier],
             jobject
               [(''event_type'', JStr ''tool_responded''),
                (''payload'', jobject [(''tool_id'', JStr (tn_tool_id node)), (''status'', JStr ''ok'')]),
                (''degradation_reason'', JNull), barrier_id barrier]])])"

definition handle_tools_execute ::
  "(json \<Rightarrow> string + tool_execute_request) \<Rightarrow> 64 word \<Rightarrow> proto_request \<Rightarrow> 'w intercept_context
   \<Rightarrow> 'w intercept_context \<times> json intercept_result" where
  "handle_tools_execute de tenant_id req cx =
     and_do (cx, rq_json req) (\<lambda>body cx.
     and_do (cx, parse_body de body) (\<lambda>parsed cx.
       case tp_nodes (tx_plan parsed) of
         [] \<Rightarrow> (cx, Err (schema_error (utf8 [229, 183, 165, 229, 133, 183, 232, 174, 161, 229, 136, 146, 228, 184, 173,
        231, 188, 186, 229, 176, 145, 232, 138, 130, 231, 130, 185])))
       | first_node # _ \<Rightarrow>
           let answer = tool_payload tenant_id parsed first_node; cx = cx\<lparr>cx_response_status := Some 200\<rparr>
           in (cx, Ok (success_envelope answer (cx_request_id cx)))))"

definition collab_payload :: "64 word \<Rightarrow> collab_plan \<Rightarrow> json" where
  "collab_payload tenant_id plan =
     (let scope_id = (case cp_scope_id plan of Some s \<Rightarrow> s | None \<Rightarrow> ''collab-'' @ show_nat (unat tenant_id)) in
      jobject
        [(''scope_id'', JStr scope_id),
         (''participants'', JArr (case cp_participants plan of Some ps \<Rightarrow> ps | None \<Rightarrow> [])),
         (''summary_ref'', JNull), (''assigned_to'', JNull), (''degradation_reason'', JNull),
         (''attributes'', cp_scope plan),
         (''metadata'', jobject
            [(''order'', jopt JStr (cp_order plan)), (''rounds'', jopt (\<lambda>n. jnat (ucast n)) (cp_rounds plan)),
             (''privacy_mode'', jopt JStr (cp_privacy_mode plan)), (''stub'', JBool True)]),
         (''manifest'', jobject [(''provider'', JStr ''sb-gateway''), (''scope_hint'', cp_scope plan)]),
         (''awareness'', JArr
            [jobject
               [(''event_type'', JStr ''collab_requested''), (''payload'', jobject [(''stub'', JBool True)]),
                (''degradation_reason'', JNull), barrier_id (cp_barrier plan)],
             jobject
               [(''event_type'', JStr ''collab_resolved''), (''payload'', jobject [(''stub'', JBool True)]),
                (''degradation_reason'', JNull), barrier_id (cp_barrier plan)]])])"

definition handle_collab_execute ::
  "(json \<Rightarrow> string + collab_execute_request) \<Rightarrow> 64 word \<Rightarrow> proto_request \<Rightarrow> 'w intercept_context
   \<Rightarrow> 'w intercept_context \<times> json intercept_result" where
  "handle_collab_execute de tenant_id req cx =
     and_do (cx, rq_json req) (\<lambda>body cx.
     and_do (cx, parse_body de body) (\<lambda>parsed cx.
       let answer = collab_payload tenant_id (ce_plan parsed); cx = cx\<lparr>cx_response_status := Some 200\<rparr>
       in (cx, Ok (success_envelope answer (cx_request_id cx)))))"

section \<open>The interceptor facade\<close>

record gateway_env =
  gv_headers :: header_crate
  gv_parse :: "string \<Rightarrow> string + json"
  gv_to_vec :: "json \<Rightarrow> string"
  gv_show :: "json \<Rightarrow> string"
  gv_json_len :: "json \<Rightarrow> nat"
  gv_tools_de :: "json \<Rightarrow> string + tool_execute_request"
  gv_collab_de :: "json \<Rightarrow> string + collab_execute_request"
  gv_uuid :: string
  gv_now :: int
  gv_took :: nat

definition facade_chain :: "gateway_env \<Rightarrow> unit interceptor_chain" where
  "facade_chain env = interceptor_chain_new (gv_show env) (gv_json_len env)
     [context_init_stage (gv_uuid env) (gv_now env) None] [response_stamp_stage]"

definition facade_start :: "unit chain_state" where
  "facade_start = \<lparr>ch_cx = intercept_context_new, ch_rsp = [], ch_world = ()\<rparr>"

definition facade_execute :: "gateway_env \<Rightarrow> axum_request \<Rightarrow> unit handler \<Rightarrow> http_response intercept_result" where
  "facade_execute env request handler =
     (let (s, r) = run_with_handler (facade_chain env) handler
            (axum_proto (gv_headers env) (gv_parse env) request) facade_start
      in and_then r (\<lambda>_. Ok (axum_into_response (gv_to_vec env)
           (fold (axum_apply (gv_headers env)) (ch_rsp s) axum_response_new))))"

section \<open>Routes\<close>

definition healthz :: json where
  "healthz = jobject [(''status'', JStr ''ok'')]"

text \<open>\<open>parse::<u64>\<close>: a plus sign may stand before the digits.\<close>

definition is_digit :: "char \<Rightarrow> bool" where
  "is_digit c \<longleftrightarrow> c \<in> set ''0123456789''"

definition decimal_value :: "string \<Rightarrow> nat" where
  "decimal_value ds = fold (\<lambda>c n. n * 10 + (of_char c - 48)) ds 0"

definition parse_u64 :: "string \<Rightarrow> 64 word option" where
  "parse_u64 s =
     (let ds = (case s of c # r \<Rightarrow> if c = CHR ''+'' then r else s | [] \<Rightarrow> s) in
      if ds \<noteq> [] \<and> list_all is_digit ds \<and> decimal_value ds < 2 ^ 64 then Some (of_nat (decimal_value ds)) else None)"

definition parse_tenant_id :: "(string \<Rightarrow> string option) \<Rightarrow> 64 word option" where
  "parse_tenant_id path = Option.bind (path ''tenant_id'') parse_u64"

definition json_answer :: "gateway_env \<Rightarrow> 16 word \<Rightarrow> json \<Rightarrow> http_response" where
  "json_answer env status body =
     \<lparr>hr_status = status, hr_headers = [''content-type'' \<mapsto> ''application/json''], hr_body = gv_to_vec env body\<rparr>"

definition bad_request_response :: "gateway_env \<Rightarrow> string \<Rightarrow> http_response" where
  "bad_request_response env msg = json_answer env 400 (jobject
     [(''success'', JBool False),
      (''error'', jobject [(''code'', JStr ''gateway.invalid_path''), (''message'', JStr msg)])])"

definition error_response :: "gateway_env \<Rightarrow> intercept_error \<Rightarrow> http_response" where
  "error_response env err =
     (let view = to_public (ie_inner err) in
      json_answer env 500 (jobject
        [(''success'', JBool False),
         (''error'', jobject
            [(''code'', JStr (pv_code view)), (''message'', JStr (pv_message view)),
             (''correlation_id'', jopt JStr (pv_correlation_id view))])]))"

definition serve ::
  "gateway_env \<Rightarrow> (64 word \<Rightarrow> proto_request \<Rightarrow> unit intercept_context \<Rightarrow> unit intercept_context \<times> json intercept_result)
   \<Rightarrow> (string \<Rightarrow> string option) \<Rightarrow> axum_request \<Rightarrow> http_response" where
  "serve env service path req =
     (case parse_tenant_id path of
        None \<Rightarrow> bad_request_response env (utf8 [116, 101, 110, 97, 110, 116, 95, 105, 100, 32, 229, 191, 133, 233, 161, 187,
        228, 184, 186, 230, 149, 176, 229, 173, 151])
      | Some tenant_id \<Rightarrow>
          (case facade_execute env req
                  (\<lambda>proto (cx, w). let (cx, r) = service tenant_id proto cx in ((cx, w), gv_took env, r)) of
             Inr resp \<Rightarrow> resp
           | Inl err \<Rightarrow> error_response env err))"

definition tools_execute_route :: "gateway_env \<Rightarrow> (string \<Rightarrow> string option) \<Rightarrow> axum_request \<Rightarrow> http_response" where
  "tools_execute_route env = serve env (handle_tools_execute (gv_tools_de env))"

definition collab_execute_route :: "gateway_env \<Rightarrow> (string \<Rightarrow> string option) \<Rightarrow> axum_request \<Rightarrow> http_response" where
  "collab_execute_route env = serve env (handle_collab_execute (gv_collab_de env))"

text \<open>
  \<open>main\<close>: the routes, and the start of the server.  Parsing a socket address, binding a
  listener and axum's serving of the routes until the shutdown signal are arguments.
\<close>

datatype gateway_handler = HealthzHandler | ToolsExecuteHandler | CollabExecuteHandler

definition gateway_routes :: "(string \<times> string \<times> gateway_handler) list" where
  "gateway_routes =
     [(''GET'', ''/healthz'', HealthzHandler),
      (''POST'', ''/tenants/:tenant_id/tools.execute'', ToolsExecuteHandler),
      (''POST'', ''/tenants/:tenant_id/collab.execute'', CollabExecuteHandler)]"

definition run_gateway_handler ::
  "gateway_env \<Rightarrow> gateway_handler \<Rightarrow> (string \<Rightarrow> string option) \<Rightarrow> axum_request \<Rightarrow> http_response" where
  "run_gateway_handler env h path req =
     (case h of
        HealthzHandler \<Rightarrow> json_answer env 200 healthz
      | ToolsExecuteHandler \<Rightarrow> tools_execute_route env path req
      | CollabExecuteHandler \<Rightarrow> collab_execute_route env path req)"

definition gateway_main ::
  "(string \<Rightarrow> string option) \<Rightarrow> (string \<Rightarrow> 'addr option) \<Rightarrow> ('addr \<Rightarrow> string + 'listener)
   \<Rightarrow> ('listener \<Rightarrow> (string \<times> string \<times> gateway_handler) list \<Rightarrow> string + unit) \<Rightarrow> string + unit" where
  "gateway_main vars parse_addr bind axum_serve =
     and_then (gateway_config_from_env vars) (\<lambda>config.
     and_then (ok_or (utf8 [232, 167, 163, 230, 158, 144, 32, 83, 66, 95, 71, 65, 84, 69, 87, 65, 89, 95,
        65, 68, 68, 82, 32, 229, 164, 177, 232, 180, 165]) (parse_addr (gc_bind_addr config))) (\<lambda>addr.
     and_then (bind addr) (\<lambda>listener.
     map_err (\<lambda>_. utf8 [229, 144, 175, 229, 138, 168, 32, 115, 98, 45, 103, 97, 116, 101, 119, 97,
        121, 32, 229, 164, 177, 232, 180, 165]) (axum_serve listener gateway_routes))))"

section \<open>Answers\<close>

text \<open>What a service answers to a request: its data, or an error.\<close>

definition request_id_of :: "gateway_env \<Rightarrow> axum_request \<Rightarrow> string" where
  "request_id_of env req =
     (case axum_header (gv_headers env) req ''X-Request-Id'' of Some r \<Rightarrow> r | None \<Rightarrow> gv_uuid env)"

definition tools_answer :: "gateway_env \<Rightarrow> 64 word \<Rightarrow> axum_request \<Rightarrow> json intercept_result" where
  "tools_answer env tenant_id req =
     and_then (snd (axum_read_json (gv_parse env) req)) (\<lambda>body.
     and_then (parse_body (gv_tools_de env) body) (\<lambda>parsed.
       case tp_nodes (tx_plan parsed) of
         [] \<Rightarrow> Err (schema_error (utf8 [229, 183, 165, 229, 133, 183, 232, 174, 161, 229, 136, 146, 228, 184, 173,
        231, 188, 186, 229, 176, 145, 232, 138, 130, 231, 130, 185]))
       | node # _ \<Rightarrow> Ok (tool_payload tenant_id parsed node)))"

definition collab_answer :: "gateway_env \<Rightarrow> 64 word \<Rightarrow> axum_request \<Rightarrow> json intercept_result" where
  "collab_answer env tenant_id req =
     and_then (snd (axum_read_json (gv_parse env) req)) (\<lambda>body.
     and_then (parse_body (gv_collab_de env) body) (\<lambda>parsed. Ok (collab_payload tenant_id (ce_plan parsed))))"

text \<open>The status and body for an answer that took \<open>gv_took\<close> milliseconds.\<close>

definition answer_status :: "gateway_env \<Rightarrow> string \<Rightarrow> json intercept_result \<Rightarrow> 16 word \<times> string" where
  "answer_status env request_id r =
     (case (if gv_took env > 10000 then Err (timeout_error 10000) else r) of
        Inr data \<Rightarrow> (200, gv_to_vec env (success_envelope data request_id))
      | Inl err \<Rightarrow> (to_http_status (ie_inner err), gv_to_vec env (public_json (to_public (ie_inner err)))))"

text \<open>A service that answers: it keeps the context, and sets the status of a success.\<close>

definition answering ::
  "(proto_request \<Rightarrow> unit intercept_context \<Rightarrow> unit intercept_context \<times> json intercept_result)
   \<Rightarrow> proto_request \<Rightarrow> json intercept_result \<Rightarrow> bool" where
  "answering service proto ans \<longleftrightarrow>
     (\<forall>cx. service proto cx =
        (case ans of
           Inr data \<Rightarrow> (cx\<lparr>cx_response_status := Some 200\<rparr>, Ok (success_envelope data (cx_request_id cx)))
         | Inl e \<Rightarrow> (cx, Err e)))"

lemma fold_axum_headers:
  "ar_status (fold (axum_apply hc) (map (\<lambda>(n, v). InsertHeader n v) hs) rsp) = ar_status rsp"
  "ar_body (fold (axum_apply hc) (map (\<lambda>(n, v). InsertHeader n v) hs) rsp) = ar_body rsp"
  using axum_headers_only by blast+

lemma error_status_ok: "status_code_ok (to_http_status e)"
  by (simp add: status_code_ok_def to_http_status_def)

text \<open>The response the adapter builds from an error and from a success.\<close>

lemma error_response_calls:
  "fold (axum_apply hc) (ch_rsp (fst (default_handle_error show e s))) rsp =
     fold (axum_apply hc) (ch_rsp s @ SetStatus (to_http_status (ie_inner e)) #
       map (\<lambda>(n, v). InsertHeader n v) [(''Content-Type'', ''application/json'')] @ [WriteJson (public_json (to_public (ie_inner e)))]) rsp"
  "is_ok (snd (default_handle_error show e s))"
  by (simp_all add: default_handle_error_def Let_def)

lemma into_response_sel [simp]:
  "hr_status (axum_into_response f rsp) = ar_status rsp"
  "hr_body (axum_into_response f rsp) = (case ar_body rsp of Some j \<Rightarrow> f j | None \<Rightarrow> [])"
  by (simp_all add: axum_into_response_def)

lemma success_calls:
  assumes "cx_response_status (ch_cx s) = Some 200" "cx_response_body (ch_cx s) = Some b"
    "cx_response_headers (ch_cx s) = []" "cx_idempotency_layer (ch_cx s) = None" "ch_rsp s = []"
  shows "\<exists>hs s'. and_do (run_response_stages [response_stamp_stage] s) (\<lambda>_ s.
      and_do (store_response ic s) (\<lambda>_ s. (write_response s, Ok ()))) = (s', Ok ()) \<and>
    ch_rsp s' = map (\<lambda>(n, v). InsertHeader n v) hs @ SetStatus 200 # map (\<lambda>(n, v). InsertHeader n v) [] @ [WriteJson b]"
proof -
  obtain hs s' where run: "response_stamp_stage s = (s', Ok ())" "stamps s hs s'"
    using response_stamp_stage_run by blast
  then have s': "ch_cx s' = ch_cx s" "ch_rsp s' = map (\<lambda>(n, v). InsertHeader n v) hs"
    using assms(5) by (simp_all add: stamps_def)
  then show ?thesis
    using assms run(1) by (auto simp: store_response_def write_response_def Let_def)
qed

lemma facade_answers:
  assumes "answering service (axum_proto (gv_headers env) (gv_parse env) req) ans"
  shows "\<exists>resp. facade_execute env req
      (\<lambda>proto (cx, w). let (cx, r) = service proto cx in ((cx, w), gv_took env, r)) = Ok resp \<and>
    (hr_status resp, hr_body resp) = answer_status env (request_id_of env req) ans"
proof -
  let ?proto = "axum_proto (gv_headers env) (gv_parse env) req"
  let ?handler = "\<lambda>proto (cx, w). let (cx, r) = service proto cx in ((cx, w), gv_took env, r)"
  let ?ans = "if gv_took env > 10000 then Err (timeout_error 10000) else ans"
  obtain cx where init: "context_init_stage (gv_uuid env) (gv_now env) None ?proto facade_start =
      (facade_start\<lparr>ch_cx := cx\<rparr>, Ok Continue)" and cx: "cx_request_id cx = request_id_of env req"
      "cx_response_body cx = None" "cx_idempotency_layer cx = None" "cx_response_headers cx = []"
    by (simp add: context_init_stage_def facade_start_def Let_def intercept_context_new_def request_id_of_def
        axum_proto_def)
  obtain cx' r where served: "service ?proto cx = (cx', r)" by (cases "service ?proto cx")
  have exec: "execute_with_resilience ?handler ?proto resilience_default (cx, ()) =
      ((cx', ()), if gv_took env > 10000 then Err (timeout_error 10000) else r)"
    unfolding execute_with_resilience_def
    by (subst resilience_loop.simps) (auto simp: served resilience_default_def attempt_result_def split: sum.splits)
  have chain: "run_with_handler (facade_chain env) ?handler ?proto facade_start =
      (case (if gv_took env > 10000 then Err (timeout_error 10000) else r) of
         Inl err \<Rightarrow> default_handle_error (gv_show env) err (facade_start\<lparr>ch_cx := cx'\<rparr>)
       | Inr body \<Rightarrow> and_do (run_response_stages [response_stamp_stage] (facade_start\<lparr>ch_cx := cx'\<lparr>cx_response_body := Some body\<rparr>\<rparr>))
           (\<lambda>_ s. and_do (store_response (facade_chain env) s) (\<lambda>_ s. (write_response s, Ok ()))))"
    using exec cx(2) init
    by (auto simp: run_with_handler_def facade_chain_def interceptor_chain_new_def facade_start_def split: sum.splits)
  show ?thesis
  proof (cases "if gv_took env > 10000 then Err (timeout_error 10000) else r")
    case (Inl e)
    then have ans: "?ans = Err e"
      using assms served by (auto simp: answering_def split: if_splits sum.splits)
    obtain s' where s': "default_handle_error (gv_show env) e (facade_start\<lparr>ch_cx := cx'\<rparr>) = (s', Ok ())"
      using error_response_calls(2)[of "gv_show env" e "facade_start\<lparr>ch_cx := cx'\<rparr>"]
      by (cases "default_handle_error (gv_show env) e (facade_start\<lparr>ch_cx := cx'\<rparr>)") (auto simp: is_ok_def split: sum.splits)
    have calls: "fold (axum_apply (gv_headers env)) (ch_rsp s') axum_response_new =
        fold (axum_apply (gv_headers env)) (SetStatus (to_http_status (ie_inner e)) #
          map (\<lambda>(n, v). InsertHeader n v) [(''Content-Type'', ''application/json'')] @
          [WriteJson (public_json (to_public (ie_inner e)))]) axum_response_new"
      using error_response_calls(1)[of "gv_headers env" "gv_show env" e "facade_start\<lparr>ch_cx := cx'\<rparr>" axum_response_new] s'
      by (simp add: facade_start_def)
    have "ar_status (fold (axum_apply (gv_headers env)) (ch_rsp s') axum_response_new) = to_http_status (ie_inner e)"
      "ar_body (fold (axum_apply (gv_headers env)) (ch_rsp s') axum_response_new) = Some (public_json (to_public (ie_inner e)))"
      unfolding calls by (rule axum_write[OF error_status_ok])+
    then show ?thesis
      using Inl chain s' by (simp add: facade_execute_def answer_status_def ans)
  next
    case (Inr body)
    then obtain data where ans: "?ans = Ok data" "body = success_envelope data (cx_request_id cx)"
      "cx' = cx\<lparr>cx_response_status := Some 200\<rparr>"
      using assms served by (auto simp: answering_def split: if_splits sum.splits)
    obtain hs s' where s': "and_do (run_response_stages [response_stamp_stage] (facade_start\<lparr>ch_cx := cx'\<lparr>cx_response_body := Some body\<rparr>\<rparr>))
         (\<lambda>_ s. and_do (store_response (facade_chain env) s) (\<lambda>_ s. (write_response s, Ok ()))) = (s', Ok ())"
      and calls: "ch_rsp s' = map (\<lambda>(n, v). InsertHeader n v) hs @ SetStatus 200 # map (\<lambda>(n, v). InsertHeader n v) [] @ [WriteJson body]"
      using success_calls[of "facade_start\<lparr>ch_cx := cx'\<lparr>cx_response_body := Some body\<rparr>\<rparr>" body "facade_chain env"] cx ans(3)
      by (auto simp: facade_start_def)
    have ok: "status_code_ok 200" by (simp add: status_code_ok_def)
    have "ar_status (fold (axum_apply (gv_headers env)) (ch_rsp s') axum_response_new) = 200"
      "ar_body (fold (axum_apply (gv_headers env)) (ch_rsp s') axum_response_new) = Some body"
      unfolding calls fold_append comp_apply by (rule axum_write[OF ok])+
    then show ?thesis
      using Inr chain s' ans cx(1) by (simp add: facade_execute_def answer_status_def)
  qed
qed

lemma tools_answering:
  "answering (handle_tools_execute (gv_tools_de env) t) (axum_proto (gv_headers env) (gv_parse env) req) (tools_answer env t req)"
  by (auto simp: answering_def handle_tools_execute_def tools_answer_def axum_proto_def Let_def and_do_def and_then_def
      split: sum.splits list.splits)

lemma collab_answering:
  "answering (handle_collab_execute (gv_collab_de env) t) (axum_proto (gv_headers env) (gv_parse env) req) (collab_answer env t req)"
  by (auto simp: answering_def handle_collab_execute_def collab_answer_def axum_proto_def Let_def and_do_def and_then_def
      split: sum.splits)

lemma public_error_status:
  "to_http_status (ie_inner (intercept_from_public SCHEMA_VALIDATION_FAILED msg)) = 422"
  "to_http_status (ie_inner (timeout_error n)) = 503"
proof -
  have "err_http_status (builder_new SCHEMA_VALIDATION_FAILED) = 422" "err_http_status (builder_new PROVIDER_UNAVAILABLE) = 503"
    by (simp_all add: builder_new_def builder_new_opt_def from_spec_def spec_of_eq registry_entries_defs code_spec_new_def
        error_codes)
  then show "to_http_status (ie_inner (intercept_from_public SCHEMA_VALIDATION_FAILED msg)) = 422"
    "to_http_status (ie_inner (timeout_error n)) = 503"
    by (simp_all add: intercept_from_public_def intercept_error_new_def timeout_error_def to_http_status_def Let_def
        user_msg_def meta_kv_def)
qed

lemma answer_statuses:
  "(\<And>e. r = Err e \<Longrightarrow> \<exists>msg. e = intercept_from_public SCHEMA_VALIDATION_FAILED msg) \<Longrightarrow>
   fst (answer_status env i r) \<in> {200, 422, 503}"
  by (cases r) (auto simp: answer_status_def public_error_status)

lemma answers_err:
  "tools_answer env t req = Err e \<Longrightarrow> \<exists>msg. e = intercept_from_public SCHEMA_VALIDATION_FAILED msg"
  "collab_answer env t req = Err e \<Longrightarrow> \<exists>msg. e = intercept_from_public SCHEMA_VALIDATION_FAILED msg"
  by (auto simp: tools_answer_def collab_answer_def and_then_def parse_body_def map_err_def schema_error_def
      axum_read_json_def unreadable_body_def body_not_json_def Let_def split: sum.splits list.splits option.splits if_splits)

text \<open>No request reaches the answer for errors the chain returns, which is always status 500.\<close>

lemma serve_answers:
  assumes "\<And>tenant_id. answering (service tenant_id) (axum_proto (gv_headers env) (gv_parse env) req) (ans tenant_id)"
  shows "(hr_status (serve env service path req), hr_body (serve env service path req)) =
    (case parse_tenant_id path of
       None \<Rightarrow> (400, hr_body (bad_request_response env (utf8 [116, 101, 110, 97, 110, 116, 95, 105, 100, 32, 229, 191, 133, 233, 161, 187,
        228, 184, 186, 230, 149, 176, 229, 173, 151])))
     | Some tenant_id \<Rightarrow> answer_status env (request_id_of env req) (ans tenant_id))"
proof (cases "parse_tenant_id path")
  case None
  then show ?thesis by (simp add: serve_def bad_request_response_def json_answer_def)
next
  case (Some t)
  obtain resp where "facade_execute env req
      (\<lambda>proto (cx, w). let (cx, r) = service t proto cx in ((cx, w), gv_took env, r)) = Ok resp"
    "(hr_status resp, hr_body resp) = answer_status env (request_id_of env req) (ans t)"
    using facade_answers[OF assms] by blast
  with Some show ?thesis by (simp add: serve_def)
qed

text \<open>
  C31: What the gateway answers.  For every request, on either route, the status and the body are: 400 when the tenant in the
  path is no number; otherwise, after at most ten seconds, 200 with the service's data and the request's
  id, or the status and the public view of the error - unreadable body, body of another shape, plan
  without nodes, timeout.  The statuses of the
  answers are 200, 422 and 503.  Nothing else of the request matters: not the tenant header, not a
  credential.
\<close>

theorem gateway_answers:
  "(hr_status (tools_execute_route env path req), hr_body (tools_execute_route env path req)) =
     (case parse_tenant_id path of
        None \<Rightarrow> (400, hr_body (bad_request_response env (utf8 [116, 101, 110, 97, 110, 116, 95, 105, 100, 32, 229, 191, 133, 233, 161, 187,
        228, 184, 186, 230, 149, 176, 229, 173, 151])))
      | Some t \<Rightarrow> answer_status env (request_id_of env req) (tools_answer env t req)) \<and>
   (hr_status (collab_execute_route env path req), hr_body (collab_execute_route env path req)) =
     (case parse_tenant_id path of
        None \<Rightarrow> (400, hr_body (bad_request_response env (utf8 [116, 101, 110, 97, 110, 116, 95, 105, 100, 32, 229, 191, 133, 233, 161, 187,
        228, 184, 186, 230, 149, 176, 229, 173, 151])))
      | Some t \<Rightarrow> answer_status env (request_id_of env req) (collab_answer env t req)) \<and>
   fst (answer_status env (request_id_of env req) (tools_answer env t req)) \<in> {200, 422, 503} \<and>
   fst (answer_status env (request_id_of env req) (collab_answer env t req)) \<in> {200, 422, 503}"
  unfolding tools_execute_route_def collab_execute_route_def
  by (intro conjI serve_answers tools_answering collab_answering answer_statuses answers_err)

end
