(* ===== verification/LlmModel.thy ===== *)
theory LlmModel
  imports ConfigSource SortBy
begin

text \<open>
  The data of \<open>sb-llm\<close>: messages, usage, cost, requests and replies for chat, embeddings and
  reranking (\<open>model.rs\<close>, \<open>chat.rs\<close>, \<open>embed.rs\<close>, \<open>rerank.rs\<close>), usage
  estimation (\<open>cost.rs\<close>), errors, labels and the policy that enforces JSON output
  (\<open>jsonsafe.rs\<close>).  The type \<open>'f\<close> stands for \<open>f32\<close> and its arithmetic is the
  record \<open>f32_ops\<close>; serde's parser and printer are arguments.
\<close>

section \<open>Messages, usage and cost\<close>

datatype role = System | User | Assistant | Tool

datatype 'f content_segment =
    Text string
  | ImageRef string string "32 word option" "32 word option"
  | AudioRef string 'f "32 word option" "string option"
  | AttachmentRef string "64 word option" "string option"

record tool_call_proposal =
  tp_name :: string
  tp_call_id :: id
  tp_arguments :: json

record 'f chat_message =
  cm_role :: role
  cm_segments :: "'f content_segment list"
  cm_tool_calls :: "tool_call_proposal list"

record 'f usage =
  us_input_tokens :: "32 word"
  us_output_tokens :: "32 word"
  us_cached_tokens :: "32 word option"
  us_image_units :: "32 word option"
  us_audio_seconds :: "'f option"
  us_requests :: "32 word"

record 'f cost_breakdown =
  cb_input :: 'f
  cb_output :: 'f
  cb_image :: 'f
  cb_audio :: 'f

record 'f cost =
  co_usd :: 'f
  co_currency :: string
  co_breakdown :: "'f cost_breakdown"

datatype finish_reason = Stop | FinishLength | FinishTool | Safety | FinishOther string

section \<open>Requests and replies\<close>

datatype response_kind = KindText | KindJson | KindJsonSchema

record response_format =
  rf_kind :: response_kind
  rf_json_schema :: "json option"
  rf_strict :: bool

record tool_spec =
  tl_name :: string
  tl_input_schema :: "json option"

record 'f chat_request =
  cq_model_id :: string
  cq_messages :: "'f chat_message list"
  cq_tool_specs :: "tool_spec list"
  cq_temperature :: "'f option"
  cq_top_p :: "'f option"
  cq_max_tokens :: "32 word option"
  cq_stop :: "string list"
  cq_seed :: "64 word option"
  cq_frequency_penalty :: "'f option"
  cq_presence_penalty :: "'f option"
  cq_logit_bias :: "(string \<times> json) list"
  cq_response_format :: "response_format option"
  cq_idempotency_key :: "string option"
  cq_allow_sensitive :: bool
  cq_metadata :: json

record 'f chat_response =
  cr_model_id :: string
  cr_message :: "'f chat_message"
  cr_usage :: "'f usage"
  cr_cost :: "'f cost option"
  cr_finish :: finish_reason
  cr_provider_meta :: json

record 'f chat_delta =
  cd_text_delta :: "string option"
  cd_tool_call_delta :: "tool_call_proposal option"
  cd_usage_partial :: "'f usage option"
  cd_finish :: "finish_reason option"
  cd_first_token_ms :: "32 word option"

record embed_item =
  em_id :: string
  em_text :: string

record embed_request =
  eq_model_id :: string
  eq_items :: "embed_item list"
  eq_normalize :: bool
  eq_pooling :: "string option"

record 'f embed_response =
  er_dim :: "32 word"
  er_vectors :: "'f list list"
  er_usage :: "'f usage"
  er_cost :: "'f cost option"
  er_provider_meta :: json

record rerank_request =
  rq_model_id :: string
  rq_query :: string
  rq_candidates :: "string list"

record 'f rerank_response =
  rr_scores :: "'f list"
  rr_ordering :: "nat list"
  rr_usage :: "'f usage"
  rr_cost :: "'f cost option"
  rr_provider_meta :: json

fun segment_text :: "'f content_segment \<Rightarrow> string option" where
  "segment_text (Text t) = Some t"
| "segment_text _ = None"

text \<open>\<open>find_map\<close> of an iterator.\<close>

fun find_map :: "('a \<Rightarrow> 'b option) \<Rightarrow> 'a list \<Rightarrow> 'b option" where
  "find_map f [] = None"
| "find_map f (x # xs) = (case f x of Some y \<Rightarrow> Some y | None \<Rightarrow> find_map f xs)"

definition last_user_text :: "'f chat_message list \<Rightarrow> string option" where
  "last_user_text messages =
     Option.bind (find (\<lambda>m. cm_role m = User) (rev messages))
       (\<lambda>m. find_map segment_text (rev (cm_segments m)))"

section \<open>Text and usage\<close>

text \<open>The code points of a UTF-8 string.\<close>

fun code_points_of :: "nat list \<Rightarrow> nat list" where
  "code_points_of [] = []"
| "code_points_of (b # bs) =
     (if b < 128 then b # code_points_of bs
      else if b < 224 then
        (case bs of x # r \<Rightarrow> ((b - 192) * 64 + (x - 128)) # code_points_of r | _ \<Rightarrow> [])
      else if b < 240 then
        (case bs of
           x # y # r \<Rightarrow> ((b - 224) * 4096 + (x - 128) * 64 + (y - 128)) # code_points_of r
         | _ \<Rightarrow> [])
      else
        (case bs of
           x # y # z # r \<Rightarrow>
             ((b - 240) * 262144 + (x - 128) * 4096 + (y - 128) * 64 + (z - 128)) # code_points_of r
         | _ \<Rightarrow> []))"

definition code_points :: "string \<Rightarrow> nat list" where
  "code_points s = code_points_of (map of_char s)"

text \<open>\<open>((n as u32) + 3) / 4\<close>.\<close>

definition tokens_of :: "nat \<Rightarrow> 32 word" where
  "tokens_of n = (of_nat n + 3) div 4"

definition estimate_usage :: "string list \<Rightarrow> string \<Rightarrow> 'f usage" where
  "estimate_usage inputs output =
     \<lparr>us_input_tokens = sum_list (map (\<lambda>s. tokens_of (length (code_points s))) inputs),
      us_output_tokens = tokens_of (length (code_points output)),
      us_cached_tokens = None, us_image_units = None, us_audio_seconds = None, us_requests = 1\<rparr>"

definition zero_cost :: "'f f32_ops \<Rightarrow> 'f cost option" where
  "zero_cost f = Some
     \<lparr>co_usd = f_zero f, co_currency = ''USD'',
      co_breakdown = \<lparr>cb_input = f_zero f, cb_output = f_zero f, cb_image = f_zero f, cb_audio = f_zero f\<rparr>\<rparr>"

definition llm_labels :: "string \<Rightarrow> string \<Rightarrow> string option \<Rightarrow> (string \<times> string) list" where
  "llm_labels provider model code =
     (case code of Some c \<Rightarrow> [(''code'', c)] | None \<Rightarrow> []) @ [(''model'', model), (''provider'', provider)]"

section \<open>Errors\<close>

record llm_error =
  le_inner :: error_obj
  le_public :: string

definition llm_error_new :: "error_obj \<Rightarrow> llm_error" where
  "llm_error_new inner =
     (let view = to_public inner
      in \<lparr>le_inner = inner, le_public = pv_code view @ '': '' @ pv_message view\<rparr>)"

definition llm_to_public :: "llm_error \<Rightarrow> public_error_view" where
  "llm_to_public e = to_public (le_inner e)"

definition llm_provider_unavailable :: "string \<Rightarrow> llm_error" where
  "llm_provider_unavailable msg = llm_error_new (dev_msg msg
     (user_msg ''Model provider temporarily unavailable.'' (builder_new PROVIDER_UNAVAILABLE)))"

definition llm_timeout :: "string \<Rightarrow> llm_error" where
  "llm_timeout msg = llm_error_new (dev_msg msg
     (user_msg ''Model did not respond in time.'' (builder_new LLM_TIMEOUT)))"

definition llm_context_overflow :: "string \<Rightarrow> llm_error" where
  "llm_context_overflow msg = llm_error_new (dev_msg msg
     (user_msg ''Input exceeds the model context window.'' (builder_new LLM_CONTEXT_OVERFLOW)))"

definition llm_safety_block :: "string \<Rightarrow> llm_error" where
  "llm_safety_block msg = llm_error_new (dev_msg msg
     (user_msg ''Model refused to answer due to safety policies.'' (builder_new LLM_SAFETY_BLOCK)))"

definition llm_schema :: "string \<Rightarrow> llm_error" where
  "llm_schema msg = llm_error_new (dev_msg msg
     (user_msg ''Model output failed schema validation.'' (builder_new SCHEMA_VALIDATION_FAILED)))"

definition llm_unknown :: "string \<Rightarrow> llm_error" where
  "llm_unknown msg = llm_error_new (dev_msg msg
     (user_msg ''Internal LLM error.'' (builder_new UNKNOWN_INTERNAL)))"

type_synonym 'a llm_result = "llm_error + 'a"

section \<open>Enforcing JSON\<close>

lemma next_word: "a < m \<Longrightarrow> unat (a + 1) = Suc (unat a)" for a m :: "'a::len word"
proof -
  assume "a < m"
  moreover have "unat m < 2 ^ LENGTH('a)" by (rule unsigned_less)
  ultimately have "unat a + 1 < 2 ^ LENGTH('a)" unfolding word_less_nat_alt by linarith
  then show ?thesis by (simp add: unat_word_ariths)
qed

datatype struct_out_policy = PolicyOff | StrictReject | StrictRepair "8 word"

text \<open>\<open>trim_matches\<close> of the quotation mark.\<close>

definition trim_quotes :: "string \<Rightarrow> string" where
  "trim_quotes s = rev (dropWhile (\<lambda>c. c = CHR 0x22) (rev (dropWhile (\<lambda>c. c = CHR 0x22) s)))"

function repair_loop :: "(string \<Rightarrow> string + json) \<Rightarrow> 8 word \<Rightarrow> 8 word \<Rightarrow> string \<Rightarrow> json llm_result" where
  "repair_loop parse max_attempts attempts text =
     (case parse text of
        Inr value \<Rightarrow> Ok value
      | Inl err \<Rightarrow>
          if attempts < max_attempts then
            let text = trim_quotes (trim text)
            in if text = [] then Err (llm_schema ''json parse after repair: empty'')
               else repair_loop parse max_attempts (attempts + 1) text
          else Err (llm_schema (''json parse after repair: '' @ err)))"
  by pat_completeness auto
termination
  by (relation "measure (\<lambda>(_, max_attempts, attempts, _). unat max_attempts - unat attempts)")
    (auto simp: next_word word_less_nat_alt)

declare repair_loop.simps [simp del]

definition enforce_json ::
  "(string \<Rightarrow> string + json) \<Rightarrow> string \<Rightarrow> struct_out_policy \<Rightarrow> json llm_result" where
  "enforce_json parse candidate policy =
     (case policy of
        PolicyOff \<Rightarrow> map_err (\<lambda>err. llm_schema (''json parse (off): '' @ err)) (parse candidate)
      | StrictReject \<Rightarrow> map_err (\<lambda>err. llm_schema (''json parse: '' @ err)) (parse candidate)
      | StrictRepair max_attempts \<Rightarrow> repair_loop parse max_attempts 0 (trim candidate))"

text \<open>\<open>check\<close> is the schema validator of the feature \<open>schema-json\<close>, absent by default.\<close>

definition validate_against_schema ::
  "(json \<Rightarrow> json \<Rightarrow> string + unit) option \<Rightarrow> json \<Rightarrow> json option \<Rightarrow> unit llm_result" where
  "validate_against_schema check value schema =
     (case (check, schema) of
        (Some f, Some s) \<Rightarrow> map_err (\<lambda>err. llm_schema (''schema validation failed: '' @ err)) (f s value)
      | _ \<Rightarrow> Ok ())"

end
