(* ===== verification/LlmProvider.thy ===== *)
theory LlmProvider
  imports LlmModel
begin

text \<open>
  The provider registry of \<open>sb-llm\<close> and its local provider (\<open>provider.rs\<close>): model ids
  \<open>provider:model\<close>, chat with enforced JSON, the streamed reply, embeddings and reranking.
\<close>

section \<open>The registry\<close>

record provider_caps =
  pc_chat :: bool
  pc_stream :: bool
  pc_tools :: bool
  pc_embeddings :: bool
  pc_rerank :: bool
  pc_multimodal :: bool
  pc_json_schema :: bool

record provider_cfg =
  pg_name :: string

text \<open>A factory; the trait's own \<open>create_*\<close> methods return None.\<close>

record ('c, 'e, 'r) provider_factory =
  pf_name :: string
  pf_caps :: provider_caps
  pf_create_chat :: "string \<Rightarrow> provider_cfg \<Rightarrow> 'c option"
  pf_create_embed :: "string \<Rightarrow> provider_cfg \<Rightarrow> 'e option"
  pf_create_rerank :: "string \<Rightarrow> provider_cfg \<Rightarrow> 'r option"

type_synonym ('c, 'e, 'r) provider_registry = "string \<Rightarrow> ('c, 'e, 'r) provider_factory option"

definition provider_register ::
  "('c, 'e, 'r) provider_factory \<Rightarrow> ('c, 'e, 'r) provider_registry \<Rightarrow> ('c, 'e, 'r) provider_registry" where
  "provider_register factory reg = reg(pf_name factory \<mapsto> factory)"

definition split_model :: "string \<Rightarrow> (string \<times> string) option" where
  "split_model model_id = split_once CHR 0x3A model_id"

definition registry_chat :: "('c, 'e, 'r) provider_registry \<Rightarrow> string \<Rightarrow> 'c option" where
  "registry_chat reg model_id =
     Option.bind (split_model model_id) (\<lambda>(provider, model).
     Option.bind (reg provider) (\<lambda>factory. pf_create_chat factory model \<lparr>pg_name = provider\<rparr>))"

definition registry_embed :: "('c, 'e, 'r) provider_registry \<Rightarrow> string \<Rightarrow> 'e option" where
  "registry_embed reg model_id =
     Option.bind (split_model model_id) (\<lambda>(provider, model).
     Option.bind (reg provider) (\<lambda>factory. pf_create_embed factory model \<lparr>pg_name = provider\<rparr>))"

definition registry_rerank :: "('c, 'e, 'r) provider_registry \<Rightarrow> string \<Rightarrow> 'r option" where
  "registry_rerank reg model_id =
     Option.bind (split_model model_id) (\<lambda>(provider, model).
     Option.bind (reg provider) (\<lambda>factory. pf_create_rerank factory model \<lparr>pg_name = provider\<rparr>))"

section \<open>The local provider\<close>

record 'f llm_env =
  lv_parse :: "string \<Rightarrow> string + json"
  lv_render :: "json \<Rightarrow> string"
  lv_check :: "(json \<Rightarrow> json \<Rightarrow> string + unit) option"
  lv_f32 :: "'f f32_ops"

definition local_meta :: json where
  "local_meta = JObj [(''provider'', JStr ''local'')]"

definition wants_json :: "response_format \<Rightarrow> bool" where
  "wants_json format \<longleftrightarrow> rf_kind format \<in> {KindJson, KindJsonSchema}"

definition local_chat ::
  "'f llm_env \<Rightarrow> 'f chat_request \<Rightarrow> struct_out_policy \<Rightarrow> 'f chat_response llm_result" where
  "local_chat env req enforce =
     (let last_user = (case last_user_text (cq_messages req) of Some t \<Rightarrow> t | None \<Rightarrow> []) in
      and_then
        (case cq_response_format req of
           Some format \<Rightarrow>
             if wants_json format then
               let json_candidate = lv_render env (JObj [(''echo'', JStr last_user)]) in
               and_then (enforce_json (lv_parse env) json_candidate enforce) (\<lambda>value.
               and_then (validate_against_schema (lv_check env) value (rf_json_schema format)) (\<lambda>_.
                 Ok json_candidate))
             else Ok (''echo: '' @ last_user)
         | None \<Rightarrow> Ok (''echo: '' @ last_user))
        (\<lambda>text_out. Ok
           \<lparr>cr_model_id = cq_model_id req,
            cr_message = \<lparr>cm_role = Assistant, cm_segments = [Text text_out], cm_tool_calls = []\<rparr>,
            cr_usage = estimate_usage [last_user] text_out, cr_cost = zero_cost (lv_f32 env),
            cr_finish = Stop, cr_provider_meta = local_meta\<rparr>))"

definition chat_intro :: "'f chat_delta" where
  "chat_intro =
     \<lparr>cd_text_delta = Some ''echo: '', cd_tool_call_delta = None, cd_usage_partial = None, cd_finish = None,
      cd_first_token_ms = Some 10\<rparr>"

text \<open>The stream is given by the items it yields.\<close>

definition local_chat_stream ::
  "'f llm_env \<Rightarrow> 'f chat_request \<Rightarrow> struct_out_policy \<Rightarrow> 'f chat_delta llm_result list llm_result" where
  "local_chat_stream env req enforce =
     (let last_user = (case last_user_text (cq_messages req) of Some t \<Rightarrow> t | None \<Rightarrow> []) in
      and_then
        (case cq_response_format req of
           Some format \<Rightarrow>
             if wants_json format then
               let candidate = lv_render env (JObj [(''echo'', JStr last_user)]) in
               and_then (enforce_json (lv_parse env) candidate enforce) (\<lambda>value.
               and_then (validate_against_schema (lv_check env) value (rf_json_schema format)) (\<lambda>_.
                 Ok candidate))
             else Ok last_user
         | None \<Rightarrow> Ok last_user)
        (\<lambda>body_text. Ok
           [Ok chat_intro,
            Ok \<lparr>cd_text_delta = Some body_text, cd_tool_call_delta = None,
                cd_usage_partial = Some (estimate_usage [last_user] []), cd_finish = Some Stop,
                cd_first_token_ms = None\<rparr>]))"

subsection \<open>Embeddings\<close>

definition f_sum :: "'f f32_ops \<Rightarrow> 'f list \<Rightarrow> 'f" where
  "f_sum f xs = fold (\<lambda>x acc. f_add f acc x) xs (f_zero f)"

fun bucket_chars :: "'f f32_ops \<Rightarrow> nat \<Rightarrow> nat list \<Rightarrow> 'f list \<Rightarrow> 'f list" where
  "bucket_chars f idx [] vec = vec"
| "bucket_chars f idx (ch # chs) vec =
     (let slot = idx mod length vec
      in bucket_chars f (Suc idx) chs
           (vec[slot := f_add f (vec ! slot) (f_div f (f_of_nat f (ch mod 17)) (f_of_nat f 17))]))"

definition embed_text :: "'f f32_ops \<Rightarrow> bool \<Rightarrow> string \<Rightarrow> 'f list" where
  "embed_text f do_normalize text =
     (let vec = bucket_chars f 0 (code_points text) (replicate 8 (f_zero f)) in
      if do_normalize then
        let norm = f_max f (f_sqrt f (f_sum f (map (\<lambda>v. f_mul f v v) vec))) (f_tiny f)
        in map (\<lambda>v. f_div f v norm) vec
      else vec)"

definition request_usage :: "32 word \<Rightarrow> 'f usage" where
  "request_usage input =
     \<lparr>us_input_tokens = input, us_output_tokens = 0, us_cached_tokens = None, us_image_units = None,
      us_audio_seconds = None, us_requests = 1\<rparr>"

definition local_embed :: "'f llm_env \<Rightarrow> embed_request \<Rightarrow> 'f embed_response llm_result" where
  "local_embed env req = Ok
     \<lparr>er_dim = 8,
      er_vectors = map (\<lambda>item. embed_text (lv_f32 env) (eq_normalize req) (em_text item)) (eq_items req),
      er_usage = request_usage (sum_list (map (\<lambda>item. tokens_of (length (em_text item))) (eq_items req))),
      er_cost = zero_cost (lv_f32 env), er_provider_meta = local_meta\<rparr>"

subsection \<open>Reranking\<close>

text \<open>\<open>split_whitespace\<close>; \<open>acc\<close> is the word read so far.\<close>

fun words_from :: "string \<Rightarrow> string \<Rightarrow> string list" where
  "words_from acc [] = (if acc = [] then [] else [acc])"
| "words_from acc (c # s) =
     (if is_space c then (if acc = [] then [] else [acc]) @ words_from [] s
      else words_from (acc @ [c]) s)"

definition split_whitespace :: "string \<Rightarrow> string list" where
  "split_whitespace s = words_from [] s"

definition rerank_score :: "'f f32_ops \<Rightarrow> string \<Rightarrow> string \<Rightarrow> 'f" where
  "rerank_score f query cand =
     (let q = set (split_whitespace query); c = set (split_whitespace cand);
          inter = f_of_nat f (card (q \<inter> c));
          uni = f_sub f (f_of_nat f (card q + card c)) inter
      in if f_le f uni (f_zero f) then f_zero f else f_div f inter uni)"

definition local_rerank :: "'f llm_env \<Rightarrow> rerank_request \<Rightarrow> 'f rerank_response llm_result" where
  "local_rerank env req =
     (let f = lv_f32 env;
          scores = map (rerank_score f (rq_query req)) (rq_candidates req);
          indices = sort_by
            (\<lambda>a b. case f_cmp f (scores ! b) (scores ! a) of Some ord \<Rightarrow> ord | None \<Rightarrow> Equal)
            [0..<length (rq_candidates req)]
      in Ok
           \<lparr>rr_scores = map (\<lambda>idx. scores ! idx) indices, rr_ordering = indices,
            rr_usage = request_usage (tokens_of (length (rq_query req))),
            rr_cost = zero_cost f, rr_provider_meta = local_meta\<rparr>)"

subsection \<open>The factory\<close>

type_synonym 'f chat_model =
  "('f chat_request \<Rightarrow> struct_out_policy \<Rightarrow> 'f chat_response llm_result) \<times>
   ('f chat_request \<Rightarrow> struct_out_policy \<Rightarrow> 'f chat_delta llm_result list llm_result)"

type_synonym 'f embed_model = "embed_request \<Rightarrow> 'f embed_response llm_result"
type_synonym 'f rerank_model = "rerank_request \<Rightarrow> 'f rerank_response llm_result"

definition local_caps :: provider_caps where
  "local_caps =
     \<lparr>pc_chat = True, pc_stream = True, pc_tools = False, pc_embeddings = True, pc_rerank = True,
      pc_multimodal = False, pc_json_schema = True\<rparr>"

definition local_factory ::
  "'f llm_env \<Rightarrow> ('f chat_model, 'f embed_model, 'f rerank_model) provider_factory" where
  "local_factory env =
     \<lparr>pf_name = ''local'', pf_caps = local_caps,
      pf_create_chat = (\<lambda>_ _. Some (local_chat env, local_chat_stream env)),
      pf_create_embed = (\<lambda>_ _. Some (local_embed env)),
      pf_create_rerank = (\<lambda>_ _. Some (local_rerank env))\<rparr>"

definition local_install ::
  "'f llm_env \<Rightarrow> ('f chat_model, 'f embed_model, 'f rerank_model) provider_registry
   \<Rightarrow> ('f chat_model, 'f embed_model, 'f rerank_model) provider_registry" where
  "local_install env reg = provider_register (local_factory env) reg"

section \<open>Lookup\<close>

lemma split_once_first:
  "c \<notin> set a \<Longrightarrow> split_once c (a @ c # b) = Some (a, b)"
  by (induction a) auto

lemma registry_chat_registered:
  assumes "CHR 0x3A \<notin> set (pf_name factory)"
  shows "registry_chat (provider_register factory reg) (pf_name factory @ CHR 0x3A # model) =
    pf_create_chat factory model \<lparr>pg_name = pf_name factory\<rparr>"
  using assms by (simp add: registry_chat_def split_model_def split_once_first provider_register_def)

lemma local_models_found:
  "registry_chat (local_install env reg) (''local:'' @ model) = Some (local_chat env, local_chat_stream env)"
  "registry_embed (local_install env reg) (''local:'' @ model) = Some (local_embed env)"
  "registry_rerank (local_install env reg) (''local:'' @ model) = Some (local_rerank env)"
  using split_once_first[of "CHR 0x3A" "''local''" model]
  by (simp_all add: registry_chat_def registry_embed_def registry_rerank_def split_model_def local_install_def
      provider_register_def local_factory_def)

section \<open>The repair loop\<close>

definition repair_step :: "string \<Rightarrow> string" where
  "repair_step s = trim_quotes (trim s)"

text \<open>What the loop returns: the first text among the repeated repairs that parses.\<close>

fun first_repair :: "(string \<Rightarrow> string + json) \<Rightarrow> nat \<Rightarrow> string \<Rightarrow> json option" where
  "first_repair parse n s =
     (case parse s of
        Inr v \<Rightarrow> Some v
      | Inl _ \<Rightarrow>
          (case n of
             0 \<Rightarrow> None
           | Suc m \<Rightarrow> if repair_step s = [] then None else first_repair parse m (repair_step s)))"

declare first_repair.simps [simp del]

lemma repair_loop_first:
  "attempts \<le> mx \<Longrightarrow>
   (case repair_loop parse mx attempts s of Inr v \<Rightarrow> Some v | Inl _ \<Rightarrow> None) =
     first_repair parse (unat mx - unat attempts) s"
proof (induction parse mx attempts s rule: repair_loop.induct)
  case (1 parse mx attempts s)
  show ?case
  proof (cases "parse s")
    case (Inl e)
    show ?thesis
    proof (cases "attempts < mx")
      case True
      then have n: "unat mx - unat attempts = Suc (unat mx - unat (attempts + 1))" "attempts + 1 \<le> mx"
        using next_word[OF True] by (auto simp: word_less_nat_alt word_le_nat_alt)
      show ?thesis
        using 1(1)[OF Inl True refl] Inl True n
        by (subst repair_loop.simps, subst first_repair.simps) (auto simp: Let_def repair_step_def)
    next
      case False
      with 1(2) have "unat mx - unat attempts = 0" by (simp add: word_less_nat_alt word_le_nat_alt)
      then show ?thesis
        using Inl False by (subst repair_loop.simps, subst first_repair.simps) simp
    qed
  qed (subst repair_loop.simps, subst first_repair.simps, simp)
qed

lemma repair_loop_code:
  "repair_loop parse mx attempts s = Err e \<Longrightarrow> \<exists>msg. e = llm_schema msg"
proof (induction parse mx attempts s rule: repair_loop.induct)
  case (1 parse mx attempts s)
  show ?case
    using 1(1) 1(2)[unfolded repair_loop.simps[of parse mx attempts s]]
    by (auto simp: Let_def split: sum.splits if_splits)
qed

definition repaired_at :: "(string \<Rightarrow> string + json) \<Rightarrow> string \<Rightarrow> json \<Rightarrow> nat \<Rightarrow> bool" where
  "repaired_at parse s v k \<longleftrightarrow> parse ((repair_step ^^ k) s) = Ok v \<and>
     (\<forall>j<k. \<not> is_ok (parse ((repair_step ^^ j) s)) \<and> (repair_step ^^ Suc j) s \<noteq> [])"

lemma repaired_at_0: "repaired_at parse s v 0 \<longleftrightarrow> parse s = Ok v"
  by (simp add: repaired_at_def)

lemma repaired_at_Suc:
  "repaired_at parse s v (Suc k) \<longleftrightarrow>
   \<not> is_ok (parse s) \<and> repair_step s \<noteq> [] \<and> repaired_at parse (repair_step s) v k"
  unfolding repaired_at_def All_less_Suc2 by (auto simp: funpow_swap1)

lemma first_repair_iff: "first_repair parse n s = Some v \<longleftrightarrow> (\<exists>k\<le>n. repaired_at parse s v k)"
proof (induction n arbitrary: s)
  case 0
  show ?case
    by (subst first_repair.simps) (auto simp: repaired_at_0 split: sum.splits)
next
  case (Suc n)
  have "(\<exists>k\<le>Suc n. repaired_at parse s v k) \<longleftrightarrow>
      repaired_at parse s v 0 \<or> (\<exists>k\<le>n. repaired_at parse s v (Suc k))"
    by (metis Suc_le_mono not0_implies_Suc zero_le)
  then show ?case
    using Suc[of "repair_step s"]
    by (subst first_repair.simps) (auto simp: repaired_at_0 repaired_at_Suc is_ok_def split: sum.splits)
qed

section \<open>Properties\<close>

lemma rerank_scores_order:
  fixes f :: "'f f32_ops"
  assumes "decides (\<lambda>x y. the (f_cmp f x y)) le" "\<forall>x y. f_cmp f x y \<noteq> None"
  shows "decides (\<lambda>a b. case f_cmp f (scores ! b) (scores ! a) of Some ord \<Rightarrow> ord | None \<Rightarrow> Equal)
    (\<lambda>a b. le (scores ! b) (scores ! a))"
proof -
  have "(case f_cmp f x y of Some ord \<Rightarrow> ord | None \<Rightarrow> Equal) = the (f_cmp f x y)" for x y
    using assms(2)[rule_format, of x y] by (cases "f_cmp f x y") auto
  then show ?thesis
    using assms(1) unfolding decides_def by simp
qed

text \<open>
  C38: What the repair policy accepts.  \<open>enforce_json\<close> with \<open>StrictRepair n\<close> returns the
  value of the first text that parses among the trimmed candidate and at most \<open>n\<close> repairs of it,
  where no repair before has left it empty; every failure, of any policy, is a schema error, and without repair
  the candidate itself must parse.
\<close>

theorem enforce_json_first_repair:
  "(enforce_json parse c (StrictRepair n) = Ok v \<longleftrightarrow> (\<exists>k\<le>unat n. repaired_at parse (trim c) v k)) \<and>
   (policy \<in> {PolicyOff, StrictReject} \<longrightarrow> (enforce_json parse c policy = Ok v \<longleftrightarrow> parse c = Ok v)) \<and>
   (enforce_json parse c policy = Err e \<longrightarrow> (\<exists>msg. e = llm_schema msg))"
proof (intro conjI)
  have "enforce_json parse c (StrictRepair n) = Ok v \<longleftrightarrow> first_repair parse (unat n) (trim c) = Some v"
    using repair_loop_first[of 0 n parse "trim c"] by (auto simp: enforce_json_def split: sum.splits)
  then show "enforce_json parse c (StrictRepair n) = Ok v \<longleftrightarrow> (\<exists>k\<le>unat n. repaired_at parse (trim c) v k)"
    by (simp add: first_repair_iff)
  show "policy \<in> {PolicyOff, StrictReject} \<longrightarrow> (enforce_json parse c policy = Ok v \<longleftrightarrow> parse c = Ok v)"
    by (cases "parse c") (auto simp: enforce_json_def)
  show "enforce_json parse c policy = Err e \<longrightarrow> (\<exists>msg. e = llm_schema msg)"
    using repair_loop_code[of parse _ 0 "trim c" e]
    by (cases "parse c"; cases policy) (auto simp: enforce_json_def)
qed

definition demo_parse :: "string \<Rightarrow> string + json" where
  "demo_parse s = (if s = ''true'' then Ok (JBool True) else Err ''expected value'')"

theorem enforce_json_first_repair_witness:
  "repaired_at demo_parse (trim (CHR 0x22 # ''true'' @ [CHR 0x22, CHR 0x20])) (JBool True) 1 \<and>
   enforce_json demo_parse (CHR 0x22 # ''true'' @ [CHR 0x22, CHR 0x20]) (StrictRepair 1) = Ok (JBool True)"
proof -
  let ?c = "CHR 0x22 # ''true'' @ [CHR 0x22, CHR 0x20]"
  have r: "repaired_at demo_parse (trim ?c) (JBool True) 1"
    by (simp add: repaired_at_Suc[of _ _ _ 0, simplified] repaired_at_0 demo_parse_def repair_step_def trim_quotes_def
        trim_def trim_start_def is_space_def is_ok_def)
  then have "\<exists>k\<le>unat (1 :: 8 word). repaired_at demo_parse (trim ?c) (JBool True) k"
    by (intro exI[of _ 1]) simp
  then have "enforce_json demo_parse ?c (StrictRepair 1) = Ok (JBool True)"
    using enforce_json_first_repair[of demo_parse ?c 1 "JBool True"] by blast
  with r show ?thesis by simp
qed

text \<open>The text of a stream: the deltas joined.\<close>

definition stream_text :: "'f chat_delta llm_result list \<Rightarrow> string" where
  "stream_text items =
     concat (map (\<lambda>r. case r of Inr d \<Rightarrow> (case cd_text_delta d of Some t \<Rightarrow> t | None \<Rightarrow> []) | Inl _ \<Rightarrow> []) items)"

definition reply_text :: "'f chat_response \<Rightarrow> string" where
  "reply_text r = concat (List.map_filter segment_text (cm_segments (cr_message r)))"

definition json_mode :: "'f chat_request \<Rightarrow> bool" where
  "json_mode req \<longleftrightarrow> (case cq_response_format req of Some format \<Rightarrow> wants_json format | None \<Rightarrow> False)"

text \<open>The stream a reply corresponds to.\<close>

definition stream_reply :: "bool \<Rightarrow> 'f chat_response \<Rightarrow> 'f chat_delta llm_result list" where
  "stream_reply json r =
     [Ok chat_intro,
      Ok \<lparr>cd_text_delta = Some (if json then reply_text r else drop (length ''echo: '') (reply_text r)),
          cd_tool_call_delta = None, cd_usage_partial = Some ((cr_usage r)\<lparr>us_output_tokens := 0\<rparr>),
          cd_finish = Some (cr_finish r), cd_first_token_ms = None\<rparr>]"

text \<open>
  C39: The stream of the local provider against its single reply.  Both fail on the same requests with the
  same error, and otherwise the stream is determined by the reply.  For a text reply the streamed pieces join
  to the reply; in the JSON modes the stream has the greeting before the reply, so the text it streams is not
  the JSON that was enforced.  The usage the stream reports counts no output tokens.
\<close>

theorem local_stream_matches_chat:
  "local_chat_stream env req enforce =
     and_then (local_chat env req enforce) (\<lambda>r. Ok (stream_reply (json_mode req) r)) \<and>
   (\<forall>r. local_chat env req enforce = Ok r \<longrightarrow>
      stream_text (stream_reply (json_mode req) r) = (if json_mode req then ''echo: '' else []) @ reply_text r)"
proof -
  have zero: "tokens_of 0 = 0"
    by (simp add: tokens_of_def word_arith_nat_div)
  have empty: "code_points [] = []" by (simp add: code_points_def)
  show ?thesis
    by (auto simp: local_chat_def local_chat_stream_def Let_def stream_reply_def reply_text_def json_mode_def
        stream_text_def chat_intro_def List.map_filter_simps estimate_usage_def empty zero and_then_def
        split: option.splits sum.splits)
qed

definition nat_ops :: "nat f32_ops" where
  "nat_ops =
     \<lparr>f_zero = 0, f_tiny = 1, f_of_nat = (\<lambda>n. n), f_add = (+), f_sub = (-), f_mul = (*), f_div = (div),
      f_sqrt = (\<lambda>n. n), f_max = max, f_le = (\<le>),
      f_cmp = (\<lambda>x y. Some (if x < y then Less else if x = y then Equal else Greater))\<rparr>"

definition echo_env :: "nat llm_env" where
  "echo_env = \<lparr>lv_parse = demo_parse, lv_render = (\<lambda>_. ''true''), lv_check = None, lv_f32 = nat_ops\<rparr>"

definition echo_request :: "response_format option \<Rightarrow> nat chat_request" where
  "echo_request format =
     \<lparr>cq_model_id = ''local:echo'',
      cq_messages = [\<lparr>cm_role = User, cm_segments = [Text ''hi''], cm_tool_calls = []\<rparr>],
      cq_tool_specs = [], cq_temperature = None, cq_top_p = None, cq_max_tokens = None, cq_stop = [],
      cq_seed = None, cq_frequency_penalty = None, cq_presence_penalty = None, cq_logit_bias = [],
      cq_response_format = format, cq_idempotency_key = None, cq_allow_sensitive = False,
      cq_metadata = JNull\<rparr>"

theorem local_stream_matches_chat_witness:
  "\<exists>r. local_chat echo_env (echo_request (Some \<lparr>rf_kind = KindJson, rf_json_schema = None, rf_strict = True\<rparr>)) StrictReject = Ok r \<and>
     reply_text r = ''true'' \<and> stream_text (stream_reply True r) = ''echo: true''"
proof -
  let ?req = "echo_request (Some \<lparr>rf_kind = KindJson, rf_json_schema = None, rf_strict = True\<rparr>)"
  have json: "json_mode ?req" by (simp add: json_mode_def echo_request_def wants_json_def)
  obtain r where r: "local_chat echo_env ?req StrictReject = Ok r" "reply_text r = ''true''"
    by (simp add: local_chat_def echo_request_def echo_env_def wants_json_def enforce_json_def demo_parse_def
        validate_against_schema_def reply_text_def List.map_filter_simps Let_def)
  with json show ?thesis
    using local_stream_matches_chat[of echo_env ?req StrictReject] by simp
qed



end
