(* ===== verification/Spec2Isabelle.thy ===== *)
theory Spec2Isabelle
  imports TxSurrealDispatch TxSurrealIdempo TxBackoff TxWorker TxTransport TxMapper SandboxManager AuthFacade ToolInvoker ConfigLoader StorageVector
    InterceptLaws Gateway LlmProvider
begin

text \<open>
  Soulbase is a set of Rust crates (\<open>src/crates/sb-*\<close>) for a multi-tenant service platform.
  This library translates the logic of its crates into HOL definitions, one group of definitions
  per source file and one definition per operation, and proves what makes each of them correct.

  The crates and how they use one another.  Every crate reports failures as error objects of
  \<open>sb-errors\<close> and passes the types of \<open>sb-types\<close>.  A request enters through the
  interceptor chain (\<open>sb-interceptors\<close>), whose stages bind a route, authenticate, ask the
  authorisation facade (\<open>sb-auth\<close>: attributes, decision, consent, quota, decision cache), replay
  stored responses, run the handler with retries and apply the decision's obligations.  Tools
  (\<open>sb-tools\<close>) are validated into a registry, checked and planned by the preflight and run by
  the invoker, which executes every planned operation in the sandbox (\<open>sb-sandbox\<close>: profile,
  guard, executors, evidence).  Messages leave through the outbox of \<open>sb-tx\<close>, which a dispatcher
  empties under leases, a budget and a back-off, next to idempotency keys, sagas and dead letters; its
  stores live in memory or in SurrealDB, its transports send over HTTP, Kafka or Redis, and its workers
  run the dispatcher and the maintenance.  \<open>sb-storage\<close> gives tenant-scoped repositories over
  SurrealDB or memory; \<open>sb-config\<close> layers configuration sources under a schema.  The gateway
  (\<open>sb-gateway\<close>) serves two routes behind a chain of its own; \<open>sb-llm\<close> finds language models by
  name and has one of its own that echoes.

  Theories and sources.

  \<^item> \<open>Prelude\<close>, \<open>Json\<close>, \<open>KeyedStore\<close>, \<open>SortBy\<close>: lists, strings, results, machine
    integers and the \<open>?\<close> operator (\<open>and_then\<close>, \<open>and_do\<close>); \<open>serde_json\<close> values
    with sorted objects; the contract of a store whose operations touch one key each; the stable sort by a
    comparison and the operations of \<open>f32\<close>.
  \<^item> \<open>SbErrors\<close> (\<open>sb-errors/src\<close>: codes, registry, builder, views, labels, wrapped errors) and
    \<open>SbTypes\<close> (\<open>sb-types/src\<close>: envelopes and validation).
  \<^item> \<open>sb-tx/src\<close>: \<open>TxModel\<close> (\<open>model.rs\<close>, \<open>errors.rs\<close>, \<open>config.rs\<close>),
    \<open>TxOutbox\<close> and \<open>TxOutboxStore\<close> (\<open>outbox.rs\<close>, \<open>memory/outbox_store.rs\<close>),
    \<open>TxQos\<close> (\<open>qos.rs\<close>), \<open>TxIdempo\<close> (\<open>idempo.rs\<close>), \<open>TxSaga\<close> (\<open>saga.rs\<close>),
    \<open>TxDead\<close> (\<open>replay.rs\<close>, \<open>memory/dead_store.rs\<close>), \<open>TxDispatcher\<close> (\<open>Dispatcher\<close>
    of \<open>outbox.rs\<close>), \<open>TxMemory\<close> (\<open>memory/mod.rs\<close>), \<open>TxMapper\<close>
    (\<open>surreal/mapper.rs\<close>), \<open>TxSurreal\<close> (\<open>surreal/store.rs\<close>, \<open>surreal/schema.rs\<close>: the
    statements and every operation of the four stores), \<open>TxSurrealLaws\<close> (what the statements do to the
    documents, the simulation of the in-memory outbox, interleaved leases and claims),
    \<open>TxSurrealProps\<close> (the properties and a database of one table that satisfies the hypotheses),
    \<open>TxSurrealDispatch\<close> (leasing a batch from the database and the dispatcher over it),
    \<open>TxSurrealIdempo\<close> (the idempotency store of the database against the one in memory),
    \<open>TxBackoff\<close> (\<open>backoff.rs\<close>: the date of a retry; loading the configuration, building the stores),
    \<open>TxTransport\<close> (\<open>transport/\<close>), \<open>TxWorker\<close> (\<open>worker.rs\<close>).
  \<^item> \<open>sb-sandbox/src\<close>: \<open>SandboxModel\<close> (\<open>model.rs\<close>, \<open>config.rs\<close>, \<open>errors.rs\<close>,
    \<open>evidence.rs\<close>), \<open>SandboxProfile\<close>, \<open>SandboxGuard\<close>, \<open>SandboxExec\<close> (\<open>exec/\<close>),
    \<open>SandboxManager\<close> (\<open>manager.rs\<close>).
  \<^item> \<open>sb-auth/src\<close>: \<open>AuthModel\<close> and \<open>AuthFacade\<close> (\<open>facade.rs\<close>, \<open>cache/\<close>,
    \<open>quota/\<close>).
  \<^item> \<open>sb-tools/src\<close>: \<open>ToolModel\<close> (\<open>manifest.rs\<close>, \<open>mapping.rs\<close>),
    \<open>ToolRegistry\<close>, \<open>ToolPreflight\<close>, \<open>ToolInvoker\<close>.
  \<^item> \<open>sb-config/src\<close>: \<open>ConfigTree\<close> (nested maps), \<open>ConfigSource\<close> (\<open>source/\<close>,
    \<open>snapshot.rs\<close>, \<open>switch.rs\<close>), \<open>ConfigLoader\<close> (\<open>loader.rs\<close>, \<open>schema.rs\<close>).
  \<^item> \<open>sb-storage/src\<close>: \<open>StorageFilter\<close> (\<open>surreal/mapper.rs\<close> and the interfaces),
    \<open>StorageSurreal\<close> (\<open>surreal/\<close>), \<open>StorageErrors\<close> (\<open>surreal/errors.rs\<close>),
    \<open>StorageMock\<close> (\<open>mock/\<close>), \<open>StorageVector\<close> (\<open>surreal/config.rs\<close>, connecting, both
    \<open>vector.rs\<close>, the mock session).
  \<^item> \<open>sb-interceptors/src\<close>: \<open>InterceptModel\<close> (context, policies, idempotency store,
    obligations), \<open>InterceptChain\<close> (\<open>stages/\<close>, \<open>resilience.rs\<close>), \<open>InterceptLaws\<close>
    (their properties), \<open>InterceptAdapters\<close> (\<open>adapters/\<close>).
  \<^item> \<open>sb-gateway/src\<close>: \<open>Gateway\<close> (\<open>config.rs\<close>, \<open>api.rs\<close>, \<open>intercept.rs\<close>,
    \<open>service.rs\<close>, \<open>main.rs\<close>) over the chain and the axum adapter.
  \<^item> \<open>sb-llm/src\<close>: \<open>LlmModel\<close> (the types, \<open>errors.rs\<close>, \<open>cost.rs\<close>,
    \<open>jsonsafe.rs\<close>), \<open>LlmProvider\<close> (\<open>provider.rs\<close>).

  State and effects.  A struct is a record, an enum a datatype, a lock-protected map a function
  to options; an operation takes the state and returns it with its result, \<open>Inl\<close> an error and
  \<open>Inr\<close> a value, so that every early return is a branch.  Words are kept at their width where the
  code can wrap or saturate; an \<open>i64\<close> is an \<open>int\<close> with \<open>i64_add\<close> and its saturating
  variants.  A reading of the clock, a fresh identifier and a hash are arguments.  Where the code
  iterates over a hash map, the order is the argument \<open>ks\<close> and theorems hold for every order.  An
  operation under a lock is one step; claims about interleaving range over arbitrary sequences of
  operations.  The loop of a worker is a function of the list of its events, the ticks with the clock's
  readings and the stop signal.  Where an operation of a database store is several requests, each
  request is a step of its own and a race is an order of the steps.

  Parameters and hypotheses.  Code that is not in the repository is an argument: the operating
  system and the browser of the sandbox (\<open>os\<close>, \<open>ext\<close>), the JSON-Schema, URL, base64 and
  SHA-256 crates, serde's reading of typed values, the SurrealDB engine (\<open>db_ops\<close>: a statement and
  its bindings change the database's state and give a response), \<open>f32\<close> (\<open>f32_ops\<close>) and \<open>f64\<close> arithmetic (\<open>f64_ops\<close>), the reqwest, rdkafka and redis crates, the http crate's headers, providers supplied by the
  deployment (authenticator, policy, transport, saga participant, executors, hooks).  What a theorem
  needs of one of them is a premise, and its witness instantiates it.

  Lemma groups.  Each store's frame and per-record invariant come from \<open>keyed_store\<close> and
  \<open>guarded_store\<close>; the dispatcher is proved over \<open>outbox_backend\<close> and
  \<open>leasing_backend\<close> and interpreted on the in-memory store and on the database's, whose invariant counts
  the attempts its 32-bit counters can still take; the sandbox manager over
  \<open>sandbox_executor\<close> and \<open>executor_registry\<close>; the facade over \<open>auth_stores\<close>; the loader over
  \<open>config_source\<close>; tenant isolation over \<open>tenant_isolated\<close>; replayed responses over
  \<open>replay_store\<close>.  The database outbox is proved against \<open>outbox_statements\<close>: each statement is an
  effect on the record it names (\<open>ack_effect\<close> and so on), the operations simulate those of the
  in-memory outbox, and a run of lease attempts is a run of the in-memory rule.  A table of documents
  read as a store is \<open>document_table\<close>; over it a run of the database's idempotency store is a run of
  the one in memory.  The candidates of a batch
  come from a SELECT (\<open>selects_candidates\<close>), which the database may refuse.  Properties are the numbered theorems that follow a text block starting with
  their number; their witnesses apply them to concrete inputs.

  Termination.  Recursion is structural, or carries a measure at its definition: the size of a nested
  filter or value, the length of the rest of a text, the attempts left (resilience) or the repairs left
  (JSON enforcement).  No definition uses fuel.  A run of a saga is bounded by the number of its steps
  plus two ticks and the worker's productive ticks by the attempts the messages have left; both are
  proved.

  Not modelled: axum's matching of a path to one of the routes and the set-up of logging, reading configuration
  from files beyond their parsed content, serde's derived conversions of typed values, latency
  measurements, semaphores (waiting has no effect on the state), and the timing of tokio tasks beyond
  the order of their events.

\<close>

end
